(* ===== verification/Prelude.thy ===== *)
theory Prelude
  imports Main "HOL-Library.AList" "HOL-Library.Multiset"
begin

section \<open>Shared types, error values and list lemmas\<close>

text \<open>
  What every component of the platform uses: identifiers, times, JSON values and Go maps, Go
  \<open>error\<close> values, and the generic lemmas on rows (lists of records with a key) that carry the
  proofs about database tables.

  A Go map is an association list: lookup is \<open>map_of\<close>, assignment is \<open>AList.update\<close>. The order
  of the list stands for the iteration order that the runtime happens to choose; a definition whose
  result depends on that order takes it as an argument.
\<close>

named_theorems stmt_defs \<open>definitions of single database statements\<close>
named_theorems row_simps \<open>reading and updating rows of a table by key\<close>

datatype uuid = UUID (uuid_String: string)

definition uuid_Nil :: uuid where
  "uuid_Nil = UUID ''00000000-0000-0000-0000-000000000000''"

type_synonym time = int
type_synonym duration = int

datatype json =
    JNull
  | JBool bool
  | JNum string
  | JStr string
  | JArr "json list"
  | JObj "(string \<times> json) list"

type_synonym 'v gomap = "(string \<times> 'v) list"
type_synonym vars = "json gomap"

text \<open>
  Go \<open>error\<close> values. \<open>Wrapped\<close> is \<open>fmt.Errorf\<close> with a \<open>%w\<close> verb at the end of the format,
  \<open>ErrMsg\<close> is \<open>errors.New\<close> or \<open>fmt.Errorf\<close> with no wrapped error. The first two constructors are
  the API store's sentinels, the next two what the database driver reports.
\<close>

datatype pg_code = UniqueViolation | ForeignKeyViolation | NotNullViolation

datatype goerr =
    ErrNotFound
  | ErrConflict
  | ErrNoRows
  | ErrConn
  | PgError pg_code
  | ErrMsg string
  | Wrapped string goerr

type_synonym 'a res = "goerr + 'a"

fun pg_text :: "pg_code \<Rightarrow> string" where
  "pg_text UniqueViolation = ''SQLSTATE 23505''"
| "pg_text ForeignKeyViolation = ''SQLSTATE 23503''"
| "pg_text NotNullViolation = ''SQLSTATE 23502''"

fun error_text :: "goerr \<Rightarrow> string" where
  "error_text ErrNotFound = ''not found''"
| "error_text ErrConflict = ''conflict''"
| "error_text ErrNoRows = ''no rows in result set''"
| "error_text ErrConn = ''connection error''"
| "error_text (PgError c) = pg_text c"
| "error_text (ErrMsg s) = s"
| "error_text (Wrapped s e) = s @ '': '' @ error_text e"

text \<open>The verb \<open>%d\<close> on a number that is not negative.\<close>

definition digit_char :: "nat \<Rightarrow> char" where
  "digit_char n = char_of (48 + n)"

fun fmt_d :: "nat \<Rightarrow> string" where
  "fmt_d n = (if n < 10 then [digit_char n] else fmt_d (n div 10) @ [digit_char (n mod 10)])"

declare fmt_d.simps [simp del]

definition isOk :: "'a res \<Rightarrow> bool" where
  "isOk r \<longleftrightarrow> (case r of Inl _ \<Rightarrow> False | Inr _ \<Rightarrow> True)"

lemma isOk_simps [simp]: "\<not> isOk (Inl e)" "isOk (Inr x)"
  by (simp_all add: isOk_def)

lemma isOkE [elim?]:
  assumes "isOk r"
  obtains x where "r = Inr x"
  using assms by (cases r) auto

text \<open>The loop \<open>for k, v := range over { base[k] = v }\<close>.\<close>

definition go_merge :: "'v gomap \<Rightarrow> 'v gomap \<Rightarrow> 'v gomap" where
  "go_merge base over = foldl (\<lambda>m (k, v). AList.update k v m) base over"

lemma map_of_foldl_update:
  "map_of (foldl (\<lambda>m (k, v). AList.update k v m) base kvs) = map_of base ++ map_of (rev kvs)"
proof (induction kvs arbitrary: base)
  case Nil
  then show ?case by simp
next
  case (Cons kv kvs)
  obtain k v where [simp]: "kv = (k, v)" by fastforce
  have "map_of (foldl (\<lambda>m (k, v). AList.update k v m) base (kv # kvs))
      = map_of (AList.update k v base) ++ map_of (rev kvs)"
    by (simp add: Cons.IH)
  also have "\<dots> = map_of base ++ map_of (rev (kv # kvs))"
    by (simp add: update_conv' map_add_assoc [symmetric] fun_eq_iff map_add_def split: option.splits)
  finally show ?case .
qed

lemma map_of_rev_distinct: "distinct (map fst kvs) \<Longrightarrow> map_of (rev kvs) = map_of kvs"
  by (rule map_of_eqI) (auto intro!: map_of_is_SomeI dest: map_of_SomeD simp flip: rev_map)

lemma map_of_go_merge:
  "distinct (map fst over) \<Longrightarrow> map_of (go_merge base over) = map_of base ++ map_of over"
  by (simp add: go_merge_def map_of_foldl_update map_of_rev_distinct)

lemma distinct_go_merge:
  "distinct (map fst base) \<Longrightarrow> distinct (map fst (go_merge base over))"
  unfolding go_merge_def
  by (induction over arbitrary: base) (auto simp: distinct_update)

subsection \<open>Rows with a key\<close>

text \<open>
  \<open>lookup_row\<close> is \<open>SELECT ... WHERE key = k\<close> read as a single row, \<open>update_rows\<close> is
  \<open>UPDATE ... SET f WHERE P\<close>, \<open>rows_affected\<close> the command tag's row count.
\<close>

definition lookup_row :: "('r \<Rightarrow> 'k) \<Rightarrow> 'r list \<Rightarrow> 'k \<Rightarrow> 'r option" where
  "lookup_row key rs k = List.find (\<lambda>r. key r = k) rs"

definition update_rows :: "('r \<Rightarrow> bool) \<Rightarrow> ('r \<Rightarrow> 'r) \<Rightarrow> 'r list \<Rightarrow> 'r list" where
  "update_rows P f rs = map (\<lambda>r. if P r then f r else r) rs"

definition rows_affected :: "('r \<Rightarrow> bool) \<Rightarrow> 'r list \<Rightarrow> nat" where
  "rows_affected P rs = length (filter P rs)"

lemma lookup_row_Nil [simp]: "lookup_row key [] k = None"
  by (simp add: lookup_row_def)

lemma lookup_row_Cons [simp]:
  "lookup_row key (r # rs) k = (if key r = k then Some r else lookup_row key rs k)"
  by (simp add: lookup_row_def)

lemma lookup_row_SomeD:
  "lookup_row key rs k = Some r \<Longrightarrow> r \<in> set rs \<and> key r = k"
  by (induction rs) (auto split: if_splits)

lemma lookup_row_None_iff: "lookup_row key rs k = None \<longleftrightarrow> k \<notin> key ` set rs"
  by (induction rs) auto

lemma lookup_row_eq_Some_iff:
  "distinct (map key rs) \<Longrightarrow> lookup_row key rs k = Some r \<longleftrightarrow> r \<in> set rs \<and> key r = k"
  by (induction rs) (auto simp: image_iff)

lemma lookup_row_append:
  "lookup_row key (rs @ ss) k =
     (case lookup_row key rs k of None \<Rightarrow> lookup_row key ss k | Some r \<Rightarrow> Some r)"
  by (induction rs) auto

lemma lookup_update_rows [row_simps]:
  assumes "\<And>r. key (f r) = key r"
  shows "lookup_row key (update_rows P f rs) k =
    map_option (\<lambda>r. if P r then f r else r) (lookup_row key rs k)"
  using assms by (induction rs) (auto simp: update_rows_def)

lemma keys_update_rows [row_simps]:
  assumes "\<And>r. key (f r) = key r"
  shows "map key (update_rows P f rs) = map key rs"
  using assms by (induction rs) (auto simp: update_rows_def)

lemma update_rows_simps [simp]:
  "update_rows P f [] = []"
  "update_rows P f (r # rs) = (if P r then f r else r) # update_rows P f rs"
  by (simp_all add: update_rows_def)

lemma update_rows_id: "(\<And>r. r \<in> set rs \<Longrightarrow> \<not> P r) \<Longrightarrow> update_rows P f rs = rs"
  by (induction rs) auto

lemma set_update_rows: "set (update_rows P f rs) = (\<lambda>r. if P r then f r else r) ` set rs"
  by (auto simp: update_rows_def)

lemma rows_affected_simps [simp]:
  "rows_affected P [] = 0"
  "rows_affected P (r # rs) = (if P r then Suc (rows_affected P rs) else rows_affected P rs)"
  by (simp_all add: rows_affected_def)

lemma rows_affected_0_iff: "rows_affected P rs = 0 \<longleftrightarrow> (\<forall>r\<in>set rs. \<not> P r)"
  by (induction rs) auto

text \<open>With a primary key, an update by key and a further condition touches at most one row.\<close>

lemma rows_affected_by_key [row_simps]:
  assumes "distinct (map key rs)"
  shows "rows_affected (\<lambda>r. key r = k \<and> P r) rs =
    (case lookup_row key rs k of None \<Rightarrow> 0 | Some r \<Rightarrow> if P r then 1 else 0)"
  using assms
proof (induction rs)
  case Nil
  then show ?case by simp
next
  case (Cons r rs)
  show ?case
  proof (cases "key r = k")
    case True
    with Cons.prems have "lookup_row key rs k = None"
      by (simp add: lookup_row_None_iff)
    with Cons True show ?thesis by simp
  next
    case False
    with Cons show ?thesis by simp
  qed
qed

end
