(* ===== verification/Types.thy ===== *)
theory Types
  imports Prelude
begin

section \<open>Domain types (pkg/types)\<close>

text \<open>
  The structs and enumerations of \<open>pkg/types\<close>, one record or datatype per Go type, and the pure
  methods on them: the job state machine (\<open>IsTerminal\<close>, \<open>ValidTransitions\<close>,
  \<open>CanTransitionTo\<close>), \<open>Agent.IsAvailable\<close> and \<open>WorkflowContext.Merge\<close>. A Go string type with
  named constants is a datatype with those constants and one constructor for every other string,
  because JSON decoding accepts any string. A pointer field is an \<open>option\<close>, and so is the one
  slice field whose nil value is told apart from an empty slice (\<open>InventoryHost.Groups\<close>). The lemmas are the
  facts about the state machine that the components use: terminal states are exactly those with no
  way out, and every valid move goes up in \<open>status_rank\<close>, so a job makes at most three.
\<close>

subsection \<open>job.go\<close>

datatype JobStatus =
    JobStatusPending
  | JobStatusDispatched
  | JobStatusRunning
  | JobStatusSuccess
  | JobStatusFailed
  | JobStatusCancelled
  | JobStatusOther string

definition IsTerminal :: "JobStatus \<Rightarrow> bool" where
  "IsTerminal s \<longleftrightarrow> (case s of
       JobStatusSuccess \<Rightarrow> True
     | JobStatusFailed \<Rightarrow> True
     | JobStatusCancelled \<Rightarrow> True
     | _ \<Rightarrow> False)"

definition ValidTransitions :: "JobStatus \<Rightarrow> JobStatus list" where
  "ValidTransitions s = (case s of
       JobStatusPending \<Rightarrow> [JobStatusDispatched, JobStatusFailed]
     | JobStatusDispatched \<Rightarrow> [JobStatusRunning, JobStatusFailed, JobStatusCancelled]
     | JobStatusRunning \<Rightarrow> [JobStatusSuccess, JobStatusFailed, JobStatusCancelled]
     | JobStatusSuccess \<Rightarrow> []
     | JobStatusFailed \<Rightarrow> []
     | JobStatusCancelled \<Rightarrow> []
     | JobStatusOther _ \<Rightarrow> [])"

definition CanTransitionTo :: "JobStatus \<Rightarrow> JobStatus \<Rightarrow> bool" where
  "CanTransitionTo s nxt \<longleftrightarrow> list_ex (\<lambda>allowed. allowed = nxt) (ValidTransitions s)"

record Job =
  Job_ID :: uuid
  Job_TemplateID :: uuid
  Job_AgentID :: "uuid option"
  Job_WorkflowRunID :: "uuid option"
  Job_Status :: JobStatus
  Job_CreatedAt :: time
  Job_UpdatedAt :: time
  Job_StartedAt :: "time option"
  Job_EndedAt :: "time option"
  Job_ExtraVars :: vars
  Job_Facts :: vars
  Job_FailureReason :: "string option"

record JobStatusEvent =
  Event_ID :: uuid
  Event_JobID :: uuid
  Event_FromStatus :: JobStatus
  Event_ToStatus :: JobStatus
  Event_Timestamp :: time
  Event_Reason :: string

record JobLogLine =
  Log_Seq :: int
  Log_Line :: string
  Log_Stream :: string

subsection \<open>agent.go\<close>

datatype AgentStatus =
    AgentStatusOnline
  | AgentStatusOffline
  | AgentStatusDraining

record Agent =
  Agent_ID :: uuid
  Agent_Name :: string
  Agent_Address :: string
  Agent_Status :: AgentStatus
  Agent_Labels :: "string gomap"
  Agent_Capacity :: int
  Agent_RunningJobs :: int
  Agent_LastHeartbeatAt :: "time option"
  Agent_RegisteredAt :: time
  Agent_UpdatedAt :: time

text \<open>\<open>time.Since(t)\<close> is \<open>now - t\<close>; the clock is the first argument.\<close>

definition IsAvailable :: "time \<Rightarrow> Agent \<Rightarrow> duration \<Rightarrow> bool" where
  "IsAvailable now a heartbeatTTL =
     (if Agent_Status a \<noteq> AgentStatusOnline then False
      else (case Agent_LastHeartbeatAt a of
        None \<Rightarrow> False
      | Some hb \<Rightarrow>
          if now - hb > heartbeatTTL then False
          else if Agent_Capacity a > 0 \<and> Agent_RunningJobs a \<ge> Agent_Capacity a then False
          else True))"

record AgentHeartbeat =
  Heartbeat_AgentID :: uuid
  Heartbeat_RunningJobs :: int
  Heartbeat_Version :: string

subsection \<open>credential.go\<close>

datatype CredentialKind =
    CredentialKindSSHKey
  | CredentialKindHTTPSToken
  | CredentialKindVaultPassword
  | CredentialKindMachineUser
  | CredentialKindOther string

record Credential =
  Cred_ID :: uuid
  Cred_Name :: string
  Cred_Kind :: CredentialKind
  Cred_Description :: string
  Cred_EncryptedData :: string
  Cred_CreatedAt :: time
  Cred_UpdatedAt :: time

record CredentialSecret =
  Secret_Kind :: CredentialKind
  Secret_Fields :: "string gomap"

subsection \<open>Inventory.go\<close>

record InventoryHost =
  Host_ID :: uuid
  Host_ProjectID :: uuid
  Host_Hostname :: string
  Host_Groups :: "string list option"
  Host_Vars :: vars
  Host_CreatedAt :: time
  Host_UpdatedAt :: time

datatype InventorySyncStatus =
    InventorySyncStatusOK
  | InventorySyncStatusFailed
  | InventorySyncStatusPending

record Project =
  Project_ID :: uuid
  Project_Name :: string
  Project_RepoURL :: string
  Project_Branch :: string
  Project_InventoryPath :: string
  Project_CredentialID :: "uuid option"
  Project_SyncStatus :: InventorySyncStatus
  Project_LastSyncedAt :: "time option"
  Project_SyncError :: "string option"
  Project_CreatedAt :: time
  Project_UpdatedAt :: time

subsection \<open>template.go\<close>

record JobTemplate =
  Template_ID :: uuid
  Template_Name :: string
  Template_Description :: string
  Template_ProjectID :: uuid
  Template_Playbook :: string
  Template_CredentialID :: "uuid option"
  Template_DefaultExtraVars :: vars
  Template_CreatedAt :: time
  Template_UpdatedAt :: time

record Schedule =
  Schedule_ID :: uuid
  Schedule_Name :: string
  Schedule_TemplateID :: uuid
  Schedule_CronExpr :: string
  Schedule_Timezone :: string
  Schedule_Enabled :: bool
  Schedule_ExtraVars :: vars
  Schedule_LastRunAt :: "time option"
  Schedule_NextRunAt :: "time option"
  Schedule_CreatedAt :: time
  Schedule_UpdatedAt :: time

subsection \<open>The dispatch payload (job.go)\<close>

record JobPayload =
  Payload_JobID :: uuid
  Payload_TemplateID :: uuid
  Payload_Playbook :: string
  Payload_Inventory :: "InventoryHost list"
  Payload_ExtraVars :: vars
  Payload_Credentials :: "CredentialSecret list"
  Payload_CallbackURL :: string
  Payload_RepoURL :: string
  Payload_RepoBranch :: string

subsection \<open>user.go\<close>

record User =
  User_ID :: uuid
  User_Email :: string
  User_PasswordHash :: string
  User_CreatedAt :: time
  User_UpdatedAt :: time

record APIToken =
  Token_ID :: uuid
  Token_UserID :: uuid
  Token_Name :: string
  Token_TokenHash :: string
  Token_CreatedAt :: time
  Token_LastUsedAt :: "time option"
  Token_ExpiresAt :: "time option"

subsection \<open>workflow.go\<close>

record Workflow =
  Workflow_ID :: uuid
  Workflow_Name :: string
  Workflow_Description :: string
  Workflow_CreatedAt :: time
  Workflow_UpdatedAt :: time

datatype WorkflowNodeKind =
    WorkflowNodeKindJobTemplate
  | WorkflowNodeKindApproval
  | WorkflowNodeKindSubWorkflow
  | WorkflowNodeKindOther string

record WorkflowNode =
  Node_ID :: uuid
  Node_WorkflowID :: uuid
  Node_Kind :: WorkflowNodeKind
  Node_ResourceID :: "uuid option"
  Node_Label :: string
  Node_ExtraVars :: vars
  Node_CreatedAt :: time
  Node_UpdatedAt :: time

record WorkflowEdge =
  Edge_ID :: uuid
  Edge_WorkflowID :: uuid
  Edge_SourceNodeID :: uuid
  Edge_TargetNodeID :: uuid
  Edge_Condition :: string

datatype WorkflowRunStatus =
    WorkflowRunStatusPending
  | WorkflowRunStatusRunning
  | WorkflowRunStatusSuccess
  | WorkflowRunStatusFailed
  | WorkflowRunStatusCancelled

definition WorkflowRun_IsTerminal :: "WorkflowRunStatus \<Rightarrow> bool" where
  "WorkflowRun_IsTerminal s \<longleftrightarrow> (case s of
       WorkflowRunStatusSuccess \<Rightarrow> True
     | WorkflowRunStatusFailed \<Rightarrow> True
     | WorkflowRunStatusCancelled \<Rightarrow> True
     | _ \<Rightarrow> False)"

record WorkflowRun =
  Run_ID :: uuid
  Run_WorkflowID :: uuid
  Run_Status :: WorkflowRunStatus
  Run_Context :: vars
  Run_CreatedAt :: time
  Run_UpdatedAt :: time
  Run_StartedAt :: "time option"
  Run_EndedAt :: "time option"

datatype WorkflowNodeRunStatus =
    WorkflowNodeRunStatusWaiting
  | WorkflowNodeRunStatusRunning
  | WorkflowNodeRunStatusSuccess
  | WorkflowNodeRunStatusFailed
  | WorkflowNodeRunStatusSkipped
  | WorkflowNodeRunStatusCancelled

record WorkflowNodeRun =
  NodeRun_ID :: uuid
  NodeRun_WorkflowRunID :: uuid
  NodeRun_NodeID :: uuid
  NodeRun_Status :: WorkflowNodeRunStatus
  NodeRun_JobID :: "uuid option"
  NodeRun_CreatedAt :: time
  NodeRun_UpdatedAt :: time
  NodeRun_StartedAt :: "time option"
  NodeRun_EndedAt :: "time option"

datatype ApprovalStatus =
    ApprovalStatusPending
  | ApprovalStatusApproved
  | ApprovalStatusDenied

record WorkflowContext =
  WfCtx_RunID :: string
  WfCtx_Facts :: vars

definition WorkflowContext_Merge :: "WorkflowContext \<Rightarrow> vars \<Rightarrow> WorkflowContext" where
  "WorkflowContext_Merge c facts = c\<lparr>WfCtx_Facts := go_merge (WfCtx_Facts c) facts\<rparr>"

record ApprovalRequest =
  Approval_ID :: uuid
  Approval_WorkflowRunID :: uuid
  Approval_NodeID :: uuid
  Approval_Status :: ApprovalStatus
  Approval_ReviewedBy :: "uuid option"
  Approval_ReviewNote :: "string option"
  Approval_CreatedAt :: time
  Approval_ResolvedAt :: "time option"

subsection \<open>The job state machine\<close>

fun status_rank :: "JobStatus \<Rightarrow> nat" where
  "status_rank JobStatusPending = 0"
| "status_rank JobStatusDispatched = 1"
| "status_rank JobStatusRunning = 2"
| "status_rank (JobStatusOther _) = 0"
| "status_rank _ = 3"

lemma IsTerminal_simps [simp]:
  "IsTerminal JobStatusSuccess" "IsTerminal JobStatusFailed" "IsTerminal JobStatusCancelled"
  "\<not> IsTerminal JobStatusPending" "\<not> IsTerminal JobStatusDispatched"
  "\<not> IsTerminal JobStatusRunning" "\<not> IsTerminal (JobStatusOther s)"
  by (simp_all add: IsTerminal_def)

lemma IsTerminal_iff:
  "IsTerminal s \<longleftrightarrow> s \<in> {JobStatusSuccess, JobStatusFailed, JobStatusCancelled}"
  by (cases s) simp_all

lemma CanTransitionTo_iff: "CanTransitionTo s t \<longleftrightarrow> t \<in> set (ValidTransitions s)"
  by (auto simp: CanTransitionTo_def list_ex_iff)

lemma CanTransitionTo_cases:
  "CanTransitionTo s t \<longleftrightarrow>
     s = JobStatusPending \<and> t \<in> {JobStatusDispatched, JobStatusFailed} \<or>
     s = JobStatusDispatched \<and> t \<in> {JobStatusRunning, JobStatusFailed, JobStatusCancelled} \<or>
     s = JobStatusRunning \<and> t \<in> {JobStatusSuccess, JobStatusFailed, JobStatusCancelled}"
  by (cases s) (auto simp: CanTransitionTo_iff ValidTransitions_def)

lemma terminal_no_way_out: "IsTerminal s \<Longrightarrow> \<not> CanTransitionTo s t"
  by (cases s) (simp_all add: CanTransitionTo_cases)

lemma CanTransitionTo_rank: "CanTransitionTo s t \<Longrightarrow> status_rank s < status_rank t"
  by (auto simp: CanTransitionTo_cases)

lemma CanTransitionTo_not_pending: "CanTransitionTo s t \<Longrightarrow> t \<noteq> JobStatusPending"
  by (auto simp: CanTransitionTo_cases)

end
