(* ===== verification/Database.thy ===== *)
theory Database
  imports Types
begin

section \<open>The shared database and the world a process runs in\<close>

text \<open>
  The API server and every controller share one PostgreSQL database (\<open>migrations/\<close>). Its state is
  the record \<open>db\<close>: one list of rows per table, and the server's clock, which is what \<open>now()\<close> reads.
  A statement is a function \<open>call \<Rightarrow> db \<Rightarrow> 'a res \<times> db\<close>, executed atomically by \<open>exec\<close>.

  Processes run concurrently, so \<open>exec\<close> lets the environment act before every statement: the
  \<open>n\<close>-th statement of a process meets the \<open>n\<close>-th \<open>call\<close> of its world, which says what the other
  processes (and the clock) did to the database since the previous statement (\<open>call_env\<close>), which
  rows other sessions hold locked at that moment (\<open>call_locked\<close>, for \<open>SKIP LOCKED\<close>), which
  values \<open>gen_random_uuid()\<close> draws (\<open>call_uuid\<close>), whether the driver (pgx, not part of the
  repository) sends a nil slice as SQL \<open>NULL\<close> (\<open>call_nil_null\<close>), and whether the statement is
  executed and acknowledged (\<open>Done\<close>), never executed (\<open>Lost\<close>), or executed but its acknowledgement lost
  (\<open>Unacked\<close>, so that the client sees an error although the row changed). Theorems quantify over
  the world, so they hold for every interleaving and every failure pattern that their hypotheses on
  \<open>call_env\<close> allow. A transaction is one statement: its effect appears at commit or not at all.

  HTTP requests that a process makes are appended to \<open>w_sent\<close>; the reply to the \<open>n\<close>-th request is
  \<open>w_http n\<close>.
\<close>

record AgentRow = Agent +
  AgentRow_TokenHash :: string

record LogRow = JobLogLine +
  LogRow_JobID :: uuid

record db =
  db_now :: time
  db_users :: "User list"
  db_api_tokens :: "APIToken list"
  db_agents :: "AgentRow list"
  db_credentials :: "Credential list"
  db_projects :: "Project list"
  db_inventory_hosts :: "InventoryHost list"
  db_job_templates :: "JobTemplate list"
  db_schedules :: "Schedule list"
  db_workflows :: "Workflow list"
  db_workflow_nodes :: "WorkflowNode list"
  db_workflow_edges :: "WorkflowEdge list"
  db_workflow_runs :: "WorkflowRun list"
  db_jobs :: "Job list"
  db_job_status_events :: "JobStatusEvent list"
  db_job_logs :: "LogRow list"
  db_workflow_node_runs :: "WorkflowNodeRun list"
  db_approval_requests :: "ApprovalRequest list"

datatype outcome = Done | Lost | Unacked

record call =
  call_outcome :: outcome
  call_env :: "db \<Rightarrow> db"
  call_locked :: "uuid \<Rightarrow> bool"
  call_uuid :: "nat \<Rightarrow> uuid"
  call_nil_null :: bool

datatype req_body = NoBody | PayloadBody JobPayload

record http_request =
  Req_Method :: string
  Req_URL :: string
  Req_Body :: req_body

datatype http_reply = NoReply string | Reply nat

record world =
  w_db :: db
  w_env :: "nat \<Rightarrow> call"
  w_pos :: nat
  w_http :: "nat \<Rightarrow> http_reply"
  w_sent :: "http_request list"

type_synonym 'a stmt = "call \<Rightarrow> db \<Rightarrow> 'a res \<times> db"
type_synonym ('s, 'a) prog = "'s \<Rightarrow> 'a res \<times> 's"

definition exec :: "'a stmt \<Rightarrow> (world, 'a) prog" where
  "exec q w =
     (let c = w_env w (w_pos w);
          w' = w\<lparr>w_pos := Suc (w_pos w)\<rparr>;
          d = call_env c (w_db w)
      in case call_outcome c of
           Done \<Rightarrow> (fst (q c d), w'\<lparr>w_db := snd (q c d)\<rparr>)
         | Lost \<Rightarrow> (Inl ErrConn, w'\<lparr>w_db := d\<rparr>)
         | Unacked \<Rightarrow> (Inl ErrConn, w'\<lparr>w_db := snd (q c d)\<rparr>))"

text \<open>A statement that only reads.\<close>

definition query :: "(call \<Rightarrow> db \<Rightarrow> 'a res) \<Rightarrow> 'a stmt" where
  "query f c d = (f c d, d)"

text \<open>\<open>fmt.Errorf("ctx: %w", err)\<close> on the error branch.\<close>

definition wrap_err :: "string \<Rightarrow> 'a res \<Rightarrow> 'a res" where
  "wrap_err ctx r = (case r of Inl e \<Rightarrow> Inl (Wrapped ctx e) | Inr x \<Rightarrow> Inr x)"

definition exec_ctx :: "string \<Rightarrow> 'a stmt \<Rightarrow> (world, 'a) prog" where
  "exec_ctx ctx q w = (let (r, w') = exec q w in (wrap_err ctx r, w'))"

text \<open>\<open>QueryRow(...).Scan(...)\<close>: the first row, or \<open>pgx.ErrNoRows\<close>.\<close>

definition one_row :: "'r option \<Rightarrow> 'r res" where
  "one_row r = (case r of None \<Rightarrow> Inl ErrNoRows | Some x \<Rightarrow> Inr x)"

text \<open>The zero value of \<open>time.Time\<close> (nanoseconds from the epoch to 1 January of year 1).\<close>

definition time_Zero :: time where
  "time_Zero = - 62135596800 * 10 ^ 9"

text \<open>A call in which nothing goes wrong and nobody interferes.\<close>

definition quiet :: "nat \<Rightarrow> call" where
  "quiet n = \<lparr>call_outcome = Done, call_env = id, call_locked = (\<lambda>_. False),
     call_uuid = (\<lambda>i. UUID (replicate (Suc n) CHR ''g'' @ replicate i CHR ''x'')),
     call_nil_null = True\<rparr>"

definition quiet_world :: "db \<Rightarrow> world" where
  "quiet_world d = \<lparr>w_db = d, w_env = quiet, w_pos = 0, w_http = (\<lambda>_. Reply 202), w_sent = []\<rparr>"

definition empty_db :: db where
  "empty_db = \<lparr>db_now = 0, db_users = [], db_api_tokens = [], db_agents = [],
     db_credentials = [], db_projects = [], db_inventory_hosts = [], db_job_templates = [],
     db_schedules = [], db_workflows = [], db_workflow_nodes = [], db_workflow_edges = [],
     db_workflow_runs = [], db_jobs = [], db_job_status_events = [], db_job_logs = [],
     db_workflow_node_runs = [], db_approval_requests = []\<rparr>"

subsection \<open>Reading jobs\<close>

abbreviation job_of :: "db \<Rightarrow> uuid \<Rightarrow> Job option" where
  "job_of d i \<equiv> lookup_row Job_ID (db_jobs d) i"

definition status_of :: "db \<Rightarrow> uuid \<Rightarrow> JobStatus option" where
  "status_of d i = map_option Job_Status (job_of d i)"

definition unique_jobs :: "db \<Rightarrow> bool" where
  "unique_jobs d \<longleftrightarrow> distinct (map Job_ID (db_jobs d))"

subsection \<open>Lemmas about executing one statement\<close>

lemma exec_world [simp]:
  "w_env (snd (exec q w)) = w_env w"
  "w_pos (snd (exec q w)) = Suc (w_pos w)"
  "w_http (snd (exec q w)) = w_http w"
  "w_sent (snd (exec q w)) = w_sent w"
  by (simp_all add: exec_def Let_def split: outcome.split)

lemma exec_Done:
  assumes "call_outcome (w_env w (w_pos w)) = Done"
  shows "fst (exec q w) = fst (q (w_env w (w_pos w)) (call_env (w_env w (w_pos w)) (w_db w)))"
    and "w_db (snd (exec q w)) = snd (q (w_env w (w_pos w)) (call_env (w_env w (w_pos w)) (w_db w)))"
  using assms by (simp_all add: exec_def Let_def)

lemma exec_okD:
  assumes "fst (exec q w) = Inr x"
  shows "fst (q (w_env w (w_pos w)) (call_env (w_env w (w_pos w)) (w_db w))) = Inr x"
    and "w_db (snd (exec q w)) = snd (q (w_env w (w_pos w)) (call_env (w_env w (w_pos w)) (w_db w)))"
  using assms by (simp_all add: exec_def Let_def split: outcome.splits)

lemma query_simps [simp]: "fst (query f c d) = f c d" "snd (query f c d) = d"
  by (simp_all add: query_def)

lemma wrap_err_simps [simp]:
  "wrap_err s (Inl e) = Inl (Wrapped s e)"
  "wrap_err s (Inr x) = Inr x"
  "wrap_err s r = Inr x \<longleftrightarrow> r = Inr x"
  "isOk (wrap_err s r) = isOk r"
  by (cases r; simp add: wrap_err_def)+

lemma one_row_eq_Inr [simp]: "one_row r = Inr x \<longleftrightarrow> r = Some x"
  by (cases r) (auto simp: one_row_def)

lemma one_row_simps [simp]: "one_row None = Inl ErrNoRows" "one_row (Some x) = Inr x"
  by (simp_all add: one_row_def)

lemma exec_ctx_simps [simp]:
  "fst (exec_ctx s q w) = wrap_err s (fst (exec q w))"
  "snd (exec_ctx s q w) = snd (exec q w)"
  by (simp_all add: exec_ctx_def split_beta)

text \<open>A program that talks to the database only leaves the rest of its world alone.\<close>

definition net_frame :: "world \<Rightarrow> world \<Rightarrow> bool" where
  "net_frame w w' \<longleftrightarrow> w_env w' = w_env w \<and> w_http w' = w_http w \<and> w_sent w' = w_sent w"

lemma net_frame_refl [simp]: "net_frame w w"
  by (simp add: net_frame_def)

lemma net_frame_trans: "net_frame a b \<Longrightarrow> net_frame b c \<Longrightarrow> net_frame a c"
  by (simp add: net_frame_def)

lemma exec_frame: "net_frame w (snd (exec q w))"
  by (simp add: net_frame_def)

lemma net_frameD:
  "net_frame w w' \<Longrightarrow> w_env w' = w_env w"
  "net_frame w w' \<Longrightarrow> w_http w' = w_http w"
  "net_frame w w' \<Longrightarrow> w_sent w' = w_sent w"
  by (simp_all add: net_frame_def)

text \<open>
  What the other processes do between two statements, and what a statement does, seen as steps of
  a relation on databases.
\<close>

definition env_respects :: "(db \<Rightarrow> db \<Rightarrow> bool) \<Rightarrow> world \<Rightarrow> bool" where
  "env_respects R w \<longleftrightarrow> (\<forall>n d. R d (call_env (w_env w n) d))"

definition stmt_respects :: "(db \<Rightarrow> db \<Rightarrow> bool) \<Rightarrow> 'a stmt \<Rightarrow> bool" where
  "stmt_respects R q \<longleftrightarrow> (\<forall>c d. R d (snd (q c d)))"

lemma env_respectsD: "env_respects R w \<Longrightarrow> R d (call_env (w_env w n) d)"
  by (simp add: env_respects_def)

lemma env_respects_cong: "w_env w' = w_env w \<Longrightarrow> env_respects R w' = env_respects R w"
  by (simp add: env_respects_def)

lemma env_respects_exec [simp]: "env_respects R (snd (exec q w)) = env_respects R w"
  by (simp add: env_respects_def)

text \<open>Under a well-behaved environment the relation holds and the environment is unchanged.\<close>

definition world_rel :: "(db \<Rightarrow> db \<Rightarrow> bool) \<Rightarrow> world \<Rightarrow> world \<Rightarrow> bool" where
  "world_rel R w w' \<longleftrightarrow> (env_respects R w \<longrightarrow> w_env w' = w_env w \<and> R (w_db w) (w_db w'))"

text \<open>
  The contract between a process and its environment. \<open>R\<close> is a preorder on databases that every
  step of the environment respects; a statement that respects it too makes the whole execution
  respect it. Each interface the components rely on is an instance of this locale.
\<close>

locale db_rely =
  fixes R :: "db \<Rightarrow> db \<Rightarrow> bool"
  assumes rely_refl: "R d d"
    and rely_trans: "R a b \<Longrightarrow> R b c \<Longrightarrow> R a c"
begin

lemma query_respects: "stmt_respects R (query f)"
  by (simp add: stmt_respects_def rely_refl)

lemma exec_rely:
  assumes "env_respects R w" and "stmt_respects R q"
  shows "R (w_db w) (w_db (snd (exec q w)))"
proof -
  let ?c = "w_env w (w_pos w)"
  have "R (w_db w) (call_env ?c (w_db w))"
    using assms(1) by (rule env_respectsD)
  moreover have "R (call_env ?c (w_db w)) (snd (q ?c (call_env ?c (w_db w))))"
    using assms(2) by (simp add: stmt_respects_def)
  ultimately show ?thesis
    by (auto simp: exec_def Let_def split: outcome.split intro: rely_trans)
qed

lemma query_rely: "env_respects R w \<Longrightarrow> R (w_db w) (w_db (snd (exec (query f) w)))"
  by (simp add: exec_rely query_respects)

lemma wrel_refl: "world_rel R w w"
  by (simp add: world_rel_def rely_refl)

lemma wrel_trans: "world_rel R a b \<Longrightarrow> world_rel R b c \<Longrightarrow> world_rel R a c"
  using env_respects_cong [of b a R] by (auto simp: world_rel_def intro: rely_trans)

lemma wrel_stmt: "stmt_respects R q \<Longrightarrow> exec q w = (x, w') \<Longrightarrow> world_rel R w w'"
  using exec_rely [of w q] exec_world(1) [of q w] by (auto simp: world_rel_def)

lemma wrel_exec: "stmt_respects R q \<Longrightarrow> exec_ctx s q w = (x, w') \<Longrightarrow> world_rel R w w'"
  using exec_rely [of w q] exec_ctx_simps(2) [of s q w] by (auto simp: world_rel_def)

lemma wrel_query: "exec_ctx s (query f) w = (x, w') \<Longrightarrow> world_rel R w w'"
  by (rule wrel_exec [OF query_respects])

end

text \<open>
  The relation that the reconciler needs: a job never goes back to pending, and rows are not lost.
\<close>

definition no_repend :: "db \<Rightarrow> db \<Rightarrow> bool" where
  "no_repend d d' \<longleftrightarrow> (\<forall>i s. status_of d i = Some s \<longrightarrow>
     (\<exists>s'. status_of d' i = Some s' \<and> (s \<noteq> JobStatusPending \<longrightarrow> s' \<noteq> JobStatusPending)))"

lemma no_repend_same_jobs: "db_jobs d' = db_jobs d \<Longrightarrow> no_repend d d'"
  by (auto simp: no_repend_def status_of_def)

lemma no_rependD:
  "no_repend d d' \<Longrightarrow> status_of d i = Some s \<Longrightarrow> s \<noteq> JobStatusPending \<Longrightarrow>
   \<exists>s'. status_of d' i = Some s' \<and> s' \<noteq> JobStatusPending"
  by (auto simp: no_repend_def)

text \<open>Together with the primary key, this is what the processes promise each other about jobs.\<close>

definition jobs_rely :: "db \<Rightarrow> db \<Rightarrow> bool" where
  "jobs_rely d d' \<longleftrightarrow> (unique_jobs d \<longrightarrow> unique_jobs d') \<and> no_repend d d'"

interpretation jr: db_rely jobs_rely
  by unfold_locales (fastforce simp: jobs_rely_def no_repend_def)+

lemma jobs_rely_same_jobs: "db_jobs d' = db_jobs d \<Longrightarrow> jobs_rely d d'"
  by (simp add: jobs_rely_def no_repend_same_jobs unique_jobs_def)

text \<open>An \<open>UPDATE\<close> of jobs that writes no pending status, and an \<open>INSERT\<close>, keep the promise.\<close>

lemma jobs_rely_update:
  assumes d': "db_jobs d' = update_rows P f (db_jobs d)"
    and key: "\<And>j. Job_ID (f j) = Job_ID j"
    and st: "\<And>j. Job_Status j \<noteq> JobStatusPending \<Longrightarrow> Job_Status (f j) \<noteq> JobStatusPending"
  shows "jobs_rely d d'"
proof -
  have lk: "job_of d' i = map_option (\<lambda>j. if P j then f j else j) (job_of d i)" for i
    by (simp add: d' lookup_update_rows key)
  have "unique_jobs d \<Longrightarrow> unique_jobs d'"
    by (simp add: unique_jobs_def d' keys_update_rows key)
  moreover have "no_repend d d'"
    unfolding no_repend_def
  proof (intro allI impI)
    fix i s
    assume "status_of d i = Some s"
    then obtain j where "job_of d i = Some j" "Job_Status j = s"
      by (auto simp: status_of_def)
    then show "\<exists>s'. status_of d' i = Some s' \<and> (s \<noteq> JobStatusPending \<longrightarrow> s' \<noteq> JobStatusPending)"
      using st [of j] by (simp add: status_of_def lk)
  qed
  ultimately show ?thesis by (simp add: jobs_rely_def)
qed

lemma jobs_rely_insert:
  assumes "db_jobs d' = db_jobs d @ [j]" and "Job_ID j \<notin> Job_ID ` set (db_jobs d)"
  shows "jobs_rely d d'"
  using assms
  by (auto simp: jobs_rely_def unique_jobs_def no_repend_def status_of_def lookup_row_append
      split: option.splits)

subsection \<open>Executing when nobody interferes\<close>

text \<open>Every statement is answered, no other process acts, and no row is locked.\<close>

definition undisturbed :: "world \<Rightarrow> bool" where
  "undisturbed w \<longleftrightarrow> (\<forall>n. call_outcome (w_env w n) = Done \<and> call_env (w_env w n) = id \<and>
     (\<forall>i. \<not> call_locked (w_env w n) i))"

lemma undisturbed_cong: "w_env w' = w_env w \<Longrightarrow> undisturbed w' = undisturbed w"
  by (simp add: undisturbed_def)

lemma undisturbed_quiet_world: "undisturbed (quiet_world d)"
  by (simp add: undisturbed_def quiet_world_def quiet_def)

lemma undisturbed_respects: "undisturbed w \<Longrightarrow> (\<And>d. R d d) \<Longrightarrow> env_respects R w"
  by (simp add: undisturbed_def env_respects_def)

lemma exec_undisturbed:
  assumes "undisturbed w"
  shows "exec q w = (fst (q (w_env w (w_pos w)) (w_db w)),
    w\<lparr>w_pos := Suc (w_pos w), w_db := snd (q (w_env w (w_pos w)) (w_db w))\<rparr>)"
  using assms by (simp add: exec_def Let_def undisturbed_def)

definition at_pos :: "world \<Rightarrow> db \<Rightarrow> world" where
  "at_pos w d = w\<lparr>w_pos := Suc (w_pos w), w_db := d\<rparr>"

lemma at_pos_simps [simp]:
  "w_db (at_pos w d) = d" "w_env (at_pos w d) = w_env w"
  "undisturbed (at_pos w d) = undisturbed w"
  by (simp_all add: at_pos_def undisturbed_def)

lemma exec_at:
  assumes "undisturbed w"
  shows "exec q w = (fst (q (w_env w (w_pos w)) (w_db w)), at_pos w (snd (q (w_env w (w_pos w)) (w_db w))))"
  using assms by (simp add: exec_undisturbed at_pos_def)

end
