(* ===== verification/ControllerStore.thy ===== *)
theory ControllerStore
  imports Database "HOL-Library.Product_Lexorder"
begin

section \<open>The controller's store (controller/internal/store/store.go)\<close>

text \<open>
  One statement (\<open>..._stmt\<close>) and one program (\<open>cstore_...\<close>) per method of the controller's
  \<open>Store\<close>. The statement is the SQL text read as a function on tables, with the constraints and the
  triggers of \<open>migrations/\<close>; the program executes it and wraps the driver's error as the method does.
  The order of rows that \<open>ORDER BY\<close> leaves open (ties, or no \<open>ORDER BY\<close> at all) is the order of the
  table's list.

  The lemmas give, for each method, what a successful call returns and what it changes; the method
  that changes jobs, \<open>TransitionJob\<close>, is a compare-and-set on the status column.
\<close>

subsection \<open>Jobs\<close>

definition GetPendingJobs_stmt :: "Job list stmt" where [stmt_defs]:
  "GetPendingJobs_stmt = query (\<lambda>c d. Inr (take 50 (sort_key Job_CreatedAt
     (filter (\<lambda>j. Job_Status j = JobStatusPending \<and> \<not> call_locked c (Job_ID j)) (db_jobs d)))))"

definition cstore_GetPendingJobs :: "(world, Job list) prog" where
  "cstore_GetPendingJobs = exec_ctx ''get pending jobs'' GetPendingJobs_stmt"

definition stuck_jobs :: "JobStatus \<Rightarrow> duration \<Rightarrow> call \<Rightarrow> db \<Rightarrow> Job list" where
  "stuck_jobs s timeout c d = filter (\<lambda>j. Job_Status j = s \<and>
     Job_UpdatedAt j < db_now d - timeout \<and> \<not> call_locked c (Job_ID j)) (db_jobs d)"

definition GetStuckDispatchedJobs_stmt :: "duration \<Rightarrow> Job list stmt" where [stmt_defs]:
  "GetStuckDispatchedJobs_stmt timeout =
     query (\<lambda>c d. Inr (stuck_jobs JobStatusDispatched timeout c d))"

definition cstore_GetStuckDispatchedJobs :: "duration \<Rightarrow> (world, Job list) prog" where
  "cstore_GetStuckDispatchedJobs timeout =
     exec_ctx ''get stuck dispatched jobs''
       (GetStuckDispatchedJobs_stmt timeout)"

definition GetStuckRunningJobs_stmt :: "duration \<Rightarrow> Job list stmt" where [stmt_defs]:
  "GetStuckRunningJobs_stmt timeout =
     query (\<lambda>c d. Inr (stuck_jobs JobStatusRunning timeout c d))"

definition cstore_GetStuckRunningJobs :: "duration \<Rightarrow> (world, Job list) prog" where
  "cstore_GetStuckRunningJobs timeout =
     exec_ctx ''get stuck running jobs''
       (GetStuckRunningJobs_stmt timeout)"

text \<open>The \<open>SET\<close> clause of \<open>TransitionJob\<close>, one line per column.\<close>

definition coalesce :: "'a option \<Rightarrow> 'a option \<Rightarrow> 'a option" where
  "coalesce x y = (case x of None \<Rightarrow> y | Some _ \<Rightarrow> x)"

definition transition_row ::
  "time \<Rightarrow> JobStatus \<Rightarrow> uuid option \<Rightarrow> string \<Rightarrow> Job \<Rightarrow> Job" where
  "transition_row now toStatus agentID reason j = j\<lparr>
     Job_Status := toStatus,
     Job_AgentID := coalesce agentID (Job_AgentID j),
     Job_FailureReason := (if reason \<noteq> '''' then Some reason else Job_FailureReason j),
     Job_StartedAt := (if toStatus = JobStatusRunning \<and> Job_StartedAt j = None then Some now
                       else Job_StartedAt j),
     Job_EndedAt := (if toStatus \<in> {JobStatusSuccess, JobStatusFailed, JobStatusCancelled}
                     then Some now else Job_EndedAt j),
     Job_UpdatedAt := now\<rparr>"

definition agent_exists :: "db \<Rightarrow> uuid option \<Rightarrow> bool" where
  "agent_exists d a \<longleftrightarrow> (case a of None \<Rightarrow> True | Some i \<Rightarrow> i \<in> Agent_ID ` set (db_agents d))"

definition TransitionJob_stmt ::
  "uuid \<Rightarrow> JobStatus \<Rightarrow> JobStatus \<Rightarrow> uuid option \<Rightarrow> string \<Rightarrow> bool stmt" where [stmt_defs]:
  "TransitionJob_stmt jobID fromStatus toStatus agentID reason c d =
     (let P = (\<lambda>j. Job_ID j = jobID \<and> Job_Status j = fromStatus);
          n = rows_affected P (db_jobs d)
      in if n > 0 \<and> \<not> agent_exists d agentID then (Inl (PgError ForeignKeyViolation), d)
         else (Inr (n = 1),
           d\<lparr>db_jobs := update_rows P (transition_row (db_now d) toStatus agentID reason)
                           (db_jobs d)\<rparr>))"

fun status_text :: "JobStatus \<Rightarrow> string" where
  "status_text JobStatusPending = ''pending''"
| "status_text JobStatusDispatched = ''dispatched''"
| "status_text JobStatusRunning = ''running''"
| "status_text JobStatusSuccess = ''success''"
| "status_text JobStatusFailed = ''failed''"
| "status_text JobStatusCancelled = ''cancelled''"
| "status_text (JobStatusOther s) = s"

text \<open>The arrow of the error message is the UTF-8 encoding of U+2192.\<close>

definition cstore_TransitionJob ::
  "uuid \<Rightarrow> JobStatus \<Rightarrow> JobStatus \<Rightarrow> uuid option \<Rightarrow> string \<Rightarrow> (world, bool) prog" where
  "cstore_TransitionJob jobID fromStatus toStatus agentID reason =
     exec_ctx (''transition job '' @ uuid_String jobID @ '' '' @ status_text fromStatus
            @ [CHR 0xE2, CHR 0x86, CHR 0x92] @ status_text toStatus) (TransitionJob_stmt jobID fromStatus toStatus agentID reason)"

text \<open>
  \<open>INSERT INTO jobs\<close>: column defaults from migration 13; the primary key is drawn by
  \<open>gen_random_uuid()\<close>, the template must exist.
\<close>

definition new_job :: "time \<Rightarrow> uuid \<Rightarrow> uuid \<Rightarrow> uuid option \<Rightarrow> vars \<Rightarrow> Job" where
  "new_job now i templateID runID extraVars = \<lparr>
     Job_ID = i, Job_TemplateID = templateID, Job_AgentID = None, Job_WorkflowRunID = runID,
     Job_Status = JobStatusPending, Job_CreatedAt = now, Job_UpdatedAt = now,
     Job_StartedAt = None, Job_EndedAt = None, Job_ExtraVars = extraVars, Job_Facts = [],
     Job_FailureReason = None\<rparr>"

definition run_exists :: "db \<Rightarrow> uuid option \<Rightarrow> bool" where
  "run_exists d a \<longleftrightarrow> (case a of None \<Rightarrow> True | Some i \<Rightarrow> i \<in> Run_ID ` set (db_workflow_runs d))"

definition insert_job_stmt :: "uuid \<Rightarrow> uuid option \<Rightarrow> vars \<Rightarrow> Job stmt" where [stmt_defs]:
  "insert_job_stmt templateID runID extraVars c d =
     (let i = call_uuid c 0; j = new_job (db_now d) i templateID runID extraVars
      in if i \<in> Job_ID ` set (db_jobs d) then (Inl (PgError UniqueViolation), d)
         else if templateID \<notin> Template_ID ` set (db_job_templates d) \<or> \<not> run_exists d runID
           then (Inl (PgError ForeignKeyViolation), d)
         else (Inr j, d\<lparr>db_jobs := db_jobs d @ [j]\<rparr>))"

definition cstore_CreateJob :: "uuid \<Rightarrow> vars \<Rightarrow> (world, Job) prog" where
  "cstore_CreateJob templateID extraVars =
     exec_ctx ''create job: scan job''
       (insert_job_stmt templateID None extraVars)"

subsection \<open>Agents\<close>

text \<open>The \<open>LEFT JOIN ... GROUP BY\<close>: how many dispatched or running jobs name the agent.\<close>

definition running_jobs :: "db \<Rightarrow> uuid \<Rightarrow> int" where
  "running_jobs d a = int (length (filter (\<lambda>j. Job_AgentID j = Some a \<and>
     (Job_Status j = JobStatusDispatched \<or> Job_Status j = JobStatusRunning)) (db_jobs d)))"

definition heartbeat_within :: "db \<Rightarrow> duration \<Rightarrow> time option \<Rightarrow> bool" where
  "heartbeat_within d ttl hb \<longleftrightarrow> (case hb of None \<Rightarrow> False | Some t \<Rightarrow> t > db_now d - ttl)"

definition scan_agent :: "db \<Rightarrow> AgentRow \<Rightarrow> Agent" where
  "scan_agent d r = \<lparr>Agent_ID = Agent_ID r, Agent_Name = Agent_Name r,
     Agent_Address = Agent_Address r, Agent_Status = Agent_Status r, Agent_Labels = Agent_Labels r,
     Agent_Capacity = Agent_Capacity r, Agent_RunningJobs = running_jobs d (Agent_ID r),
     Agent_LastHeartbeatAt = Agent_LastHeartbeatAt r, Agent_RegisteredAt = time_Zero,
     Agent_UpdatedAt = time_Zero\<rparr>"

definition available_agents :: "duration \<Rightarrow> db \<Rightarrow> Agent list" where
  "available_agents ttl d =
     sort_key (\<lambda>a. (Agent_RunningJobs a, case Agent_LastHeartbeatAt a of None \<Rightarrow> 0 | Some t \<Rightarrow> - t))
       (map (scan_agent d)
         (filter (\<lambda>r. Agent_Status r = AgentStatusOnline \<and>
                    heartbeat_within d ttl (Agent_LastHeartbeatAt r) \<and>
                    running_jobs d (Agent_ID r) < Agent_Capacity r) (db_agents d)))"

definition GetAvailableAgents_stmt :: "duration \<Rightarrow> Agent list stmt" where [stmt_defs]:
  "GetAvailableAgents_stmt ttl = query (\<lambda>c d. Inr (available_agents ttl d))"

definition cstore_GetAvailableAgents :: "duration \<Rightarrow> (world, Agent list) prog" where
  "cstore_GetAvailableAgents ttl =
     exec_ctx ''get available agents''
       (GetAvailableAgents_stmt ttl)"

definition GetAgentAddress_stmt :: "uuid \<Rightarrow> string stmt" where [stmt_defs]:
  "GetAgentAddress_stmt agentID = query (\<lambda>c d.
     one_row (map_option Agent_Address (lookup_row Agent_ID (db_agents d) agentID)))"

definition cstore_GetAgentAddress :: "uuid \<Rightarrow> (world, string) prog" where
  "cstore_GetAgentAddress agentID =
     exec_ctx (''get agent address '' @ uuid_String agentID)
       (GetAgentAddress_stmt agentID)"

subsection \<open>Job templates and projects\<close>

definition GetJobTemplate_stmt :: "uuid \<Rightarrow> JobTemplate stmt" where [stmt_defs]:
  "GetJobTemplate_stmt i = query (\<lambda>c d. one_row (lookup_row Template_ID (db_job_templates d) i))"

definition cstore_GetJobTemplate :: "uuid \<Rightarrow> (world, JobTemplate) prog" where
  "cstore_GetJobTemplate i =
     exec_ctx (''get job template '' @ uuid_String i)
       (GetJobTemplate_stmt i)"

definition GetProject_stmt :: "uuid \<Rightarrow> Project stmt" where [stmt_defs]:
  "GetProject_stmt i = query (\<lambda>c d. one_row (lookup_row Project_ID (db_projects d) i))"

definition cstore_GetProject :: "uuid \<Rightarrow> (world, Project) prog" where
  "cstore_GetProject i =
     exec_ctx (''get project '' @ uuid_String i)
       (GetProject_stmt i)"

definition GetAllProjects_stmt :: "Project list stmt" where [stmt_defs]:
  "GetAllProjects_stmt = query (\<lambda>c d. Inr (sort_key Project_CreatedAt (db_projects d)))"

definition cstore_GetAllProjects :: "(world, Project list) prog" where
  "cstore_GetAllProjects = exec_ctx ''get all projects'' GetAllProjects_stmt"

definition UpdateProjectSyncStatus_stmt ::
  "uuid \<Rightarrow> InventorySyncStatus \<Rightarrow> string option \<Rightarrow> unit stmt" where [stmt_defs]:
  "UpdateProjectSyncStatus_stmt i status errPtr c d =
     (Inr (), d\<lparr>db_projects := update_rows (\<lambda>p. Project_ID p = i)
        (\<lambda>p. p\<lparr>Project_SyncStatus := status, Project_SyncError := errPtr,
                Project_LastSyncedAt := Some (db_now d), Project_UpdatedAt := db_now d\<rparr>)
        (db_projects d)\<rparr>)"

definition cstore_UpdateProjectSyncStatus ::
  "uuid \<Rightarrow> InventorySyncStatus \<Rightarrow> string \<Rightarrow> (world, unit) prog" where
  "cstore_UpdateProjectSyncStatus i status syncErr =
     exec (UpdateProjectSyncStatus_stmt i status (if syncErr \<noteq> '''' then Some syncErr else None))"

subsection \<open>Inventory\<close>

definition GetInventoryHosts_stmt :: "uuid \<Rightarrow> InventoryHost list stmt" where [stmt_defs]:
  "GetInventoryHosts_stmt projectID = query (\<lambda>c d.
     Inr (filter (\<lambda>h. Host_ProjectID h = projectID) (db_inventory_hosts d)))"

definition cstore_GetInventoryHosts :: "uuid \<Rightarrow> (world, InventoryHost list) prog" where
  "cstore_GetInventoryHosts projectID =
     exec_ctx ''get inventory hosts''
       (GetInventoryHosts_stmt projectID)"

text \<open>
  The \<open>INSERT\<close> loop of \<open>UpsertInventoryHosts\<close>: the first failing insert ends the transaction. The
  column \<open>groups\<close> is \<open>NOT NULL\<close>, so a nil slice that the driver sends as \<open>NULL\<close> is refused.
\<close>

fun insert_hosts ::
  "call \<Rightarrow> nat \<Rightarrow> uuid \<Rightarrow> InventoryHost list \<Rightarrow> db \<Rightarrow> db res" where
  "insert_hosts c n projectID [] d = Inr d"
| "insert_hosts c n projectID (h # hs) d =
     (let i = call_uuid c n;
          ctx = ''insert host '' @ Host_Hostname h
      in if Host_Groups h = None \<and> call_nil_null c
           then Inl (Wrapped ctx (PgError NotNullViolation))
         else if i \<in> Host_ID ` set (db_inventory_hosts d)
           then Inl (Wrapped ctx (PgError UniqueViolation))
         else if projectID \<notin> Project_ID ` set (db_projects d)
           then Inl (Wrapped ctx (PgError ForeignKeyViolation))
         else insert_hosts c (Suc n) projectID hs
           (d\<lparr>db_inventory_hosts := db_inventory_hosts d @
               [\<lparr>Host_ID = i, Host_ProjectID = projectID, Host_Hostname = Host_Hostname h,
                 Host_Groups = Some (case Host_Groups h of None \<Rightarrow> [] | Some gs \<Rightarrow> gs), Host_Vars = Host_Vars h,
                 Host_CreatedAt = db_now d, Host_UpdatedAt = db_now d\<rparr>]\<rparr>))"

definition UpsertInventoryHosts_stmt :: "uuid \<Rightarrow> InventoryHost list \<Rightarrow> unit stmt" where [stmt_defs]:
  "UpsertInventoryHosts_stmt projectID hosts c d =
     (let d1 = d\<lparr>db_inventory_hosts :=
                   filter (\<lambda>h. Host_ProjectID h \<noteq> projectID) (db_inventory_hosts d)\<rparr>
      in case insert_hosts c 0 projectID hosts d1 of
           Inl e \<Rightarrow> (Inl e, d)
         | Inr d2 \<Rightarrow> (Inr (), d2))"

definition cstore_UpsertInventoryHosts :: "uuid \<Rightarrow> InventoryHost list \<Rightarrow> (world, unit) prog" where
  "cstore_UpsertInventoryHosts projectID hosts = exec (UpsertInventoryHosts_stmt projectID hosts)"

subsection \<open>Credentials\<close>

definition GetCredentialWithSecret_stmt :: "uuid \<Rightarrow> Credential stmt" where [stmt_defs]:
  "GetCredentialWithSecret_stmt i = query (\<lambda>c d. one_row (lookup_row Cred_ID (db_credentials d) i))"

definition cstore_GetCredentialWithSecret :: "uuid \<Rightarrow> (world, Credential) prog" where
  "cstore_GetCredentialWithSecret i =
     exec_ctx (''get credential '' @ uuid_String i)
       (GetCredentialWithSecret_stmt i)"

subsection \<open>Schedules\<close>

definition GetActiveSchedules_stmt :: "Schedule list stmt" where [stmt_defs]:
  "GetActiveSchedules_stmt =
     query (\<lambda>c d. Inr (sort_key Schedule_CreatedAt (filter Schedule_Enabled (db_schedules d))))"

definition cstore_GetActiveSchedules :: "(world, Schedule list) prog" where
  "cstore_GetActiveSchedules = exec_ctx ''get active schedules'' GetActiveSchedules_stmt"

definition UpdateScheduleLastRun_stmt :: "uuid \<Rightarrow> time option \<Rightarrow> unit stmt" where [stmt_defs]:
  "UpdateScheduleLastRun_stmt i nextRunAt c d =
     (Inr (), d\<lparr>db_schedules := update_rows (\<lambda>s. Schedule_ID s = i)
        (\<lambda>s. s\<lparr>Schedule_LastRunAt := Some (db_now d), Schedule_NextRunAt := nextRunAt,
                Schedule_UpdatedAt := db_now d\<rparr>) (db_schedules d)\<rparr>)"

definition cstore_UpdateScheduleLastRun :: "uuid \<Rightarrow> time option \<Rightarrow> (world, unit) prog" where
  "cstore_UpdateScheduleLastRun i nextRunAt = exec (UpdateScheduleLastRun_stmt i nextRunAt)"

subsection \<open>What the statements do\<close>

lemma transition_row_simps [simp]:
  "Job_ID (transition_row t s a r j) = Job_ID j"
  "Job_Status (transition_row t s a r j) = s"
  "Job_TemplateID (transition_row t s a r j) = Job_TemplateID j"
  "Job_CreatedAt (transition_row t s a r j) = Job_CreatedAt j"
  "Job_UpdatedAt (transition_row t s a r j) = t"
  "Job_AgentID (transition_row t s a r j) = coalesce a (Job_AgentID j)"
  by (simp_all add: transition_row_def)

lemma TransitionJob_jobs:
  assumes "unique_jobs d"
  shows "job_of (snd (TransitionJob_stmt i fs ts a r c d)) k =
    (case job_of d k of
       None \<Rightarrow> None
     | Some j \<Rightarrow> Some (if k = i \<and> Job_Status j = fs \<and> agent_exists d a
                       then transition_row (db_now d) ts a r j else j))"
proof -
  let ?P = "\<lambda>j. Job_ID j = i \<and> Job_Status j = fs"
  have n: "rows_affected ?P (db_jobs d) =
      (case job_of d i of None \<Rightarrow> 0 | Some j \<Rightarrow> if Job_Status j = fs then 1 else 0)"
    using assms by (simp add: unique_jobs_def rows_affected_by_key)
  have lk: "lookup_row Job_ID (update_rows ?P (transition_row t ts a r) (db_jobs d)) k =
      map_option (\<lambda>j. if ?P j then transition_row t ts a r j else j) (job_of d k)" for t
    by (simp add: lookup_update_rows)
  show ?thesis
    using n by (auto simp: TransitionJob_stmt_def Let_def lk split: option.splits
        dest!: lookup_row_SomeD)
qed

lemma TransitionJob_result:
  assumes "unique_jobs d"
  shows "fst (TransitionJob_stmt i fs ts a r c d) =
    (if status_of d i = Some fs
     then (if agent_exists d a then Inr True else Inl (PgError ForeignKeyViolation))
     else Inr False)"
proof -
  have "rows_affected (\<lambda>j. Job_ID j = i \<and> Job_Status j = fs) (db_jobs d) =
      (if status_of d i = Some fs then 1 else 0)"
    using assms by (auto simp: unique_jobs_def rows_affected_by_key status_of_def split: option.split)
  then show ?thesis by (simp add: TransitionJob_stmt_def Let_def)
qed

lemma TransitionJob_unique: "unique_jobs d \<Longrightarrow> unique_jobs (snd (TransitionJob_stmt i fs ts a r c d))"
  by (simp add: TransitionJob_stmt_def Let_def unique_jobs_def keys_update_rows)

lemma TransitionJob_status:
  assumes "unique_jobs d"
  shows "status_of (snd (TransitionJob_stmt i fs ts a r c d)) k =
    (if k = i \<and> status_of d i = Some fs \<and> agent_exists d a then Some ts else status_of d k)"
  using assms by (auto simp: status_of_def TransitionJob_jobs split: option.splits)

lemma TransitionJob_frame:
  "db_agents (snd (TransitionJob_stmt i fs ts a r c d)) = db_agents d"
  "db_now (snd (TransitionJob_stmt i fs ts a r c d)) = db_now d"
  by (simp_all add: TransitionJob_stmt_def Let_def)

text \<open>A pending row is never made by an update, so updates respect the contract on jobs.\<close>

lemma TransitionJob_respects:
  "ts \<noteq> JobStatusPending \<Longrightarrow> stmt_respects jobs_rely (TransitionJob_stmt i fs ts a r)"
  unfolding stmt_respects_def
  by (auto simp: TransitionJob_stmt_def Let_def jr.rely_refl intro!: jobs_rely_update)

lemma insert_job_respects: "stmt_respects jobs_rely (insert_job_stmt t run ev)"
  unfolding stmt_respects_def
  by (auto simp: insert_job_stmt_def Let_def new_job_def jr.rely_refl intro!: jobs_rely_insert)

end
