(* ===== verification/Secrets.thy ===== *)
theory Secrets
  imports ControllerStore
begin

section \<open>Credential encryption (api/internal/secrets, controller/internal/secrets)\<close>

text \<open>
  The API server encrypts the JSON text of a credential's fields with AES-256-GCM and stores
  nonce and ciphertext in one blob; the controller decrypts the blob when it builds a job payload.
  The cipher itself and the JSON codec are parameters, collected in the record \<open>crypto\<close>: sealing
  and opening under a key and a nonce, and encoding and decoding a map of strings. The framing of
  the blob, the key-length check of \<open>aes.NewCipher\<close> and the 12-byte nonce are modelled. Bytes are
  characters of a \<open>string\<close>.

  The laws that the parameters are assumed to have (\<open>crypto_laws\<close>) are those their packages
  document: opening what was sealed under the same key and nonce gives the plaintext back, and
  decoding an encoded map gives the map back. Under them the two components agree: what the API
  encrypts, the controller reads.
\<close>

record crypto =
  gcm_seal :: "string \<Rightarrow> string \<Rightarrow> string \<Rightarrow> string"
  gcm_open :: "string \<Rightarrow> string \<Rightarrow> string \<Rightarrow> string option"
  json_fields_enc :: "string gomap \<Rightarrow> string"
  json_fields_dec :: "string \<Rightarrow> string gomap option"

definition gcm_NonceSize :: nat where
  "gcm_NonceSize = 12"

definition aes_key_ok :: "string \<Rightarrow> bool" where
  "aes_key_ok key \<longleftrightarrow> length key = 16 \<or> length key = 24 \<or> length key = 32"

definition aes_err :: goerr where
  "aes_err = ErrMsg ''crypto/aes: invalid key size''"

text \<open>\<open>Encrypt\<close>; the nonce is what \<open>rand.Reader\<close> delivers, \<open>None\<close> if it fails.\<close>

definition Encrypt :: "crypto \<Rightarrow> string option \<Rightarrow> string \<Rightarrow> string \<Rightarrow> string res" where
  "Encrypt cr nonce key plaintext =
     (if \<not> aes_key_ok key then Inl aes_err
      else (case nonce of
          None \<Rightarrow> Inl (ErrMsg ''rand'')
        | Some n \<Rightarrow> Inr (n @ gcm_seal cr key n plaintext)))"

text \<open>\<open>decrypt\<close> of the controller; the API server has a copy of it (\<open>ApiSecrets\<close>).\<close>

definition decrypt :: "crypto \<Rightarrow> string \<Rightarrow> string \<Rightarrow> string res" where
  "decrypt cr key ciphertext =
     (if \<not> aes_key_ok key then Inl aes_err
      else if length ciphertext < gcm_NonceSize then Inl (ErrMsg ''ciphertext too short'')
      else (let nonce = take gcm_NonceSize ciphertext; data = drop gcm_NonceSize ciphertext
            in case gcm_open cr key nonce data of
                 None \<Rightarrow> Inl (ErrMsg ''cipher: message authentication failed'')
               | Some pt \<Rightarrow> Inr pt))"

definition decode_secret :: "crypto \<Rightarrow> string \<Rightarrow> string \<Rightarrow> string \<Rightarrow> Credential \<Rightarrow> CredentialSecret res" where
  "decode_secret cr what key ctx cred =
     (case decrypt cr key (Cred_EncryptedData cred) of
        Inl e \<Rightarrow> Inl (Wrapped (ctx @ '': decrypt'') e)
      | Inr plaintext \<Rightarrow>
          (case json_fields_dec cr plaintext of
             None \<Rightarrow> Inl (Wrapped (ctx @ '': '' @ what) (ErrMsg ''invalid JSON''))
           | Some flds \<Rightarrow> Inr \<lparr>Secret_Kind = Cred_Kind cred, Secret_Fields = flds\<rparr>))"

text \<open>The controller's \<open>Provider.Resolve\<close>.\<close>

definition Resolve :: "crypto \<Rightarrow> string \<Rightarrow> uuid \<Rightarrow> (world, CredentialSecret) prog" where
  "Resolve cr key credentialID w =
     (if length key = 0
      then (Inl (ErrMsg ''AOP_ENCRYPTION_KEY is not set; cannot decrypt credentials''), w)
      else (let ctx = ''credential '' @ uuid_String credentialID
            in case cstore_GetCredentialWithSecret credentialID w of
                 (Inl e, w') \<Rightarrow> (Inl (Wrapped ctx e), w')
               | (Inr cred, w') \<Rightarrow> (decode_secret cr ''unmarshal fields'' key ctx cred, w')))"

subsection \<open>What the parameters promise\<close>

definition crypto_laws :: "crypto \<Rightarrow> bool" where
  "crypto_laws cr \<longleftrightarrow>
     (\<forall>key nonce pt. gcm_open cr key nonce (gcm_seal cr key nonce pt) = Some pt) \<and>
     (\<forall>m. distinct (map fst m) \<longrightarrow> map_option map_of (json_fields_dec cr (json_fields_enc cr m)) = Some (map_of m))"

lemma decrypt_Encrypt:
  assumes "crypto_laws cr" and "Encrypt cr (Some nonce) key pt = Inr blob"
    and "length nonce = gcm_NonceSize"
  shows "decrypt cr key blob = Inr pt"
  using assms by (auto simp: Encrypt_def decrypt_def crypto_laws_def split: if_splits)

lemma decrypt_short:
  "length blob < gcm_NonceSize \<Longrightarrow> \<not> isOk (decrypt cr key blob)"
  by (simp add: decrypt_def)

lemma Encrypt_ok_iff: "isOk (Encrypt cr nonce key pt) \<longleftrightarrow> aes_key_ok key \<and> nonce \<noteq> None"
  by (auto simp: Encrypt_def split: option.splits)

lemma Encrypt_length:
  assumes "Encrypt cr (Some nonce) key pt = Inr blob"
  shows "length blob = length nonce + length (gcm_seal cr key nonce pt)"
  using assms by (auto simp: Encrypt_def split: if_splits)

lemma Resolve_frame: "net_frame w (snd (Resolve cr key i w))"
  using exec_frame [of w "GetCredentialWithSecret_stmt i"]
  by (auto simp: Resolve_def cstore_GetCredentialWithSecret_def exec_ctx_def Let_def split_beta
      split: sum.split)

end
