(* ===== verification/Selector.thy ===== *)
theory Selector
  imports Types
begin

section \<open>Agent selection (controller/selector/leastbusy.go)\<close>

text \<open>
  \<open>LeastBusySelector.Select\<close> scans the slice once and keeps the best candidate: fewest running
  jobs, then most recent heartbeat, then first in the slice. The specification \<open>better_or_equal\<close>
  is the preorder the comment describes; \<open>Select\<close> returns the first of its best elements. The locale
  \<open>agent_selector\<close> is the \<open>AgentSelector\<close> interface of \<open>pkg/transport/interfaces.go\<close>: the
  result is one of the candidates, and there is one whenever there is a candidate.
\<close>

text \<open>The condition under which the loop body replaces \<open>best\<close> by \<open>a\<close>.\<close>

definition prefer_agent :: "Agent \<Rightarrow> Agent \<Rightarrow> bool" where
  "prefer_agent a best \<longleftrightarrow>
     (if Agent_RunningJobs a < Agent_RunningJobs best then True
      else if Agent_RunningJobs a = Agent_RunningJobs best then
        (case Agent_LastHeartbeatAt a of
           None \<Rightarrow> False
         | Some t \<Rightarrow> (case Agent_LastHeartbeatAt best of None \<Rightarrow> True | Some b \<Rightarrow> t > b))
      else False)"

fun select_loop :: "Agent \<Rightarrow> Agent list \<Rightarrow> Agent" where
  "select_loop best [] = best"
| "select_loop best (a # as) = select_loop (if prefer_agent a best then a else best) as"

definition Select :: "Agent list \<Rightarrow> Agent res" where
  "Select available =
     (case available of
        [] \<Rightarrow> Inl (ErrMsg ''no agents available'')
      | best # rest \<Rightarrow> Inr (select_loop best rest))"

subsection \<open>The order that the loop optimises\<close>

definition better_or_equal :: "Agent \<Rightarrow> Agent \<Rightarrow> bool" where
  "better_or_equal a b \<longleftrightarrow>
     Agent_RunningJobs a < Agent_RunningJobs b \<or>
     Agent_RunningJobs a = Agent_RunningJobs b \<and>
       (case Agent_LastHeartbeatAt b of
          None \<Rightarrow> True
        | Some t \<Rightarrow> (case Agent_LastHeartbeatAt a of None \<Rightarrow> False | Some u \<Rightarrow> u \<ge> t))"

lemma better_or_equal_refl [simp]: "better_or_equal a a"
  by (simp add: better_or_equal_def split: option.split)

lemma better_or_equal_trans: "better_or_equal a b \<Longrightarrow> better_or_equal b c \<Longrightarrow> better_or_equal a c"
  by (auto simp: better_or_equal_def split: option.splits)

lemma prefer_agent_iff: "prefer_agent a b \<longleftrightarrow> \<not> better_or_equal b a"
  by (auto simp: prefer_agent_def better_or_equal_def split: option.splits)

lemma better_or_equal_total: "better_or_equal a b \<or> better_or_equal b a"
  by (auto simp: better_or_equal_def split: option.splits)

lemma select_loop_mem: "select_loop b as \<in> insert b (set as)"
proof (induction as arbitrary: b)
  case (Cons a as)
  show ?case
    using Cons.IH [of a] Cons.IH [of b] by auto
qed simp

lemma select_loop_best: "x \<in> insert b (set as) \<Longrightarrow> better_or_equal (select_loop b as) x"
proof (induction as arbitrary: b x)
  case (Cons a as)
  let ?c = "if prefer_agent a b then a else b"
  have c: "better_or_equal (select_loop ?c as) ?c" by (rule Cons.IH) simp
  have "better_or_equal ?c a" "better_or_equal ?c b"
    using better_or_equal_total [of a b] by (auto simp: prefer_agent_iff)
  then have ab: "better_or_equal (select_loop ?c as) a" "better_or_equal (select_loop ?c as) b"
    using c better_or_equal_trans by blast+
  show ?case
  proof (cases "x \<in> set as")
    case True
    then show ?thesis using Cons.IH [of x ?c] by simp
  next
    case False
    then show ?thesis using Cons.prems ab by auto
  qed
qed simp

text \<open>The first best element: everything before it in the slice is strictly worse.\<close>

lemma select_loop_first:
  "\<exists>xs ys. b # as = xs @ select_loop b as # ys \<and>
     (\<forall>x\<in>set xs. \<not> better_or_equal x (select_loop b as))"
proof (induction as arbitrary: b)
  case (Cons a as)
  show ?case
  proof (cases "prefer_agent a b")
    case True
    obtain xs ys where xy: "a # as = xs @ select_loop a as # ys"
      and w: "\<forall>x\<in>set xs. \<not> better_or_equal x (select_loop a as)"
      using Cons.IH by blast
    have "better_or_equal (select_loop a as) a" by (rule select_loop_best) simp
    then have "\<not> better_or_equal b (select_loop a as)"
      using True better_or_equal_trans by (auto simp: prefer_agent_iff)
    then have "b # a # as = (b # xs) @ select_loop a as # ys \<and>
        (\<forall>x\<in>set (b # xs). \<not> better_or_equal x (select_loop a as))"
      using xy w by simp
    then show ?thesis using True by (metis select_loop.simps(2))
  next
    case False
    obtain xs ys where xy: "b # as = xs @ select_loop b as # ys"
      and w: "\<forall>x\<in>set xs. \<not> better_or_equal x (select_loop b as)"
      using Cons.IH by blast
    show ?thesis
    proof (cases xs)
      case Nil
      then have "b = select_loop b as" using xy by (metis append_Nil list.inject)
      then show ?thesis using False by (metis append_Nil empty_iff list.set(1) select_loop.simps(2))
    next
      case (Cons x xs')
      then have x: "x = b" "as = xs' @ select_loop b as # ys" using xy by auto
      have "better_or_equal b a" using False by (simp add: prefer_agent_iff)
      moreover have "\<not> better_or_equal b (select_loop b as)"
        using w Cons x by simp
      ultimately have "\<not> better_or_equal a (select_loop b as)"
        using better_or_equal_trans by blast
      then have "b # a # as = (b # a # xs') @ select_loop b as # ys \<and>
        (\<forall>x\<in>set (b # a # xs'). \<not> better_or_equal x (select_loop b as))"
        using x w Cons by auto
      then show ?thesis using False by (metis select_loop.simps(2))
    qed
  qed
qed (auto intro!: exI [of _ "[]"])

subsection \<open>The interface\<close>

locale agent_selector =
  fixes sel :: "Agent list \<Rightarrow> Agent res"
  assumes sel_mem: "sel as = Inr a \<Longrightarrow> a \<in> set as"
    and sel_some: "as \<noteq> [] \<Longrightarrow> isOk (sel as)"
begin

lemma sel_empty: "\<not> isOk (sel [])"
  by (cases "sel []") (auto dest: sel_mem)

lemma sel_ok_iff: "isOk (sel as) \<longleftrightarrow> as \<noteq> []"
  using sel_some sel_empty by blast

end

interpretation leastbusy: agent_selector Select
proof unfold_locales
  fix as a
  assume "Select as = Inr a"
  then show "a \<in> set as"
    using select_loop_mem by (fastforce simp: Select_def split: list.splits)
next
  fix as :: "Agent list"
  assume "as \<noteq> []"
  then show "isOk (Select as)"
    by (simp add: Select_def split: list.split)
qed

end
