(* ===== verification/Transport.thy ===== *)
theory Transport
  imports ControllerStore
begin

section \<open>Dispatch over HTTP (controller/transport/rest.go)\<close>

text \<open>
  \<open>RESTTransport.Dispatch\<close> and \<open>Cancel\<close>: resolve the agent's address in the database, send one
  POST, map the status code to an error. Every request that reaches the network is recorded in
  \<open>w_sent\<close>, whether or not a reply comes back. \<open>url_ok\<close> is the URL check of
  \<open>http.NewRequestWithContext\<close>.
\<close>

definition http_Do :: "http_request \<Rightarrow> world \<Rightarrow> http_reply \<times> world" where
  "http_Do req w = (w_http w (length (w_sent w)), w\<lparr>w_sent := w_sent w @ [req]\<rparr>)"

definition StatusAccepted :: nat where "StatusAccepted = 202"
definition StatusNotFound :: nat where "StatusNotFound = 404"

definition Dispatch :: "(string \<Rightarrow> bool) \<Rightarrow> uuid \<Rightarrow> JobPayload \<Rightarrow> (world, unit) prog" where
  "Dispatch url_ok agentID payload w =
     (case cstore_GetAgentAddress agentID w of
        (Inl e, w1) \<Rightarrow> (Inl (Wrapped ''dispatch: resolve agent address'' e), w1)
      | (Inr addr, w1) \<Rightarrow>
          (let url = addr @ ''/dispatch''
           in if \<not> url_ok url then (Inl (Wrapped ''dispatch: build request'' (ErrMsg url)), w1)
              else (case http_Do \<lparr>Req_Method = ''POST'', Req_URL = url,
                                   Req_Body = PayloadBody payload\<rparr> w1 of
                 (NoReply e, w2) \<Rightarrow> (Inl (Wrapped ''dispatch: post to agent'' (ErrMsg e)), w2)
               | (Reply code, w2) \<Rightarrow>
                   if code \<noteq> StatusAccepted then (Inl (ErrMsg (''dispatch: agent returned '' @ fmt_d code)), w2)
                   else (Inr (), w2))))"

definition Cancel :: "(string \<Rightarrow> bool) \<Rightarrow> uuid \<Rightarrow> uuid \<Rightarrow> (world, unit) prog" where
  "Cancel url_ok agentID jobID w =
     (case cstore_GetAgentAddress agentID w of
        (Inl e, w1) \<Rightarrow> (Inl (Wrapped ''cancel: resolve agent address'' e), w1)
      | (Inr addr, w1) \<Rightarrow>
          (let url = addr @ ''/jobs/'' @ uuid_String jobID @ ''/cancel''
           in if \<not> url_ok url then (Inl (Wrapped ''cancel: build request'' (ErrMsg url)), w1)
              else (case http_Do \<lparr>Req_Method = ''POST'', Req_URL = url, Req_Body = NoBody\<rparr> w1 of
                 (NoReply e, w2) \<Rightarrow> (Inl (Wrapped ''cancel: post to agent'' (ErrMsg e)), w2)
               | (Reply code, w2) \<Rightarrow>
                   if code \<noteq> StatusAccepted \<and> code \<noteq> StatusNotFound
                   then (Inl (ErrMsg (''cancel: agent returned '' @ fmt_d code)), w2)
                   else (Inr (), w2))))"

text \<open>The jobs whose payload was sent to some agent, in order.\<close>

fun req_job :: "http_request \<Rightarrow> uuid list" where
  "req_job r = (case Req_Body r of NoBody \<Rightarrow> [] | PayloadBody p \<Rightarrow> [Payload_JobID p])"

definition dispatched_jobs :: "world \<Rightarrow> uuid list" where
  "dispatched_jobs w = concat (map req_job (w_sent w))"

lemma cstore_GetAgentAddress_frame:
  "cstore_GetAgentAddress a w = (r, w') \<Longrightarrow> net_frame w w'"
  using exec_frame [of w "GetAgentAddress_stmt a"]
  by (simp add: cstore_GetAgentAddress_def exec_ctx_def split_beta)

lemmas address_frameD = cstore_GetAgentAddress_frame [unfolded net_frame_def]

lemma Dispatch_env: "w_env (snd (Dispatch url_ok a p w)) = w_env w"
  by (auto simp: Dispatch_def http_Do_def Let_def dest!: address_frameD
      split: prod.splits sum.splits http_reply.splits)

lemma Dispatch_db:
  "w_db (snd (Dispatch url_ok a p w)) = w_db (snd (cstore_GetAgentAddress a w))"
  by (auto simp: Dispatch_def http_Do_def Let_def split: prod.splits sum.splits http_reply.splits)

lemma Dispatch_sends:
  "dispatched_jobs (snd (Dispatch url_ok a p w)) \<in>
     {dispatched_jobs w, dispatched_jobs w @ [Payload_JobID p]}"
  by (auto simp: Dispatch_def http_Do_def Let_def dispatched_jobs_def dest!: address_frameD
      split: prod.splits sum.splits http_reply.splits)

text \<open>An acknowledged dispatch did reach the network.\<close>

lemma Dispatch_ok_sent:
  assumes "fst (Dispatch url_ok a p w) = Inr u"
  shows "dispatched_jobs (snd (Dispatch url_ok a p w)) = dispatched_jobs w @ [Payload_JobID p]"
    and "w_http w (length (w_sent w)) = Reply StatusAccepted"
  using assms
  by (auto simp: Dispatch_def http_Do_def Let_def dispatched_jobs_def dest!: address_frameD
      split: prod.splits sum.splits http_reply.splits if_splits)

end
