(* ===== verification/Reconciler.thy ===== *)
theory Reconciler
  imports Secrets Selector Transport
begin

section \<open>The reconciliation loop (controller/internal/reconciler/reconciler.go)\<close>

text \<open>
  The reconciler is written against interfaces, and so is its model: the record \<open>jobStore\<close> holds
  the methods of the Go interface of that name, \<open>Reconciler\<close> the struct with the store, the secrets
  provider, the selector, the transport and the configuration. Every method is a program over an
  arbitrary state type. \<open>tick\<close> is one iteration of \<open>Run\<close>; logging is left out.

  The locale \<open>claiming_store\<close> is the contract the loop relies on: jobs are claimed by a
  compare-and-set on their status and never become unclaimed, and nothing but the transport sends
  payloads. From it follows that one tick sends at most one payload per job and only for jobs it
  claimed itself. \<open>reliable_store\<close> adds that an answer always comes, from which every fetched job
  is settled by the end of the pass. Both are interpreted on the PostgreSQL store, where the
  environment may run any other process between two statements.
\<close>

record 's jobStore =
  GetPendingJobs :: "('s, Job list) prog"
  GetStuckDispatchedJobs :: "duration \<Rightarrow> ('s, Job list) prog"
  GetStuckRunningJobs :: "duration \<Rightarrow> ('s, Job list) prog"
  TransitionJob :: "uuid \<Rightarrow> JobStatus \<Rightarrow> JobStatus \<Rightarrow> uuid option \<Rightarrow> string \<Rightarrow> ('s, bool) prog"
  GetAvailableAgents :: "duration \<Rightarrow> ('s, Agent list) prog"
  GetJobTemplate :: "uuid \<Rightarrow> ('s, JobTemplate) prog"
  GetProject :: "uuid \<Rightarrow> ('s, Project) prog"
  GetInventoryHosts :: "uuid \<Rightarrow> ('s, InventoryHost list) prog"
  GetCredentialWithSecret :: "uuid \<Rightarrow> ('s, Credential) prog"

record RecConfig =
  Rec_APIURL :: string
  Rec_HeartbeatTTL :: duration
  Rec_DispatchTimeout :: duration
  Rec_RunningTimeout :: duration

record 's Reconciler =
  rec_store :: "'s jobStore"
  rec_secrets :: "uuid \<Rightarrow> ('s, CredentialSecret) prog"
  rec_selector :: "Agent list \<Rightarrow> Agent res"
  rec_dispatch :: "uuid \<Rightarrow> JobPayload \<Rightarrow> ('s, unit) prog"
  rec_cfg :: RecConfig

text \<open>The decryption step of \<open>buildPayload\<close>: at most one credential, the template's.\<close>

definition resolve_creds :: "'s Reconciler \<Rightarrow> uuid option \<Rightarrow> ('s, CredentialSecret list) prog" where
  "resolve_creds r credentialID s =
     (case credentialID of
        None \<Rightarrow> (Inr [], s)
      | Some i \<Rightarrow>
          (case rec_secrets r i s of
             (Inl e, s') \<Rightarrow> (Inl (Wrapped ''resolve credential'' e), s')
           | (Inr secret, s') \<Rightarrow> (Inr [secret], s')))"

definition buildPayload :: "'s Reconciler \<Rightarrow> Job \<Rightarrow> uuid \<Rightarrow> ('s, JobPayload) prog" where
  "buildPayload r job agentID s =
     (case GetJobTemplate (rec_store r) (Job_TemplateID job) s of
        (Inl e, s1) \<Rightarrow> (Inl (Wrapped ''get template'' e), s1)
      | (Inr tmpl, s1) \<Rightarrow>
     (case GetProject (rec_store r) (Template_ProjectID tmpl) s1 of
        (Inl e, s2) \<Rightarrow> (Inl (Wrapped ''get project'' e), s2)
      | (Inr project, s2) \<Rightarrow>
     (case GetInventoryHosts (rec_store r) (Template_ProjectID tmpl) s2 of
        (Inl e, s3) \<Rightarrow> (Inl (Wrapped ''get inventory'' e), s3)
      | (Inr hosts, s3) \<Rightarrow>
     (let extraVars = go_merge (go_merge [] (Template_DefaultExtraVars tmpl)) (Job_ExtraVars job)
      in case resolve_creds r (Template_CredentialID tmpl) s3 of
        (Inl e, s4) \<Rightarrow> (Inl e, s4)
      | (Inr creds, s4) \<Rightarrow>
          (Inr \<lparr>Payload_JobID = Job_ID job, Payload_TemplateID = Job_TemplateID job,
                Payload_Playbook = Template_Playbook tmpl, Payload_Inventory = hosts,
                Payload_ExtraVars = extraVars, Payload_Credentials = creds,
                Payload_CallbackURL = Rec_APIURL (rec_cfg r),
                Payload_RepoURL = Project_RepoURL project,
                Payload_RepoBranch = Project_Branch project\<rparr>, s4)))))"

definition dispatchOne :: "'s Reconciler \<Rightarrow> Job \<Rightarrow> Agent list \<Rightarrow> ('s, unit) prog" where
  "dispatchOne r job agents s =
     (case rec_selector r agents of
        Inl e \<Rightarrow> (Inl (Wrapped ''agent selection'' e), s)
      | Inr agent \<Rightarrow>
     (case buildPayload r job (Agent_ID agent) s of
        (Inl e, s1) \<Rightarrow> (Inl (Wrapped ''build payload'' e), s1)
      | (Inr payload, s1) \<Rightarrow>
     (case TransitionJob (rec_store r) (Job_ID job) JobStatusPending JobStatusDispatched
             (Some (Agent_ID agent)) '''' s1 of
        (Inl e, s2) \<Rightarrow> (Inl (Wrapped ''mark dispatched'' e), s2)
      | (Inr False, s2) \<Rightarrow> (Inr (), s2)
      | (Inr True, s2) \<Rightarrow>
     (case rec_dispatch r (Agent_ID agent) payload s2 of
        (Inr _, s3) \<Rightarrow> (Inr (), s3)
      | (Inl e, s3) \<Rightarrow>
     (case TransitionJob (rec_store r) (Job_ID job) JobStatusDispatched JobStatusFailed None
             (''agent dispatch error: '' @ error_text e) s3 of
        (Inl terr, s4) \<Rightarrow> (Inl terr, s4)
      | (Inr _, s4) \<Rightarrow> (Inr (), s4))))))"

text \<open>The loop of \<open>dispatchPending\<close> over the fetched jobs.\<close>

fun dispatch_jobs :: "'s Reconciler \<Rightarrow> Agent list \<Rightarrow> Job list \<Rightarrow> 's \<Rightarrow> 's" where
  "dispatch_jobs r agents [] s = s"
| "dispatch_jobs r agents (job # jobs) s =
     (case dispatchOne r job agents s of
        (Inr _, s1) \<Rightarrow> dispatch_jobs r agents jobs s1
      | (Inl e, s1) \<Rightarrow>
          dispatch_jobs r agents jobs
            (snd (TransitionJob (rec_store r) (Job_ID job) JobStatusPending JobStatusFailed None
                    (''dispatch error: '' @ error_text e) s1)))"

definition dispatchPending :: "'s Reconciler \<Rightarrow> 's \<Rightarrow> 's" where
  "dispatchPending r s =
     (case GetPendingJobs (rec_store r) s of
        (Inl e, s1) \<Rightarrow> s1
      | (Inr jobs, s1) \<Rightarrow>
          if length jobs = 0 then s1
          else (case GetAvailableAgents (rec_store r) (Rec_HeartbeatTTL (rec_cfg r)) s1 of
             (Inl e, s2) \<Rightarrow> s2
           | (Inr agents, s2) \<Rightarrow> dispatch_jobs r agents jobs s2))"

fun fail_jobs :: "'s Reconciler \<Rightarrow> JobStatus \<Rightarrow> string \<Rightarrow> Job list \<Rightarrow> 's \<Rightarrow> 's" where
  "fail_jobs r status reason [] s = s"
| "fail_jobs r status reason (job # jobs) s =
     fail_jobs r status reason jobs
       (snd (TransitionJob (rec_store r) (Job_ID job) status JobStatusFailed None reason s))"

definition failStuckJobs :: "'s Reconciler \<Rightarrow> JobStatus \<Rightarrow> duration \<Rightarrow> string \<Rightarrow> 's \<Rightarrow> 's" where
  "failStuckJobs r status timeout reason s =
     (let (res, s1) = (case status of
            JobStatusDispatched \<Rightarrow> GetStuckDispatchedJobs (rec_store r) timeout s
          | JobStatusRunning \<Rightarrow> GetStuckRunningJobs (rec_store r) timeout s
          | _ \<Rightarrow> (Inr [], s))
      in case res of Inl e \<Rightarrow> s1 | Inr jobs \<Rightarrow> fail_jobs r status reason jobs s1)"

definition dispatch_timeout_reason :: string where
  "dispatch_timeout_reason = ''dispatch timeout: agent never reported running''"

definition running_timeout_reason :: string where
  "running_timeout_reason = ''running timeout: agent stopped reporting''"

definition failStuck :: "'s Reconciler \<Rightarrow> 's \<Rightarrow> 's" where
  "failStuck r s =
     failStuckJobs r JobStatusRunning (Rec_RunningTimeout (rec_cfg r)) running_timeout_reason
       (failStuckJobs r JobStatusDispatched (Rec_DispatchTimeout (rec_cfg r))
          dispatch_timeout_reason s)"

definition tick :: "'s Reconciler \<Rightarrow> 's \<Rightarrow> 's" where
  "tick r s = failStuck r (dispatchPending r s)"

text \<open>\<open>main\<close> wires the reconciler to the database, the cipher, the selector and the transport.\<close>

definition pg_store :: "world jobStore" where
  "pg_store = \<lparr>
     GetPendingJobs = cstore_GetPendingJobs,
     GetStuckDispatchedJobs = cstore_GetStuckDispatchedJobs,
     GetStuckRunningJobs = cstore_GetStuckRunningJobs,
     TransitionJob = cstore_TransitionJob,
     GetAvailableAgents = cstore_GetAvailableAgents,
     GetJobTemplate = cstore_GetJobTemplate,
     GetProject = cstore_GetProject,
     GetInventoryHosts = cstore_GetInventoryHosts,
     GetCredentialWithSecret = cstore_GetCredentialWithSecret\<rparr>"

definition pg_reconciler ::
  "crypto \<Rightarrow> string \<Rightarrow> (string \<Rightarrow> bool) \<Rightarrow> RecConfig \<Rightarrow> world Reconciler" where
  "pg_reconciler cr key url_ok cfg = \<lparr>
     rec_store = pg_store,
     rec_secrets = Resolve cr key,
     rec_selector = Select,
     rec_dispatch = Dispatch url_ok,
     rec_cfg = cfg\<rparr>"

subsection \<open>The contract of the loop\<close>

definition claimed :: "('s \<Rightarrow> uuid \<Rightarrow> JobStatus option) \<Rightarrow> 's \<Rightarrow> uuid \<Rightarrow> bool" where
  "claimed view s i \<longleftrightarrow> (\<exists>st. view s i = Some st \<and> st \<noteq> JobStatusPending)"

text \<open>How the state may change: known jobs stay known, claimed jobs stay claimed.\<close>

definition evolves ::
  "('s \<Rightarrow> uuid \<Rightarrow> JobStatus option) \<Rightarrow> ('s \<Rightarrow> bool) \<Rightarrow> 's \<Rightarrow> 's \<Rightarrow> bool" where
  "evolves view good s s' \<longleftrightarrow> good s' \<and> (\<forall>i. view s i \<noteq> None \<longrightarrow> view s' i \<noteq> None) \<and>
     (\<forall>i. claimed view s i \<longrightarrow> claimed view s' i)"

text \<open>Payloads sent for a job, plus one while the job can still be claimed.\<close>

definition spend ::
  "('s \<Rightarrow> uuid \<Rightarrow> JobStatus option) \<Rightarrow> ('s \<Rightarrow> uuid list) \<Rightarrow> 's \<Rightarrow> uuid \<Rightarrow> nat" where
  "spend view sent s i = count_list (sent s) i + (if claimed view s i then 0 else 1)"

definition silent ::
  "('s \<Rightarrow> uuid \<Rightarrow> JobStatus option) \<Rightarrow> ('s \<Rightarrow> uuid list) \<Rightarrow> ('s \<Rightarrow> bool) \<Rightarrow> 's \<Rightarrow> 's \<Rightarrow> bool" where
  "silent view sent good s s' \<longleftrightarrow> evolves view good s s' \<and> sent s' = sent s"

definition pays ::
  "('s \<Rightarrow> uuid \<Rightarrow> JobStatus option) \<Rightarrow> ('s \<Rightarrow> uuid list) \<Rightarrow> ('s \<Rightarrow> bool) \<Rightarrow> 's \<Rightarrow> 's \<Rightarrow> bool" where
  "pays view sent good s s' \<longleftrightarrow> evolves view good s s' \<and>
     (\<forall>i. spend view sent s' i \<le> spend view sent s i)"

lemma evolves_trans: "evolves v g a b \<Longrightarrow> evolves v g b c \<Longrightarrow> evolves v g a c"
  by (simp add: evolves_def)

lemma evolves_refl: "g s \<Longrightarrow> evolves v g s s"
  by (simp add: evolves_def)

lemma evolves_goodD: "evolves v g s s' \<Longrightarrow> g s'"
  by (simp add: evolves_def)

lemma evolves_claimedD: "evolves v g s s' \<Longrightarrow> claimed v s i \<Longrightarrow> claimed v s' i"
  by (simp add: evolves_def)

lemma evolves_knownD: "evolves v g s s' \<Longrightarrow> v s i \<noteq> None \<Longrightarrow> v s' i \<noteq> None"
  by (simp add: evolves_def)

lemma silent_trans: "silent v n g a b \<Longrightarrow> silent v n g b c \<Longrightarrow> silent v n g a c"
  by (auto simp: silent_def intro: evolves_trans)

lemma silent_refl: "g s \<Longrightarrow> silent v n g s s"
  by (simp add: silent_def evolves_refl)

lemma silent_goodD: "silent v n g s s' \<Longrightarrow> g s'"
  by (simp add: silent_def evolves_def)

lemma silent_pays: "silent v n g s s' \<Longrightarrow> pays v n g s s'"
  by (auto simp: silent_def pays_def spend_def evolves_def)

lemma pays_trans: "pays v n g a b \<Longrightarrow> pays v n g b c \<Longrightarrow> pays v n g a c"
  by (auto simp: pays_def intro: evolves_trans order_trans)

lemma pays_refl: "g s \<Longrightarrow> pays v n g s s"
  by (simp add: pays_def evolves_refl)

lemma pays_evolves: "pays v n g s s' \<Longrightarrow> evolves v g s s'"
  by (simp add: pays_def)

lemma pays_goodD: "pays v n g s s' \<Longrightarrow> g s'"
  by (simp add: pays_def evolves_def)

text \<open>The step that pays for a payload: from unclaimed to claimed.\<close>

lemma claim_then_send:
  assumes 1: "silent v n g s1 s2" and un: "\<not> claimed v s1 i" and cl: "claimed v s2 i"
    and 2: "evolves v g s2 s3" and sent: "n s3 \<in> {n s2, n s2 @ [i]}"
  shows "pays v n g s1 s3"
proof -
  have ev: "evolves v g s1 s3" using 1 2 by (auto simp: silent_def intro: evolves_trans)
  have "spend v n s3 k \<le> spend v n s1 k" for k
  proof (cases "k = i")
    case True
    have "claimed v s3 i" using 2 cl by (rule evolves_claimedD)
    moreover have "count_list (n s3) i \<le> count_list (n s1) i + 1"
      using sent 1 by (auto simp: silent_def)
    ultimately show ?thesis using un True by (simp add: spend_def)
  next
    case False
    then have "count_list (n s3) k = count_list (n s1) k"
      using sent 1 by (auto simp: silent_def)
    then show ?thesis using ev by (auto simp: spend_def dest: evolves_claimedD)
  qed
  with ev show ?thesis by (simp add: pays_def)
qed

lemma buildPayload_JobID:
  "buildPayload r job a s = (Inr p, s') \<Longrightarrow> Payload_JobID p = Job_ID job"
  by (auto simp: buildPayload_def Let_def split: prod.splits sum.splits)

text \<open>The states that one call of \<open>dispatchOne\<close> goes through.\<close>

lemma dispatchOne_stages:
  assumes "dispatchOne r job agents s = (x, s')"
  obtains (early) e s1 where "x = Inl e" and "s1 = s \<or> (\<exists>y ag. buildPayload r job ag s = (y, s1))"
      and "s' = s1"
  | (unclaimed) ag p s1 y where "buildPayload r job ag s = (Inr p, s1)"
      and "TransitionJob (rec_store r) (Job_ID job) JobStatusPending JobStatusDispatched
             (Some ag) '''' s1 = (y, s')" and "y \<noteq> Inr True" and "isOk x = isOk y"
  | (sent) ag p s1 s2 where "buildPayload r job ag s = (Inr p, s1)"
      and "TransitionJob (rec_store r) (Job_ID job) JobStatusPending JobStatusDispatched
             (Some ag) '''' s1 = (Inr True, s2)"
      and "rec_dispatch r ag p s2 = (Inr (), s')" and "x = Inr ()"
  | (refused) ag p s1 s2 s3 e rs y where "buildPayload r job ag s = (Inr p, s1)"
      and "TransitionJob (rec_store r) (Job_ID job) JobStatusPending JobStatusDispatched
             (Some ag) '''' s1 = (Inr True, s2)"
      and "rec_dispatch r ag p s2 = (Inl e, s3)"
      and "TransitionJob (rec_store r) (Job_ID job) JobStatusDispatched JobStatusFailed None rs s3
             = (y, s')"
proof (cases "rec_selector r agents")
  case (Inl e)
  then show thesis using assms early by (auto simp: dispatchOne_def)
next
  case (Inr agent)
  let ?ag = "Agent_ID agent"
  obtain x1 s1 where 1: "buildPayload r job ?ag s = (x1, s1)" by fastforce
  show thesis
  proof (cases x1)
    case (Inl e)
    then show thesis using assms 1 Inr early by (auto simp: dispatchOne_def)
  next
    case p: (Inr p)
    obtain x2 s2 where 2: "TransitionJob (rec_store r) (Job_ID job) JobStatusPending
        JobStatusDispatched (Some ?ag) '''' s1 = (x2, s2)" by fastforce
    show thesis
    proof (cases "x2 = Inr True")
      case False
      then have "s' = s2 \<and> isOk x = isOk x2"
        using assms 1 2 p Inr by (auto simp: dispatchOne_def split: sum.splits bool.splits)
      then show thesis using unclaimed 1 2 p False by blast
    next
      case True
      obtain x3 s3 where 3: "rec_dispatch r ?ag p s2 = (x3, s3)" by fastforce
      show thesis
      proof (cases x3)
        case (Inl e)
        then show thesis
          using assms 1 2 3 p Inr True refused
          by (auto simp: dispatchOne_def split: sum.splits prod.splits)
      next
        case unit: (Inr u)
        then have "x = Inr () \<and> s' = s3"
          using assms 1 2 3 p Inr True by (simp add: dispatchOne_def)
        then show thesis using sent [of ?ag p s1 s2] 1 2 3 p True unit by simp
      qed
    qed
  qed
qed

locale claiming_store =
  fixes r :: "'s Reconciler"
    and view :: "'s \<Rightarrow> uuid \<Rightarrow> JobStatus option"
    and sent :: "'s \<Rightarrow> uuid list"
    and good :: "'s \<Rightarrow> bool"
  assumes pending_silent: "good s \<Longrightarrow> silent view sent good s (snd (GetPendingJobs (rec_store r) s))"
    and stuck_dispatched_silent:
      "good s \<Longrightarrow> silent view sent good s (snd (GetStuckDispatchedJobs (rec_store r) t s))"
    and stuck_running_silent:
      "good s \<Longrightarrow> silent view sent good s (snd (GetStuckRunningJobs (rec_store r) t s))"
    and agents_silent: "good s \<Longrightarrow> silent view sent good s (snd (GetAvailableAgents (rec_store r) t s))"
    and template_silent: "good s \<Longrightarrow> silent view sent good s (snd (GetJobTemplate (rec_store r) i s))"
    and project_silent: "good s \<Longrightarrow> silent view sent good s (snd (GetProject (rec_store r) i s))"
    and hosts_silent: "good s \<Longrightarrow> silent view sent good s (snd (GetInventoryHosts (rec_store r) i s))"
    and secrets_silent: "good s \<Longrightarrow> silent view sent good s (snd (rec_secrets r i s))"
    and trans_silent: "good s \<Longrightarrow> to \<noteq> JobStatusPending \<Longrightarrow>
      silent view sent good s (snd (TransitionJob (rec_store r) i from to a rs s))"
    and trans_claims: "good s \<Longrightarrow> to \<noteq> JobStatusPending \<Longrightarrow>
      fst (TransitionJob (rec_store r) i JobStatusPending to a rs s) = Inr True \<Longrightarrow>
      \<not> claimed view s i \<and>
      claimed view (snd (TransitionJob (rec_store r) i JobStatusPending to a rs s)) i"
    and trans_settles: "good s \<Longrightarrow> to \<noteq> JobStatusPending \<Longrightarrow> view s i \<noteq> None \<Longrightarrow>
      isOk (fst (TransitionJob (rec_store r) i JobStatusPending to a rs s)) \<Longrightarrow>
      claimed view (snd (TransitionJob (rec_store r) i JobStatusPending to a rs s)) i"
    and pending_known: "good s \<Longrightarrow> fst (GetPendingJobs (rec_store r) s) = Inr js \<Longrightarrow>
      j \<in> set js \<Longrightarrow> view (snd (GetPendingJobs (rec_store r) s)) (Job_ID j) \<noteq> None"
    and dispatch_evolves: "good s \<Longrightarrow> evolves view good s (snd (rec_dispatch r ag p s))"
    and dispatch_sends: "good s \<Longrightarrow>
      sent (snd (rec_dispatch r ag p s)) \<in> {sent s, sent s @ [Payload_JobID p]}"
begin

lemma resolve_creds_silent: "good s \<Longrightarrow> silent view sent good s (snd (resolve_creds r c s))"
  using secrets_silent [of s]
  by (auto simp: resolve_creds_def silent_refl split: option.split prod.splits sum.splits)
     (metis snd_conv)+

text \<open>The same facts about a call whose result has been taken apart.\<close>

lemma reads_silent:
  assumes "good s"
  shows "GetPendingJobs (rec_store r) s = (x1, s') \<Longrightarrow> silent view sent good s s'"
    and "GetStuckDispatchedJobs (rec_store r) t s = (x2, s') \<Longrightarrow> silent view sent good s s'"
    and "GetStuckRunningJobs (rec_store r) t s = (x3, s') \<Longrightarrow> silent view sent good s s'"
    and "GetAvailableAgents (rec_store r) t s = (x4, s') \<Longrightarrow> silent view sent good s s'"
    and "GetJobTemplate (rec_store r) i s = (x5, s') \<Longrightarrow> silent view sent good s s'"
    and "GetProject (rec_store r) i s = (x6, s') \<Longrightarrow> silent view sent good s s'"
    and "GetInventoryHosts (rec_store r) i s = (x7, s') \<Longrightarrow> silent view sent good s s'"
    and "resolve_creds r c s = (x8, s') \<Longrightarrow> silent view sent good s s'"
  using pending_silent [OF assms] stuck_dispatched_silent [OF assms] stuck_running_silent [OF assms]
    agents_silent [OF assms] template_silent [OF assms] project_silent [OF assms]
    hosts_silent [OF assms] resolve_creds_silent [OF assms]
  by (metis snd_conv)+

lemma trans_step:
  assumes "good s" and "TransitionJob (rec_store r) i from to a rs s = (x, s')"
    and "to \<noteq> JobStatusPending"
  shows "silent view sent good s s'"
  using trans_silent [of s to i "from" a rs] assms by simp

lemma trans_claim_step:
  assumes "good s" and "TransitionJob (rec_store r) i JobStatusPending to a rs s = (Inr True, s')"
    and "to \<noteq> JobStatusPending"
  shows "\<not> claimed view s i" and "claimed view s' i"
  using trans_claims [of s to i a rs] assms by simp_all

lemma trans_settle_step:
  assumes "good s" and "TransitionJob (rec_store r) i JobStatusPending to a rs s = (Inr b, s')"
    and "to \<noteq> JobStatusPending" and "view s i \<noteq> None"
  shows "claimed view s' i"
  using trans_settles [of s to i a rs] assms by simp

lemma buildPayload_silent:
  assumes "good s" and "buildPayload r job ag s = (x, s')"
  shows "silent view sent good s s'"
proof -
  obtain x1 s1 where 1: "GetJobTemplate (rec_store r) (Job_TemplateID job) s = (x1, s1)"
    by fastforce
  note e1 = reads_silent(5) [OF assms(1) 1]
  show ?thesis
  proof (cases x1)
    case (Inl e)
    then show ?thesis using assms(2) 1 e1 by (simp add: buildPayload_def)
  next
    case (Inr tmpl)
    obtain x2 s2 where 2: "GetProject (rec_store r) (Template_ProjectID tmpl) s1 = (x2, s2)"
      by fastforce
    note e2 = silent_trans [OF e1 reads_silent(6) [OF silent_goodD [OF e1] 2]]
    obtain x3 s3 where 3: "GetInventoryHosts (rec_store r) (Template_ProjectID tmpl) s2 = (x3, s3)"
      by fastforce
    note e3 = silent_trans [OF e2 reads_silent(7) [OF silent_goodD [OF e2] 3]]
    obtain x4 s4 where 4: "resolve_creds r (Template_CredentialID tmpl) s3 = (x4, s4)"
      by fastforce
    note e4 = silent_trans [OF e3 reads_silent(8) [OF silent_goodD [OF e3] 4]]
    show ?thesis
      using assms(2) 1 2 3 4 Inr e2 e3 e4
      by (auto simp: buildPayload_def Let_def split: sum.splits)
  qed
qed

text \<open>One job: at most one payload, paid for by the claim.\<close>

lemma claim_send_pays:
  assumes g: "good s" and 1: "buildPayload r job ag s = (Inr p, s1)"
    and 2: "TransitionJob (rec_store r) (Job_ID job) JobStatusPending JobStatusDispatched
             (Some ag) '''' s1 = (Inr True, s2)"
    and 3: "rec_dispatch r ag p s2 = (x, s3)"
  shows "pays view sent good s s3" and "claimed view s3 (Job_ID job)"
proof -
  note e1 = buildPayload_silent [OF g 1]
  note e2 = trans_step [OF silent_goodD [OF e1] 2, simplified]
  note c = trans_claim_step [OF silent_goodD [OF e1] 2, simplified]
  have ev: "evolves view good s2 s3"
    using dispatch_evolves [OF silent_goodD [OF e2], of ag p] 3 by simp
  have "sent s3 \<in> {sent s2, sent s2 @ [Job_ID job]}"
    using dispatch_sends [OF silent_goodD [OF e2], of ag p] 3 buildPayload_JobID [OF 1] by simp
  then have "pays view sent good s1 s3"
    using claim_then_send [OF e2 c ev] by simp
  then show "pays view sent good s s3"
    by (rule pays_trans [OF silent_pays [OF e1]])
  show "claimed view s3 (Job_ID job)" using ev c(2) by (rule evolves_claimedD)
qed

lemma dispatchOne_pays:
  assumes g: "good s" and res: "dispatchOne r job agents s = (x, s')"
  shows "pays view sent good s s'"
  using res
proof (cases rule: dispatchOne_stages)
  case (early e s1)
  then show ?thesis
    using g by (auto intro: pays_refl silent_pays dest: buildPayload_silent)
next
  case (unclaimed ag p s1 y)
  note e1 = buildPayload_silent [OF g unclaimed(1)]
  have "silent view sent good s1 s'"
    using trans_step [OF silent_goodD [OF e1] unclaimed(2)] by simp
  then show ?thesis using e1 by (blast intro: silent_pays silent_trans)
next
  case (sent ag p s1 s2)
  then show ?thesis using claim_send_pays(1) [OF g] by blast
next
  case (refused ag p s1 s2 s3 e rs y)
  note p3 = claim_send_pays(1) [OF g refused(1-3)]
  have "silent view sent good s3 s'"
    using trans_step [OF pays_goodD [OF p3] refused(4)] by simp
  then show ?thesis using p3 by (blast intro: silent_pays pays_trans)
qed

text \<open>If the answer is positive, the job is settled.\<close>

lemma dispatchOne_settles:
  assumes g: "good s" and res: "dispatchOne r job agents s = (Inr u, s')"
    and known: "view s (Job_ID job) \<noteq> None"
  shows "claimed view s' (Job_ID job)"
  using res
proof (cases rule: dispatchOne_stages)
  case (unclaimed ag p s1 y)
  note e1 = buildPayload_silent [OF g unclaimed(1)]
  have "view s1 (Job_ID job) \<noteq> None"
    using e1 known by (auto simp: silent_def dest: evolves_knownD)
  moreover obtain b where "y = Inr b" using unclaimed(4) by (auto elim: isOkE)
  ultimately show ?thesis
    using trans_settle_step [OF silent_goodD [OF e1] unclaimed(2) [unfolded \<open>y = Inr b\<close>]] by simp
next
  case (refused ag p s1 s2 s3 e rs y)
  note p3 = claim_send_pays [OF g refused(1-3)]
  have "silent view sent good s3 s'"
    using trans_step [OF pays_goodD [OF p3(1)] refused(4)] by simp
  then show ?thesis using p3(2) by (auto simp: silent_def dest: evolves_claimedD)
qed (use claim_send_pays(2) [OF g] in auto)

lemma trans_after:
  assumes "pays view sent good s s1" and "to \<noteq> JobStatusPending"
  shows "pays view sent good s (snd (TransitionJob (rec_store r) i from to a rs s1))"
  using assms(1) trans_silent [OF pays_goodD [OF assms(1)] assms(2), THEN silent_pays]
  by (rule pays_trans)

lemma dispatch_jobs_pays: "good s \<Longrightarrow> pays view sent good s (dispatch_jobs r agents jobs s)"
proof (induction jobs arbitrary: s)
  case Nil
  then show ?case by (simp add: pays_refl)
next
  case (Cons job jobs)
  obtain x s1 where 1: "dispatchOne r job agents s = (x, s1)" by fastforce
  note p1 = dispatchOne_pays [OF Cons.prems 1]
  show ?case
  proof (cases x)
    case (Inr u)
    then show ?thesis using 1 p1 Cons.IH [OF pays_goodD [OF p1]] by (auto intro: pays_trans)
  next
    case (Inl e)
    let ?s2 = "snd (TransitionJob (rec_store r) (Job_ID job) JobStatusPending JobStatusFailed None
                    (''dispatch error: '' @ error_text e) s1)"
    have p2: "pays view sent good s ?s2"
      using p1 by (simp add: trans_after)
    then show ?thesis using 1 Inl Cons.IH [OF pays_goodD [OF p2]] by (auto intro: pays_trans)
  qed
qed

lemma fail_jobs_silent:
  "good s \<Longrightarrow> silent view sent good s (fail_jobs r st rs jobs s)"
proof (induction jobs arbitrary: s)
  case (Cons job jobs)
  have "silent view sent good s
      (snd (TransitionJob (rec_store r) (Job_ID job) st JobStatusFailed None rs s))"
    using Cons.prems by (simp add: trans_silent)
  then show ?case using Cons.IH by (auto intro: silent_trans dest: silent_goodD)
qed (simp add: silent_refl)

lemma fail_jobs_after:
  assumes "silent view sent good s s1"
  shows "silent view sent good s (fail_jobs r st rs jobs s1)"
  using assms fail_jobs_silent [OF silent_goodD [OF assms]] by (rule silent_trans)

lemma failStuckJobs_silent: "good s \<Longrightarrow> silent view sent good s (failStuckJobs r st t rs s)"
  by (auto simp: failStuckJobs_def silent_refl split: JobStatus.split sum.split prod.split
      intro: fail_jobs_after reads_silent)

lemma failStuck_silent: "good s \<Longrightarrow> silent view sent good s (failStuck r s)"
  unfolding failStuck_def
  by (blast intro: silent_trans failStuckJobs_silent dest: silent_goodD [OF failStuckJobs_silent])

lemma dispatchPending_pays: "good s \<Longrightarrow> pays view sent good s (dispatchPending r s)"
proof -
  assume g: "good s"
  obtain x1 s1 where 1: "GetPendingJobs (rec_store r) s = (x1, s1)" by fastforce
  note p1 = reads_silent(1) [OF g 1, THEN silent_pays]
  obtain x2 s2 where 2: "GetAvailableAgents (rec_store r) (Rec_HeartbeatTTL (rec_cfg r)) s1 = (x2, s2)"
    by fastforce
  note p2 = pays_trans [OF p1 reads_silent(4) [OF pays_goodD [OF p1] 2, THEN silent_pays]]
  note p3 = pays_trans [OF p2 dispatch_jobs_pays [OF pays_goodD [OF p2]]]
  show ?thesis
    using 1 2 p1 p2 p3 by (auto simp: dispatchPending_def split: sum.split)
qed

lemma tick_pays: "good s \<Longrightarrow> pays view sent good s (tick r s)"
  unfolding tick_def
  using dispatchPending_pays failStuck_silent
  by (blast intro: pays_trans silent_pays dest: pays_goodD)

end

text \<open>A store that always answers: every fetched job is settled when the pass is over.\<close>

locale reliable_store = claiming_store +
  assumes trans_answers: "good s \<Longrightarrow>
    isOk (fst (TransitionJob (rec_store r) i JobStatusPending JobStatusFailed None rs s))"
begin

lemma dispatch_jobs_settles:
  assumes "good s" and "\<And>j. j \<in> set jobs \<Longrightarrow> view s (Job_ID j) \<noteq> None" and "j \<in> set jobs"
  shows "claimed view (dispatch_jobs r agents jobs s) (Job_ID j)"
  using assms
proof (induction jobs arbitrary: s)
  case Nil
  then show ?case by simp
next
  case (Cons job jobs)
  obtain x s1 where 1: "dispatchOne r job agents s = (x, s1)" by fastforce
  note p1 = dispatchOne_pays [OF Cons.prems(1) 1]
  define s2 where "s2 = (case x of Inr _ \<Rightarrow> s1 | Inl e \<Rightarrow>
      snd (TransitionJob (rec_store r) (Job_ID job) JobStatusPending JobStatusFailed None
             (''dispatch error: '' @ error_text e) s1))"
  have run: "dispatch_jobs r agents (job # jobs) s = dispatch_jobs r agents jobs s2"
    using 1 by (simp add: s2_def split: sum.split)
  have p2: "pays view sent good s s2"
    using p1 by (simp add: s2_def trans_after split: sum.split)
  have known1: "view s1 (Job_ID job) \<noteq> None"
    using Cons.prems(2) evolves_knownD [OF pays_evolves [OF p1]] by simp
  have settled: "claimed view s2 (Job_ID job)"
  proof (cases x)
    case (Inr u)
    then show ?thesis using dispatchOne_settles [OF Cons.prems(1)] 1 Cons.prems(2) by (simp add: s2_def)
  next
    case (Inl e)
    then show ?thesis
      using trans_settles [OF pays_goodD [OF p1] _ known1] trans_answers [OF pays_goodD [OF p1]]
      by (simp add: s2_def)
  qed
  show ?case
  proof (cases "j \<in> set jobs")
    case True
    have "view s2 (Job_ID k) \<noteq> None" if "k \<in> set jobs" for k
      using that Cons.prems(2) evolves_knownD [OF pays_evolves [OF p2]] by simp
    then show ?thesis using Cons.IH [OF pays_goodD [OF p2]] True run by simp
  next
    case False
    then have "j = job" using Cons.prems(3) by simp
    then show ?thesis
      using settled run evolves_claimedD [OF pays_evolves [OF dispatch_jobs_pays [OF pays_goodD [OF p2]]]]
      by simp
  qed
qed

lemma dispatchPending_settles:
  assumes g: "good s" and "GetPendingJobs (rec_store r) s = (Inr jobs, s1)"
    and "GetAvailableAgents (rec_store r) (Rec_HeartbeatTTL (rec_cfg r)) s1 = (Inr agents, s2)"
    and "j \<in> set jobs"
  shows "claimed view (dispatchPending r s) (Job_ID j)"
proof -
  note e1 = reads_silent(1) [OF g assms(2)]
  note e2 = reads_silent(4) [OF silent_goodD [OF e1] assms(3)]
  have "view s2 (Job_ID k) \<noteq> None" if "k \<in> set jobs" for k
    using pending_known [OF g, of jobs k] assms(2) that e2
    by (auto simp: silent_def evolves_def)
  then have "claimed view (dispatch_jobs r agents jobs s2) (Job_ID j)"
    using dispatch_jobs_settles [OF silent_goodD [OF e2]] assms(4) by blast
  moreover have "dispatchPending r s = dispatch_jobs r agents jobs s2"
    using assms by (auto simp: dispatchPending_def)
  ultimately show ?thesis by simp
qed

end

subsection \<open>The PostgreSQL store keeps the contract\<close>

text \<open>
  \<open>K\<close> is what is known of the environment's calls beyond the contract on jobs: nothing
  (\<open>\<lambda>_. True\<close>), or that every statement is answered (\<open>all_answered\<close>).
\<close>

definition pg_good :: "((nat \<Rightarrow> call) \<Rightarrow> bool) \<Rightarrow> world \<Rightarrow> bool" where
  "pg_good K w \<longleftrightarrow> unique_jobs (w_db w) \<and> env_respects jobs_rely w \<and> K (w_env w)"

definition all_answered :: "(nat \<Rightarrow> call) \<Rightarrow> bool" where
  "all_answered env \<longleftrightarrow> (\<forall>n. call_outcome (env n) = Done)"

abbreviation pg_view :: "world \<Rightarrow> uuid \<Rightarrow> JobStatus option" where
  "pg_view w \<equiv> status_of (w_db w)"

lemma jobs_rely_evolves:
  assumes "jobs_rely (w_db w) (w_db w')" and "pg_good K w" and "w_env w' = w_env w"
  shows "evolves pg_view (pg_good K) w w'"
  using assms
  by (fastforce simp: evolves_def pg_good_def jobs_rely_def claimed_def no_repend_def
      dest: env_respects_cong)

lemma exec_silent:
  assumes "pg_good K w" and "stmt_respects jobs_rely q"
  shows "silent pg_view dispatched_jobs (pg_good K) w (snd (exec q w))"
proof -
  have "jobs_rely (w_db w) (w_db (snd (exec q w)))"
    using assms by (intro jr.exec_rely) (simp_all add: pg_good_def)
  then have "evolves pg_view (pg_good K) w (snd (exec q w))"
    by (rule jobs_rely_evolves [OF _ assms(1)]) simp
  then show ?thesis by (simp add: silent_def dispatched_jobs_def)
qed

lemma query_silent:
  "pg_good K w \<Longrightarrow> silent pg_view dispatched_jobs (pg_good K) w (snd (exec (query f) w))"
  by (simp add: exec_silent jr.query_respects)

text \<open>What the environment leaves behind before the statement runs.\<close>

lemma env_step:
  assumes "pg_good K w"
  shows "unique_jobs (call_env (w_env w n) (w_db w))"
    and "no_repend (w_db w) (call_env (w_env w n) (w_db w))"
  using assms env_respectsD [of jobs_rely w "w_db w" n] by (simp_all add: pg_good_def jobs_rely_def)

lemma Resolve_silent:
  "pg_good K w \<Longrightarrow> silent pg_view dispatched_jobs (pg_good K) w (snd (Resolve cr key i w))"
  using query_silent [of K w "\<lambda>c d. one_row (lookup_row Cred_ID (db_credentials d) i)"]
  by (auto simp: Resolve_def cstore_GetCredentialWithSecret_def GetCredentialWithSecret_stmt_def
      exec_ctx_def Let_def split_beta silent_refl split: sum.split)

lemma Dispatch_evolves: "pg_good K w \<Longrightarrow> evolves pg_view (pg_good K) w (snd (Dispatch url_ok a p w))"
proof (rule jobs_rely_evolves)
  assume "pg_good K w"
  then show "jobs_rely (w_db w) (w_db (snd (Dispatch url_ok a p w)))"
    by (auto simp: Dispatch_db cstore_GetAgentAddress_def GetAgentAddress_stmt_def pg_good_def
        intro!: jr.query_rely)
qed (simp_all add: Dispatch_env)

lemma TransitionJob_claims:
  assumes g: "pg_good K w" and "to \<noteq> JobStatusPending"
    and ok: "fst (cstore_TransitionJob i JobStatusPending to a rs w) = Inr True"
  shows "\<not> claimed pg_view w i \<and>
    claimed pg_view (snd (cstore_TransitionJob i JobStatusPending to a rs w)) i"
proof -
  let ?c = "w_env w (w_pos w)" and ?d = "call_env (w_env w (w_pos w)) (w_db w)"
  let ?q = "TransitionJob_stmt i JobStatusPending to a rs"
  have "fst (exec ?q w) = Inr True" using ok by (simp add: cstore_TransitionJob_def)
  note q = exec_okD [OF this]
  have st: "status_of ?d i = Some JobStatusPending" "agent_exists ?d a"
    using q(1) by (auto simp: TransitionJob_result [OF env_step(1) [OF g]] split: if_splits)
  have "\<not> claimed pg_view w i"
    using st(1) env_step(2) [OF g, of "w_pos w"] by (force simp: claimed_def no_repend_def)
  moreover have "status_of (w_db (snd (exec ?q w))) i = Some to"
    by (simp add: q(2) TransitionJob_status [OF env_step(1) [OF g]] st)
  ultimately show ?thesis
    using assms(2) by (simp add: claimed_def cstore_TransitionJob_def)
qed

lemma TransitionJob_settles:
  assumes g: "pg_good K w" and "to \<noteq> JobStatusPending" and known: "pg_view w i \<noteq> None"
    and ok: "isOk (fst (cstore_TransitionJob i JobStatusPending to a rs w))"
  shows "claimed pg_view (snd (cstore_TransitionJob i JobStatusPending to a rs w)) i"
proof -
  let ?c = "w_env w (w_pos w)" and ?d = "call_env (w_env w (w_pos w)) (w_db w)"
  let ?q = "TransitionJob_stmt i JobStatusPending to a rs"
  obtain b where "fst (exec ?q w) = Inr b"
    using ok by (auto simp: cstore_TransitionJob_def elim: isOkE)
  note q = exec_okD [OF this]
  obtain s where s: "status_of ?d i = Some s"
    using known env_step(2) [OF g, of "w_pos w"] by (auto simp: no_repend_def)
  have "agent_exists ?d a" if "s = JobStatusPending"
    using that q(1) s by (auto simp: TransitionJob_result [OF env_step(1) [OF g]] split: if_splits)
  then show ?thesis
    using assms(2) s
    by (auto simp: claimed_def cstore_TransitionJob_def q(2) TransitionJob_status [OF env_step(1) [OF g]])
qed

lemma GetPendingJobs_known:
  assumes g: "pg_good K w" and "fst (cstore_GetPendingJobs w) = Inr js" and "j \<in> set js"
  shows "pg_view (snd (cstore_GetPendingJobs w)) (Job_ID j) \<noteq> None"
proof -
  let ?d = "call_env (w_env w (w_pos w)) (w_db w)"
  have "fst (exec GetPendingJobs_stmt w) = Inr js"
    using assms(2) by (simp add: cstore_GetPendingJobs_def)
  note q = exec_okD [OF this]
  have "set js \<subseteq> set (db_jobs ?d)"
    using q(1) by (auto simp: GetPendingJobs_stmt_def dest: in_set_takeD)
  then have "job_of ?d (Job_ID j) \<noteq> None"
    using assms(3) by (auto simp: lookup_row_None_iff)
  then show ?thesis
    using q(2) by (simp add: cstore_GetPendingJobs_def GetPendingJobs_stmt_def status_of_def)
qed

lemmas pg_defs = pg_reconciler_def pg_store_def

lemma pg_simps [simp]:
  "rec_store (pg_reconciler cr key url_ok cfg) = pg_store"
  "rec_secrets (pg_reconciler cr key url_ok cfg) = Resolve cr key"
  "rec_selector (pg_reconciler cr key url_ok cfg) = Select"
  "rec_dispatch (pg_reconciler cr key url_ok cfg) = Dispatch url_ok"
  "rec_cfg (pg_reconciler cr key url_ok cfg) = cfg"
  "GetPendingJobs pg_store = cstore_GetPendingJobs"
  "GetStuckDispatchedJobs pg_store = cstore_GetStuckDispatchedJobs"
  "GetStuckRunningJobs pg_store = cstore_GetStuckRunningJobs"
  "TransitionJob pg_store = cstore_TransitionJob"
  "GetAvailableAgents pg_store = cstore_GetAvailableAgents"
  "GetJobTemplate pg_store = cstore_GetJobTemplate"
  "GetProject pg_store = cstore_GetProject"
  "GetInventoryHosts pg_store = cstore_GetInventoryHosts"
  by (simp_all add: pg_defs)

interpretation pg: claiming_store "pg_reconciler cr key url_ok cfg" pg_view dispatched_jobs "pg_good K"
proof unfold_locales
  fix s to i a rs and "from" :: JobStatus
  assume "pg_good K s" "to \<noteq> JobStatusPending"
  then show "silent pg_view dispatched_jobs (pg_good K) s
      (snd (TransitionJob (rec_store (pg_reconciler cr key url_ok cfg)) i from to a rs s))"
    by (simp add: pg_defs cstore_TransitionJob_def exec_silent TransitionJob_respects)
qed (simp_all add: pg_defs cstore_GetPendingJobs_def cstore_GetStuckDispatchedJobs_def
      cstore_GetStuckRunningJobs_def cstore_GetAvailableAgents_def cstore_GetJobTemplate_def
      cstore_GetProject_def cstore_GetInventoryHosts_def stmt_defs query_silent Resolve_silent
      Dispatch_evolves Dispatch_sends [simplified] TransitionJob_claims TransitionJob_settles
      GetPendingJobs_known [unfolded cstore_GetPendingJobs_def GetPendingJobs_stmt_def, simplified])

interpretation pg_live: reliable_store "pg_reconciler cr key url_ok cfg" pg_view dispatched_jobs
  "pg_good all_answered"
proof unfold_locales
  fix s i rs
  assume "pg_good all_answered s"
  then show "isOk (fst (TransitionJob (rec_store (pg_reconciler cr key url_ok cfg)) i
      JobStatusPending JobStatusFailed None rs s))"
    by (simp add: pg_defs cstore_TransitionJob_def exec_Done TransitionJob_result env_step
        all_answered_def agent_exists_def pg_good_def)
qed

end
