(* ===== verification/Lifecycle.thy ===== *)
theory Lifecycle
  imports Reconciler
begin

section \<open>What a reconciler tick may do to the database\<close>

text \<open>
  The reconciler changes jobs only through four shapes of \<open>TransitionJob\<close> calls (\<open>rec_move\<close>). A
  relation on databases that these four shapes respect, and that the environment respects, is
  respected by a whole tick: the locale \<open>lifecycle_rely\<close> proves it once. Its interpretations are
  the safety properties of the loop: moves follow the state machine of \<open>pkg/types/job.go\<close>,
  finished jobs are left alone, no table but \<open>jobs\<close> is written, and the row invariant
  \<open>jobs_wf\<close> (who is assigned, when it ended) is kept.
\<close>

definition rec_move :: "JobStatus \<Rightarrow> JobStatus \<Rightarrow> uuid option \<Rightarrow> bool" where
  "rec_move fs ts a \<longleftrightarrow>
     fs = JobStatusPending \<and> ts = JobStatusDispatched \<and> a \<noteq> None \<or>
     fs \<in> {JobStatusPending, JobStatusDispatched, JobStatusRunning} \<and> ts = JobStatusFailed \<and> a = None"

lemma rec_move_valid: "rec_move fs ts a \<Longrightarrow> CanTransitionTo fs ts"
  by (auto simp: rec_move_def CanTransitionTo_cases)

text \<open>Everything before the claim only reads.\<close>

context db_rely
begin

lemma wrel_reads:
  "cstore_GetPendingJobs w = (x1, w') \<Longrightarrow> world_rel R w w'"
  "cstore_GetStuckDispatchedJobs t w = (x2, w') \<Longrightarrow> world_rel R w w'"
  "cstore_GetStuckRunningJobs t w = (x3, w') \<Longrightarrow> world_rel R w w'"
  "cstore_GetAvailableAgents t w = (x4, w') \<Longrightarrow> world_rel R w w'"
  "cstore_GetJobTemplate i w = (x5, w') \<Longrightarrow> world_rel R w w'"
  "cstore_GetProject i w = (x6, w') \<Longrightarrow> world_rel R w w'"
  "cstore_GetInventoryHosts i w = (x7, w') \<Longrightarrow> world_rel R w w'"
  "cstore_GetCredentialWithSecret i w = (x8, w') \<Longrightarrow> world_rel R w w'"
  "cstore_GetAgentAddress i w = (x9, w') \<Longrightarrow> world_rel R w w'"
  by (simp_all add: cstore_GetPendingJobs_def cstore_GetStuckDispatchedJobs_def
      cstore_GetStuckRunningJobs_def cstore_GetAvailableAgents_def cstore_GetJobTemplate_def
      cstore_GetProject_def cstore_GetInventoryHosts_def cstore_GetCredentialWithSecret_def
      cstore_GetAgentAddress_def stmt_defs wrel_query)

lemma wrel_Resolve: "world_rel R w (snd (Resolve cr key i w))"
  using wrel_reads(8) [of i w]
  by (auto simp: Resolve_def Let_def wrel_refl split: prod.split sum.split)

lemma wrel_Dispatch: "Dispatch url_ok a p w = (x, w') \<Longrightarrow> world_rel R w w'"
  using wrel_reads(9) [of a w "fst (cstore_GetAgentAddress a w)" "snd (cstore_GetAgentAddress a w)"]
    Dispatch_db [of url_ok a p w] Dispatch_env [of url_ok a p w]
  by (auto simp: world_rel_def)

lemma wrel_creds: "resolve_creds (pg_reconciler cr key url_ok cfg) c w = (x, w') \<Longrightarrow> world_rel R w w'"
  using wrel_Resolve [of w cr key "the c"]
  by (auto simp: resolve_creds_def wrel_refl split: option.splits prod.splits sum.splits)

lemma wrel_buildPayload:
  assumes "buildPayload (pg_reconciler cr key url_ok cfg) job ag w = (x, w')"
  shows "world_rel R w w'"
proof -
  obtain x1 w1 where 1: "cstore_GetJobTemplate (Job_TemplateID job) w = (x1, w1)" by fastforce
  note e1 = wrel_reads(5) [OF 1]
  show ?thesis
  proof (cases x1)
    case (Inl e)
    then show ?thesis using assms 1 e1 by (simp add: buildPayload_def)
  next
    case (Inr tmpl)
    obtain x2 w2 where 2: "cstore_GetProject (Template_ProjectID tmpl) w1 = (x2, w2)" by fastforce
    obtain x3 w3 where 3: "cstore_GetInventoryHosts (Template_ProjectID tmpl) w2 = (x3, w3)"
      by fastforce
    obtain x4 w4 where 4: "resolve_creds (pg_reconciler cr key url_ok cfg)
        (Template_CredentialID tmpl) w3 = (x4, w4)" by fastforce
    note e2 = wrel_trans [OF e1 wrel_reads(6) [OF 2]]
    note e3 = wrel_trans [OF e2 wrel_reads(7) [OF 3]]
    note e4 = wrel_trans [OF e3 wrel_creds [OF 4]]
    have "w' \<in> {w2, w3, w4}"
      using assms 1 2 3 4 Inr
      by (auto simp: buildPayload_def Let_def split: sum.splits)
    then show ?thesis using e2 e3 e4 by auto
  qed
qed

end

locale lifecycle_rely = db_rely +
  assumes move_respects: "rec_move fs ts a \<Longrightarrow> stmt_respects R (TransitionJob_stmt i fs ts a rs)"
begin

lemma wrel_move:
  "cstore_TransitionJob i fs ts a rs w = (x, w') \<Longrightarrow> rec_move fs ts a \<Longrightarrow> world_rel R w w'"
  by (auto simp: cstore_TransitionJob_def intro: wrel_exec move_respects)

lemma wrel_dispatchOne:
  assumes "dispatchOne (pg_reconciler cr key url_ok cfg) job agents w = (x, w')"
  shows "world_rel R w w'"
  using assms
proof (cases rule: dispatchOne_stages)
  case (early e s1)
  then show ?thesis by (auto intro: wrel_refl wrel_buildPayload)
next
  case (unclaimed ag p s1 y)
  then have "world_rel R s1 w'"
    by (auto simp: rec_move_def intro: wrel_move)
  then show ?thesis using wrel_buildPayload [OF unclaimed(1)] by (blast intro: wrel_trans)
next
  case (sent ag p s1 s2)
  then have "world_rel R s1 s2" "world_rel R s2 w'"
    by (auto simp: rec_move_def intro: wrel_move wrel_Dispatch)
  then show ?thesis using wrel_buildPayload [OF sent(1)] by (blast intro: wrel_trans)
next
  case (refused ag p s1 s2 s3 e rs y)
  then have "world_rel R s1 s2" "world_rel R s2 s3" "world_rel R s3 w'"
    by (auto simp: rec_move_def intro: wrel_move wrel_Dispatch)
  then show ?thesis using wrel_buildPayload [OF refused(1)] by (blast intro: wrel_trans)
qed

lemma wrel_fail:
  "fs \<in> {JobStatusPending, JobStatusDispatched, JobStatusRunning} \<Longrightarrow>
   world_rel R w (snd (cstore_TransitionJob i fs JobStatusFailed None rs w))"
  by (auto simp: rec_move_def intro!: wrel_move [OF prod.collapse [symmetric]])

lemma wrel_dispatch_jobs:
  "world_rel R w (dispatch_jobs (pg_reconciler cr key url_ok cfg) agents jobs w)"
proof (induction jobs arbitrary: w)
  case Nil
  show ?case by (simp add: wrel_refl)
next
  case (Cons job jobs)
  obtain x w1 where 1: "dispatchOne (pg_reconciler cr key url_ok cfg) job agents w = (x, w1)"
    by fastforce
  note e1 = wrel_dispatchOne [OF 1]
  note e2 = wrel_trans [OF e1 wrel_fail [of JobStatusPending]]
  show ?case
    using 1 wrel_trans [OF e1 Cons.IH] wrel_trans [OF e2 Cons.IH]
    by (simp add: split: sum.split)
qed

lemma wrel_fail_jobs:
  assumes "fs \<in> {JobStatusPending, JobStatusDispatched, JobStatusRunning}"
  shows "world_rel R w (fail_jobs (pg_reconciler cr key url_ok cfg) fs rs jobs w)"
  using assms
proof (induction jobs arbitrary: w)
  case (Cons job jobs)
  then show ?case
    using wrel_trans [OF wrel_fail [OF assms] Cons.IH] by simp
qed (simp add: wrel_refl)

lemma wrel_failStuck: "world_rel R w (failStuck (pg_reconciler cr key url_ok cfg) w)"
proof -
  have "world_rel R w (failStuckJobs (pg_reconciler cr key url_ok cfg) fs t rs w)"
    if "fs = JobStatusDispatched \<or> fs = JobStatusRunning" for fs t rs w
    using that
    by (auto simp: failStuckJobs_def split: prod.split sum.split
        intro: wrel_reads wrel_trans [OF wrel_reads(2) wrel_fail_jobs]
          wrel_trans [OF wrel_reads(3) wrel_fail_jobs])
  then show ?thesis unfolding failStuck_def by (blast intro: wrel_trans)
qed

lemma wrel_dispatchPending: "world_rel R w (dispatchPending (pg_reconciler cr key url_ok cfg) w)"
proof -
  obtain x1 w1 where 1: "cstore_GetPendingJobs w = (x1, w1)" by fastforce
  obtain x2 w2 where 2: "cstore_GetAvailableAgents (Rec_HeartbeatTTL cfg) w1 = (x2, w2)" by fastforce
  note e1 = wrel_reads(1) [OF 1]
  note e2 = wrel_trans [OF e1 wrel_reads(4) [OF 2]]
  note e3 = wrel_trans [OF e2 wrel_dispatch_jobs]
  show ?thesis
    using 1 2 e1 e2 e3 [of cr key url_ok cfg]
    by (auto simp: dispatchPending_def split: sum.split)
qed

lemma tick_rely:
  assumes "env_respects R w"
  shows "R (w_db w) (w_db (tick (pg_reconciler cr key url_ok cfg) w))"
  using assms wrel_trans [OF wrel_dispatchPending wrel_failStuck]
  by (auto simp: tick_def world_rel_def)

lemma tick_env:
  assumes "env_respects R w"
  shows "w_env (tick (pg_reconciler cr key url_ok cfg) w) = w_env w"
  using assms wrel_trans [OF wrel_dispatchPending wrel_failStuck]
  by (auto simp: tick_def world_rel_def)

lemma ticks_rely:
  assumes "env_respects R w"
  shows "R (w_db w) (w_db ((tick (pg_reconciler cr key url_ok cfg) ^^ n) w)) \<and>
    w_env ((tick (pg_reconciler cr key url_ok cfg) ^^ n) w) = w_env w"
proof (induction n)
  case 0
  show ?case by (simp add: rely_refl)
next
  case (Suc n)
  then have "env_respects R ((tick (pg_reconciler cr key url_ok cfg) ^^ n) w)"
    using assms env_respects_cong by metis
  then show ?case
    using Suc tick_rely tick_env by (auto intro: rely_trans)
qed

end

subsection \<open>The instances\<close>

text \<open>Every job moves along the state machine, any number of steps.\<close>

definition valid_moves :: "db \<Rightarrow> db \<Rightarrow> bool" where
  "valid_moves d d' \<longleftrightarrow> (\<forall>i s. status_of d i = Some s \<longrightarrow>
     (\<exists>t. status_of d' i = Some t \<and> CanTransitionTo\<^sup>*\<^sup>* s t))"

text \<open>A finished job keeps its row, column by column.\<close>

definition finished_kept :: "db \<Rightarrow> db \<Rightarrow> bool" where
  "finished_kept d d' \<longleftrightarrow>
     (\<forall>i j. job_of d i = Some j \<and> IsTerminal (Job_Status j) \<longrightarrow> job_of d' i = Some j)"

text \<open>Only the table of jobs is written (the clock may advance).\<close>

definition only_jobs :: "db \<Rightarrow> db \<Rightarrow> bool" where
  "only_jobs d d' \<longleftrightarrow> d' = d\<lparr>db_now := db_now d', db_jobs := db_jobs d'\<rparr>"

text \<open>The row invariant: who is assigned and when the job ended.\<close>

definition job_wf :: "Job \<Rightarrow> bool" where
  "job_wf j \<longleftrightarrow>
     (IsTerminal (Job_Status j) \<longleftrightarrow> Job_EndedAt j \<noteq> None) \<and>
     (Job_Status j = JobStatusPending \<longrightarrow> Job_AgentID j = None \<and> Job_StartedAt j = None) \<and>
     (Job_Status j \<in> {JobStatusDispatched, JobStatusRunning} \<longrightarrow> Job_AgentID j \<noteq> None)"

definition jobs_wf :: "db \<Rightarrow> bool" where
  "jobs_wf d \<longleftrightarrow> (\<forall>j\<in>set (db_jobs d). job_wf j)"

definition keeps_jobs_wf :: "db \<Rightarrow> db \<Rightarrow> bool" where
  "keeps_jobs_wf d d' \<longleftrightarrow> (jobs_wf d \<longrightarrow> jobs_wf d')"

text \<open>An update statement moves rows that match its \<open>WHERE\<close> clause and keeps the others.\<close>

lemma TransitionJob_row:
  assumes "job_of d k = Some j"
  shows "job_of (snd (TransitionJob_stmt i fs ts a rs c d)) k = Some j \<or>
    Job_ID j = i \<and> Job_Status j = fs \<and>
    job_of (snd (TransitionJob_stmt i fs ts a rs c d)) k =
      Some (transition_row (db_now d) ts a rs j)"
  using assms
  by (auto simp: TransitionJob_stmt_def Let_def lookup_update_rows)

interpretation vm: lifecycle_rely valid_moves
proof unfold_locales
  fix a b c
  assume ab: "valid_moves a b" and bc: "valid_moves b c"
  show "valid_moves a c"
    unfolding valid_moves_def
  proof (intro allI impI)
    fix i s
    assume "status_of a i = Some s"
    then obtain t where t: "status_of b i = Some t" "CanTransitionTo\<^sup>*\<^sup>* s t"
      using ab by (auto simp: valid_moves_def)
    then obtain u where "status_of c i = Some u" "CanTransitionTo\<^sup>*\<^sup>* t u"
      using bc by (auto simp: valid_moves_def)
    with t show "\<exists>u. status_of c i = Some u \<and> CanTransitionTo\<^sup>*\<^sup>* s u"
      by (auto intro: rtranclp_trans)
  qed
next
  fix fs ts a i rs
  assume "rec_move fs ts a"
  then have "CanTransitionTo\<^sup>*\<^sup>* fs ts" by (blast intro: rec_move_valid)
  then show "stmt_respects valid_moves (TransitionJob_stmt i fs ts a rs)"
    unfolding stmt_respects_def valid_moves_def
  proof (intro allI impI)
    fix c d k s
    assume "status_of d k = Some s"
    then obtain j where "job_of d k = Some j" "Job_Status j = s" by (auto simp: status_of_def)
    then show "\<exists>t. status_of (snd (TransitionJob_stmt i fs ts a rs c d)) k = Some t \<and>
        CanTransitionTo\<^sup>*\<^sup>* s t"
      using TransitionJob_row [of d k j i fs ts a rs c] \<open>CanTransitionTo\<^sup>*\<^sup>* fs ts\<close>
      by (auto simp: status_of_def)
  qed
qed (auto simp: valid_moves_def)

interpretation fk: lifecycle_rely finished_kept
proof unfold_locales
  fix fs ts a i rs
  assume "rec_move fs ts a"
  then have "\<not> IsTerminal fs" by (auto simp: rec_move_def)
  then show "stmt_respects finished_kept (TransitionJob_stmt i fs ts a rs)"
    unfolding stmt_respects_def finished_kept_def
    by (auto dest: TransitionJob_row [where i = i and fs = fs and ts = ts and a = a and rs = rs])
qed (auto simp: finished_kept_def)

interpretation oj: lifecycle_rely only_jobs
proof unfold_locales
  show "only_jobs a b \<Longrightarrow> only_jobs b c \<Longrightarrow> only_jobs a c" for a b c
    by (cases a, cases b, cases c) (simp add: only_jobs_def)
  show "stmt_respects only_jobs (TransitionJob_stmt i fs ts a rs)" for fs ts a i rs
    by (auto simp: stmt_respects_def only_jobs_def TransitionJob_stmt_def Let_def)
qed (simp add: only_jobs_def)

lemma job_wf_move: "rec_move fs ts a \<Longrightarrow> Job_Status j = fs \<Longrightarrow> job_wf j \<Longrightarrow>
  job_wf (transition_row now ts a rs j)"
  by (auto simp: rec_move_def job_wf_def transition_row_def coalesce_def split: option.split)

interpretation jw: lifecycle_rely keeps_jobs_wf
proof unfold_locales
  fix fs ts a i rs
  assume "rec_move fs ts a"
  then show "stmt_respects keeps_jobs_wf (TransitionJob_stmt i fs ts a rs)"
    by (auto simp: stmt_respects_def keeps_jobs_wf_def jobs_wf_def TransitionJob_stmt_def Let_def
        set_update_rows job_wf_move)
qed (auto simp: keeps_jobs_wf_def)

end
