(* ===== verification/ReconcilerPass.thy ===== *)
theory ReconcilerPass
  imports Lifecycle
begin

section \<open>What a reconciler pass computes\<close>

text \<open>
  When no other process interferes and every statement is answered (\<open>undisturbed\<close>), the loops of
  the reconciler, which update one row at a time, have the effect of one bulk update each. This
  theory states that effect for the three passes that matter to an operator: timing out stuck jobs,
  failing jobs when no agent is available, and assigning a batch of jobs when there is one.
\<close>

text \<open>\<open>sets_jobs w w' js\<close>: from \<open>w\<close> to \<open>w'\<close> the jobs became \<open>js\<close> and no other table changed.\<close>

definition sets_jobs :: "world \<Rightarrow> world \<Rightarrow> Job list \<Rightarrow> bool" where
  "sets_jobs w w' js \<longleftrightarrow> w_env w' = w_env w \<and> w_http w' = w_http w \<and>
     w_db w' = (w_db w)\<lparr>db_jobs := js\<rparr>"

definition move_jobs ::
  "uuid set \<Rightarrow> JobStatus \<Rightarrow> time \<Rightarrow> JobStatus \<Rightarrow> uuid option \<Rightarrow> string \<Rightarrow> Job list \<Rightarrow> Job list" where
  "move_jobs ids fs now ts a rs =
     update_rows (\<lambda>j. Job_ID j \<in> ids \<and> Job_Status j = fs) (transition_row now ts a rs)"

lemma query_undisturbed:
  assumes "undisturbed w"
  shows "exec_ctx s (query f) w =
    (wrap_err s (f (w_env w (w_pos w)) (w_db w)), w\<lparr>w_pos := Suc (w_pos w)\<rparr>)"
  using exec_undisturbed [OF assms, of "query f"] by (simp add: exec_ctx_def)

lemma sets_jobs_refl: "sets_jobs w w (db_jobs (w_db w))"
  by (simp add: sets_jobs_def)

lemma sets_jobs_trans:
  "sets_jobs w w' js \<Longrightarrow> sets_jobs w' w'' ks \<Longrightarrow> sets_jobs w w'' ks"
  by (simp add: sets_jobs_def)

lemma sets_jobs_db: "sets_jobs w w' js \<Longrightarrow> db_jobs (w_db w') = js \<and> db_now (w_db w') = db_now (w_db w)"
  by (simp add: sets_jobs_def)

lemma sets_jobs_undisturbed: "sets_jobs w w' js \<Longrightarrow> undisturbed w' = undisturbed w"
  by (simp add: sets_jobs_def undisturbed_def)

text \<open>A move by key is a bulk move of one key; a row that has moved does not match again.\<close>

lemma move_jobs_empty [simp]: "move_jobs {} fs now ts a rs js = js"
  by (simp add: move_jobs_def update_rows_id)

lemma move_jobs_compose:
  assumes "ts \<noteq> fs"
  shows "move_jobs I fs now ts a rs (move_jobs J fs now ts a rs js) = move_jobs (I \<union> J) fs now ts a rs js"
  using assms by (auto simp: move_jobs_def update_rows_def)

lemma move_jobs_set:
  "set (move_jobs I fs now ts a rs js) =
     (\<lambda>j. if Job_ID j \<in> I \<and> Job_Status j = fs then transition_row now ts a rs j else j) ` set js"
  by (simp add: move_jobs_def set_update_rows)

lemma TransitionJob_undisturbed:
  assumes "undisturbed w" and "unique_jobs (w_db w)" and "agent_exists (w_db w) a"
  shows "fst (cstore_TransitionJob i fs ts a rs w) = Inr (status_of (w_db w) i = Some fs)"
    and "sets_jobs w (snd (cstore_TransitionJob i fs ts a rs w))
      (move_jobs {i} fs (db_now (w_db w)) ts a rs (db_jobs (w_db w)))"
proof -
  show "fst (cstore_TransitionJob i fs ts a rs w) = Inr (status_of (w_db w) i = Some fs)"
    using assms by (simp add: cstore_TransitionJob_def exec_undisturbed TransitionJob_result)
  show "sets_jobs w (snd (cstore_TransitionJob i fs ts a rs w))
      (move_jobs {i} fs (db_now (w_db w)) ts a rs (db_jobs (w_db w)))"
    using assms
    by (simp add: cstore_TransitionJob_def exec_undisturbed TransitionJob_stmt_def Let_def
        sets_jobs_def move_jobs_def)
qed

lemma unique_jobs_move:
  "distinct (map Job_ID js) \<Longrightarrow> distinct (map Job_ID (move_jobs I fs now ts a rs js))"
  by (simp add: move_jobs_def keys_update_rows)

lemma sets_jobs_unique:
  assumes "sets_jobs w w' (move_jobs I fs now ts a rs (db_jobs (w_db w)))" and "unique_jobs (w_db w)"
  shows "unique_jobs (w_db w')"
  using assms by (simp add: sets_jobs_def unique_jobs_def unique_jobs_move)

subsection \<open>Timing out\<close>

lemma fail_jobs_undisturbed:
  assumes "undisturbed w" and "unique_jobs (w_db w)" and "fs \<noteq> JobStatusFailed"
  shows "sets_jobs w (fail_jobs (pg_reconciler cr key url_ok cfg) fs rs jobs w)
    (move_jobs (Job_ID ` set jobs) fs (db_now (w_db w)) JobStatusFailed None rs (db_jobs (w_db w)))"
  using assms
proof (induction jobs arbitrary: w)
  case Nil
  then show ?case by (simp add: sets_jobs_refl)
next
  case (Cons job jobs)
  let ?w1 = "snd (cstore_TransitionJob (Job_ID job) fs JobStatusFailed None rs w)"
  have s1: "sets_jobs w ?w1
      (move_jobs {Job_ID job} fs (db_now (w_db w)) JobStatusFailed None rs (db_jobs (w_db w)))"
    using Cons.prems by (intro TransitionJob_undisturbed) (simp_all add: agent_exists_def)
  have "sets_jobs ?w1 (fail_jobs (pg_reconciler cr key url_ok cfg) fs rs jobs ?w1)
      (move_jobs (Job_ID ` set jobs) fs (db_now (w_db ?w1)) JobStatusFailed None rs
        (db_jobs (w_db ?w1)))"
    using Cons.prems sets_jobs_undisturbed [OF s1] sets_jobs_unique [OF s1] by (intro Cons.IH) simp_all
  then show ?case
    using sets_jobs_trans [OF s1] sets_jobs_db [OF s1] Cons.prems(3)
    by (simp add: move_jobs_compose)
qed

text \<open>The effect of \<open>failStuck\<close> on one row.\<close>

definition timed_out :: "RecConfig \<Rightarrow> time \<Rightarrow> Job \<Rightarrow> Job" where
  "timed_out cfg now j =
     (if Job_Status j = JobStatusDispatched \<and> Job_UpdatedAt j < now - Rec_DispatchTimeout cfg
      then transition_row now JobStatusFailed None dispatch_timeout_reason j
      else if Job_Status j = JobStatusRunning \<and> Job_UpdatedAt j < now - Rec_RunningTimeout cfg
      then transition_row now JobStatusFailed None running_timeout_reason j
      else j)"

lemma stuck_move:
  assumes "distinct (map Job_ID js)"
  shows "move_jobs (Job_ID ` set (filter (\<lambda>j. Job_Status j = fs \<and> P j) js)) fs now ts a rs js =
    update_rows (\<lambda>j. Job_Status j = fs \<and> P j) (transition_row now ts a rs) js"
proof -
  have "Job_ID j \<in> Job_ID ` set (filter (\<lambda>j. Job_Status j = fs \<and> P j) js) \<and> Job_Status j = fs
      \<longleftrightarrow> Job_Status j = fs \<and> P j" if "j \<in> set js" for j
    using that assms by (auto simp: distinct_map dest: inj_onD)
  then show ?thesis by (simp add: move_jobs_def update_rows_def)
qed

lemma failStuckJobs_undisturbed:
  assumes "undisturbed w" and "unique_jobs (w_db w)"
    and "fs = JobStatusDispatched \<or> fs = JobStatusRunning"
  shows "sets_jobs w (failStuckJobs (pg_reconciler cr key url_ok cfg) fs t rs w)
    (update_rows (\<lambda>j. Job_Status j = fs \<and> Job_UpdatedAt j < db_now (w_db w) - t)
       (transition_row (db_now (w_db w)) JobStatusFailed None rs) (db_jobs (w_db w)))"
proof -
  let ?w1 = "w\<lparr>w_pos := Suc (w_pos w)\<rparr>"
  let ?js = "filter (\<lambda>j. Job_Status j = fs \<and> Job_UpdatedAt j < db_now (w_db w) - t) (db_jobs (w_db w))"
  have js: "stuck_jobs fs t (w_env w (w_pos w)) (w_db w) = ?js"
    using assms(1) by (simp add: stuck_jobs_def undisturbed_def)
  have run: "failStuckJobs (pg_reconciler cr key url_ok cfg) fs t rs w =
      fail_jobs (pg_reconciler cr key url_ok cfg) fs rs ?js ?w1"
    using assms js
    by (auto simp: failStuckJobs_def cstore_GetStuckDispatchedJobs_def
        cstore_GetStuckRunningJobs_def stmt_defs query_undisturbed)
  have "undisturbed ?w1" using assms(1) by (simp add: undisturbed_def)
  then have "sets_jobs ?w1 (fail_jobs (pg_reconciler cr key url_ok cfg) fs rs ?js ?w1)
    (move_jobs (Job_ID ` set ?js) fs (db_now (w_db ?w1)) JobStatusFailed None rs (db_jobs (w_db ?w1)))"
    using assms by (intro fail_jobs_undisturbed) auto
  moreover have "move_jobs (Job_ID ` set ?js) fs (db_now (w_db w)) JobStatusFailed None rs (db_jobs (w_db w))
    = update_rows (\<lambda>j. Job_Status j = fs \<and> Job_UpdatedAt j < db_now (w_db w) - t)
       (transition_row (db_now (w_db w)) JobStatusFailed None rs) (db_jobs (w_db w))"
    using assms(2) by (intro stuck_move) (simp add: unique_jobs_def)
  ultimately show ?thesis
    by (simp add: run sets_jobs_def del: set_filter)
qed

lemma failStuck_undisturbed:
  assumes "undisturbed w" and "unique_jobs (w_db w)"
  shows "sets_jobs w (failStuck (pg_reconciler cr key url_ok cfg) w)
    (map (timed_out cfg (db_now (w_db w))) (db_jobs (w_db w)))"
proof -
  let ?r = "pg_reconciler cr key url_ok cfg" and ?now = "db_now (w_db w)"
  let ?w1 = "failStuckJobs ?r JobStatusDispatched (Rec_DispatchTimeout cfg) dispatch_timeout_reason w"
  let ?U1 = "update_rows (\<lambda>j. Job_Status j = JobStatusDispatched \<and>
      Job_UpdatedAt j < ?now - Rec_DispatchTimeout cfg)
      (transition_row ?now JobStatusFailed None dispatch_timeout_reason)"
  have s1: "sets_jobs w ?w1 (?U1 (db_jobs (w_db w)))"
    using assms by (intro failStuckJobs_undisturbed) auto
  have u1: "unique_jobs (w_db ?w1)"
    using s1 assms(2) by (simp add: sets_jobs_def unique_jobs_def keys_update_rows)
  have "sets_jobs ?w1 (failStuckJobs ?r JobStatusRunning (Rec_RunningTimeout cfg)
      running_timeout_reason ?w1)
    (update_rows (\<lambda>j. Job_Status j = JobStatusRunning \<and> Job_UpdatedAt j < ?now - Rec_RunningTimeout cfg)
      (transition_row ?now JobStatusFailed None running_timeout_reason) (?U1 (db_jobs (w_db w))))"
    using failStuckJobs_undisturbed [OF _ u1, of JobStatusRunning] assms(1)
      sets_jobs_undisturbed [OF s1] sets_jobs_db [OF s1] by simp
  moreover have "update_rows (\<lambda>j. Job_Status j = JobStatusRunning \<and>
        Job_UpdatedAt j < ?now - Rec_RunningTimeout cfg)
      (transition_row ?now JobStatusFailed None running_timeout_reason) (?U1 (db_jobs (w_db w)))
    = map (timed_out cfg ?now) (db_jobs (w_db w))"
    by (simp add: update_rows_def timed_out_def)
  ultimately show ?thesis
    using sets_jobs_trans [OF s1] by (simp add: failStuck_def)
qed


subsection \<open>What a payload contains\<close>

text \<open>The payload as a function of the database: what \<open>buildPayload\<close> computes with its queries.\<close>

definition secret_of :: "crypto \<Rightarrow> string \<Rightarrow> db \<Rightarrow> uuid \<Rightarrow> CredentialSecret res" where
  "secret_of cr key d i =
     (let ctx = ''credential '' @ uuid_String i
      in if key = [] then Inl (ErrMsg ''AOP_ENCRYPTION_KEY is not set; cannot decrypt credentials'')
         else case lookup_row Cred_ID (db_credentials d) i of
           None \<Rightarrow> Inl (Wrapped ctx (Wrapped (''get credential '' @ uuid_String i) ErrNoRows))
         | Some cred \<Rightarrow> decode_secret cr ''unmarshal fields'' key ctx cred)"

definition secrets_of :: "crypto \<Rightarrow> string \<Rightarrow> db \<Rightarrow> uuid option \<Rightarrow> CredentialSecret list res" where
  "secrets_of cr key d ci =
     (case ci of
        None \<Rightarrow> Inr []
      | Some i \<Rightarrow> (case secret_of cr key d i of
            Inl e \<Rightarrow> Inl (Wrapped ''resolve credential'' e)
          | Inr secret \<Rightarrow> Inr [secret]))"

definition payload_of :: "crypto \<Rightarrow> string \<Rightarrow> RecConfig \<Rightarrow> db \<Rightarrow> Job \<Rightarrow> JobPayload res" where
  "payload_of cr key cfg d job =
     (case lookup_row Template_ID (db_job_templates d) (Job_TemplateID job) of
        None \<Rightarrow> Inl (Wrapped ''get template''
          (Wrapped (''get job template '' @ uuid_String (Job_TemplateID job)) ErrNoRows))
      | Some tmpl \<Rightarrow>
     (case lookup_row Project_ID (db_projects d) (Template_ProjectID tmpl) of
        None \<Rightarrow> Inl (Wrapped ''get project''
          (Wrapped (''get project '' @ uuid_String (Template_ProjectID tmpl)) ErrNoRows))
      | Some project \<Rightarrow>
     (case secrets_of cr key d (Template_CredentialID tmpl) of
        Inl e \<Rightarrow> Inl e
      | Inr creds \<Rightarrow>
          Inr \<lparr>Payload_JobID = Job_ID job, Payload_TemplateID = Job_TemplateID job,
               Payload_Playbook = Template_Playbook tmpl,
               Payload_Inventory = filter (\<lambda>h. Host_ProjectID h = Template_ProjectID tmpl) (db_inventory_hosts d),
               Payload_ExtraVars = go_merge (go_merge [] (Template_DefaultExtraVars tmpl)) (Job_ExtraVars job),
               Payload_Credentials = creds, Payload_CallbackURL = Rec_APIURL cfg,
               Payload_RepoURL = Project_RepoURL project, Payload_RepoBranch = Project_Branch project\<rparr>)))"

lemma payload_of_jobs [simp]: "payload_of cr key cfg (d\<lparr>db_jobs := js\<rparr>) job = payload_of cr key cfg d job"
proof -
  have "secrets_of cr key (d\<lparr>db_jobs := js\<rparr>) ci = secrets_of cr key d ci" for ci
    by (simp add: secrets_of_def secret_of_def Let_def split: option.split)
  then show ?thesis by (simp add: payload_of_def split: option.split sum.split)
qed

text \<open>A read in an undisturbed world returns the value in the table and moves only the position.\<close>

definition reads :: "world \<Rightarrow> world \<Rightarrow> bool" where
  "reads w w' \<longleftrightarrow> (\<exists>n. w' = w\<lparr>w_pos := n\<rparr>)"

lemma reads_refl: "reads w w"
  unfolding reads_def by (rule exI [of _ "w_pos w"]) simp

lemma reads_trans: "reads a b \<Longrightarrow> reads b c \<Longrightarrow> reads a c"
  by (auto simp: reads_def)

lemma readsD: "reads w w' \<Longrightarrow> w_db w' = w_db w \<and> w_env w' = w_env w \<and> w_http w' = w_http w \<and> w_sent w' = w_sent w"
  by (auto simp: reads_def)

lemma reads_undisturbed: "reads w w' \<Longrightarrow> undisturbed w' = undisturbed w"
  by (auto simp: reads_def undisturbed_def)

lemma read_step:
  assumes "undisturbed w" and "exec_ctx s (query f) w = (x, w')"
  shows "x = wrap_err s (f (w_env w (w_pos w)) (w_db w)) \<and> reads w w'"
  using query_undisturbed [OF assms(1), of s f] assms(2) by (auto simp: reads_def)

lemma read_after:
  assumes "undisturbed w0" and "reads w0 w" and "exec_ctx s (query f) w = (x, w')"
  shows "x = wrap_err s (f (w_env w0 (w_pos w)) (w_db w0))" and "reads w0 w'"
  using read_step [OF _ assms(3)] assms(1,2) reads_undisturbed [OF assms(2)] readsD [OF assms(2)]
  by (auto intro: reads_trans)

lemma Resolve_undisturbed:
  assumes "undisturbed w" and "Resolve cr key i w = (x, w')"
  shows "x = secret_of cr key (w_db w) i \<and> reads w w'"
  using assms
  by (auto simp: Resolve_def secret_of_def Let_def cstore_GetCredentialWithSecret_def stmt_defs
      reads_refl dest!: read_step split: prod.splits sum.splits option.splits if_splits)

lemma resolve_creds_undisturbed:
  assumes "undisturbed w" and "resolve_creds (pg_reconciler cr key url_ok cfg) ci w = (x, w')"
  shows "x = secrets_of cr key (w_db w) ci \<and> reads w w'"
  using assms
  by (auto simp: resolve_creds_def secrets_of_def reads_refl dest!: Resolve_undisturbed [OF assms(1)]
      split: prod.splits sum.splits option.splits)

lemma buildPayload_undisturbed:
  assumes "undisturbed w" and "buildPayload (pg_reconciler cr key url_ok cfg) job ag w = (x, w')"
  shows "x = payload_of cr key cfg (w_db w) job \<and> reads w w'"
proof -
  obtain x1 w1 where 1: "cstore_GetJobTemplate (Job_TemplateID job) w = (x1, w1)" by fastforce
  have x1: "x1 = wrap_err (''get job template '' @ uuid_String (Job_TemplateID job))
      (one_row (lookup_row Template_ID (db_job_templates (w_db w)) (Job_TemplateID job)))"
    and r1: "reads w w1"
    using read_step [OF assms(1)] 1 by (auto simp: cstore_GetJobTemplate_def stmt_defs)
  show ?thesis
  proof (cases "lookup_row Template_ID (db_job_templates (w_db w)) (Job_TemplateID job)")
    case None
    then show ?thesis using assms(2) 1 x1 r1 by (auto simp: buildPayload_def payload_of_def)
  next
    case (Some tmpl)
    obtain x2 w2 where 2: "cstore_GetProject (Template_ProjectID tmpl) w1 = (x2, w2)" by fastforce
    have x2: "x2 = wrap_err (''get project '' @ uuid_String (Template_ProjectID tmpl))
        (one_row (lookup_row Project_ID (db_projects (w_db w)) (Template_ProjectID tmpl)))"
      and r2: "reads w w2"
      using read_after [OF assms(1) r1 2 [unfolded cstore_GetProject_def stmt_defs]] by auto
    obtain x3 w3 where 3: "cstore_GetInventoryHosts (Template_ProjectID tmpl) w2 = (x3, w3)"
      by fastforce
    have x3: "x3 = Inr (filter (\<lambda>h. Host_ProjectID h = Template_ProjectID tmpl)
        (db_inventory_hosts (w_db w)))" and r3: "reads w w3"
      using read_after [OF assms(1) r2 3 [unfolded cstore_GetInventoryHosts_def stmt_defs]] by auto
    note u3 = reads_undisturbed [OF r3, THEN iffD2, OF assms(1)]
    obtain x4 w4 where 4: "resolve_creds (pg_reconciler cr key url_ok cfg)
        (Template_CredentialID tmpl) w3 = (x4, w4)" by fastforce
    have x4: "x4 = secrets_of cr key (w_db w) (Template_CredentialID tmpl)" and r4: "reads w w4"
      using resolve_creds_undisturbed [OF u3 4] r3 readsD [OF r3] by (auto intro: reads_trans)
    show ?thesis
      using assms(2) 1 2 3 4 x1 x2 x3 x4 r2 r3 r4 Some
      by (auto simp: buildPayload_def payload_of_def Let_def split: option.splits sum.splits)
  qed
qed

text \<open>A pass when no agent is available, and when one is and it accepts everything.\<close>

definition pending_batch :: "db \<Rightarrow> Job list" where
  "pending_batch d = take 50 (sort_key Job_CreatedAt
     (filter (\<lambda>j. Job_Status j = JobStatusPending) (db_jobs d)))"

definition no_agents_reason :: string where
  "no_agents_reason = ''dispatch error: agent selection: no agents available''"

lemma dispatch_jobs_no_agents:
  "dispatch_jobs (pg_reconciler cr key url_ok cfg) [] jobs w =
     fail_jobs (pg_reconciler cr key url_ok cfg) JobStatusPending no_agents_reason jobs w"
  by (induction jobs arbitrary: w) (simp_all add: dispatchOne_def Select_def no_agents_reason_def)

lemma dispatchPending_undisturbed:
  assumes "undisturbed w"
  shows "\<exists>w'. reads w w' \<and> dispatchPending (pg_reconciler cr key url_ok cfg) w =
    dispatch_jobs (pg_reconciler cr key url_ok cfg) (available_agents (Rec_HeartbeatTTL cfg) (w_db w))
      (pending_batch (w_db w)) w'"
proof -
  obtain x1 w1 where 1: "cstore_GetPendingJobs w = (x1, w1)" by fastforce
  have x1: "x1 = Inr (pending_batch (w_db w))" and r1: "reads w w1"
    using read_after [OF assms reads_refl 1 [unfolded cstore_GetPendingJobs_def stmt_defs]] assms
    by (auto simp: pending_batch_def undisturbed_def)
  obtain x2 w2 where 2: "cstore_GetAvailableAgents (Rec_HeartbeatTTL cfg) w1 = (x2, w2)" by fastforce
  have x2: "x2 = Inr (available_agents (Rec_HeartbeatTTL cfg) (w_db w))" and r2: "reads w w2"
    using read_after [OF assms r1 2 [unfolded cstore_GetAvailableAgents_def stmt_defs]] by auto
  show ?thesis
    using 1 2 x1 x2 r1 r2 by (auto simp: dispatchPending_def)
qed

lemma reads_sets_jobs: "reads w w1 \<Longrightarrow> sets_jobs w1 w' js \<Longrightarrow> sets_jobs w w' js"
  by (auto simp: reads_def sets_jobs_def)

lemma dispatchPending_no_agents:
  assumes "undisturbed w" and "unique_jobs (w_db w)"
    and "available_agents (Rec_HeartbeatTTL cfg) (w_db w) = []"
  shows "sets_jobs w (dispatchPending (pg_reconciler cr key url_ok cfg) w)
    (move_jobs (Job_ID ` set (pending_batch (w_db w))) JobStatusPending (db_now (w_db w))
       JobStatusFailed None no_agents_reason (db_jobs (w_db w)))"
proof -
  let ?r = "pg_reconciler cr key url_ok cfg"
  obtain w1 where r: "reads w w1" and run: "dispatchPending ?r w =
      fail_jobs ?r JobStatusPending no_agents_reason (pending_batch (w_db w)) w1"
    using dispatchPending_undisturbed [OF assms(1), of cr key url_ok cfg] assms(3)
    by (auto simp: dispatch_jobs_no_agents)
  show ?thesis
    unfolding run
    using reads_sets_jobs [OF r fail_jobs_undisturbed] reads_undisturbed [OF r] readsD [OF r] assms
    by simp
qed

text \<open>
  A job whose payload can be built, given to an agent that accepts it.
\<close>

definition accepting :: "(string \<Rightarrow> bool) \<Rightarrow> world \<Rightarrow> bool" where
  "accepting url_ok w \<longleftrightarrow> (\<forall>u. url_ok u) \<and> (\<forall>n. w_http w n = Reply StatusAccepted)"

lemma Dispatch_accepted:
  assumes "undisturbed w" and "accepting url_ok w" and "a \<in> Agent_ID ` set (db_agents (w_db w))"
    and "Dispatch url_ok a p w = (x, w')"
  shows "x = Inr () \<and> sets_jobs w w' (db_jobs (w_db w)) \<and>
    dispatched_jobs w' = dispatched_jobs w @ [Payload_JobID p]"
proof -
  obtain y w1 where 1: "cstore_GetAgentAddress a w = (y, w1)" by fastforce
  obtain r where "lookup_row Agent_ID (db_agents (w_db w)) a = Some r"
    using assms(3) lookup_row_None_iff [of Agent_ID "db_agents (w_db w)" a]
    by (cases "lookup_row Agent_ID (db_agents (w_db w)) a") auto
  then have "y = Inr (Agent_Address r)" "reads w w1"
    using read_after [OF assms(1) reads_refl 1 [unfolded cstore_GetAgentAddress_def stmt_defs]] by auto
  then show ?thesis
    using assms(2,4) 1 readsD [of w w1]
    by (auto simp: Dispatch_def Let_def http_Do_def accepting_def sets_jobs_def dispatched_jobs_def)
qed

lemma dispatchOne_accepted:
  assumes u: "undisturbed w" and "unique_jobs (w_db w)" and acc: "accepting url_ok w"
    and a: "Select agents = Inr a" "Agent_ID a \<in> Agent_ID ` set (db_agents (w_db w))"
    and p: "payload_of cr key cfg (w_db w) job = Inr p"
    and pend: "status_of (w_db w) (Job_ID job) = Some JobStatusPending"
    and run: "dispatchOne (pg_reconciler cr key url_ok cfg) job agents w = (x, w')"
  shows "x = Inr () \<and> dispatched_jobs w' = dispatched_jobs w @ [Job_ID job] \<and>
    sets_jobs w w' (move_jobs {Job_ID job} JobStatusPending (db_now (w_db w)) JobStatusDispatched
      (Some (Agent_ID a)) '''' (db_jobs (w_db w)))"
proof -
  obtain x1 w1 where 1: "buildPayload (pg_reconciler cr key url_ok cfg) job (Agent_ID a) w = (x1, w1)"
    by fastforce
  have x1: "x1 = Inr p" and r1: "reads w w1"
    using buildPayload_undisturbed [OF u 1] p by auto
  note w1 = readsD [OF r1]
  let ?t = "cstore_TransitionJob (Job_ID job) JobStatusPending JobStatusDispatched (Some (Agent_ID a)) '''' w1"
  have u1: "undisturbed w1" using u reads_undisturbed [OF r1] by simp
  have ex: "agent_exists (w_db w1) (Some (Agent_ID a))"
    using a(2) w1 by (simp add: agent_exists_def)
  have t: "fst ?t = Inr True" "sets_jobs w1 (snd ?t) (move_jobs {Job_ID job} JobStatusPending
      (db_now (w_db w1)) JobStatusDispatched (Some (Agent_ID a)) '''' (db_jobs (w_db w1)))"
    using TransitionJob_undisturbed [OF u1 _ ex] assms(2) pend w1 by simp_all
  have sent: "w_sent (snd ?t) = w_sent w1"
    by (simp add: cstore_TransitionJob_def)
  obtain x3 w3 where 3: "Dispatch url_ok (Agent_ID a) p (snd ?t) = (x3, w3)" by fastforce
  have "undisturbed (snd ?t)" "accepting url_ok (snd ?t)"
      "Agent_ID a \<in> Agent_ID ` set (db_agents (w_db (snd ?t)))"
    using t(2) u1 acc a(2) w1 by (simp_all add: sets_jobs_def undisturbed_def accepting_def)
  note D = Dispatch_accepted [OF this 3]
  have "x = Inr () \<and> w' = w3"
    using run a(1) 1 x1 t(1) 3 D by (auto simp: dispatchOne_def split: prod.splits)
  then show ?thesis
    using D t(2) w1 sent buildPayload_JobID [OF 1 [unfolded x1]]
    by (simp add: sets_jobs_def dispatched_jobs_def)
qed

lemma dispatch_jobs_accepted:
  assumes "undisturbed w" and "unique_jobs (w_db w)" and "accepting url_ok w"
    and "Select agents = Inr a" and "Agent_ID a \<in> Agent_ID ` set (db_agents (w_db w))"
    and "\<forall>j\<in>set jobs. isOk (payload_of cr key cfg (w_db w) j)"
    and "\<forall>j\<in>set jobs. status_of (w_db w) (Job_ID j) = Some JobStatusPending"
    and "distinct (map Job_ID jobs)"
  shows "dispatched_jobs (dispatch_jobs (pg_reconciler cr key url_ok cfg) agents jobs w) =
      dispatched_jobs w @ map Job_ID jobs \<and>
    sets_jobs w (dispatch_jobs (pg_reconciler cr key url_ok cfg) agents jobs w)
      (move_jobs (Job_ID ` set jobs) JobStatusPending (db_now (w_db w)) JobStatusDispatched
        (Some (Agent_ID a)) '''' (db_jobs (w_db w)))"
  using assms
proof (induction jobs arbitrary: w)
  case Nil
  then show ?case by (simp add: sets_jobs_refl)
next
  case (Cons job jobs)
  obtain p where p: "payload_of cr key cfg (w_db w) job = Inr p"
    using Cons.prems(6) by (auto elim: isOkE)
  obtain x w1 where 1: "dispatchOne (pg_reconciler cr key url_ok cfg) job agents w = (x, w1)"
    by fastforce
  have one: "x = Inr ()" "dispatched_jobs w1 = dispatched_jobs w @ [Job_ID job]"
    "sets_jobs w w1 (move_jobs {Job_ID job} JobStatusPending (db_now (w_db w)) JobStatusDispatched
      (Some (Agent_ID a)) '''' (db_jobs (w_db w)))"
    using dispatchOne_accepted [OF Cons.prems(1-5) p _ 1] Cons.prems(7) by simp_all
  have w1: "w_db w1 = (w_db w)\<lparr>db_jobs := move_jobs {Job_ID job} JobStatusPending (db_now (w_db w))
      JobStatusDispatched (Some (Agent_ID a)) '''' (db_jobs (w_db w))\<rparr>"
    using one(3) by (simp add: sets_jobs_def)
  have "status_of (w_db w1) (Job_ID j) = Some JobStatusPending" if "j \<in> set jobs" for j
  proof -
    have "Job_ID j \<noteq> Job_ID job" "status_of (w_db w) (Job_ID j) = Some JobStatusPending"
      using that Cons.prems(7,8) by (auto simp: image_iff)
    moreover from this obtain z where "job_of (w_db w) (Job_ID j) = Some z" "Job_ID z = Job_ID j"
      by (auto simp: status_of_def dest: lookup_row_SomeD)
    ultimately show ?thesis
      by (simp add: w1 status_of_def move_jobs_def lookup_update_rows)
  qed
  then have "dispatched_jobs (dispatch_jobs (pg_reconciler cr key url_ok cfg) agents jobs w1) =
      dispatched_jobs w1 @ map Job_ID jobs \<and>
    sets_jobs w1 (dispatch_jobs (pg_reconciler cr key url_ok cfg) agents jobs w1)
      (move_jobs (Job_ID ` set jobs) JobStatusPending (db_now (w_db w1)) JobStatusDispatched
        (Some (Agent_ID a)) '''' (db_jobs (w_db w1)))"
    using Cons.prems sets_jobs_undisturbed [OF one(3)] sets_jobs_unique [OF one(3)] one(3)
    by (intro Cons.IH) (simp_all add: w1 sets_jobs_def accepting_def)
  then show ?case
    using 1 one sets_jobs_trans [OF one(3)] by (simp add: w1 move_jobs_compose)
qed

lemma sets_jobs_reads: "reads w w' \<Longrightarrow> sets_jobs w w' (db_jobs (w_db w))"
  by (auto simp: reads_def sets_jobs_def)

lemma pending_batch_facts:
  assumes "unique_jobs d"
  shows "distinct (map Job_ID (pending_batch d))"
    and "j \<in> set (pending_batch d) \<Longrightarrow> status_of d (Job_ID j) = Some JobStatusPending"
proof -
  let ?ps = "filter (\<lambda>j. Job_Status j = JobStatusPending) (db_jobs d)"
  have d: "distinct (map Job_ID ?ps)"
    using assms by (simp add: unique_jobs_def distinct_map_filter)
  have "mset (map Job_ID (sort_key Job_CreatedAt ?ps)) = mset (map Job_ID ?ps)"
    by simp
  then have "distinct (map Job_ID (sort_key Job_CreatedAt ?ps))"
    using d mset_eq_imp_distinct_iff by blast
  then show "distinct (map Job_ID (pending_batch d))"
    by (simp add: pending_batch_def take_map [symmetric])
  assume "j \<in> set (pending_batch d)"
  then have "j \<in> set (db_jobs d)" "Job_Status j = JobStatusPending"
    by (auto simp: pending_batch_def dest: in_set_takeD)
  then have "job_of d (Job_ID j) = Some j"
    using assms by (simp add: unique_jobs_def lookup_row_eq_Some_iff)
  then show "status_of d (Job_ID j) = Some JobStatusPending"
    using \<open>Job_Status j = JobStatusPending\<close> by (simp add: status_of_def)
qed

text \<open>How the load of the chosen agent changes when a set of pending jobs moves to it.\<close>

lemma move_running_jobs:
  assumes "db_jobs d' = move_jobs I JobStatusPending now JobStatusDispatched (Some a) rs (db_jobs d)"
  shows "running_jobs d' a = running_jobs d a +
    int (length (filter (\<lambda>j. Job_ID j \<in> I \<and> Job_Status j = JobStatusPending) (db_jobs d)))"
proof -
  let ?load = "\<lambda>j. Job_AgentID j = Some a \<and>
    (Job_Status j = JobStatusDispatched \<or> Job_Status j = JobStatusRunning)"
  have "length (filter ?load (move_jobs I JobStatusPending now JobStatusDispatched (Some a) rs js)) =
    length (filter ?load js) + length (filter (\<lambda>j. Job_ID j \<in> I \<and> Job_Status j = JobStatusPending) js)" for js
    by (induction js) (auto simp: move_jobs_def coalesce_def)
  then show ?thesis by (simp add: running_jobs_def assms)
qed

lemma pending_batch_count:
  assumes "unique_jobs d"
  shows "length (filter (\<lambda>j. Job_ID j \<in> Job_ID ` set (pending_batch d) \<and> Job_Status j = JobStatusPending)
    (db_jobs d)) = length (pending_batch d)"
proof -
  let ?l = "filter (\<lambda>j. Job_ID j \<in> Job_ID ` set (pending_batch d) \<and> Job_Status j = JobStatusPending) (db_jobs d)"
  have inj: "inj_on Job_ID (set (db_jobs d))" and dl: "distinct ?l"
    using assms by (simp_all add: unique_jobs_def distinct_map)
  have sub: "set (pending_batch d) \<subseteq> set (db_jobs d)"
    by (auto simp: pending_batch_def dest: in_set_takeD)
  have pend: "Job_Status j = JobStatusPending" if "j \<in> set (pending_batch d)" for j
    using that by (auto simp: pending_batch_def dest: in_set_takeD)
  have "set ?l = set (pending_batch d)"
    using sub pend inj by (auto dest: inj_onD)
  then show ?thesis
    using dl pending_batch_facts(1) [OF assms] by (metis distinct_card distinct_map)
qed

end
