(* ===== verification/Scenario.thy ===== *)
theory Scenario
  imports Secrets Transport
begin

section \<open>A small installation\<close>

text \<open>
  One concrete installation, used wherever a theorem about the components is applied to a concrete
  state: a project with one host, a template with a stored credential, two agents, and a pending
  job. \<open>tag_crypto\<close> is a concrete instance of the parameters of the secrets component; it satisfies
  \<open>crypto_laws\<close>, so the theorems that assume them are not empty.
\<close>

text \<open>
  A prefix code for string maps: every character is preceded by \<open>+\<close>, every string ends with \<open>.\<close>.
\<close>

fun tag_string :: "string \<Rightarrow> string" where
  "tag_string [] = ''.''"
| "tag_string (c # cs) = CHR ''+'' # c # tag_string cs"

fun untag_string :: "string \<Rightarrow> (string \<times> string) option" where
  "untag_string [] = None"
| "untag_string (t # cs) =
     (if t = CHR ''.'' then Some ([], cs)
      else (case cs of [] \<Rightarrow> None
        | c # cs' \<Rightarrow> map_option (\<lambda>(s, rest). (c # s, rest)) (untag_string cs')))"

fun tag_map :: "string gomap \<Rightarrow> string" where
  "tag_map [] = []"
| "tag_map ((k, v) # m) = tag_string k @ tag_string v @ tag_map m"

text \<open>The number of entries left to read is bounded by the length of the text.\<close>

fun untag_map :: "nat \<Rightarrow> string \<Rightarrow> string gomap option" where
  "untag_map n [] = Some []"
| "untag_map 0 (c # cs) = None"
| "untag_map (Suc n) (c # cs) =
     (case untag_string (c # cs) of
        None \<Rightarrow> None
      | Some (k, rest) \<Rightarrow>
          (case untag_string rest of
             None \<Rightarrow> None
           | Some (v, rest') \<Rightarrow> map_option (\<lambda>m. (k, v) # m) (untag_map n rest')))"

definition tag_crypto :: crypto where
  "tag_crypto = \<lparr>gcm_seal = (\<lambda>key nonce pt. pt), gcm_open = (\<lambda>key nonce ct. Some ct),
     json_fields_enc = tag_map, json_fields_dec = (\<lambda>s. untag_map (length s) s)\<rparr>"

definition demo_project :: Project where
  "demo_project = \<lparr>Project_ID = UUID ''p1'', Project_Name = ''site'', Project_RepoURL = ''git@host:site'',
     Project_Branch = ''main'', Project_InventoryPath = ''hosts'', Project_CredentialID = None,
     Project_SyncStatus = InventorySyncStatusOK, Project_LastSyncedAt = Some 5,
     Project_SyncError = None, Project_CreatedAt = 1, Project_UpdatedAt = 5\<rparr>"

definition demo_host :: InventoryHost where
  "demo_host = \<lparr>Host_ID = UUID ''h1'', Host_ProjectID = UUID ''p1'', Host_Hostname = ''web1'',
     Host_Groups = Some [''web''], Host_Vars = [], Host_CreatedAt = 5, Host_UpdatedAt = 5\<rparr>"

definition demo_key :: string where
  "demo_key = replicate 32 CHR ''k''"

definition demo_credential :: Credential where
  "demo_credential = \<lparr>Cred_ID = UUID ''c1'', Cred_Name = ''deploy'', Cred_Kind = CredentialKindMachineUser,
     Cred_Description = '''',
     Cred_EncryptedData = replicate 12 CHR ''n'' @ tag_map [(''username'', ''ops'')],
     Cred_CreatedAt = 2, Cred_UpdatedAt = 2\<rparr>"

definition demo_template :: JobTemplate where
  "demo_template = \<lparr>Template_ID = UUID ''t1'', Template_Name = ''deploy'', Template_Description = '''',
     Template_ProjectID = UUID ''p1'', Template_Playbook = ''site.yml'',
     Template_CredentialID = Some (UUID ''c1''),
     Template_DefaultExtraVars = [(''env'', JStr ''dev''), (''retries'', JNum ''3'')],
     Template_CreatedAt = 3, Template_UpdatedAt = 3\<rparr>"

definition demo_agent :: "string \<Rightarrow> int \<Rightarrow> time \<Rightarrow> AgentRow" where
  "demo_agent i cap hb = \<lparr>Agent_ID = UUID i, Agent_Name = i, Agent_Address = ''http://'' @ i,
     Agent_Status = AgentStatusOnline, Agent_Labels = [], Agent_Capacity = cap,
     Agent_RunningJobs = 0, Agent_LastHeartbeatAt = Some hb, Agent_RegisteredAt = 1,
     Agent_UpdatedAt = hb, AgentRow_TokenHash = ''hash-'' @ i\<rparr>"

definition demo_job :: "string \<Rightarrow> time \<Rightarrow> Job" where
  "demo_job i t = new_job t (UUID i) (UUID ''t1'') None [(''env'', JStr ''prod'')]"

definition demo_db :: db where
  "demo_db = empty_db\<lparr>db_now := 100, db_agents := [demo_agent ''a1'' 1 90, demo_agent ''a2'' 4 95],
     db_credentials := [demo_credential], db_projects := [demo_project],
     db_inventory_hosts := [demo_host], db_job_templates := [demo_template],
     db_jobs := [demo_job ''j1'' 50]\<rparr>"

lemma untag_tag_string: "untag_string (tag_string s @ rest) = Some (s, rest)"
  by (induction s) simp_all

lemma tag_string_nonempty: "tag_string s \<noteq> []"
  by (cases s) simp_all

lemma tag_string_length: "length (tag_string s) = 2 * length s + 1"
  by (induction s) simp_all

lemma untag_tag_map: "length m \<le> n \<Longrightarrow> untag_map n (tag_map m) = Some m"
proof (induction m arbitrary: n)
  case (Cons kv m)
  obtain k v where kv: "kv = (k, v)" by fastforce
  obtain n' where n: "n = Suc n'" using Cons.prems by (cases n) auto
  obtain c cs where c: "tag_map (kv # m) = c # cs"
    using tag_string_nonempty [of k] by (cases "tag_map (kv # m)") (auto simp: kv)
  have "untag_string (c # cs) = Some (k, tag_string v @ tag_map m)"
    using untag_tag_string [of k "tag_string v @ tag_map m"] c by (simp add: kv del: untag_string.simps)
  then show ?case
    using Cons c n by (simp add: kv untag_tag_string del: untag_string.simps)
qed (cases n; simp)

lemma tag_map_length: "length m \<le> length (tag_map m)"
proof (induction m)
  case (Cons kv m)
  obtain k v where "kv = (k, v)" by fastforce
  then show ?case using Cons.IH tag_string_length [of k] by simp
qed simp

lemma tag_crypto_laws: "crypto_laws tag_crypto"
  by (simp add: crypto_laws_def tag_crypto_def untag_tag_map tag_map_length)

text \<open>Facts about the small installation that hypotheses ask for.\<close>

lemma demo_world [simp]:
  "w_db (quiet_world d) = d"
  "call_env (w_env (quiet_world d) n) = id"
  "call_outcome (w_env (quiet_world d) n) = Done"
  "w_pos (quiet_world d) = 0"
  by (simp_all add: quiet_world_def quiet_def)

lemma demo_unique: "unique_jobs demo_db"
  by (simp add: unique_jobs_def demo_db_def)

lemma quiet_env: "(\<And>d. R d d) \<Longrightarrow> env_respects R (quiet_world d)"
  by (simp add: env_respects_def)

end
