(* ===== verification/ReconcilerProps.thy ===== *)
theory ReconcilerProps
  imports ReconcilerPass Scenario
begin

section \<open>The reconciler: properties\<close>

text \<open>
  The properties of the reconciliation loop as \<open>main\<close> wires it (PostgreSQL store, AES-GCM provider,
  least-busy selector, REST transport), obtained from the interpretations of the loop's contracts.
\<close>

definition demo_cfg :: RecConfig where
  "demo_cfg = \<lparr>Rec_APIURL = ''http://api'', Rec_HeartbeatTTL = 30, Rec_DispatchTimeout = 60,
     Rec_RunningTimeout = 600\<rparr>"

definition demo_rec :: "world Reconciler" where
  "demo_rec = pg_reconciler tag_crypto demo_key (\<lambda>_. True) demo_cfg"


text \<open>What \<open>failStuck\<close> makes of one row.\<close>

lemma timed_out_id [simp]: "Job_ID (timed_out cfg now j) = Job_ID j"
  by (simp add: timed_out_def)

lemma failStuck_row:
  assumes "undisturbed w" and "unique_jobs (w_db w)" and "job_of (w_db w) i = Some j"
  shows "job_of (w_db (failStuck (pg_reconciler cr key url_ok cfg) w)) i = Some (timed_out cfg (db_now (w_db w)) j)"
proof -
  have "db_jobs (w_db (failStuck (pg_reconciler cr key url_ok cfg) w)) =
      update_rows (\<lambda>_. True) (timed_out cfg (db_now (w_db w))) (db_jobs (w_db w))"
    using failStuck_undisturbed [OF assms(1,2)] by (simp add: sets_jobs_def update_rows_def)
  then show ?thesis using assms(3) by (simp add: lookup_update_rows)
qed

lemma quiet_accepting: "accepting (\<lambda>_. True) (quiet_world d)"
  by (simp add: accepting_def quiet_world_def StatusAccepted_def)



text \<open>
  C16: No job is left behind. When the database answers, one pass over the pending jobs settles
  every job it fetched: afterwards the job is no longer pending (it was dispatched, failed with a
  reason, or claimed by another process), whatever the agents reply and whatever the other
  processes do meanwhile.
\<close>

theorem pass_settles_fetched:
  assumes "unique_jobs (w_db w)" and "env_respects jobs_rely w" and "all_answered (w_env w)"
    and "cstore_GetPendingJobs w = (Inr jobs, w1)" and "j \<in> set jobs"
  shows "claimed pg_view (dispatchPending (pg_reconciler cr key url_ok cfg) w) (Job_ID j)"
proof -
  obtain agents w2 where a: "cstore_GetAvailableAgents (Rec_HeartbeatTTL cfg) w1 = (Inr agents, w2)"
    and env: "w_env w1 = w_env w"
  proof -
    have env: "w_env w1 = w_env w"
      using assms(4) exec_world(1) [of GetPendingJobs_stmt w]
      by (auto simp: cstore_GetPendingJobs_def exec_ctx_def split_beta)
    then have "call_outcome (w_env w1 (w_pos w1)) = Done"
      using assms(3) by (simp add: all_answered_def)
    note D = exec_Done(1) [OF this, of "GetAvailableAgents_stmt (Rec_HeartbeatTTL cfg)"]
    show ?thesis
      using that env D
      by (simp add: cstore_GetAvailableAgents_def GetAvailableAgents_stmt_def exec_ctx_def split_beta)
  qed
  have "pg_good all_answered w" using assms(1-3) by (simp add: pg_good_def)
  then show ?thesis
    using pg_live.dispatchPending_settles [of w cr key url_ok cfg jobs w1 agents w2 j] assms(4,5) a
    by simp
qed

theorem pass_settles_fetched_witness:
  "claimed pg_view (dispatchPending demo_rec (quiet_world demo_db)) (UUID ''j1'')"
proof -
  have "cstore_GetPendingJobs (quiet_world demo_db) =
      (Inr [demo_job ''j1'' 50], snd (cstore_GetPendingJobs (quiet_world demo_db)))"
    by (simp add: cstore_GetPendingJobs_def GetPendingJobs_stmt_def exec_ctx_def exec_def query_def
        wrap_err_def demo_db_def quiet_world_def quiet_def demo_job_def new_job_def)
  then show ?thesis
    using pass_settles_fetched [of "quiet_world demo_db" "[demo_job ''j1'' 50]" _ "demo_job ''j1'' 50"
        tag_crypto demo_key "\<lambda>_. True" demo_cfg] quiet_env [of jobs_rely demo_db]
    by (simp add: demo_unique demo_rec_def all_answered_def jr.rely_refl demo_job_def new_job_def)
qed


definition done_job :: Job where
  "done_job = (demo_job ''j0'' 10)\<lparr>Job_Status := JobStatusSuccess, Job_AgentID := Some (UUID ''a1''),
     Job_EndedAt := Some 20, Job_UpdatedAt := 20\<rparr>"

definition busy_db :: db where
  "busy_db = demo_db\<lparr>db_jobs := [done_job, demo_job ''j1'' 50,
     transition_row 30 JobStatusDispatched (Some (UUID ''a1'')) '''' (demo_job ''j2'' 25),
     transition_row 90 JobStatusDispatched (Some (UUID ''a2'')) '''' (demo_job ''j3'' 80)]\<rparr>"


text \<open>
  The row invariant of jobs. If in every row an end time is set exactly for terminal statuses,
  pending jobs have no agent and no start time, and dispatched and running jobs have an agent, then
  the same holds after any number of ticks.
\<close>

lemma ticks_keep_rows_wf:
  assumes "env_respects keeps_jobs_wf w" and "jobs_wf (w_db w)"
  shows "jobs_wf (w_db ((tick (pg_reconciler cr key url_ok cfg) ^^ n) w))"
  using jw.ticks_rely [OF assms(1), of n cr key url_ok cfg] assms(2)
  by (simp add: keeps_jobs_wf_def)

text \<open>
  C3: Timing out stuck jobs. With no interference, one run of \<open>failStuck\<close> is exactly a map over the
  table of jobs: a job dispatched for longer than the dispatch timeout, or running without an update
  for longer than the running timeout, becomes failed with the reason that names the timeout, its
  end time set to the current time and its agent kept; every other row and every other table is
  unchanged.
\<close>

theorem failStuck_is_map:
  assumes "undisturbed w" and "unique_jobs (w_db w)"
  shows "w_db (failStuck (pg_reconciler cr key url_ok cfg) w) =
    (w_db w)\<lparr>db_jobs := map (timed_out cfg (db_now (w_db w))) (db_jobs (w_db w))\<rparr>"
  using failStuck_undisturbed [OF assms] by (simp add: sets_jobs_def)

theorem failStuck_is_map_witness:
  "map Job_Status (db_jobs (w_db (failStuck demo_rec (quiet_world busy_db)))) =
     [JobStatusSuccess, JobStatusPending, JobStatusFailed, JobStatusDispatched]"
proof -
  have "unique_jobs busy_db"
    by (simp add: unique_jobs_def busy_db_def done_job_def demo_job_def new_job_def)
  then show ?thesis
    using failStuck_is_map [of "quiet_world busy_db" tag_crypto demo_key "\<lambda>_. True" demo_cfg]
    by (simp add: demo_rec_def undisturbed_quiet_world timed_out_def busy_db_def demo_db_def done_job_def
        demo_job_def new_job_def demo_cfg_def transition_row_def)
qed

text \<open>
  C18: Building a payload. With no interference \<open>buildPayload\<close> is a pure function of the database
  and changes nothing: it returns the template's playbook, the project's repository and branch, the
  hosts of the project, the decrypted credential of the template (if it has one), and as extra
  variables the template's defaults overridden by the job's own; a missing row or an undecryptable
  credential gives the corresponding error.
\<close>

theorem buildPayload_contents:
  assumes "undisturbed w"
  shows "(\<exists>n. buildPayload (pg_reconciler cr key url_ok cfg) job ag w =
      (payload_of cr key cfg (w_db w) job, w\<lparr>w_pos := n\<rparr>)) \<and>
    (\<forall>tmpl p. lookup_row Template_ID (db_job_templates (w_db w)) (Job_TemplateID job) = Some tmpl \<and>
       payload_of cr key cfg (w_db w) job = Inr p \<and>
       distinct (map fst (Template_DefaultExtraVars tmpl)) \<and> distinct (map fst (Job_ExtraVars job)) \<longrightarrow>
       map_of (Payload_ExtraVars p) =
         map_of (Template_DefaultExtraVars tmpl) ++ map_of (Job_ExtraVars job))"
proof (intro conjI allI impI)
  show "\<exists>n. buildPayload (pg_reconciler cr key url_ok cfg) job ag w =
      (payload_of cr key cfg (w_db w) job, w\<lparr>w_pos := n\<rparr>)"
    using buildPayload_undisturbed [OF assms, of cr key url_ok cfg job ag]
    by (cases "buildPayload (pg_reconciler cr key url_ok cfg) job ag w") (auto simp: reads_def)
qed (auto simp: payload_of_def map_of_go_merge split: option.splits sum.splits)

theorem buildPayload_contents_witness:
  "\<exists>p. fst (buildPayload demo_rec (demo_job ''j1'' 50) (UUID ''a2'') (quiet_world demo_db)) = Inr p \<and>
     map_of (Payload_ExtraVars p) ''env'' = Some (JStr ''prod'') \<and>
     map_of (Payload_ExtraVars p) ''retries'' = Some (JNum ''3'') \<and>
     map Secret_Fields (Payload_Credentials p) = [[(''username'', ''ops'')]]"
proof -
  have "lookup_row Template_ID (db_job_templates demo_db) (Job_TemplateID (demo_job ''j1'' 50)) = Some demo_template"
    by code_simp
  moreover have "isOk (payload_of tag_crypto demo_key demo_cfg demo_db (demo_job ''j1'' 50)) \<and>
      map Secret_Fields (Payload_Credentials
        (projr (payload_of tag_crypto demo_key demo_cfg demo_db (demo_job ''j1'' 50)))) =
      [[(''username'', ''ops'')]]"
    by code_simp
  moreover have "distinct (map fst (Template_DefaultExtraVars demo_template))"
      "distinct (map fst (Job_ExtraVars (demo_job ''j1'' 50)))"
    by (simp_all add: demo_template_def demo_job_def new_job_def)
  ultimately show ?thesis
    using buildPayload_contents [OF undisturbed_quiet_world, of tag_crypto demo_key "\<lambda>_. True" demo_cfg
        "demo_job ''j1'' 50" "UUID ''a2''" demo_db]
    by (auto simp: demo_rec_def demo_template_def demo_job_def new_job_def elim!: isOkE)
qed

text \<open>
  C31: No agent available. With no interference, if no agent is online, alive and below its
  capacity, one pass marks every job it fetched (the 50 oldest pending ones) as failed with the
  reason that no agents are available, changes nothing else and sends nothing. Jobs do not wait for
  an agent to come back.
\<close>

theorem no_agents_fails_batch:
  assumes "undisturbed w" and "unique_jobs (w_db w)"
    and "available_agents (Rec_HeartbeatTTL cfg) (w_db w) = []"
  shows "w_db (dispatchPending (pg_reconciler cr key url_ok cfg) w) = (w_db w)\<lparr>db_jobs :=
    map (\<lambda>j. if Job_ID j \<in> Job_ID ` set (pending_batch (w_db w)) \<and> Job_Status j = JobStatusPending
             then transition_row (db_now (w_db w)) JobStatusFailed None no_agents_reason j else j)
      (db_jobs (w_db w))\<rparr>"
  using dispatchPending_no_agents [OF assms]
  by (simp add: sets_jobs_def move_jobs_def update_rows_def)

theorem no_agents_fails_batch_witness:
  "map Job_FailureReason (db_jobs (w_db (dispatchPending demo_rec
     (quiet_world (demo_db\<lparr>db_agents := []\<rparr>))))) = [Some no_agents_reason]"
proof -
  have "unique_jobs (demo_db\<lparr>db_agents := []\<rparr>)"
    by (simp add: unique_jobs_def demo_db_def)
  moreover have "available_agents (Rec_HeartbeatTTL demo_cfg) (demo_db\<lparr>db_agents := []\<rparr>) = []"
    by (simp add: available_agents_def)
  moreover have "pending_batch (demo_db\<lparr>db_agents := []\<rparr>) = [demo_job ''j1'' 50]"
    by (simp add: pending_batch_def demo_db_def demo_job_def new_job_def)
  ultimately show ?thesis
    using no_agents_fails_batch [OF undisturbed_quiet_world, of "demo_db\<lparr>db_agents := []\<rparr>" demo_cfg
        tag_crypto demo_key "\<lambda>_. True"]
    by (simp add: demo_rec_def demo_db_def demo_job_def new_job_def transition_row_def no_agents_reason_def)
qed

text \<open>
  One pass gives its whole batch to one agent. The list of agents is read once per pass and the
  load in it is not updated, so with no interference and agents that accept, every fetched job is
  sent to and assigned to the same agent, the selector's choice, whose load grows by the size of
  the batch (up to 50) whatever its capacity.
\<close>

lemma batch_goes_to_one_agent:
  assumes "undisturbed w" and "unique_jobs (w_db w)" and "accepting url_ok w"
    and "Select (available_agents (Rec_HeartbeatTTL cfg) (w_db w)) = Inr a"
    and "\<forall>j\<in>set (pending_batch (w_db w)). isOk (payload_of cr key cfg (w_db w) j)"
    and "w' = dispatchPending (pg_reconciler cr key url_ok cfg) w"
  shows "dispatched_jobs w' = dispatched_jobs w @ map Job_ID (pending_batch (w_db w)) \<and>
    (\<forall>j\<in>set (pending_batch (w_db w)). \<exists>j'. job_of (w_db w') (Job_ID j) = Some j' \<and>
       Job_Status j' = JobStatusDispatched \<and> Job_AgentID j' = Some (Agent_ID a)) \<and>
    running_jobs (w_db w') (Agent_ID a) =
      running_jobs (w_db w) (Agent_ID a) + int (length (pending_batch (w_db w)))"
proof -
  let ?b = "pending_batch (w_db w)"
  obtain w1 where r: "reads w w1" and run: "w' = dispatch_jobs (pg_reconciler cr key url_ok cfg)
      (available_agents (Rec_HeartbeatTTL cfg) (w_db w)) ?b w1"
    using dispatchPending_undisturbed [OF assms(1)] assms(6) by blast
  have ag: "Agent_ID a \<in> Agent_ID ` set (db_agents (w_db w))"
    using leastbusy.sel_mem [OF assms(4)] by (auto simp: available_agents_def scan_agent_def)
  have sent: "dispatched_jobs w1 = dispatched_jobs w"
    using readsD [OF r] by (simp add: dispatched_jobs_def)
  have acc: "accepting url_ok w1"
    using assms(3) readsD [OF r] by (simp add: accepting_def)
  have D: "dispatched_jobs w' = dispatched_jobs w1 @ map Job_ID ?b"
    "sets_jobs w1 w' (move_jobs (Job_ID ` set ?b) JobStatusPending (db_now (w_db w1))
      JobStatusDispatched (Some (Agent_ID a)) '''' (db_jobs (w_db w1)))"
    unfolding run
    using dispatch_jobs_accepted [of w1 url_ok "available_agents (Rec_HeartbeatTTL cfg) (w_db w)"
        a ?b cr key cfg] acc assms(1,2,4,5) ag readsD [OF r] reads_undisturbed [OF r]
      pending_batch_facts [OF assms(2)]
    by simp_all
  have jobs: "db_jobs (w_db w') = move_jobs (Job_ID ` set ?b) JobStatusPending (db_now (w_db w))
      JobStatusDispatched (Some (Agent_ID a)) '''' (db_jobs (w_db w))"
    using D(2) readsD [OF r] by (simp add: sets_jobs_def)
  have "\<exists>j'. job_of (w_db w') (Job_ID j) = Some j' \<and> Job_Status j' = JobStatusDispatched \<and>
      Job_AgentID j' = Some (Agent_ID a)" if j: "j \<in> set ?b" for j
  proof -
    obtain z where "job_of (w_db w) (Job_ID j) = Some z" "Job_Status z = JobStatusPending"
        "Job_ID z = Job_ID j"
      using pending_batch_facts(2) [OF assms(2) j] by (auto simp: status_of_def dest: lookup_row_SomeD)
    then show ?thesis
      using j by (simp add: jobs move_jobs_def lookup_update_rows coalesce_def)
  qed
  then show ?thesis
    using D(1) sent move_running_jobs [OF jobs] pending_batch_count [OF assms(2)] by simp
qed

end
