(* ===== verification/ControllerProps.thy ===== *)
theory ControllerProps
  imports ReconcilerPass Scenario
begin

section \<open>The controller's other parts: properties\<close>

text \<open>
  The agent selector, the two queries that feed the dispatch loop, the credential pipeline from the
  API server's encryption to the controller's decryption, and the job state machine.
\<close>

lemma select_loop_sorted:
  "(\<And>x. x \<in> set as \<Longrightarrow> better_or_equal b x) \<Longrightarrow> select_loop b as = b"
  by (induction as) (simp_all add: prefer_agent_iff)

definition heartbeat_key :: "Agent \<Rightarrow> int \<times> int" where
  "heartbeat_key a = (Agent_RunningJobs a, case Agent_LastHeartbeatAt a of None \<Rightarrow> 0 | Some t \<Rightarrow> - t)"

lemma available_agents_sorted:
  "sorted (map heartbeat_key (available_agents ttl d))"
  by (simp add: available_agents_def heartbeat_key_def [abs_def, symmetric])

lemma available_agents_mem:
  "a \<in> set (available_agents ttl d) \<longleftrightarrow> (\<exists>r\<in>set (db_agents d). a = scan_agent d r \<and>
     Agent_Status r = AgentStatusOnline \<and> heartbeat_within d ttl (Agent_LastHeartbeatAt r) \<and>
     running_jobs d (Agent_ID r) < Agent_Capacity r)"
  by (auto simp: available_agents_def)

lemma available_heartbeat:
  "a \<in> set (available_agents ttl d) \<Longrightarrow> Agent_LastHeartbeatAt a \<noteq> None"
  by (auto simp: available_agents_mem scan_agent_def heartbeat_within_def split: option.splits)

lemma heartbeat_key_better:
  "heartbeat_key a \<le> heartbeat_key b \<Longrightarrow> Agent_LastHeartbeatAt a \<noteq> None \<Longrightarrow>
   Agent_LastHeartbeatAt b \<noteq> None \<Longrightarrow> better_or_equal a b"
  by (auto simp: heartbeat_key_def better_or_equal_def less_eq_prod_def)

lemma valid_path_rank: "(CanTransitionTo ^^ n) s t \<Longrightarrow> status_rank s + n \<le> status_rank t"
proof (induction n arbitrary: t)
  case (Suc n)
  then obtain u where u: "(CanTransitionTo ^^ n) s u" "CanTransitionTo u t" by auto
  then have "status_rank s + n \<le> status_rank u" "status_rank u < status_rank t"
    using Suc.IH CanTransitionTo_rank by auto
  then show ?case by linarith
qed simp

lemma status_rank_le: "status_rank s \<le> 3"
  by (cases s) simp_all

lemma take_sort_key_smallest:
  assumes "x \<in> set (take n (sort_key f xs))" and "y \<in> set (drop n (sort_key f xs))"
  shows "f x \<le> f y"
proof -
  have "sorted (map f (take n (sort_key f xs)) @ map f (drop n (sort_key f xs)))"
    by (metis append_take_drop_id map_append sorted_sort_key)
  then show ?thesis
    using assms by (auto simp: sorted_append)
qed

text \<open>
  C4: The least-busy selector. On a non-empty slice \<open>Select\<close> returns an element with the fewest
  running jobs and, among those, the most recent heartbeat (an agent that never sent one comes
  last), the first such element of the slice; on an empty slice it returns the error that no agents
  are available.
\<close>

theorem Select_first_best:
  "case Select as of
     Inl e \<Rightarrow> as = [] \<and> e = ErrMsg ''no agents available''
   | Inr a \<Rightarrow> \<exists>xs ys. as = xs @ a # ys \<and> (\<forall>x\<in>set as. better_or_equal a x) \<and>
       (\<forall>x\<in>set xs. \<not> better_or_equal x a)"
proof (cases as)
  case Nil
  then show ?thesis by (simp add: Select_def)
next
  case (Cons b bs)
  then show ?thesis
    using select_loop_first [of b bs] select_loop_best [of _ b bs] by (auto simp: Select_def)
qed

theorem Select_first_best_witness:
  "\<exists>a. Select (map (scan_agent demo_db) (db_agents demo_db)) = Inr a \<and> Agent_ID a = UUID ''a2'' \<and>
     (\<forall>x\<in>set (map (scan_agent demo_db) (db_agents demo_db)). better_or_equal a x)"
proof -
  obtain a where a: "Select (map (scan_agent demo_db) (db_agents demo_db)) = Inr a" "Agent_ID a = UUID ''a2''"
    by (simp add: Select_def demo_db_def prefer_agent_def scan_agent_def running_jobs_def demo_agent_def
        demo_job_def new_job_def)
  then show ?thesis
    using Select_first_best [of "map (scan_agent demo_db) (db_agents demo_db)"] by auto
qed

text \<open>
  Which agents are candidates. \<open>GetAvailableAgents\<close> returns exactly the agents that are online,
  sent a heartbeat within the TTL and have fewer dispatched or running jobs than their capacity; and
  its \<open>ORDER BY\<close> already agrees with the selector, so the agent chosen for a pass is the head of
  the list.
\<close>

lemma available_agents_and_choice:
  assumes "available_agents ttl d = a # as"
  shows "Select (available_agents ttl d) = Inr a \<and>
    (\<forall>x. x \<in> set (available_agents ttl d) \<longleftrightarrow>
      (\<exists>r\<in>set (db_agents d). x = scan_agent d r \<and> Agent_Status r = AgentStatusOnline \<and>
        heartbeat_within d ttl (Agent_LastHeartbeatAt r) \<and>
        running_jobs d (Agent_ID r) < Agent_Capacity r))"
proof
  have "better_or_equal a x" if "x \<in> set as" for x
  proof (rule heartbeat_key_better)
    show "heartbeat_key a \<le> heartbeat_key x"
      using available_agents_sorted [of ttl d] assms that by simp
  qed (use assms that available_heartbeat [of _ ttl d] in auto)
  then show "Select (available_agents ttl d) = Inr a"
    by (simp add: assms Select_def select_loop_sorted)
qed (use available_agents_mem [of _ ttl d] in blast)

text \<open>
  The batch that a pass works on. \<open>GetPendingJobs\<close> returns at most 50 jobs, oldest first, all
  pending and not locked by another controller; a pending unlocked job that is left out is not older
  than any that is returned, and jobs are left out only when the batch is full.
\<close>

lemma GetPendingJobs_oldest:
  assumes "fst (GetPendingJobs_stmt c d) = Inr js"
  shows "length js \<le> 50 \<and> sorted (map Job_CreatedAt js) \<and>
    set js \<subseteq> {j \<in> set (db_jobs d). Job_Status j = JobStatusPending \<and> \<not> call_locked c (Job_ID j)} \<and>
    (\<forall>j\<in>set (db_jobs d). Job_Status j = JobStatusPending \<and> \<not> call_locked c (Job_ID j) \<and> j \<notin> set js \<longrightarrow>
       length js = 50 \<and> (\<forall>k\<in>set js. Job_CreatedAt k \<le> Job_CreatedAt j))"
proof -
  let ?ps = "filter (\<lambda>j. Job_Status j = JobStatusPending \<and> \<not> call_locked c (Job_ID j)) (db_jobs d)"
  let ?s = "sort_key Job_CreatedAt ?ps"
  have js: "js = take 50 ?s"
    using assms by (simp add: GetPendingJobs_stmt_def)
  have "sorted (map Job_CreatedAt js)"
    by (simp add: js take_map [symmetric] sorted_wrt_take)
  moreover have "set js \<subseteq> set ?ps"
    by (auto simp: js dest: in_set_takeD)
  moreover have "length js = 50 \<and> (\<forall>k\<in>set js. Job_CreatedAt k \<le> Job_CreatedAt j)"
    if "j \<in> set ?ps" "j \<notin> set js" for j
  proof -
    have "j \<in> set (take 50 ?s @ drop 50 ?s)" using that(1) by simp
    then have dr: "j \<in> set (drop 50 ?s)"
      unfolding set_append using that(2) js by blast
    then have "length ?s > 50" by (cases "length ?s > 50") auto
    then show ?thesis
      using take_sort_key_smallest [OF _ dr] by (simp add: js)
  qed
  ultimately show ?thesis
    by (auto simp: js)
qed

text \<open>
  C34: Credentials survive the trip from the API server to the agent's payload. What \<open>Encrypt\<close>
  produced from the JSON text of a credential's fields and was stored with the credential is what
  the controller's provider, configured with the same key, decrypts: the stored kind and the same
  fields. The cipher and the JSON codec are assumed to invert themselves.
\<close>

theorem credential_round_trip:
  assumes "crypto_laws cr" and "Encrypt cr (Some nonce) key (json_fields_enc cr m) = Inr blob"
    and "length nonce = gcm_NonceSize" and "distinct (map fst m)"
    and "undisturbed w" and "lookup_row Cred_ID (db_credentials (w_db w)) i = Some cred"
    and "Cred_EncryptedData cred = blob"
  shows "\<exists>flds. fst (Resolve cr key i w) = Inr \<lparr>Secret_Kind = Cred_Kind cred, Secret_Fields = flds\<rparr> \<and>
    map_of flds = map_of m"
proof -
  have "key \<noteq> []"
    using assms(2) by (auto simp: Encrypt_def aes_key_ok_def split: if_splits)
  moreover obtain flds where "json_fields_dec cr (json_fields_enc cr m) = Some flds" "map_of flds = map_of m"
    using assms(1,4) by (auto simp: crypto_laws_def)
  moreover have "decrypt cr key (Cred_EncryptedData cred) = Inr (json_fields_enc cr m)"
    using decrypt_Encrypt [OF assms(1-3)] assms(7) by simp
  moreover have "fst (Resolve cr key i w) = secret_of cr key (w_db w) i"
    using Resolve_undisturbed [OF assms(5)] by (metis prod.collapse)
  ultimately show ?thesis
    using assms(6) by (simp add: secret_of_def Let_def decode_secret_def)
qed

theorem credential_round_trip_witness:
  "\<exists>flds. fst (Resolve tag_crypto demo_key (UUID ''c1'') (quiet_world demo_db)) =
     Inr \<lparr>Secret_Kind = CredentialKindMachineUser, Secret_Fields = flds\<rparr> \<and>
   map_of flds = map_of [(''username'', ''ops'')]"
proof -
  have "Encrypt tag_crypto (Some (replicate 12 CHR ''n'')) demo_key
      (json_fields_enc tag_crypto [(''username'', ''ops'')]) = Inr (Cred_EncryptedData demo_credential)"
    by (simp add: Encrypt_def aes_key_ok_def demo_key_def tag_crypto_def demo_credential_def)
  moreover have "lookup_row Cred_ID (db_credentials demo_db) (UUID ''c1'') = Some demo_credential"
    by (simp add: demo_db_def demo_credential_def)
  moreover have "Cred_Kind demo_credential = CredentialKindMachineUser"
    by (simp add: demo_credential_def)
  ultimately show ?thesis
    using credential_round_trip [OF tag_crypto_laws, of "replicate 12 CHR ''n''" demo_key
        "[(''username'', ''ops'')]" "Cred_EncryptedData demo_credential" "quiet_world demo_db"
        "UUID ''c1''" demo_credential]
    by (simp add: gcm_NonceSize_def undisturbed_quiet_world)
qed

text \<open>
  The job state machine is a finite, acyclic one. A sequence of valid transitions has at most
  three steps, never returns to a status it left, and can be continued exactly until a terminal
  status (or a string that is no status at all).
\<close>

lemma valid_paths_bounded:
  assumes "(CanTransitionTo ^^ n) s t"
  shows "n \<le> 3 \<and> (n > 0 \<longrightarrow> s \<noteq> t) \<and>
    ((\<nexists>u. CanTransitionTo t u) \<longleftrightarrow> IsTerminal t \<or> (\<exists>x. t = JobStatusOther x))"
proof (intro conjI)
  show "n \<le> 3" "n > 0 \<longrightarrow> s \<noteq> t"
    using valid_path_rank [OF assms] status_rank_le [of t] by auto
  show "(\<nexists>u. CanTransitionTo t u) \<longleftrightarrow> IsTerminal t \<or> (\<exists>x. t = JobStatusOther x)"
    by (cases t) (auto simp: CanTransitionTo_cases)
qed

end
