(* ===== verification/ApiStore.thy ===== *)
theory ApiStore
  imports Database ControllerStore
begin

section \<open>The API server's store (api/internal/store)\<close>

text \<open>
  One definition per method of the API server's \<open>Store\<close>. A statement that has to be talked about by
  itself is named (\<open>..._stmt\<close>); the program executes it. The API store does not wrap errors: it
  returns the driver's error, except that "no rows" becomes \<open>ErrNotFound\<close> (\<open>exec_nf\<close>), and an
  update or delete that affects no row does too (\<open>exec_tag\<close>). Constraints, column defaults, cascades
  and the \<open>updated_at\<close> triggers are those of \<open>migrations/\<close>.

  \<open>collate\<close> is the collation key of the database, which \<open>ORDER BY name\<close> uses.
\<close>

subsection \<open>Executing (store.go)\<close>

definition isNotFound :: "goerr \<Rightarrow> bool" where
  "isNotFound e \<longleftrightarrow> e = ErrNoRows"

definition exec_nf :: "'a stmt \<Rightarrow> (world, 'a) prog" where
  "exec_nf q w =
     (case exec q w of
        (Inl e, w') \<Rightarrow> (Inl (if isNotFound e then ErrNotFound else e), w')
      | (Inr x, w') \<Rightarrow> (Inr x, w'))"

definition exec_tag :: "nat stmt \<Rightarrow> (world, unit) prog" where
  "exec_tag q w =
     (case exec q w of
        (Inl e, w') \<Rightarrow> (Inl e, w')
      | (Inr n, w') \<Rightarrow> (if n = 0 then Inl ErrNotFound else Inr (), w'))"

text \<open>The range of the column type \<open>integer\<close>.\<close>

definition int4_ok :: "int \<Rightarrow> bool" where
  "int4_ok n \<longleftrightarrow> - (2 ^ 31) \<le> n \<and> n < 2 ^ 31"

definition int4_err :: goerr where
  "int4_err = ErrMsg ''cannot encode value as int4''"

text \<open>A nil map or slice that the driver sends as \<open>NULL\<close>, into a \<open>NOT NULL\<close> column.\<close>

definition null_refused :: "call \<Rightarrow> 'a option \<Rightarrow> bool" where
  "null_refused c x \<longleftrightarrow> x = None \<and> call_nil_null c"

abbreviation or_empty :: "'v gomap option \<Rightarrow> 'v gomap" where
  "or_empty m \<equiv> (case m of None \<Rightarrow> [] | Some x \<Rightarrow> x)"

subsection \<open>Jobs (jobs.go)\<close>

definition astore_CreateJob :: "uuid \<Rightarrow> uuid option \<Rightarrow> vars option \<Rightarrow> (world, Job) prog" where
  "astore_CreateJob templateID workflowRunID extraVars =
     exec (insert_job_stmt templateID workflowRunID (or_empty extraVars))"

definition astore_GetJob :: "uuid \<Rightarrow> (world, Job) prog" where
  "astore_GetJob i = exec_nf (query (\<lambda>c d. one_row (job_of d i)))"

record ListJobsFilter =
  Filter_Status :: "JobStatus option"
  Filter_TemplateID :: "uuid option"
  Filter_AgentID :: "uuid option"

definition job_matches :: "ListJobsFilter \<Rightarrow> Job \<Rightarrow> bool" where
  "job_matches f j \<longleftrightarrow>
     (case Filter_Status f of None \<Rightarrow> True | Some s \<Rightarrow> Job_Status j = s) \<and>
     (case Filter_TemplateID f of None \<Rightarrow> True | Some t \<Rightarrow> Job_TemplateID j = t) \<and>
     (case Filter_AgentID f of None \<Rightarrow> True | Some a \<Rightarrow> Job_AgentID j = Some a)"

definition astore_ListJobs :: "ListJobsFilter \<Rightarrow> (world, Job list) prog" where
  "astore_ListJobs f = exec (query (\<lambda>c d.
     Inr (take 200 (sort_key (\<lambda>j. - Job_CreatedAt j) (filter (job_matches f) (db_jobs d))))))"

text \<open>The \<open>SET\<close> clause, and the trigger on \<open>updated_at\<close>.\<close>

definition status_row :: "time \<Rightarrow> JobStatus \<Rightarrow> uuid option \<Rightarrow> string option \<Rightarrow> Job \<Rightarrow> Job" where
  "status_row now status agentID failureReason j = j\<lparr>
     Job_Status := status,
     Job_AgentID := coalesce agentID (Job_AgentID j),
     Job_FailureReason := coalesce failureReason (Job_FailureReason j),
     Job_StartedAt := (if status = JobStatusRunning \<and> Job_StartedAt j = None then Some now
                       else Job_StartedAt j),
     Job_EndedAt := (if status = JobStatusSuccess \<or> status = JobStatusFailed \<or> status = JobStatusCancelled
                     then Some now else Job_EndedAt j),
     Job_UpdatedAt := now\<rparr>"

definition UpdateJobStatus_stmt ::
  "uuid \<Rightarrow> JobStatus \<Rightarrow> uuid option \<Rightarrow> string option \<Rightarrow> unit stmt" where [stmt_defs]:
  "UpdateJobStatus_stmt i status agentID failureReason c d =
     (if i \<in> Job_ID ` set (db_jobs d) \<and> \<not> agent_exists d agentID
      then (Inl (PgError ForeignKeyViolation), d)
      else (Inr (), d\<lparr>db_jobs := update_rows (\<lambda>j. Job_ID j = i)
              (status_row (db_now d) status agentID failureReason) (db_jobs d)\<rparr>))"

definition astore_UpdateJobStatus ::
  "uuid \<Rightarrow> JobStatus \<Rightarrow> uuid option \<Rightarrow> string option \<Rightarrow> (world, unit) prog" where
  "astore_UpdateJobStatus i status agentID failureReason =
     exec (UpdateJobStatus_stmt i status agentID failureReason)"

definition SetJobFacts_stmt :: "uuid \<Rightarrow> vars \<Rightarrow> unit stmt" where [stmt_defs]:
  "SetJobFacts_stmt i facts c d =
     (Inr (), d\<lparr>db_jobs := update_rows (\<lambda>j. Job_ID j = i)
        (\<lambda>j. j\<lparr>Job_Facts := facts, Job_UpdatedAt := db_now d\<rparr>) (db_jobs d)\<rparr>)"

definition astore_SetJobFacts :: "uuid \<Rightarrow> vars \<Rightarrow> (world, unit) prog" where
  "astore_SetJobFacts i facts = exec (SetJobFacts_stmt i facts)"

text \<open>One line: \<open>ON CONFLICT (job_id, seq) DO NOTHING\<close>.\<close>

definition log_exists :: "uuid \<Rightarrow> int \<Rightarrow> LogRow list \<Rightarrow> bool" where
  "log_exists jobID seq rs \<longleftrightarrow> list_ex (\<lambda>r. LogRow_JobID r = jobID \<and> Log_Seq r = seq) rs"

definition log_row :: "uuid \<Rightarrow> JobLogLine \<Rightarrow> LogRow" where
  "log_row jobID l = \<lparr>Log_Seq = Log_Seq l, Log_Line = Log_Line l, Log_Stream = Log_Stream l,
     LogRow_JobID = jobID\<rparr>"

definition insert_log_stmt :: "uuid \<Rightarrow> JobLogLine \<Rightarrow> unit stmt" where [stmt_defs]:
  "insert_log_stmt jobID l c d =
     (if \<not> int4_ok (Log_Seq l) then (Inl int4_err, d)
      else if log_exists jobID (Log_Seq l) (db_job_logs d) then (Inr (), d)
      else if jobID \<notin> Job_ID ` set (db_jobs d) then (Inl (PgError ForeignKeyViolation), d)
      else (Inr (), d\<lparr>db_job_logs := db_job_logs d @ [log_row jobID l]\<rparr>))"

fun astore_AppendJobLogs :: "uuid \<Rightarrow> JobLogLine list \<Rightarrow> (world, unit) prog" where
  "astore_AppendJobLogs jobID [] w = (Inr (), w)"
| "astore_AppendJobLogs jobID (l # ls) w =
     (case exec (insert_log_stmt jobID l) w of
        (Inl e, w') \<Rightarrow> (Inl e, w')
      | (Inr _, w') \<Rightarrow> astore_AppendJobLogs jobID ls w')"

definition scan_log :: "LogRow \<Rightarrow> JobLogLine" where
  "scan_log r = \<lparr>Log_Seq = Log_Seq r, Log_Line = Log_Line r, Log_Stream = Log_Stream r\<rparr>"

definition job_logs :: "uuid \<Rightarrow> db \<Rightarrow> JobLogLine list" where
  "job_logs jobID d = map scan_log (sort_key Log_Seq (filter (\<lambda>r. LogRow_JobID r = jobID) (db_job_logs d)))"

definition astore_GetJobLogs :: "uuid \<Rightarrow> (world, JobLogLine list) prog" where
  "astore_GetJobLogs jobID = exec (query (\<lambda>c d. Inr (job_logs jobID d)))"

definition AddJobStatusEvent_stmt ::
  "uuid \<Rightarrow> JobStatus \<Rightarrow> JobStatus \<Rightarrow> string \<Rightarrow> unit stmt" where [stmt_defs]:
  "AddJobStatusEvent_stmt jobID fromStatus toStatus reason c d =
     (if call_uuid c 0 \<in> Event_ID ` set (db_job_status_events d) then (Inl (PgError UniqueViolation), d)
      else if jobID \<notin> Job_ID ` set (db_jobs d) then (Inl (PgError ForeignKeyViolation), d)
      else (Inr (), d\<lparr>db_job_status_events := db_job_status_events d @
        [\<lparr>Event_ID = call_uuid c 0, Event_JobID = jobID, Event_FromStatus = fromStatus,
          Event_ToStatus = toStatus, Event_Timestamp = db_now d, Event_Reason = reason\<rparr>]\<rparr>))"

definition astore_AddJobStatusEvent ::
  "uuid \<Rightarrow> JobStatus \<Rightarrow> JobStatus \<Rightarrow> string \<Rightarrow> (world, unit) prog" where
  "astore_AddJobStatusEvent jobID fromStatus toStatus reason =
     exec (AddJobStatusEvent_stmt jobID fromStatus toStatus reason)"

subsection \<open>Agents (agents.go)\<close>

definition scan_agent_row :: "AgentRow \<Rightarrow> Agent" where
  "scan_agent_row r = \<lparr>Agent_ID = Agent_ID r, Agent_Name = Agent_Name r,
     Agent_Address = Agent_Address r, Agent_Status = Agent_Status r, Agent_Labels = Agent_Labels r,
     Agent_Capacity = Agent_Capacity r, Agent_RunningJobs = 0,
     Agent_LastHeartbeatAt = Agent_LastHeartbeatAt r, Agent_RegisteredAt = Agent_RegisteredAt r,
     Agent_UpdatedAt = Agent_UpdatedAt r\<rparr>"

definition new_agent_row ::
  "time \<Rightarrow> uuid \<Rightarrow> string \<Rightarrow> string \<Rightarrow> string \<Rightarrow> string gomap \<Rightarrow> int \<Rightarrow> AgentRow" where
  "new_agent_row now i name address tokenHash labels capacity =
     \<lparr>Agent_ID = i, Agent_Name = name, Agent_Address = address, Agent_Status = AgentStatusOffline,
      Agent_Labels = labels, Agent_Capacity = capacity, Agent_RunningJobs = 0,
      Agent_LastHeartbeatAt = None, Agent_RegisteredAt = now, Agent_UpdatedAt = now,
      AgentRow_TokenHash = tokenHash\<rparr>"

definition CreateAgent_stmt ::
  "string \<Rightarrow> string \<Rightarrow> string \<Rightarrow> string gomap \<Rightarrow> int \<Rightarrow> Agent stmt" where [stmt_defs]:
  "CreateAgent_stmt name address tokenHash labels capacity c d =
     (let r = new_agent_row (db_now d) (call_uuid c 0) name address tokenHash labels capacity
      in if \<not> int4_ok capacity then (Inl int4_err, d)
         else if Agent_ID r \<in> Agent_ID ` set (db_agents d) \<or>
            tokenHash \<in> AgentRow_TokenHash ` set (db_agents d) then (Inl (PgError UniqueViolation), d)
         else (Inr (scan_agent_row r), d\<lparr>db_agents := db_agents d @ [r]\<rparr>))"

definition astore_CreateAgent ::
  "string \<Rightarrow> string \<Rightarrow> string \<Rightarrow> string gomap \<Rightarrow> int \<Rightarrow> (world, Agent) prog" where
  "astore_CreateAgent name address tokenHash labels capacity =
     exec (CreateAgent_stmt name address tokenHash labels capacity)"

definition astore_GetAgentByID :: "uuid \<Rightarrow> (world, Agent) prog" where
  "astore_GetAgentByID i = exec_nf (query (\<lambda>c d.
     one_row (map_option scan_agent_row (lookup_row Agent_ID (db_agents d) i))))"

definition astore_GetAgentByTokenHash :: "string \<Rightarrow> (world, Agent) prog" where
  "astore_GetAgentByTokenHash tokenHash = exec_nf (query (\<lambda>c d.
     one_row (map_option scan_agent_row (lookup_row AgentRow_TokenHash (db_agents d) tokenHash))))"

definition astore_ListAgents :: "(world, Agent list) prog" where
  "astore_ListAgents = exec (query (\<lambda>c d.
     Inr (map scan_agent_row (sort_key (\<lambda>r. - Agent_RegisteredAt r) (db_agents d)))))"

definition UpdateAgentHeartbeat_stmt :: "uuid \<Rightarrow> nat stmt" where [stmt_defs]:
  "UpdateAgentHeartbeat_stmt i c d =
     (Inr (rows_affected (\<lambda>r. Agent_ID r = i) (db_agents d)),
      d\<lparr>db_agents := update_rows (\<lambda>r. Agent_ID r = i)
          (\<lambda>r. r\<lparr>Agent_LastHeartbeatAt := Some (db_now d), Agent_Status := AgentStatusOnline,
                  Agent_UpdatedAt := db_now d\<rparr>) (db_agents d)\<rparr>)"

definition astore_UpdateAgentHeartbeat :: "uuid \<Rightarrow> int \<Rightarrow> duration \<Rightarrow> (world, unit) prog" where
  "astore_UpdateAgentHeartbeat i runningJobs ttl = exec_tag (UpdateAgentHeartbeat_stmt i)"

definition MarkStaleAgentsOffline_stmt :: "duration \<Rightarrow> unit stmt" where [stmt_defs]:
  "MarkStaleAgentsOffline_stmt ttl c d =
     (Inr (), d\<lparr>db_agents := update_rows
        (\<lambda>r. Agent_Status r = AgentStatusOnline \<and>
             (case Agent_LastHeartbeatAt r of None \<Rightarrow> False | Some t \<Rightarrow> t < db_now d - ttl))
        (\<lambda>r. r\<lparr>Agent_Status := AgentStatusOffline, Agent_UpdatedAt := db_now d\<rparr>) (db_agents d)\<rparr>)"

definition astore_MarkStaleAgentsOffline :: "duration \<Rightarrow> (world, unit) prog" where
  "astore_MarkStaleAgentsOffline ttl = exec (MarkStaleAgentsOffline_stmt ttl)"

subsection \<open>Users and API tokens (users.go)\<close>

definition CreateUser_stmt :: "string \<Rightarrow> string \<Rightarrow> User stmt" where [stmt_defs]:
  "CreateUser_stmt email passwordHash c d =
     (let u = \<lparr>User_ID = call_uuid c 0, User_Email = email, User_PasswordHash = passwordHash,
               User_CreatedAt = db_now d, User_UpdatedAt = db_now d\<rparr>
      in if User_ID u \<in> User_ID ` set (db_users d) \<or> email \<in> User_Email ` set (db_users d)
         then (Inl (PgError UniqueViolation), d)
         else (Inr u, d\<lparr>db_users := db_users d @ [u]\<rparr>))"

definition astore_CreateUser :: "string \<Rightarrow> string \<Rightarrow> (world, User) prog" where
  "astore_CreateUser email passwordHash = exec (CreateUser_stmt email passwordHash)"

definition astore_GetUserByEmail :: "string \<Rightarrow> (world, User) prog" where
  "astore_GetUserByEmail email =
     exec_nf (query (\<lambda>c d. one_row (lookup_row User_Email (db_users d) email)))"

definition astore_GetUserByID :: "uuid \<Rightarrow> (world, User) prog" where
  "astore_GetUserByID i = exec_nf (query (\<lambda>c d. one_row (lookup_row User_ID (db_users d) i)))"

definition CreateAPIToken_stmt :: "uuid \<Rightarrow> string \<Rightarrow> string \<Rightarrow> APIToken stmt" where [stmt_defs]:
  "CreateAPIToken_stmt userID name tokenHash c d =
     (let t = \<lparr>Token_ID = call_uuid c 0, Token_UserID = userID, Token_Name = name,
               Token_TokenHash = tokenHash, Token_CreatedAt = db_now d, Token_LastUsedAt = None,
               Token_ExpiresAt = None\<rparr>
      in if Token_ID t \<in> Token_ID ` set (db_api_tokens d) \<or>
            tokenHash \<in> Token_TokenHash ` set (db_api_tokens d) then (Inl (PgError UniqueViolation), d)
         else if userID \<notin> User_ID ` set (db_users d) then (Inl (PgError ForeignKeyViolation), d)
         else (Inr t, d\<lparr>db_api_tokens := db_api_tokens d @ [t]\<rparr>))"

definition astore_CreateAPIToken :: "uuid \<Rightarrow> string \<Rightarrow> string \<Rightarrow> (world, APIToken) prog" where
  "astore_CreateAPIToken userID name tokenHash = exec (CreateAPIToken_stmt userID name tokenHash)"

definition astore_GetAPITokenByHash :: "string \<Rightarrow> (world, APIToken) prog" where
  "astore_GetAPITokenByHash tokenHash =
     exec_nf (query (\<lambda>c d. one_row (lookup_row Token_TokenHash (db_api_tokens d) tokenHash)))"

definition astore_ListAPITokens :: "uuid \<Rightarrow> (world, APIToken list) prog" where
  "astore_ListAPITokens userID = exec (query (\<lambda>c d.
     Inr (sort_key (\<lambda>t. - Token_CreatedAt t) (filter (\<lambda>t. Token_UserID t = userID) (db_api_tokens d)))))"

definition DeleteAPIToken_stmt :: "uuid \<Rightarrow> uuid \<Rightarrow> nat stmt" where [stmt_defs]:
  "DeleteAPIToken_stmt i userID c d =
     (let P = (\<lambda>t. Token_ID t = i \<and> Token_UserID t = userID)
      in (Inr (rows_affected P (db_api_tokens d)),
          d\<lparr>db_api_tokens := filter (\<lambda>t. \<not> P t) (db_api_tokens d)\<rparr>))"

definition astore_DeleteAPIToken :: "uuid \<Rightarrow> uuid \<Rightarrow> (world, unit) prog" where
  "astore_DeleteAPIToken i userID = exec_tag (DeleteAPIToken_stmt i userID)"

definition TouchAPIToken_stmt :: "uuid \<Rightarrow> unit stmt" where [stmt_defs]:
  "TouchAPIToken_stmt i c d =
     (Inr (), d\<lparr>db_api_tokens := update_rows (\<lambda>t. Token_ID t = i)
        (\<lambda>t. t\<lparr>Token_LastUsedAt := Some (db_now d)\<rparr>) (db_api_tokens d)\<rparr>)"

definition astore_TouchAPIToken :: "uuid \<Rightarrow> (world, unit) prog" where
  "astore_TouchAPIToken i = exec (TouchAPIToken_stmt i)"

subsection \<open>Approvals (approvals.go)\<close>

definition astore_GetApprovalRequest :: "uuid \<Rightarrow> (world, ApprovalRequest) prog" where
  "astore_GetApprovalRequest i =
     exec_nf (query (\<lambda>c d. one_row (lookup_row Approval_ID (db_approval_requests d) i)))"

definition astore_ListPendingApprovals :: "(world, ApprovalRequest list) prog" where
  "astore_ListPendingApprovals = exec (query (\<lambda>c d. Inr (sort_key Approval_CreatedAt
     (filter (\<lambda>a. Approval_Status a = ApprovalStatusPending) (db_approval_requests d)))))"

definition ResolveApproval_stmt ::
  "uuid \<Rightarrow> ApprovalStatus \<Rightarrow> uuid \<Rightarrow> string option \<Rightarrow> nat stmt" where [stmt_defs]:
  "ResolveApproval_stmt i status reviewerID note c d =
     (let P = (\<lambda>a. Approval_ID a = i \<and> Approval_Status a = ApprovalStatusPending);
          n = rows_affected P (db_approval_requests d)
      in if n > 0 \<and> reviewerID \<notin> User_ID ` set (db_users d)
         then (Inl (PgError ForeignKeyViolation), d)
         else (Inr n, d\<lparr>db_approval_requests := update_rows P
            (\<lambda>a. a\<lparr>Approval_Status := status, Approval_ReviewedBy := Some reviewerID,
                    Approval_ReviewNote := note, Approval_ResolvedAt := Some (db_now d)\<rparr>)
            (db_approval_requests d)\<rparr>))"

definition astore_ResolveApproval ::
  "uuid \<Rightarrow> ApprovalStatus \<Rightarrow> uuid \<Rightarrow> string option \<Rightarrow> (world, unit) prog" where
  "astore_ResolveApproval i status reviewerID note = exec_tag (ResolveApproval_stmt i status reviewerID note)"

end
