(* ===== verification/ApiCatalog.thy ===== *)
theory ApiCatalog
  imports ApiStore
begin

section \<open>The API server's store, continued: catalogue tables\<close>

text \<open>
  The methods on credentials, projects, job templates, schedules and workflows
  (\<open>credentials.go\<close>, \<open>projects.go\<close>, \<open>templates.go\<close>, \<open>schedules.go\<close>, \<open>workflows.go\<close>), with the foreign
  keys and cascades of \<open>migrations/\<close>: deleting a credential sets the references to it to \<open>NULL\<close>,
  deleting a project deletes its hosts and is refused while a template uses it, deleting a template
  deletes its schedules and is refused while a job uses it, deleting a workflow deletes its nodes and
  edges and is refused while a run, a node run or an approval refers to them.
\<close>

subsection \<open>Credentials (credentials.go)\<close>

text \<open>The columns returned to clients leave out \<open>encrypted_data\<close>, so the field stays nil.\<close>

definition scan_credential :: "Credential \<Rightarrow> Credential" where
  "scan_credential cr = cr\<lparr>Cred_EncryptedData := []\<rparr>"

definition CreateCredential_stmt ::
  "string \<Rightarrow> string \<Rightarrow> CredentialKind \<Rightarrow> string \<Rightarrow> Credential stmt" where [stmt_defs]:
  "CreateCredential_stmt name description kind encryptedData c d =
     (let r = \<lparr>Cred_ID = call_uuid c 0, Cred_Name = name, Cred_Kind = kind,
               Cred_Description = description, Cred_EncryptedData = encryptedData,
               Cred_CreatedAt = db_now d, Cred_UpdatedAt = db_now d\<rparr>
      in if Cred_ID r \<in> Cred_ID ` set (db_credentials d) then (Inl (PgError UniqueViolation), d)
         else (Inr (scan_credential r), d\<lparr>db_credentials := db_credentials d @ [r]\<rparr>))"

definition astore_CreateCredential ::
  "string \<Rightarrow> string \<Rightarrow> CredentialKind \<Rightarrow> string \<Rightarrow> (world, Credential) prog" where
  "astore_CreateCredential name description kind encryptedData =
     exec (CreateCredential_stmt name description kind encryptedData)"

definition astore_GetCredential :: "uuid \<Rightarrow> (world, Credential) prog" where
  "astore_GetCredential i = exec_nf (query (\<lambda>c d.
     one_row (map_option scan_credential (lookup_row Cred_ID (db_credentials d) i))))"

definition astore_GetCredentialWithSecret :: "uuid \<Rightarrow> (world, Credential) prog" where
  "astore_GetCredentialWithSecret i =
     exec_nf (query (\<lambda>c d. one_row (lookup_row Cred_ID (db_credentials d) i)))"

definition astore_ListCredentials :: "(string \<Rightarrow> int) \<Rightarrow> (world, Credential list) prog" where
  "astore_ListCredentials collate = exec (query (\<lambda>c d.
     Inr (map scan_credential (sort_key (\<lambda>r. collate (Cred_Name r)) (db_credentials d)))))"

definition UpdateCredential_stmt ::
  "uuid \<Rightarrow> string \<Rightarrow> string \<Rightarrow> CredentialKind \<Rightarrow> string \<Rightarrow> Credential stmt" where [stmt_defs]:
  "UpdateCredential_stmt i name description kind encryptedData c d =
     (let rs = update_rows (\<lambda>r. Cred_ID r = i)
            (\<lambda>r. r\<lparr>Cred_Name := name, Cred_Description := description, Cred_Kind := kind,
                    Cred_EncryptedData := encryptedData, Cred_UpdatedAt := db_now d\<rparr>)
            (db_credentials d)
      in (one_row (map_option scan_credential (lookup_row Cred_ID rs i)), d\<lparr>db_credentials := rs\<rparr>))"

definition astore_UpdateCredential ::
  "uuid \<Rightarrow> string \<Rightarrow> string \<Rightarrow> CredentialKind \<Rightarrow> string \<Rightarrow> (world, Credential) prog" where
  "astore_UpdateCredential i name description kind encryptedData =
     exec_nf (UpdateCredential_stmt i name description kind encryptedData)"

definition DeleteCredential_stmt :: "uuid \<Rightarrow> nat stmt" where [stmt_defs]:
  "DeleteCredential_stmt i c d =
     (Inr (rows_affected (\<lambda>r. Cred_ID r = i) (db_credentials d)),
      d\<lparr>db_credentials := filter (\<lambda>r. Cred_ID r \<noteq> i) (db_credentials d),
         db_projects := (if i \<in> Cred_ID ` set (db_credentials d)
           then update_rows (\<lambda>p. Project_CredentialID p = Some i)
             (\<lambda>p. p\<lparr>Project_CredentialID := None, Project_UpdatedAt := db_now d\<rparr>) (db_projects d)
           else db_projects d),
         db_job_templates := (if i \<in> Cred_ID ` set (db_credentials d)
           then update_rows (\<lambda>t. Template_CredentialID t = Some i)
             (\<lambda>t. t\<lparr>Template_CredentialID := None, Template_UpdatedAt := db_now d\<rparr>) (db_job_templates d)
           else db_job_templates d)\<rparr>)"

definition astore_DeleteCredential :: "uuid \<Rightarrow> (world, unit) prog" where
  "astore_DeleteCredential i = exec_tag (DeleteCredential_stmt i)"

definition credential_exists :: "db \<Rightarrow> uuid option \<Rightarrow> bool" where
  "credential_exists d ci \<longleftrightarrow>
     (case ci of None \<Rightarrow> True | Some i \<Rightarrow> i \<in> Cred_ID ` set (db_credentials d))"

subsection \<open>Projects (projects.go)\<close>

definition CreateProject_stmt ::
  "string \<Rightarrow> string \<Rightarrow> string \<Rightarrow> string \<Rightarrow> uuid option \<Rightarrow> Project stmt" where [stmt_defs]:
  "CreateProject_stmt name repoURL branch inventoryPath credentialID c d =
     (let p = \<lparr>Project_ID = call_uuid c 0, Project_Name = name, Project_RepoURL = repoURL,
               Project_Branch = branch, Project_InventoryPath = inventoryPath,
               Project_CredentialID = credentialID, Project_SyncStatus = InventorySyncStatusPending,
               Project_LastSyncedAt = None, Project_SyncError = None,
               Project_CreatedAt = db_now d, Project_UpdatedAt = db_now d\<rparr>
      in if Project_ID p \<in> Project_ID ` set (db_projects d) then (Inl (PgError UniqueViolation), d)
         else if \<not> credential_exists d credentialID then (Inl (PgError ForeignKeyViolation), d)
         else (Inr p, d\<lparr>db_projects := db_projects d @ [p]\<rparr>))"

definition astore_CreateProject ::
  "string \<Rightarrow> string \<Rightarrow> string \<Rightarrow> string \<Rightarrow> uuid option \<Rightarrow> (world, Project) prog" where
  "astore_CreateProject name repoURL branch inventoryPath credentialID =
     exec (CreateProject_stmt name repoURL branch inventoryPath credentialID)"

definition astore_GetProject :: "uuid \<Rightarrow> (world, Project) prog" where
  "astore_GetProject i = exec_nf (query (\<lambda>c d. one_row (lookup_row Project_ID (db_projects d) i)))"

definition astore_ListProjects :: "(string \<Rightarrow> int) \<Rightarrow> (world, Project list) prog" where
  "astore_ListProjects collate = exec (query (\<lambda>c d.
     Inr (sort_key (\<lambda>p. collate (Project_Name p)) (db_projects d))))"

definition UpdateProject_stmt ::
  "uuid \<Rightarrow> string \<Rightarrow> string \<Rightarrow> string \<Rightarrow> string \<Rightarrow> uuid option \<Rightarrow> Project stmt" where [stmt_defs]:
  "UpdateProject_stmt i name repoURL branch inventoryPath credentialID c d =
     (let rs = update_rows (\<lambda>p. Project_ID p = i)
            (\<lambda>p. p\<lparr>Project_Name := name, Project_RepoURL := repoURL, Project_Branch := branch,
                    Project_InventoryPath := inventoryPath, Project_CredentialID := credentialID,
                    Project_UpdatedAt := db_now d\<rparr>) (db_projects d)
      in if i \<in> Project_ID ` set (db_projects d) \<and> \<not> credential_exists d credentialID
         then (Inl (PgError ForeignKeyViolation), d)
         else (one_row (lookup_row Project_ID rs i), d\<lparr>db_projects := rs\<rparr>))"

definition astore_UpdateProject ::
  "uuid \<Rightarrow> string \<Rightarrow> string \<Rightarrow> string \<Rightarrow> string \<Rightarrow> uuid option \<Rightarrow> (world, Project) prog" where
  "astore_UpdateProject i name repoURL branch inventoryPath credentialID =
     exec_nf (UpdateProject_stmt i name repoURL branch inventoryPath credentialID)"

definition DeleteProject_stmt :: "uuid \<Rightarrow> nat stmt" where [stmt_defs]:
  "DeleteProject_stmt i c d =
     (if i \<in> Project_ID ` set (db_projects d) \<and> i \<in> Template_ProjectID ` set (db_job_templates d)
      then (Inl (PgError ForeignKeyViolation), d)
      else (Inr (rows_affected (\<lambda>p. Project_ID p = i) (db_projects d)),
        d\<lparr>db_projects := filter (\<lambda>p. Project_ID p \<noteq> i) (db_projects d),
           db_inventory_hosts := (if i \<in> Project_ID ` set (db_projects d)
             then filter (\<lambda>h. Host_ProjectID h \<noteq> i) (db_inventory_hosts d)
             else db_inventory_hosts d)\<rparr>))"

definition astore_DeleteProject :: "uuid \<Rightarrow> (world, unit) prog" where
  "astore_DeleteProject i = exec_tag (DeleteProject_stmt i)"

definition api_UpdateProjectSyncStatus_stmt ::
  "uuid \<Rightarrow> InventorySyncStatus \<Rightarrow> string option \<Rightarrow> unit stmt" where [stmt_defs]:
  "api_UpdateProjectSyncStatus_stmt i status syncErr c d =
     (Inr (), d\<lparr>db_projects := update_rows (\<lambda>p. Project_ID p = i)
        (\<lambda>p. p\<lparr>Project_SyncStatus := status, Project_SyncError := syncErr,
                Project_LastSyncedAt := (if status = InventorySyncStatusOK then Some (db_now d)
                                         else Project_LastSyncedAt p),
                Project_UpdatedAt := db_now d\<rparr>) (db_projects d)\<rparr>)"

definition astore_UpdateProjectSyncStatus ::
  "uuid \<Rightarrow> InventorySyncStatus \<Rightarrow> string option \<Rightarrow> (world, unit) prog" where
  "astore_UpdateProjectSyncStatus i status syncErr = exec (api_UpdateProjectSyncStatus_stmt i status syncErr)"

definition astore_ListInventoryHosts :: "(string \<Rightarrow> int) \<Rightarrow> uuid \<Rightarrow> (world, InventoryHost list) prog" where
  "astore_ListInventoryHosts collate projectID = exec (query (\<lambda>c d.
     Inr (sort_key (\<lambda>h. collate (Host_Hostname h))
       (filter (\<lambda>h. Host_ProjectID h = projectID) (db_inventory_hosts d)))))"

subsection \<open>Job templates (templates.go)\<close>

definition CreateJobTemplate_stmt ::
  "string \<Rightarrow> string \<Rightarrow> uuid \<Rightarrow> string \<Rightarrow> uuid option \<Rightarrow> vars \<Rightarrow> JobTemplate stmt" where [stmt_defs]:
  "CreateJobTemplate_stmt name description projectID playbook credentialID defaultExtraVars c d =
     (let t = \<lparr>Template_ID = call_uuid c 0, Template_Name = name, Template_Description = description,
               Template_ProjectID = projectID, Template_Playbook = playbook,
               Template_CredentialID = credentialID, Template_DefaultExtraVars = defaultExtraVars,
               Template_CreatedAt = db_now d, Template_UpdatedAt = db_now d\<rparr>
      in if Template_ID t \<in> Template_ID ` set (db_job_templates d) then (Inl (PgError UniqueViolation), d)
         else if projectID \<notin> Project_ID ` set (db_projects d) \<or> \<not> credential_exists d credentialID
           then (Inl (PgError ForeignKeyViolation), d)
         else (Inr t, d\<lparr>db_job_templates := db_job_templates d @ [t]\<rparr>))"

definition astore_CreateJobTemplate ::
  "string \<Rightarrow> string \<Rightarrow> uuid \<Rightarrow> string \<Rightarrow> uuid option \<Rightarrow> vars option \<Rightarrow> (world, JobTemplate) prog" where
  "astore_CreateJobTemplate name description projectID playbook credentialID defaultExtraVars =
     exec (CreateJobTemplate_stmt name description projectID playbook credentialID
       (or_empty defaultExtraVars))"

definition astore_GetJobTemplate :: "uuid \<Rightarrow> (world, JobTemplate) prog" where
  "astore_GetJobTemplate i =
     exec_nf (query (\<lambda>c d. one_row (lookup_row Template_ID (db_job_templates d) i)))"

definition astore_ListJobTemplates :: "(string \<Rightarrow> int) \<Rightarrow> (world, JobTemplate list) prog" where
  "astore_ListJobTemplates collate = exec (query (\<lambda>c d.
     Inr (sort_key (\<lambda>t. collate (Template_Name t)) (db_job_templates d))))"

text \<open>Unlike the insert, the update passes a nil map of variables on to the driver.\<close>

definition UpdateJobTemplate_stmt ::
  "uuid \<Rightarrow> string \<Rightarrow> string \<Rightarrow> string \<Rightarrow> uuid option \<Rightarrow> vars option \<Rightarrow> JobTemplate stmt" where [stmt_defs]:
  "UpdateJobTemplate_stmt i name description playbook credentialID defaultExtraVars c d =
     (let rs = update_rows (\<lambda>t. Template_ID t = i)
            (\<lambda>t. t\<lparr>Template_Name := name, Template_Description := description,
                    Template_Playbook := playbook, Template_CredentialID := credentialID,
                    Template_DefaultExtraVars := or_empty defaultExtraVars,
                    Template_UpdatedAt := db_now d\<rparr>) (db_job_templates d)
      in if i \<in> Template_ID ` set (db_job_templates d) \<and> null_refused c defaultExtraVars
           then (Inl (PgError NotNullViolation), d)
         else if i \<in> Template_ID ` set (db_job_templates d) \<and> \<not> credential_exists d credentialID
           then (Inl (PgError ForeignKeyViolation), d)
         else (one_row (lookup_row Template_ID rs i), d\<lparr>db_job_templates := rs\<rparr>))"

definition astore_UpdateJobTemplate ::
  "uuid \<Rightarrow> string \<Rightarrow> string \<Rightarrow> string \<Rightarrow> uuid option \<Rightarrow> vars option \<Rightarrow> (world, JobTemplate) prog" where
  "astore_UpdateJobTemplate i name description playbook credentialID defaultExtraVars =
     exec_nf (UpdateJobTemplate_stmt i name description playbook credentialID defaultExtraVars)"

definition DeleteJobTemplate_stmt :: "uuid \<Rightarrow> nat stmt" where [stmt_defs]:
  "DeleteJobTemplate_stmt i c d =
     (if i \<in> Template_ID ` set (db_job_templates d) \<and> i \<in> Job_TemplateID ` set (db_jobs d)
      then (Inl (PgError ForeignKeyViolation), d)
      else (Inr (rows_affected (\<lambda>t. Template_ID t = i) (db_job_templates d)),
        d\<lparr>db_job_templates := filter (\<lambda>t. Template_ID t \<noteq> i) (db_job_templates d),
           db_schedules := (if i \<in> Template_ID ` set (db_job_templates d)
             then filter (\<lambda>s. Schedule_TemplateID s \<noteq> i) (db_schedules d) else db_schedules d)\<rparr>))"

definition astore_DeleteJobTemplate :: "uuid \<Rightarrow> (world, unit) prog" where
  "astore_DeleteJobTemplate i = exec_tag (DeleteJobTemplate_stmt i)"

subsection \<open>Schedules (schedules.go)\<close>

definition CreateSchedule_stmt ::
  "string \<Rightarrow> uuid \<Rightarrow> string \<Rightarrow> string \<Rightarrow> bool \<Rightarrow> vars \<Rightarrow> Schedule stmt" where [stmt_defs]:
  "CreateSchedule_stmt name templateID cronExpr timezone enabled extraVars c d =
     (let s = \<lparr>Schedule_ID = call_uuid c 0, Schedule_Name = name, Schedule_TemplateID = templateID,
               Schedule_CronExpr = cronExpr, Schedule_Timezone = timezone, Schedule_Enabled = enabled,
               Schedule_ExtraVars = extraVars, Schedule_LastRunAt = None, Schedule_NextRunAt = None,
               Schedule_CreatedAt = db_now d, Schedule_UpdatedAt = db_now d\<rparr>
      in if Schedule_ID s \<in> Schedule_ID ` set (db_schedules d) then (Inl (PgError UniqueViolation), d)
         else if templateID \<notin> Template_ID ` set (db_job_templates d)
           then (Inl (PgError ForeignKeyViolation), d)
         else (Inr s, d\<lparr>db_schedules := db_schedules d @ [s]\<rparr>))"

definition astore_CreateSchedule ::
  "string \<Rightarrow> uuid \<Rightarrow> string \<Rightarrow> string \<Rightarrow> bool \<Rightarrow> vars option \<Rightarrow> (world, Schedule) prog" where
  "astore_CreateSchedule name templateID cronExpr timezone enabled extraVars =
     exec (CreateSchedule_stmt name templateID cronExpr timezone enabled (or_empty extraVars))"

definition astore_GetSchedule :: "uuid \<Rightarrow> (world, Schedule) prog" where
  "astore_GetSchedule i = exec_nf (query (\<lambda>c d. one_row (lookup_row Schedule_ID (db_schedules d) i)))"

definition astore_ListSchedules :: "(string \<Rightarrow> int) \<Rightarrow> (world, Schedule list) prog" where
  "astore_ListSchedules collate = exec (query (\<lambda>c d.
     Inr (sort_key (\<lambda>s. collate (Schedule_Name s)) (db_schedules d))))"

definition UpdateSchedule_stmt ::
  "uuid \<Rightarrow> string \<Rightarrow> string \<Rightarrow> string \<Rightarrow> bool \<Rightarrow> vars \<Rightarrow> Schedule stmt" where [stmt_defs]:
  "UpdateSchedule_stmt i name cronExpr timezone enabled extraVars c d =
     (let rs = update_rows (\<lambda>s. Schedule_ID s = i)
            (\<lambda>s. s\<lparr>Schedule_Name := name, Schedule_CronExpr := cronExpr, Schedule_Timezone := timezone,
                    Schedule_Enabled := enabled, Schedule_ExtraVars := extraVars,
                    Schedule_UpdatedAt := db_now d\<rparr>) (db_schedules d)
      in (one_row (lookup_row Schedule_ID rs i), d\<lparr>db_schedules := rs\<rparr>))"

definition astore_UpdateSchedule ::
  "uuid \<Rightarrow> string \<Rightarrow> string \<Rightarrow> string \<Rightarrow> bool \<Rightarrow> vars option \<Rightarrow> (world, Schedule) prog" where
  "astore_UpdateSchedule i name cronExpr timezone enabled extraVars =
     exec_nf (UpdateSchedule_stmt i name cronExpr timezone enabled (or_empty extraVars))"

definition DeleteSchedule_stmt :: "uuid \<Rightarrow> nat stmt" where [stmt_defs]:
  "DeleteSchedule_stmt i c d =
     (Inr (rows_affected (\<lambda>s. Schedule_ID s = i) (db_schedules d)),
      d\<lparr>db_schedules := filter (\<lambda>s. Schedule_ID s \<noteq> i) (db_schedules d)\<rparr>)"

definition astore_DeleteSchedule :: "uuid \<Rightarrow> (world, unit) prog" where
  "astore_DeleteSchedule i = exec_tag (DeleteSchedule_stmt i)"

subsection \<open>Workflows (workflows.go)\<close>

definition CreateWorkflow_stmt :: "string \<Rightarrow> string \<Rightarrow> Workflow stmt" where [stmt_defs]:
  "CreateWorkflow_stmt name description c d =
     (let r = \<lparr>Workflow_ID = call_uuid c 0, Workflow_Name = name, Workflow_Description = description,
               Workflow_CreatedAt = db_now d, Workflow_UpdatedAt = db_now d\<rparr>
      in if Workflow_ID r \<in> Workflow_ID ` set (db_workflows d) then (Inl (PgError UniqueViolation), d)
         else (Inr r, d\<lparr>db_workflows := db_workflows d @ [r]\<rparr>))"

definition astore_CreateWorkflow :: "string \<Rightarrow> string \<Rightarrow> (world, Workflow) prog" where
  "astore_CreateWorkflow name description = exec (CreateWorkflow_stmt name description)"

definition astore_GetWorkflow :: "uuid \<Rightarrow> (world, Workflow) prog" where
  "astore_GetWorkflow i = exec_nf (query (\<lambda>c d. one_row (lookup_row Workflow_ID (db_workflows d) i)))"

definition astore_ListWorkflows :: "(string \<Rightarrow> int) \<Rightarrow> (world, Workflow list) prog" where
  "astore_ListWorkflows collate = exec (query (\<lambda>c d.
     Inr (sort_key (\<lambda>r. collate (Workflow_Name r)) (db_workflows d))))"

definition UpdateWorkflow_stmt :: "uuid \<Rightarrow> string \<Rightarrow> string \<Rightarrow> Workflow stmt" where [stmt_defs]:
  "UpdateWorkflow_stmt i name description c d =
     (let rs = update_rows (\<lambda>r. Workflow_ID r = i)
            (\<lambda>r. r\<lparr>Workflow_Name := name, Workflow_Description := description,
                    Workflow_UpdatedAt := db_now d\<rparr>) (db_workflows d)
      in (one_row (lookup_row Workflow_ID rs i), d\<lparr>db_workflows := rs\<rparr>))"

definition astore_UpdateWorkflow :: "uuid \<Rightarrow> string \<Rightarrow> string \<Rightarrow> (world, Workflow) prog" where
  "astore_UpdateWorkflow i name description = exec_nf (UpdateWorkflow_stmt i name description)"

text \<open>The nodes of a workflow, and what refers to them without a cascade.\<close>

definition nodes_of :: "uuid \<Rightarrow> db \<Rightarrow> uuid set" where
  "nodes_of wid d = set (map Node_ID (filter (\<lambda>n. Node_WorkflowID n = wid) (db_workflow_nodes d)))"

definition nodes_in_use :: "uuid \<Rightarrow> db \<Rightarrow> bool" where
  "nodes_in_use wid d \<longleftrightarrow>
     list_ex (\<lambda>r. NodeRun_NodeID r \<in> nodes_of wid d) (db_workflow_node_runs d) \<or>
     list_ex (\<lambda>a. Approval_NodeID a \<in> nodes_of wid d) (db_approval_requests d)"

definition delete_nodes :: "uuid \<Rightarrow> db \<Rightarrow> db" where
  "delete_nodes wid d = d\<lparr>
     db_workflow_nodes := filter (\<lambda>n. Node_WorkflowID n \<noteq> wid) (db_workflow_nodes d),
     db_workflow_edges := filter (\<lambda>e. Edge_SourceNodeID e \<notin> nodes_of wid d \<and>
       Edge_TargetNodeID e \<notin> nodes_of wid d) (db_workflow_edges d)\<rparr>"

definition DeleteWorkflow_stmt :: "uuid \<Rightarrow> nat stmt" where [stmt_defs]:
  "DeleteWorkflow_stmt i c d =
     (if i \<notin> Workflow_ID ` set (db_workflows d) then (Inr 0, d)
      else if i \<in> Run_WorkflowID ` set (db_workflow_runs d) \<or> nodes_in_use i d
        then (Inl (PgError ForeignKeyViolation), d)
      else (let d1 = delete_nodes i d
            in (Inr (rows_affected (\<lambda>r. Workflow_ID r = i) (db_workflows d)),
                d1\<lparr>db_workflows := filter (\<lambda>r. Workflow_ID r \<noteq> i) (db_workflows d),
                    db_workflow_edges := filter (\<lambda>e. Edge_WorkflowID e \<noteq> i) (db_workflow_edges d1)\<rparr>)))"

definition astore_DeleteWorkflow :: "uuid \<Rightarrow> (world, unit) prog" where
  "astore_DeleteWorkflow i = exec_tag (DeleteWorkflow_stmt i)"

text \<open>The loops of inserts; the first failing one ends the transaction.\<close>

fun insert_nodes :: "uuid \<Rightarrow> WorkflowNode list \<Rightarrow> db \<Rightarrow> db res" where
  "insert_nodes wid [] d = Inr d"
| "insert_nodes wid (n # ns) d =
     (if Node_ID n \<in> Node_ID ` set (db_workflow_nodes d) then Inl (PgError UniqueViolation)
      else if wid \<notin> Workflow_ID ` set (db_workflows d) then Inl (PgError ForeignKeyViolation)
      else insert_nodes wid ns (d\<lparr>db_workflow_nodes := db_workflow_nodes d @
        [n\<lparr>Node_WorkflowID := wid, Node_CreatedAt := db_now d, Node_UpdatedAt := db_now d\<rparr>]\<rparr>))"

definition UpsertWorkflowNodes_stmt :: "uuid \<Rightarrow> WorkflowNode list \<Rightarrow> unit stmt" where [stmt_defs]:
  "UpsertWorkflowNodes_stmt wid nodes c d =
     (if nodes_in_use wid d then (Inl (PgError ForeignKeyViolation), d)
      else case insert_nodes wid nodes (delete_nodes wid d) of
             Inl e \<Rightarrow> (Inl e, d)
           | Inr d' \<Rightarrow> (Inr (), d'))"

definition astore_UpsertWorkflowNodes :: "uuid \<Rightarrow> WorkflowNode list \<Rightarrow> (world, unit) prog" where
  "astore_UpsertWorkflowNodes wid nodes = exec (UpsertWorkflowNodes_stmt wid nodes)"

fun insert_edges :: "uuid \<Rightarrow> WorkflowEdge list \<Rightarrow> db \<Rightarrow> db res" where
  "insert_edges wid [] d = Inr d"
| "insert_edges wid (e # es) d =
     (if Edge_ID e \<in> Edge_ID ` set (db_workflow_edges d) then Inl (PgError UniqueViolation)
      else if wid \<notin> Workflow_ID ` set (db_workflows d) \<or>
         Edge_SourceNodeID e \<notin> Node_ID ` set (db_workflow_nodes d) \<or>
         Edge_TargetNodeID e \<notin> Node_ID ` set (db_workflow_nodes d)
        then Inl (PgError ForeignKeyViolation)
      else insert_edges wid es
        (d\<lparr>db_workflow_edges := db_workflow_edges d @ [e\<lparr>Edge_WorkflowID := wid\<rparr>]\<rparr>))"

definition UpsertWorkflowEdges_stmt :: "uuid \<Rightarrow> WorkflowEdge list \<Rightarrow> unit stmt" where [stmt_defs]:
  "UpsertWorkflowEdges_stmt wid edges c d =
     (case insert_edges wid edges (d\<lparr>db_workflow_edges :=
             filter (\<lambda>e. Edge_WorkflowID e \<noteq> wid) (db_workflow_edges d)\<rparr>) of
        Inl e \<Rightarrow> (Inl e, d)
      | Inr d' \<Rightarrow> (Inr (), d'))"

definition astore_UpsertWorkflowEdges :: "uuid \<Rightarrow> WorkflowEdge list \<Rightarrow> (world, unit) prog" where
  "astore_UpsertWorkflowEdges wid edges = exec (UpsertWorkflowEdges_stmt wid edges)"

definition astore_GetWorkflowNodes :: "uuid \<Rightarrow> (world, WorkflowNode list) prog" where
  "astore_GetWorkflowNodes wid = exec (query (\<lambda>c d.
     Inr (filter (\<lambda>n. Node_WorkflowID n = wid) (db_workflow_nodes d))))"

definition astore_GetWorkflowEdges :: "uuid \<Rightarrow> (world, WorkflowEdge list) prog" where
  "astore_GetWorkflowEdges wid = exec (query (\<lambda>c d.
     Inr (filter (\<lambda>e. Edge_WorkflowID e = wid) (db_workflow_edges d))))"

definition CreateWorkflowRun_stmt :: "uuid \<Rightarrow> WorkflowRun stmt" where [stmt_defs]:
  "CreateWorkflowRun_stmt wid c d =
     (let r = \<lparr>Run_ID = call_uuid c 0, Run_WorkflowID = wid, Run_Status = WorkflowRunStatusPending,
               Run_Context = [], Run_CreatedAt = db_now d, Run_UpdatedAt = db_now d,
               Run_StartedAt = None, Run_EndedAt = None\<rparr>
      in if Run_ID r \<in> Run_ID ` set (db_workflow_runs d) then (Inl (PgError UniqueViolation), d)
         else if wid \<notin> Workflow_ID ` set (db_workflows d) then (Inl (PgError ForeignKeyViolation), d)
         else (Inr r, d\<lparr>db_workflow_runs := db_workflow_runs d @ [r]\<rparr>))"

definition astore_CreateWorkflowRun :: "uuid \<Rightarrow> (world, WorkflowRun) prog" where
  "astore_CreateWorkflowRun wid = exec (CreateWorkflowRun_stmt wid)"

definition astore_GetWorkflowRun :: "uuid \<Rightarrow> (world, WorkflowRun) prog" where
  "astore_GetWorkflowRun i = exec_nf (query (\<lambda>c d. one_row (lookup_row Run_ID (db_workflow_runs d) i)))"

definition astore_ListWorkflowRuns :: "uuid \<Rightarrow> (world, WorkflowRun list) prog" where
  "astore_ListWorkflowRuns wid = exec (query (\<lambda>c d.
     Inr (sort_key (\<lambda>r. - Run_CreatedAt r) (filter (\<lambda>r. Run_WorkflowID r = wid) (db_workflow_runs d)))))"

end
