(* ===== verification/ApiHandlers.thy ===== *)
theory ApiHandlers
  imports ApiCatalog Secrets
begin

section \<open>The HTTP handlers of the API server (api/internal/handler, auth, middleware)\<close>

text \<open>
  One definition \<open>h_...\<close> per handler method, from the decoded request to the reply. A path
  parameter is the string the router extracted; a JSON body is \<open>None\<close> when decoding failed and
  otherwise the record of the decoded fields; the values that the authentication middleware put into
  the request context (user id, agent) are arguments. A reply is a status code and a body.

  The packages outside the repository are collected in the record \<open>api_ext\<close>: \<open>uuid.Parse\<close>, the JWT
  library, bcrypt, and SHA-256 with its hex encoding; the cipher and JSON codec of stored
  credentials are the \<open>crypto\<close> record of the secrets component.
\<close>

record Claims =
  Claims_UserID :: uuid
  Claims_Email :: string
  Claims_ExpiresAt :: time
  Claims_IssuedAt :: time

record api_ext =
  uuid_Parse :: "string \<Rightarrow> uuid option"
  jwt_Sign :: "string \<Rightarrow> Claims \<Rightarrow> string res"
  jwt_Parse :: "(bool \<Rightarrow> string res) \<Rightarrow> time \<Rightarrow> string \<Rightarrow> (Claims \<times> bool) res"
  bcrypt_ok :: "string \<Rightarrow> string \<Rightarrow> bool"
  sha256_hex :: "string \<Rightarrow> string"
  pg_collate :: "string \<Rightarrow> int"
  ext_crypto :: crypto

record ApiConfig =
  Api_EncryptionKey :: string
  Api_JWTSecret :: string
  Api_JWTExpiry :: duration
  Api_HeartbeatTTL :: duration
  Api_RegToken :: string
  Api_CORSOrigins :: "string list"

datatype api_body =
    NoContent
  | ErrorBody string
  | HealthBody
  | JobBody Job
  | JobsBody "Job list"
  | LogsBody "JobLogLine list"
  | AgentBody Agent
  | AgentsBody "Agent list"
  | RegisteredBody uuid string
  | JWTBody string
  | NewTokenBody uuid string string time
  | TokensBody "APIToken list"
  | CredentialBody Credential
  | CredentialsBody "Credential list"
  | ProjectBody Project
  | ProjectsBody "Project list"
  | HostsBody "InventoryHost list"
  | TemplateBody JobTemplate
  | TemplatesBody "JobTemplate list"
  | ScheduleBody Schedule
  | SchedulesBody "Schedule list"
  | WorkflowBody Workflow
  | WorkflowsBody "Workflow list"
  | WorkflowDetailBody Workflow "WorkflowNode list" "WorkflowEdge list"
  | RunBody WorkflowRun
  | RunsBody "WorkflowRun list"
  | ApprovalBody ApprovalRequest
  | ApprovalsBody "ApprovalRequest list"

type_synonym reply = "nat \<times> api_body"
type_synonym handler = "world \<Rightarrow> reply \<times> world"

subsection \<open>Replies (respond.go)\<close>

definition respondError :: "nat \<Rightarrow> string \<Rightarrow> reply" where
  "respondError status msg = (status, ErrorBody msg)"

definition respondStoreErr :: "goerr \<Rightarrow> reply" where
  "respondStoreErr e =
     (if e = ErrNotFound then respondError 404 ''not found''
      else if e = ErrConflict then respondError 409 ''conflict''
      else respondError 500 ''internal error'')"

definition internal :: "goerr \<Rightarrow> reply" where
  "internal e = respondError 500 ''internal error''"

text \<open>The \<open>if err != nil { ...; return }\<close> after a store call, and \<open>uuid.Parse\<close> of a parameter.\<close>

definition on_store :: "(goerr \<Rightarrow> reply) \<Rightarrow> ('a \<Rightarrow> reply) \<Rightarrow> 'a res \<times> world \<Rightarrow> reply \<times> world" where
  "on_store fe fo p = (case p of (Inl e, w) \<Rightarrow> (fe e, w) | (Inr x, w) \<Rightarrow> (fo x, w))"

definition with_id :: "api_ext \<Rightarrow> string \<Rightarrow> string \<Rightarrow> (uuid \<Rightarrow> handler) \<Rightarrow> handler" where
  "with_id ext s msg k w =
     (case uuid_Parse ext s of None \<Rightarrow> (respondError 400 msg, w) | Some i \<Rightarrow> k i w)"

subsection \<open>Jobs (jobs.go)\<close>

definition JobStatus_of :: "string \<Rightarrow> JobStatus" where
  "JobStatus_of s =
     (if s = ''pending'' then JobStatusPending else if s = ''dispatched'' then JobStatusDispatched
      else if s = ''running'' then JobStatusRunning else if s = ''success'' then JobStatusSuccess
      else if s = ''failed'' then JobStatusFailed else if s = ''cancelled'' then JobStatusCancelled
      else JobStatusOther s)"

definition h_ListJobs :: "api_ext \<Rightarrow> string \<Rightarrow> string \<Rightarrow> string \<Rightarrow> handler" where
  "h_ListJobs ext status template_id agent_id w =
     (let f = \<lparr>Filter_Status = (if status \<noteq> '''' then Some (JobStatus_of status) else None),
               Filter_TemplateID = (if template_id \<noteq> '''' then uuid_Parse ext template_id else None),
               Filter_AgentID = (if agent_id \<noteq> '''' then uuid_Parse ext agent_id else None)\<rparr>
      in on_store internal (\<lambda>jobs. (200, JobsBody jobs)) (astore_ListJobs f w))"

record CreateJobReq =
  CreateJob_TemplateID :: string
  CreateJob_ExtraVars :: "vars option"

definition h_CreateJob :: "api_ext \<Rightarrow> CreateJobReq option \<Rightarrow> handler" where
  "h_CreateJob ext body w =
     (case body of
        None \<Rightarrow> (respondError 400 ''invalid request'', w)
      | Some b \<Rightarrow> with_id ext (CreateJob_TemplateID b) ''invalid template_id'' (\<lambda>templateID w.
          (case astore_GetJobTemplate templateID w of
             (Inl e, w1) \<Rightarrow> (respondStoreErr e, w1)
           | (Inr _, w1) \<Rightarrow>
               on_store internal (\<lambda>job. (201, JobBody job))
                 (astore_CreateJob templateID None (CreateJob_ExtraVars b) w1))) w)"

definition h_GetJob :: "api_ext \<Rightarrow> string \<Rightarrow> handler" where
  "h_GetJob ext s = with_id ext s ''invalid id'' (\<lambda>i w.
     on_store respondStoreErr (\<lambda>job. (200, JobBody job)) (astore_GetJob i w))"

definition h_CancelJob :: "api_ext \<Rightarrow> string \<Rightarrow> handler" where
  "h_CancelJob ext s = with_id ext s ''invalid id'' (\<lambda>i w.
     (case astore_GetJob i w of
        (Inl e, w1) \<Rightarrow> (respondStoreErr e, w1)
      | (Inr job, w1) \<Rightarrow>
          if IsTerminal (Job_Status job)
          then (respondError 409 ''job is already in a terminal state'', w1)
          else on_store internal (\<lambda>_. (204, NoContent))
            (astore_UpdateJobStatus i JobStatusCancelled None (Some ''cancelled by user'') w1)))"

definition h_GetJobLogs :: "api_ext \<Rightarrow> string \<Rightarrow> handler" where
  "h_GetJobLogs ext s = with_id ext s ''invalid id'' (\<lambda>i w.
     on_store internal (\<lambda>ls. (200, LogsBody ls)) (astore_GetJobLogs i w))"

definition h_AgentPostLogs ::
  "api_ext \<Rightarrow> Agent option \<Rightarrow> string \<Rightarrow> JobLogLine list option \<Rightarrow> handler" where
  "h_AgentPostLogs ext agent s body w =
     (case agent of
        None \<Rightarrow> (respondError 401 ''unauthorized'', w)
      | Some a \<Rightarrow> with_id ext s ''invalid job_id'' (\<lambda>jobID w.
          (case astore_GetJob jobID w of
             (Inl e, w1) \<Rightarrow> (respondStoreErr e, w1)
           | (Inr job, w1) \<Rightarrow>
               if Job_AgentID job \<noteq> Some (Agent_ID a) then (respondError 403 ''forbidden'', w1)
               else (case body of
                  None \<Rightarrow> (respondError 400 ''invalid request'', w1)
                | Some ls \<Rightarrow> on_store internal (\<lambda>_. (204, NoContent)) (astore_AppendJobLogs jobID ls w1)))) w)"

record ResultReq =
  Result_Status :: JobStatus
  Result_ExitCode :: int
  Result_Facts :: vars

definition h_AgentPostResult ::
  "api_ext \<Rightarrow> Agent option \<Rightarrow> string \<Rightarrow> ResultReq option \<Rightarrow> handler" where
  "h_AgentPostResult ext agent s body w =
     (case agent of
        None \<Rightarrow> (respondError 401 ''unauthorized'', w)
      | Some a \<Rightarrow> with_id ext s ''invalid job_id'' (\<lambda>jobID w.
          (case astore_GetJob jobID w of
             (Inl e, w1) \<Rightarrow> (respondStoreErr e, w1)
           | (Inr job, w1) \<Rightarrow>
               if Job_AgentID job \<noteq> Some (Agent_ID a) then (respondError 403 ''forbidden'', w1)
               else (case body of
                  None \<Rightarrow> (respondError 400 ''invalid request'', w1)
                | Some b \<Rightarrow>
                    if \<not> IsTerminal (Result_Status b)
                    then (respondError 400 ''status must be terminal'', w1)
                    else (case astore_UpdateJobStatus jobID (Result_Status b) None None w1 of
                       (Inl e, w2) \<Rightarrow> (internal e, w2)
                     | (Inr _, w2) \<Rightarrow>
                         ((204, NoContent),
                          if length (Result_Facts b) > 0
                          then snd (astore_SetJobFacts jobID (Result_Facts b) w2) else w2))))) w)"

subsection \<open>Agents (agents.go, auth/registration.go)\<close>

text \<open>\<open>subtle.ConstantTimeCompare\<close> of the two byte strings.\<close>

definition StaticTokenValidator_Valid :: "string \<Rightarrow> string \<Rightarrow> bool" where
  "StaticTokenValidator_Valid configured token \<longleftrightarrow> token = configured"

definition hashToken :: "api_ext \<Rightarrow> string \<Rightarrow> string" where
  "hashToken ext raw = sha256_hex ext raw"

record RegisterReq =
  Register_Name :: string
  Register_Address :: string
  Register_Labels :: "string gomap option"
  Register_Capacity :: int

text \<open>\<open>rawStr\<close> is the hex form of the 32 random bytes.\<close>

definition h_RegisterAgent ::
  "api_ext \<Rightarrow> ApiConfig \<Rightarrow> string \<Rightarrow> string \<Rightarrow> RegisterReq option \<Rightarrow> handler" where
  "h_RegisterAgent ext cfg rawStr regToken body w =
     (case body of
        None \<Rightarrow> (respondError 400 ''invalid request'', w)
      | Some b \<Rightarrow>
          if Register_Name b = '''' \<or> Register_Address b = ''''
          then (respondError 400 ''name and address are required'', w)
          else if \<not> StaticTokenValidator_Valid (Api_RegToken cfg) regToken
          then (respondError 401 ''invalid registration token'', w)
          else (let capacity = (if Register_Capacity b \<le> 0 then 1 else Register_Capacity b);
                    labels = or_empty (Register_Labels b);
                    tokenHash = hashToken ext rawStr
                in on_store internal (\<lambda>agent. (201, RegisteredBody (Agent_ID agent) rawStr))
                     (astore_CreateAgent (Register_Name b) (Register_Address b) tokenHash labels capacity w)))"

definition h_AgentHeartbeat ::
  "ApiConfig \<Rightarrow> Agent option \<Rightarrow> AgentHeartbeat option \<Rightarrow> handler" where
  "h_AgentHeartbeat cfg agent body w =
     (case agent of
        None \<Rightarrow> (respondError 401 ''unauthorized'', w)
      | Some a \<Rightarrow>
          (case body of
             None \<Rightarrow> (respondError 400 ''invalid request'', w)
           | Some b \<Rightarrow> on_store respondStoreErr (\<lambda>_. (204, NoContent))
               (astore_UpdateAgentHeartbeat (Agent_ID a) (Heartbeat_RunningJobs b) (Api_HeartbeatTTL cfg) w)))"

definition h_ListAgents :: handler where
  "h_ListAgents w = on_store internal (\<lambda>as. (200, AgentsBody as)) (astore_ListAgents w)"

definition h_GetAgent :: "api_ext \<Rightarrow> string \<Rightarrow> handler" where
  "h_GetAgent ext s = with_id ext s ''invalid id'' (\<lambda>i w.
     on_store respondStoreErr (\<lambda>a. (200, AgentBody a)) (astore_GetAgentByID i w))"

subsection \<open>Sessions and API tokens (auth.go, auth/jwt.go)\<close>

definition IssueToken :: "api_ext \<Rightarrow> time \<Rightarrow> string \<Rightarrow> uuid \<Rightarrow> string \<Rightarrow> duration \<Rightarrow> string res" where
  "IssueToken ext now secret userID email expiry =
     jwt_Sign ext secret \<lparr>Claims_UserID = userID, Claims_Email = email,
       Claims_ExpiresAt = now + expiry, Claims_IssuedAt = now\<rparr>"

definition ParseToken :: "api_ext \<Rightarrow> time \<Rightarrow> string \<Rightarrow> string \<Rightarrow> Claims res" where
  "ParseToken ext now secret tokenStr =
     (case jwt_Parse ext (\<lambda>hmac. if hmac then Inr secret
             else Inl (ErrMsg ''unexpected signing method'')) now tokenStr of
        Inl e \<Rightarrow> Inl e
      | Inr (claims, valid) \<Rightarrow> if valid then Inr claims else Inl (ErrMsg ''invalid token''))"

record LoginReq =
  Login_Email :: string
  Login_Password :: string

definition h_Login :: "api_ext \<Rightarrow> ApiConfig \<Rightarrow> time \<Rightarrow> LoginReq option \<Rightarrow> handler" where
  "h_Login ext cfg now body w =
     (case body of
        None \<Rightarrow> (respondError 400 ''invalid request'', w)
      | Some b \<Rightarrow>
          (case astore_GetUserByEmail (Login_Email b) w of
             (Inl e, w1) \<Rightarrow> (respondError 401 ''invalid credentials'', w1)
           | (Inr user, w1) \<Rightarrow>
               if \<not> bcrypt_ok ext (User_PasswordHash user) (Login_Password b)
               then (respondError 401 ''invalid credentials'', w1)
               else (case IssueToken ext now (Api_JWTSecret cfg) (User_ID user) (User_Email user)
                       (Api_JWTExpiry cfg) of
                  Inl e \<Rightarrow> (internal e, w1)
                | Inr token \<Rightarrow> ((200, JWTBody token), w1))))"

text \<open>\<open>raw\<close> is the hex form of the 32 random bytes.\<close>

definition generateToken :: "api_ext \<Rightarrow> string \<Rightarrow> string \<times> string" where
  "generateToken ext raw = (raw, sha256_hex ext raw)"

definition h_CreateAPIToken :: "api_ext \<Rightarrow> string \<Rightarrow> uuid option \<Rightarrow> string option \<Rightarrow> handler" where
  "h_CreateAPIToken ext raw user name w =
     (case user of
        None \<Rightarrow> (respondError 401 ''unauthorized'', w)
      | Some userID \<Rightarrow>
          (case name of
             None \<Rightarrow> (respondError 400 ''name is required'', w)
           | Some nm \<Rightarrow>
               if nm = '''' then (respondError 400 ''name is required'', w)
               else (case generateToken ext raw of (raw, tokenHash) \<Rightarrow>
                 on_store internal
                   (\<lambda>t. (201, NewTokenBody (Token_ID t) (Token_Name t) raw (Token_CreatedAt t)))
                   (astore_CreateAPIToken userID nm tokenHash w))))"

definition h_ListAPITokens :: "uuid option \<Rightarrow> handler" where
  "h_ListAPITokens user w =
     (case user of
        None \<Rightarrow> (respondError 401 ''unauthorized'', w)
      | Some userID \<Rightarrow> on_store internal (\<lambda>ts. (200, TokensBody ts)) (astore_ListAPITokens userID w))"

definition h_DeleteAPIToken :: "api_ext \<Rightarrow> uuid option \<Rightarrow> string \<Rightarrow> handler" where
  "h_DeleteAPIToken ext user s w =
     (case user of
        None \<Rightarrow> (respondError 401 ''unauthorized'', w)
      | Some userID \<Rightarrow> with_id ext s ''invalid id'' (\<lambda>i w.
          on_store respondStoreErr (\<lambda>_. (204, NoContent)) (astore_DeleteAPIToken i userID w)) w)"

end
