(* ===== verification/CatalogHandlers.thy ===== *)
theory CatalogHandlers
  imports ApiHandlers
begin

section \<open>The catalogue handlers (credentials, projects, templates, schedules, workflows, approvals)\<close>

text \<open>
  The remaining handlers of \<open>api/internal/handler\<close>, in the order of the files. A nil JSON array or
  map is \<open>None\<close> where the handler tells it from an empty one.
\<close>

subsection \<open>Credentials (credentials.go)\<close>

record CredentialReq =
  CredReq_Name :: string
  CredReq_Description :: string
  CredReq_Kind :: CredentialKind
  CredReq_Fields :: "string gomap"

definition h_ListCredentials :: "api_ext \<Rightarrow> handler" where
  "h_ListCredentials ext w =
     on_store internal (\<lambda>cs. (200, CredentialsBody cs)) (astore_ListCredentials (pg_collate ext) w)"

text \<open>The checks and the encryption that create and update share; \<open>nonce\<close> is what \<open>Encrypt\<close> draws.\<close>

definition encrypt_body ::
  "api_ext \<Rightarrow> ApiConfig \<Rightarrow> string option \<Rightarrow> CredentialReq \<Rightarrow> (string \<Rightarrow> handler) \<Rightarrow> handler" where
  "encrypt_body ext cfg nonce b k w =
     (if CredReq_Name b = '''' \<or> CredReq_Kind b = CredentialKindOther ''''
      then (respondError 400 ''name and kind are required'', w)
      else (case Encrypt (ext_crypto ext) nonce (Api_EncryptionKey cfg)
              (json_fields_enc (ext_crypto ext) (CredReq_Fields b)) of
         Inl e \<Rightarrow> (internal e, w)
       | Inr encrypted \<Rightarrow> k encrypted w))"

definition h_CreateCredential ::
  "api_ext \<Rightarrow> ApiConfig \<Rightarrow> string option \<Rightarrow> CredentialReq option \<Rightarrow> handler" where
  "h_CreateCredential ext cfg nonce body w =
     (case body of
        None \<Rightarrow> (respondError 400 ''invalid request'', w)
      | Some b \<Rightarrow> encrypt_body ext cfg nonce b (\<lambda>encrypted w.
          on_store internal (\<lambda>cr. (201, CredentialBody cr))
            (astore_CreateCredential (CredReq_Name b) (CredReq_Description b) (CredReq_Kind b) encrypted w)) w)"

definition h_GetCredential :: "api_ext \<Rightarrow> string \<Rightarrow> handler" where
  "h_GetCredential ext s = with_id ext s ''invalid id'' (\<lambda>i w.
     on_store respondStoreErr (\<lambda>cr. (200, CredentialBody cr)) (astore_GetCredential i w))"

definition h_UpdateCredential ::
  "api_ext \<Rightarrow> ApiConfig \<Rightarrow> string option \<Rightarrow> string \<Rightarrow> CredentialReq option \<Rightarrow> handler" where
  "h_UpdateCredential ext cfg nonce s body = with_id ext s ''invalid id'' (\<lambda>i w.
     (case body of
        None \<Rightarrow> (respondError 400 ''invalid request'', w)
      | Some b \<Rightarrow> encrypt_body ext cfg nonce b (\<lambda>encrypted w.
          on_store respondStoreErr (\<lambda>cr. (200, CredentialBody cr))
            (astore_UpdateCredential i (CredReq_Name b) (CredReq_Description b) (CredReq_Kind b) encrypted w)) w))"

definition h_DeleteCredential :: "api_ext \<Rightarrow> string \<Rightarrow> handler" where
  "h_DeleteCredential ext s = with_id ext s ''invalid id'' (\<lambda>i w.
     on_store respondStoreErr (\<lambda>_. (204, NoContent)) (astore_DeleteCredential i w))"

subsection \<open>Projects (projects.go)\<close>

record ProjectReq =
  ProjReq_Name :: string
  ProjReq_RepoURL :: string
  ProjReq_Branch :: string
  ProjReq_InventoryPath :: string
  ProjReq_CredentialID :: "string option"

definition h_ListProjects :: "api_ext \<Rightarrow> handler" where
  "h_ListProjects ext w =
     on_store internal (\<lambda>ps. (200, ProjectsBody ps)) (astore_ListProjects (pg_collate ext) w)"

text \<open>An optional credential id in the body.\<close>

definition with_cred :: "api_ext \<Rightarrow> string option \<Rightarrow> (uuid option \<Rightarrow> handler) \<Rightarrow> handler" where
  "with_cred ext s k w =
     (case s of
        None \<Rightarrow> k None w
      | Some c \<Rightarrow> with_id ext c ''invalid credential_id'' (\<lambda>i. k (Some i)) w)"

definition h_CreateProject :: "api_ext \<Rightarrow> ProjectReq option \<Rightarrow> handler" where
  "h_CreateProject ext body w =
     (case body of
        None \<Rightarrow> (respondError 400 ''invalid request'', w)
      | Some b \<Rightarrow>
          if ProjReq_Name b = '''' \<or> ProjReq_RepoURL b = '''' \<or> ProjReq_InventoryPath b = ''''
          then (respondError 400 ''name, repo_url, and inventory_path are required'', w)
          else (let branch = (if ProjReq_Branch b = '''' then ''main'' else ProjReq_Branch b)
                in with_cred ext (ProjReq_CredentialID b) (\<lambda>credID w.
                  on_store internal (\<lambda>p. (201, ProjectBody p))
                    (astore_CreateProject (ProjReq_Name b) (ProjReq_RepoURL b) branch
                      (ProjReq_InventoryPath b) credID w)) w))"

definition h_GetProject :: "api_ext \<Rightarrow> string \<Rightarrow> handler" where
  "h_GetProject ext s = with_id ext s ''invalid id'' (\<lambda>i w.
     on_store respondStoreErr (\<lambda>p. (200, ProjectBody p)) (astore_GetProject i w))"

definition h_UpdateProject :: "api_ext \<Rightarrow> string \<Rightarrow> ProjectReq option \<Rightarrow> handler" where
  "h_UpdateProject ext s body = with_id ext s ''invalid id'' (\<lambda>i w.
     (case body of
        None \<Rightarrow> (respondError 400 ''invalid request'', w)
      | Some b \<Rightarrow> with_cred ext (ProjReq_CredentialID b) (\<lambda>credID w.
          on_store respondStoreErr (\<lambda>p. (200, ProjectBody p))
            (astore_UpdateProject i (ProjReq_Name b) (ProjReq_RepoURL b) (ProjReq_Branch b)
              (ProjReq_InventoryPath b) credID w)) w))"

definition h_DeleteProject :: "api_ext \<Rightarrow> string \<Rightarrow> handler" where
  "h_DeleteProject ext s = with_id ext s ''invalid id'' (\<lambda>i w.
     on_store respondStoreErr (\<lambda>_. (204, NoContent)) (astore_DeleteProject i w))"

definition h_SyncProject :: "api_ext \<Rightarrow> string \<Rightarrow> handler" where
  "h_SyncProject ext s = with_id ext s ''invalid id'' (\<lambda>i w.
     (case astore_GetProject i w of
        (Inl e, w1) \<Rightarrow> (respondStoreErr e, w1)
      | (Inr _, w1) \<Rightarrow> on_store internal (\<lambda>_. (202, NoContent))
          (astore_UpdateProjectSyncStatus i InventorySyncStatusPending None w1)))"

definition h_ListInventoryHosts :: "api_ext \<Rightarrow> string \<Rightarrow> handler" where
  "h_ListInventoryHosts ext s = with_id ext s ''invalid id'' (\<lambda>i w.
     on_store internal (\<lambda>hs. (200, HostsBody hs)) (astore_ListInventoryHosts (pg_collate ext) i w))"

subsection \<open>Job templates (templates.go)\<close>

record TemplateReq =
  TmplReq_Name :: string
  TmplReq_Description :: string
  TmplReq_ProjectID :: string
  TmplReq_Playbook :: string
  TmplReq_CredentialID :: "string option"
  TmplReq_DefaultExtraVars :: "vars option"

definition h_ListJobTemplates :: "api_ext \<Rightarrow> handler" where
  "h_ListJobTemplates ext w =
     on_store internal (\<lambda>ts. (200, TemplatesBody ts)) (astore_ListJobTemplates (pg_collate ext) w)"

definition h_CreateJobTemplate :: "api_ext \<Rightarrow> TemplateReq option \<Rightarrow> handler" where
  "h_CreateJobTemplate ext body w =
     (case body of
        None \<Rightarrow> (respondError 400 ''invalid request'', w)
      | Some b \<Rightarrow>
          if TmplReq_Name b = '''' \<or> TmplReq_ProjectID b = '''' \<or> TmplReq_Playbook b = ''''
          then (respondError 400 ''name, project_id, and playbook are required'', w)
          else with_id ext (TmplReq_ProjectID b) ''invalid project_id'' (\<lambda>projectID.
            with_cred ext (TmplReq_CredentialID b) (\<lambda>credID w.
              on_store internal (\<lambda>t. (201, TemplateBody t))
                (astore_CreateJobTemplate (TmplReq_Name b) (TmplReq_Description b) projectID
                  (TmplReq_Playbook b) credID (TmplReq_DefaultExtraVars b) w))) w)"

definition h_GetJobTemplate :: "api_ext \<Rightarrow> string \<Rightarrow> handler" where
  "h_GetJobTemplate ext s = with_id ext s ''invalid id'' (\<lambda>i w.
     on_store respondStoreErr (\<lambda>t. (200, TemplateBody t)) (astore_GetJobTemplate i w))"

definition h_UpdateJobTemplate :: "api_ext \<Rightarrow> string \<Rightarrow> TemplateReq option \<Rightarrow> handler" where
  "h_UpdateJobTemplate ext s body = with_id ext s ''invalid id'' (\<lambda>i w.
     (case body of
        None \<Rightarrow> (respondError 400 ''invalid request'', w)
      | Some b \<Rightarrow> with_cred ext (TmplReq_CredentialID b) (\<lambda>credID w.
          on_store respondStoreErr (\<lambda>t. (200, TemplateBody t))
            (astore_UpdateJobTemplate i (TmplReq_Name b) (TmplReq_Description b) (TmplReq_Playbook b)
              credID (TmplReq_DefaultExtraVars b) w)) w))"

definition h_DeleteJobTemplate :: "api_ext \<Rightarrow> string \<Rightarrow> handler" where
  "h_DeleteJobTemplate ext s = with_id ext s ''invalid id'' (\<lambda>i w.
     on_store respondStoreErr (\<lambda>_. (204, NoContent)) (astore_DeleteJobTemplate i w))"

subsection \<open>Schedules (schedules.go)\<close>

record ScheduleReq =
  SchedReq_Name :: string
  SchedReq_TemplateID :: string
  SchedReq_CronExpr :: string
  SchedReq_Timezone :: string
  SchedReq_Enabled :: bool
  SchedReq_ExtraVars :: "vars option"

definition h_ListSchedules :: "api_ext \<Rightarrow> handler" where
  "h_ListSchedules ext w =
     on_store internal (\<lambda>ss. (200, SchedulesBody ss)) (astore_ListSchedules (pg_collate ext) w)"

definition h_CreateSchedule :: "api_ext \<Rightarrow> ScheduleReq option \<Rightarrow> handler" where
  "h_CreateSchedule ext body w =
     (case body of
        None \<Rightarrow> (respondError 400 ''invalid request'', w)
      | Some b \<Rightarrow>
          if SchedReq_Name b = '''' \<or> SchedReq_TemplateID b = '''' \<or> SchedReq_CronExpr b = ''''
          then (respondError 400 ''name, template_id, and cron_expr are required'', w)
          else with_id ext (SchedReq_TemplateID b) ''invalid template_id'' (\<lambda>templateID w.
            (let timezone = (if SchedReq_Timezone b = '''' then ''UTC'' else SchedReq_Timezone b)
             in on_store internal (\<lambda>sc. (201, ScheduleBody sc))
                  (astore_CreateSchedule (SchedReq_Name b) templateID (SchedReq_CronExpr b) timezone
                    (SchedReq_Enabled b) (SchedReq_ExtraVars b) w))) w)"

definition h_GetSchedule :: "api_ext \<Rightarrow> string \<Rightarrow> handler" where
  "h_GetSchedule ext s = with_id ext s ''invalid id'' (\<lambda>i w.
     on_store respondStoreErr (\<lambda>sc. (200, ScheduleBody sc)) (astore_GetSchedule i w))"

definition h_UpdateSchedule :: "api_ext \<Rightarrow> string \<Rightarrow> ScheduleReq option \<Rightarrow> handler" where
  "h_UpdateSchedule ext s body = with_id ext s ''invalid id'' (\<lambda>i w.
     (case body of
        None \<Rightarrow> (respondError 400 ''invalid request'', w)
      | Some b \<Rightarrow> on_store respondStoreErr (\<lambda>sc. (200, ScheduleBody sc))
          (astore_UpdateSchedule i (SchedReq_Name b) (SchedReq_CronExpr b) (SchedReq_Timezone b)
            (SchedReq_Enabled b) (SchedReq_ExtraVars b) w)))"

definition h_DeleteSchedule :: "api_ext \<Rightarrow> string \<Rightarrow> handler" where
  "h_DeleteSchedule ext s = with_id ext s ''invalid id'' (\<lambda>i w.
     on_store respondStoreErr (\<lambda>_. (204, NoContent)) (astore_DeleteSchedule i w))"

subsection \<open>Workflows (workflows.go)\<close>

record WorkflowReq =
  WfReq_Name :: string
  WfReq_Description :: string
  WfReq_Nodes :: "WorkflowNode list option"
  WfReq_Edges :: "WorkflowEdge list option"

definition h_ListWorkflows :: "api_ext \<Rightarrow> handler" where
  "h_ListWorkflows ext w =
     on_store internal (\<lambda>ws. (200, WorkflowsBody ws)) (astore_ListWorkflows (pg_collate ext) w)"

definition h_CreateWorkflow :: "WorkflowReq option \<Rightarrow> handler" where
  "h_CreateWorkflow body w =
     (case body of
        None \<Rightarrow> (respondError 400 ''name is required'', w)
      | Some b \<Rightarrow>
          if WfReq_Name b = '''' then (respondError 400 ''name is required'', w)
          else on_store internal (\<lambda>x. (201, WorkflowBody x))
            (astore_CreateWorkflow (WfReq_Name b) (WfReq_Description b) w))"

text \<open>The errors of the two lookups of nodes and edges are discarded: the lists are then nil.\<close>

definition or_nil :: "'a list res \<Rightarrow> 'a list" where
  "or_nil r = (case r of Inl _ \<Rightarrow> [] | Inr xs \<Rightarrow> xs)"

definition h_GetWorkflow :: "api_ext \<Rightarrow> string \<Rightarrow> handler" where
  "h_GetWorkflow ext s = with_id ext s ''invalid id'' (\<lambda>i w.
     (case astore_GetWorkflow i w of
        (Inl e, w1) \<Rightarrow> (respondStoreErr e, w1)
      | (Inr x, w1) \<Rightarrow>
          (let (ns, w2) = astore_GetWorkflowNodes i w1;
               (es, w3) = astore_GetWorkflowEdges i w2
           in ((200, WorkflowDetailBody x (or_nil ns) (or_nil es)), w3))))"

definition h_UpdateWorkflow :: "api_ext \<Rightarrow> string \<Rightarrow> WorkflowReq option \<Rightarrow> handler" where
  "h_UpdateWorkflow ext s body = with_id ext s ''invalid id'' (\<lambda>i w.
     (case body of
        None \<Rightarrow> (respondError 400 ''invalid request'', w)
      | Some b \<Rightarrow>
          (case astore_UpdateWorkflow i (WfReq_Name b) (WfReq_Description b) w of
             (Inl e, w1) \<Rightarrow> (respondStoreErr e, w1)
           | (Inr x, w1) \<Rightarrow>
               (case (case WfReq_Nodes b of
                        None \<Rightarrow> (Inr (), w1)
                      | Some ns \<Rightarrow> astore_UpsertWorkflowNodes i ns w1) of
                  (Inl e, w2) \<Rightarrow> (internal e, w2)
                | (Inr _, w2) \<Rightarrow>
                    (case (case WfReq_Edges b of
                             None \<Rightarrow> (Inr (), w2)
                           | Some es \<Rightarrow> astore_UpsertWorkflowEdges i es w2) of
                       (Inl e, w3) \<Rightarrow> (internal e, w3)
                     | (Inr _, w3) \<Rightarrow> ((200, WorkflowBody x), w3))))))"

definition h_DeleteWorkflow :: "api_ext \<Rightarrow> string \<Rightarrow> handler" where
  "h_DeleteWorkflow ext s = with_id ext s ''invalid id'' (\<lambda>i w.
     on_store respondStoreErr (\<lambda>_. (204, NoContent)) (astore_DeleteWorkflow i w))"

definition h_RunWorkflow :: "api_ext \<Rightarrow> string \<Rightarrow> handler" where
  "h_RunWorkflow ext s = with_id ext s ''invalid id'' (\<lambda>i w.
     (case astore_GetWorkflow i w of
        (Inl e, w1) \<Rightarrow> (respondStoreErr e, w1)
      | (Inr _, w1) \<Rightarrow> on_store internal (\<lambda>r. (201, RunBody r)) (astore_CreateWorkflowRun i w1)))"

definition h_ListWorkflowRuns :: "api_ext \<Rightarrow> string \<Rightarrow> handler" where
  "h_ListWorkflowRuns ext s = with_id ext s ''invalid id'' (\<lambda>i w.
     on_store internal (\<lambda>rs. (200, RunsBody rs)) (astore_ListWorkflowRuns i w))"

definition h_GetWorkflowRun :: "api_ext \<Rightarrow> string \<Rightarrow> handler" where
  "h_GetWorkflowRun ext s = with_id ext s ''invalid id'' (\<lambda>i w.
     on_store respondStoreErr (\<lambda>r. (200, RunBody r)) (astore_GetWorkflowRun i w))"

subsection \<open>Approvals (approvals.go)\<close>

definition h_ListPendingApprovals :: handler where
  "h_ListPendingApprovals w =
     on_store internal (\<lambda>as. (200, ApprovalsBody as)) (astore_ListPendingApprovals w)"

definition h_GetApproval :: "api_ext \<Rightarrow> string \<Rightarrow> handler" where
  "h_GetApproval ext s = with_id ext s ''invalid id'' (\<lambda>i w.
     on_store respondStoreErr (\<lambda>a. (200, ApprovalBody a)) (astore_GetApprovalRequest i w))"

definition approval_action :: "string \<Rightarrow> ApprovalStatus option" where
  "approval_action action =
     (if action = ''approve'' then Some ApprovalStatusApproved
      else if action = ''deny'' then Some ApprovalStatusDenied else None)"

definition h_ResolveApproval ::
  "api_ext \<Rightarrow> uuid option \<Rightarrow> string \<Rightarrow> string \<Rightarrow> string option \<Rightarrow> handler" where
  "h_ResolveApproval ext user s action note w =
     (case user of
        None \<Rightarrow> (respondError 401 ''unauthorized'', w)
      | Some userID \<Rightarrow> with_id ext s ''invalid id'' (\<lambda>i w.
          (case approval_action action of
             None \<Rightarrow> (respondError 400 ''action must be approve or deny'', w)
           | Some status \<Rightarrow> on_store respondStoreErr (\<lambda>_. (204, NoContent))
               (astore_ResolveApproval i status userID note w))) w)"

end
