(* ===== verification/ApiServer.thy ===== *)
theory ApiServer
  imports CatalogHandlers
begin

section \<open>Authentication and routing (api/internal/middleware, api/internal/server)\<close>

text \<open>
  \<open>RequireUser\<close> and \<open>RequireAgent\<close> wrap a handler: they read the bearer token, look it up and pass
  the user id or the agent on. \<open>routes\<close> is the table that \<open>server.New\<close> builds, with the middleware
  group each route belongs to, and \<open>serve\<close> is the whole server: CORS, routing, authentication,
  handler.

  \<open>go st.TouchAPIToken(...)\<close> runs concurrently with the handler; it writes one column that no handler
  reads, and is executed before the handler here.
\<close>

subsection \<open>The middleware (middleware/auth.go)\<close>

definition TrimPrefix :: "string \<Rightarrow> string \<Rightarrow> string" where
  "TrimPrefix s pre = (if take (length pre) s = pre then drop (length pre) s else s)"

definition unauthorized :: reply where
  "unauthorized = (401, ErrorBody ''unauthorized'')"

definition RequireUser ::
  "api_ext \<Rightarrow> string \<Rightarrow> time \<Rightarrow> string \<Rightarrow> (uuid option \<Rightarrow> handler) \<Rightarrow> handler" where
  "RequireUser ext jwtSecret now authorization next_h w =
     (let raw = TrimPrefix authorization ''Bearer ''
      in if raw = '''' then (unauthorized, w)
         else (case ParseToken ext now jwtSecret raw of
            Inr claims \<Rightarrow> next_h (Some (Claims_UserID claims)) w
          | Inl _ \<Rightarrow>
              (case astore_GetAPITokenByHash (hashToken ext raw) w of
                 (Inl e, w1) \<Rightarrow> (unauthorized, w1)
               | (Inr token, w1) \<Rightarrow>
                   next_h (Some (Token_UserID token)) (snd (astore_TouchAPIToken (Token_ID token) w1)))))"

definition RequireAgent :: "api_ext \<Rightarrow> string \<Rightarrow> (Agent option \<Rightarrow> handler) \<Rightarrow> handler" where
  "RequireAgent ext authorization next_h w =
     (let raw = TrimPrefix authorization ''Bearer ''
      in if raw = '''' then (unauthorized, w)
         else (case astore_GetAgentByTokenHash (hashToken ext raw) w of
                 (Inl e, w1) \<Rightarrow> (unauthorized, w1)
               | (Inr agent, w1) \<Rightarrow> next_h (Some agent) w1))"

subsection \<open>The routes (server/server.go)\<close>

datatype endpoint =
    E_Health | E_RegisterAgent | E_Login
  | E_CreateAPIToken | E_ListAPITokens | E_DeleteAPIToken
  | E_ListAgents | E_GetAgent
  | E_ListCredentials | E_CreateCredential | E_GetCredential | E_UpdateCredential | E_DeleteCredential
  | E_ListProjects | E_CreateProject | E_GetProject | E_UpdateProject | E_DeleteProject
  | E_SyncProject | E_ListInventoryHosts
  | E_ListJobTemplates | E_CreateJobTemplate | E_GetJobTemplate | E_UpdateJobTemplate | E_DeleteJobTemplate
  | E_ListSchedules | E_CreateSchedule | E_GetSchedule | E_UpdateSchedule | E_DeleteSchedule
  | E_ListJobs | E_CreateJob | E_GetJob | E_CancelJob | E_GetJobLogs
  | E_ListWorkflows | E_CreateWorkflow | E_GetWorkflow | E_UpdateWorkflow | E_DeleteWorkflow
  | E_RunWorkflow | E_ListWorkflowRuns | E_GetWorkflowRun
  | E_ListPendingApprovals | E_GetApproval | E_ResolveApproval
  | E_AgentHeartbeat | E_AgentPostLogs | E_AgentPostResult

datatype access = Public | UserGroup | AgentGroup

record route =
  Route_Method :: string
  Route_Pattern :: "string list"
  Route_Access :: access
  Route_Endpoint :: endpoint

abbreviation rt :: "access \<Rightarrow> string \<Rightarrow> string list \<Rightarrow> endpoint \<Rightarrow> route" where
  "rt a m p e \<equiv> \<lparr>Route_Method = m, Route_Pattern = p, Route_Access = a, Route_Endpoint = e\<rparr>"

definition public_routes :: "route list" where
  "public_routes = [
     rt Public ''GET'' [''health''] E_Health,
     rt Public ''POST'' [''agents'', ''register''] E_RegisterAgent,
     rt Public ''POST'' [''auth'', ''login''] E_Login]"

definition user_routes :: "route list" where
  "user_routes = [
     rt UserGroup ''POST'' [''auth'', ''tokens''] E_CreateAPIToken,
     rt UserGroup ''GET'' [''auth'', ''tokens''] E_ListAPITokens,
     rt UserGroup ''DELETE'' [''auth'', ''tokens'', ''{id}''] E_DeleteAPIToken,
     rt UserGroup ''GET'' [''agents''] E_ListAgents,
     rt UserGroup ''GET'' [''agents'', ''{id}''] E_GetAgent,
     rt UserGroup ''GET'' [''credentials''] E_ListCredentials,
     rt UserGroup ''POST'' [''credentials''] E_CreateCredential,
     rt UserGroup ''GET'' [''credentials'', ''{id}''] E_GetCredential,
     rt UserGroup ''PUT'' [''credentials'', ''{id}''] E_UpdateCredential,
     rt UserGroup ''DELETE'' [''credentials'', ''{id}''] E_DeleteCredential,
     rt UserGroup ''GET'' [''projects''] E_ListProjects,
     rt UserGroup ''POST'' [''projects''] E_CreateProject,
     rt UserGroup ''GET'' [''projects'', ''{id}''] E_GetProject,
     rt UserGroup ''PUT'' [''projects'', ''{id}''] E_UpdateProject,
     rt UserGroup ''DELETE'' [''projects'', ''{id}''] E_DeleteProject,
     rt UserGroup ''POST'' [''projects'', ''{id}'', ''sync''] E_SyncProject,
     rt UserGroup ''GET'' [''projects'', ''{id}'', ''inventory''] E_ListInventoryHosts,
     rt UserGroup ''GET'' [''job-templates''] E_ListJobTemplates,
     rt UserGroup ''POST'' [''job-templates''] E_CreateJobTemplate,
     rt UserGroup ''GET'' [''job-templates'', ''{id}''] E_GetJobTemplate,
     rt UserGroup ''PUT'' [''job-templates'', ''{id}''] E_UpdateJobTemplate,
     rt UserGroup ''DELETE'' [''job-templates'', ''{id}''] E_DeleteJobTemplate,
     rt UserGroup ''GET'' [''schedules''] E_ListSchedules,
     rt UserGroup ''POST'' [''schedules''] E_CreateSchedule,
     rt UserGroup ''GET'' [''schedules'', ''{id}''] E_GetSchedule,
     rt UserGroup ''PUT'' [''schedules'', ''{id}''] E_UpdateSchedule,
     rt UserGroup ''DELETE'' [''schedules'', ''{id}''] E_DeleteSchedule,
     rt UserGroup ''GET'' [''jobs''] E_ListJobs,
     rt UserGroup ''POST'' [''jobs''] E_CreateJob,
     rt UserGroup ''GET'' [''jobs'', ''{id}''] E_GetJob,
     rt UserGroup ''POST'' [''jobs'', ''{id}'', ''cancel''] E_CancelJob,
     rt UserGroup ''GET'' [''jobs'', ''{id}'', ''logs''] E_GetJobLogs,
     rt UserGroup ''GET'' [''workflows''] E_ListWorkflows,
     rt UserGroup ''POST'' [''workflows''] E_CreateWorkflow,
     rt UserGroup ''GET'' [''workflows'', ''{id}''] E_GetWorkflow,
     rt UserGroup ''PUT'' [''workflows'', ''{id}''] E_UpdateWorkflow,
     rt UserGroup ''DELETE'' [''workflows'', ''{id}''] E_DeleteWorkflow,
     rt UserGroup ''POST'' [''workflows'', ''{id}'', ''run''] E_RunWorkflow,
     rt UserGroup ''GET'' [''workflows'', ''{id}'', ''runs''] E_ListWorkflowRuns,
     rt UserGroup ''GET'' [''workflow-runs'', ''{id}''] E_GetWorkflowRun,
     rt UserGroup ''GET'' [''approvals''] E_ListPendingApprovals,
     rt UserGroup ''GET'' [''approvals'', ''{id}''] E_GetApproval,
     rt UserGroup ''POST'' [''approvals'', ''{id}'', ''{action}''] E_ResolveApproval]"

definition agent_routes :: "route list" where
  "agent_routes = [
     rt AgentGroup ''POST'' [''agent'', ''heartbeat''] E_AgentHeartbeat,
     rt AgentGroup ''POST'' [''agent'', ''jobs'', ''{job_id}'', ''logs''] E_AgentPostLogs,
     rt AgentGroup ''POST'' [''agent'', ''jobs'', ''{job_id}'', ''result''] E_AgentPostResult]"

definition routes :: "route list" where
  "routes = public_routes @ user_routes @ agent_routes"

definition is_param :: "string \<Rightarrow> bool" where
  "is_param seg \<longleftrightarrow> seg \<noteq> [] \<and> hd seg = CHR ''{''"

fun match_path :: "string list \<Rightarrow> string list \<Rightarrow> string list option" where
  "match_path [] [] = Some []"
| "match_path (p # ps) (s # ss) =
     (if is_param p then map_option (\<lambda>xs. s # xs) (match_path ps ss)
      else if p = s then match_path ps ss else None)"
| "match_path _ _ = None"

text \<open>
  The router is the chi package: an argument \<open>chi\<close> of the server, from the registered routes, the
  method and the path to the chosen route with the values of its parameters. What the code relies on
  is \<open>router_ok\<close>: a chosen route is a registered one, of the request's method, whose pattern fits the
  path (a segment in braces fits any segment and yields it).
\<close>

datatype routed = Routed route "string list" | MethodNotAllowed | RouteNotFound

type_synonym router = "route list \<Rightarrow> string \<Rightarrow> string list \<Rightarrow> routed"

definition router_ok :: "router \<Rightarrow> bool" where
  "router_ok chi \<longleftrightarrow> (\<forall>rs m p r ps. chi rs m p = Routed r ps \<longrightarrow>
     r \<in> set rs \<and> Route_Method r = m \<and> match_path (Route_Pattern r) p = Some ps)"

text \<open>A router that takes the first registered route that fits; it satisfies the assumption.\<close>

definition first_match :: router where
  "first_match rs m p =
     (case List.find (\<lambda>r. Route_Method r = m \<and> match_path (Route_Pattern r) p \<noteq> None) rs of
        Some r \<Rightarrow> Routed r (the (match_path (Route_Pattern r) p))
      | None \<Rightarrow> if list_ex (\<lambda>r. match_path (Route_Pattern r) p \<noteq> None) rs then MethodNotAllowed
                else RouteNotFound)"

lemma first_match_ok: "router_ok first_match"
  by (auto simp: router_ok_def first_match_def find_Some_iff split: option.splits if_splits)

subsection \<open>Cross-origin requests (server.go)\<close>

text \<open>\<open>strings.TrimRight(o, "/")\<close>, and the header that the CORS middleware sets.\<close>

definition TrimRightSlash :: "string \<Rightarrow> string" where
  "TrimRightSlash s = rev (dropWhile (\<lambda>c. c = CHR 0x2F) (rev s))"

definition cors_allow_origin :: "string list \<Rightarrow> string \<Rightarrow> string option" where
  "cors_allow_origin allowedOrigins origin =
     (if origin \<in> set (map TrimRightSlash allowedOrigins) then Some origin else None)"

subsection \<open>The whole server\<close>

text \<open>
  A request, with its body decoded into each of the structs that a handler may ask for, and the
  bytes that \<open>crypto/rand\<close> delivers while it is served.
\<close>

record request =
  Req_HTTPMethod :: string
  Req_Path :: "string list"
  Req_Authorization :: string
  Req_RegistrationToken :: string
  Req_Query :: "string \<Rightarrow> string"
  Req_Random :: string
  Req_Nonce :: "string option"
  Body_Register :: "RegisterReq option"
  Body_Heartbeat :: "AgentHeartbeat option"
  Body_Login :: "LoginReq option"
  Body_TokenName :: "string option"
  Body_Credential :: "CredentialReq option"
  Body_Project :: "ProjectReq option"
  Body_Template :: "TemplateReq option"
  Body_Schedule :: "ScheduleReq option"
  Body_CreateJob :: "CreateJobReq option"
  Body_Workflow :: "WorkflowReq option"
  Body_Note :: "string option"
  Body_Logs :: "JobLogLine list option"
  Body_Result :: "ResultReq option"

definition handle_user :: "api_ext \<Rightarrow> ApiConfig \<Rightarrow> endpoint \<Rightarrow> string list \<Rightarrow> request \<Rightarrow> uuid option \<Rightarrow> handler" where
  "handle_user ext cfg e ps rq user =
     (let i = (case ps of [] \<Rightarrow> '''' | p # _ \<Rightarrow> p);
          action = (case ps of (_ # a # _) \<Rightarrow> a | _ \<Rightarrow> '''')
      in case e of
       E_CreateAPIToken \<Rightarrow> h_CreateAPIToken ext (Req_Random rq) user (Body_TokenName rq)
     | E_ListAPITokens \<Rightarrow> h_ListAPITokens user
     | E_DeleteAPIToken \<Rightarrow> h_DeleteAPIToken ext user i
     | E_ListAgents \<Rightarrow> h_ListAgents
     | E_GetAgent \<Rightarrow> h_GetAgent ext i
     | E_ListCredentials \<Rightarrow> h_ListCredentials ext
     | E_CreateCredential \<Rightarrow> h_CreateCredential ext cfg (Req_Nonce rq) (Body_Credential rq)
     | E_GetCredential \<Rightarrow> h_GetCredential ext i
     | E_UpdateCredential \<Rightarrow> h_UpdateCredential ext cfg (Req_Nonce rq) i (Body_Credential rq)
     | E_DeleteCredential \<Rightarrow> h_DeleteCredential ext i
     | E_ListProjects \<Rightarrow> h_ListProjects ext
     | E_CreateProject \<Rightarrow> h_CreateProject ext (Body_Project rq)
     | E_GetProject \<Rightarrow> h_GetProject ext i
     | E_UpdateProject \<Rightarrow> h_UpdateProject ext i (Body_Project rq)
     | E_DeleteProject \<Rightarrow> h_DeleteProject ext i
     | E_SyncProject \<Rightarrow> h_SyncProject ext i
     | E_ListInventoryHosts \<Rightarrow> h_ListInventoryHosts ext i
     | E_ListJobTemplates \<Rightarrow> h_ListJobTemplates ext
     | E_CreateJobTemplate \<Rightarrow> h_CreateJobTemplate ext (Body_Template rq)
     | E_GetJobTemplate \<Rightarrow> h_GetJobTemplate ext i
     | E_UpdateJobTemplate \<Rightarrow> h_UpdateJobTemplate ext i (Body_Template rq)
     | E_DeleteJobTemplate \<Rightarrow> h_DeleteJobTemplate ext i
     | E_ListSchedules \<Rightarrow> h_ListSchedules ext
     | E_CreateSchedule \<Rightarrow> h_CreateSchedule ext (Body_Schedule rq)
     | E_GetSchedule \<Rightarrow> h_GetSchedule ext i
     | E_UpdateSchedule \<Rightarrow> h_UpdateSchedule ext i (Body_Schedule rq)
     | E_DeleteSchedule \<Rightarrow> h_DeleteSchedule ext i
     | E_ListJobs \<Rightarrow> h_ListJobs ext (Req_Query rq ''status'') (Req_Query rq ''template_id'') (Req_Query rq ''agent_id'')
     | E_CreateJob \<Rightarrow> h_CreateJob ext (Body_CreateJob rq)
     | E_GetJob \<Rightarrow> h_GetJob ext i
     | E_CancelJob \<Rightarrow> h_CancelJob ext i
     | E_GetJobLogs \<Rightarrow> h_GetJobLogs ext i
     | E_ListWorkflows \<Rightarrow> h_ListWorkflows ext
     | E_CreateWorkflow \<Rightarrow> h_CreateWorkflow (Body_Workflow rq)
     | E_GetWorkflow \<Rightarrow> h_GetWorkflow ext i
     | E_UpdateWorkflow \<Rightarrow> h_UpdateWorkflow ext i (Body_Workflow rq)
     | E_DeleteWorkflow \<Rightarrow> h_DeleteWorkflow ext i
     | E_RunWorkflow \<Rightarrow> h_RunWorkflow ext i
     | E_ListWorkflowRuns \<Rightarrow> h_ListWorkflowRuns ext i
     | E_GetWorkflowRun \<Rightarrow> h_GetWorkflowRun ext i
     | E_ListPendingApprovals \<Rightarrow> h_ListPendingApprovals
     | E_GetApproval \<Rightarrow> h_GetApproval ext i
     | E_ResolveApproval \<Rightarrow> h_ResolveApproval ext user i action (Body_Note rq)
     | _ \<Rightarrow> (\<lambda>w. ((404, NoContent), w)))"

definition handle_agent :: "api_ext \<Rightarrow> ApiConfig \<Rightarrow> endpoint \<Rightarrow> string list \<Rightarrow> request \<Rightarrow> Agent option \<Rightarrow> handler" where
  "handle_agent ext cfg e ps rq agent =
     (let i = (case ps of [] \<Rightarrow> '''' | p # _ \<Rightarrow> p)
      in case e of
       E_AgentHeartbeat \<Rightarrow> h_AgentHeartbeat cfg agent (Body_Heartbeat rq)
     | E_AgentPostLogs \<Rightarrow> h_AgentPostLogs ext agent i (Body_Logs rq)
     | E_AgentPostResult \<Rightarrow> h_AgentPostResult ext agent i (Body_Result rq)
     | _ \<Rightarrow> (\<lambda>w. ((404, NoContent), w)))"

definition handle_public :: "api_ext \<Rightarrow> ApiConfig \<Rightarrow> time \<Rightarrow> endpoint \<Rightarrow> request \<Rightarrow> handler" where
  "handle_public ext cfg now e rq =
     (case e of
       E_Health \<Rightarrow> (\<lambda>w. ((200, HealthBody), w))
     | E_RegisterAgent \<Rightarrow> h_RegisterAgent ext cfg (Req_Random rq) (Req_RegistrationToken rq) (Body_Register rq)
     | E_Login \<Rightarrow> h_Login ext cfg now (Body_Login rq)
     | _ \<Rightarrow> (\<lambda>w. ((404, NoContent), w)))"

definition serve :: "router \<Rightarrow> api_ext \<Rightarrow> ApiConfig \<Rightarrow> time \<Rightarrow> request \<Rightarrow> handler" where
  "serve chi ext cfg now rq w =
     (if Req_HTTPMethod rq = ''OPTIONS'' then ((204, NoContent), w)
      else (case chi routes (Req_HTTPMethod rq) (Req_Path rq) of
         RouteNotFound \<Rightarrow> ((404, NoContent), w)
       | MethodNotAllowed \<Rightarrow> ((405, NoContent), w)
       | Routed r ps \<Rightarrow>
           (case Route_Access r of
              Public \<Rightarrow> handle_public ext cfg now (Route_Endpoint r) rq w
            | UserGroup \<Rightarrow> RequireUser ext (Api_JWTSecret cfg) now (Req_Authorization rq)
                (handle_user ext cfg (Route_Endpoint r) ps rq) w
            | AgentGroup \<Rightarrow> RequireAgent ext (Req_Authorization rq)
                (handle_agent ext cfg (Route_Endpoint r) ps rq) w)))"

end
