(* ===== verification/ApiSafety.thy ===== *)
theory ApiSafety
  imports ApiServer Lifecycle
begin

section \<open>What an API request may do to the database\<close>

text \<open>
  The counterpart of \<open>Lifecycle\<close> for the API server. The server changes jobs through four
  statements only: inserting a pending job, setting a terminal status, and storing facts; every other
  statement leaves the table of jobs alone. \<open>api_effects\<close> lists what its statements can do to the
  database; a relation that these respect (\<open>api_stmts\<close>) is respected by serving any request, with or
  without authentication. A relation that only looks at the jobs (\<open>api_rely\<close>) is a special case, whose
  interpretations show that the server keeps the promise on which the reconciler relies
  (\<open>jobs_rely\<close>), keeps the row invariant \<open>jobs_wf\<close>, and never puts a job into the status
  running.
\<close>

text \<open>Statements that leave the table of jobs alone.\<close>

definition keeps_jobs :: "'a stmt \<Rightarrow> bool" where
  "keeps_jobs q \<longleftrightarrow> (\<forall>c d. db_jobs (snd (q c d)) = db_jobs d)"

lemma keeps_jobs_query: "keeps_jobs (query f)"
  by (simp add: keeps_jobs_def)

lemma insert_nodes_jobs: "insert_nodes wid ns d = Inr d' \<Longrightarrow> db_jobs d' = db_jobs d"
  by (induction wid ns d rule: insert_nodes.induct) (auto split: if_splits)

lemma insert_edges_jobs: "insert_edges wid es d = Inr d' \<Longrightarrow> db_jobs d' = db_jobs d"
  by (induction wid es d rule: insert_edges.induct) (auto split: if_splits)

lemma delete_nodes_jobs [simp]: "db_jobs (delete_nodes wid d) = db_jobs d"
  by (simp add: delete_nodes_def)

lemma keeps_jobs_users:
  "keeps_jobs (insert_log_stmt i l)"
  "keeps_jobs (CreateAgent_stmt s1 s2 s3 lb n)"
  "keeps_jobs (UpdateAgentHeartbeat_stmt i)"
  "keeps_jobs (CreateAPIToken_stmt i s1 s2)"
  "keeps_jobs (DeleteAPIToken_stmt i k)"
  "keeps_jobs (TouchAPIToken_stmt i)"
  "keeps_jobs (ResolveApproval_stmt i st k nt)"
  by (simp_all add: keeps_jobs_def stmt_defs Let_def)

lemma keeps_jobs_catalogue:
  "keeps_jobs (CreateCredential_stmt s1 s2 kd s3)"
  "keeps_jobs (UpdateCredential_stmt i s1 s2 kd s3)"
  "keeps_jobs (DeleteCredential_stmt i)"
  "keeps_jobs (CreateProject_stmt s1 s2 s3 s4 ci)"
  "keeps_jobs (UpdateProject_stmt i s1 s2 s3 s4 ci)"
  "keeps_jobs (DeleteProject_stmt i)"
  "keeps_jobs (api_UpdateProjectSyncStatus_stmt i sy se)"
  "keeps_jobs (CreateJobTemplate_stmt s1 s2 i s3 ci vs)"
  "keeps_jobs (UpdateJobTemplate_stmt i s1 s2 s3 ci vo)"
  "keeps_jobs (DeleteJobTemplate_stmt i)"
  "keeps_jobs (CreateSchedule_stmt s1 i s2 s3 b vs)"
  "keeps_jobs (UpdateSchedule_stmt i s1 s2 s3 b vs)"
  "keeps_jobs (DeleteSchedule_stmt i)"
  by (simp_all add: keeps_jobs_def stmt_defs Let_def)

lemma keeps_jobs_workflows:
  "keeps_jobs (CreateWorkflow_stmt s1 s2)"
  "keeps_jobs (UpdateWorkflow_stmt i s1 s2)"
  "keeps_jobs (DeleteWorkflow_stmt i)"
  "keeps_jobs (UpsertWorkflowNodes_stmt i ns)"
  "keeps_jobs (UpsertWorkflowEdges_stmt i es)"
  "keeps_jobs (CreateWorkflowRun_stmt i)"
  by (auto simp: keeps_jobs_def stmt_defs Let_def insert_nodes_jobs insert_edges_jobs split: sum.splits)

lemmas keeps_jobs_all = keeps_jobs_query keeps_jobs_users keeps_jobs_catalogue keeps_jobs_workflows

text \<open>The effects of the statements that the handlers and the middleware can execute.\<close>

definition effect :: "'a stmt \<Rightarrow> call \<Rightarrow> db \<Rightarrow> db" where
  "effect q c d = snd (q c d)"

inductive_set api_effects :: "(call \<Rightarrow> db \<Rightarrow> db) set" where
  eff_insert_job: "effect (insert_job_stmt t run ev) \<in> api_effects"
| eff_UpdateJobStatus: "IsTerminal s \<Longrightarrow> effect (UpdateJobStatus_stmt i s None fr) \<in> api_effects"
| eff_SetJobFacts: "effect (SetJobFacts_stmt i fs) \<in> api_effects"
| eff_insert_log: "effect (insert_log_stmt i l) \<in> api_effects"
| eff_CreateAgent: "effect (CreateAgent_stmt s1 s2 s3 lb n) \<in> api_effects"
| eff_UpdateAgentHeartbeat: "effect (UpdateAgentHeartbeat_stmt i) \<in> api_effects"
| eff_CreateAPIToken: "effect (CreateAPIToken_stmt i s1 s2) \<in> api_effects"
| eff_DeleteAPIToken: "effect (DeleteAPIToken_stmt i k) \<in> api_effects"
| eff_TouchAPIToken: "effect (TouchAPIToken_stmt i) \<in> api_effects"
| eff_ResolveApproval: "effect (ResolveApproval_stmt i st k nt) \<in> api_effects"
| eff_CreateCredential: "effect (CreateCredential_stmt s1 s2 kd s3) \<in> api_effects"
| eff_UpdateCredential: "effect (UpdateCredential_stmt i s1 s2 kd s3) \<in> api_effects"
| eff_DeleteCredential: "effect (DeleteCredential_stmt i) \<in> api_effects"
| eff_CreateProject: "effect (CreateProject_stmt s1 s2 s3 s4 ci) \<in> api_effects"
| eff_UpdateProject: "effect (UpdateProject_stmt i s1 s2 s3 s4 ci) \<in> api_effects"
| eff_DeleteProject: "effect (DeleteProject_stmt i) \<in> api_effects"
| eff_api_UpdateProjectSyncStatus: "effect (api_UpdateProjectSyncStatus_stmt i sy se) \<in> api_effects"
| eff_CreateJobTemplate: "effect (CreateJobTemplate_stmt s1 s2 i s3 ci vs) \<in> api_effects"
| eff_UpdateJobTemplate: "effect (UpdateJobTemplate_stmt i s1 s2 s3 ci vo) \<in> api_effects"
| eff_DeleteJobTemplate: "effect (DeleteJobTemplate_stmt i) \<in> api_effects"
| eff_CreateSchedule: "effect (CreateSchedule_stmt s1 i s2 s3 b vs) \<in> api_effects"
| eff_UpdateSchedule: "effect (UpdateSchedule_stmt i s1 s2 s3 b vs) \<in> api_effects"
| eff_DeleteSchedule: "effect (DeleteSchedule_stmt i) \<in> api_effects"
| eff_CreateWorkflow: "effect (CreateWorkflow_stmt s1 s2) \<in> api_effects"
| eff_UpdateWorkflow: "effect (UpdateWorkflow_stmt i s1 s2) \<in> api_effects"
| eff_DeleteWorkflow: "effect (DeleteWorkflow_stmt i) \<in> api_effects"
| eff_UpsertWorkflowNodes: "effect (UpsertWorkflowNodes_stmt i ns) \<in> api_effects"
| eff_UpsertWorkflowEdges: "effect (UpsertWorkflowEdges_stmt i es) \<in> api_effects"
| eff_CreateWorkflowRun: "effect (CreateWorkflowRun_stmt i) \<in> api_effects"

text \<open>Programs and handlers that respect a relation.\<close>

definition safe_prog :: "(db \<Rightarrow> db \<Rightarrow> bool) \<Rightarrow> (world \<Rightarrow> 'a \<times> world) \<Rightarrow> bool" where
  "safe_prog R p \<longleftrightarrow> (\<forall>w. world_rel R w (snd (p w)))"

locale api_stmts = db_rely +
  assumes effect_ok: "f \<in> api_effects \<Longrightarrow> R d (f c d)"
begin

lemma stmt_ok: "effect q \<in> api_effects \<Longrightarrow> stmt_respects R q"
  using effect_ok [of "effect q"] by (simp add: stmt_respects_def effect_def)

lemma safe_exec: "stmt_respects R q \<Longrightarrow> safe_prog R (exec q)"
  unfolding safe_prog_def by (metis prod.collapse wrel_stmt)

lemma safe_exec_nf: "stmt_respects R q \<Longrightarrow> safe_prog R (exec_nf q)"
  using safe_exec [of q]
  by (auto simp: safe_prog_def exec_nf_def split: prod.split sum.split) (metis snd_conv)+

lemma safe_exec_tag: "stmt_respects R q \<Longrightarrow> safe_prog R (exec_tag q)"
  using safe_exec [of q]
  by (auto simp: safe_prog_def exec_tag_def split: prod.split sum.split) (metis snd_conv)+

lemmas safe_stmt = safe_exec [OF stmt_ok] safe_exec_nf [OF stmt_ok] safe_exec_tag [OF stmt_ok]
  safe_exec [OF query_respects] safe_exec_nf [OF query_respects] api_effects.intros

lemma safe_return: "safe_prog R (\<lambda>w. (x, w))"
  by (simp add: safe_prog_def wrel_refl)

lemma safe_on_store: "safe_prog R p \<Longrightarrow> safe_prog R (\<lambda>w. on_store fe fo (p w))"
  by (auto simp: safe_prog_def on_store_def split: prod.split sum.split) (metis snd_conv)+

lemma safe_with_id: "(\<And>i. safe_prog R (k i)) \<Longrightarrow> safe_prog R (with_id ext s msg k)"
  by (auto simp: safe_prog_def with_id_def wrel_refl split: option.split)

lemma safe_bind:
  assumes "safe_prog R p" and "\<And>e. safe_prog R (f e)" and "\<And>x. safe_prog R (g x)"
  shows "safe_prog R (\<lambda>w. case p w of (Inl e, w1) \<Rightarrow> f e w1 | (Inr x, w1) \<Rightarrow> g x w1)"
  unfolding safe_prog_def
proof (intro allI)
  fix w
  obtain r w1 where 1: "p w = (r, w1)" by fastforce
  have "world_rel R w w1" using assms(1) 1 by (metis safe_prog_def snd_conv)
  then show "world_rel R w (snd (case p w of (Inl e, w1) \<Rightarrow> f e w1 | (Inr x, w1) \<Rightarrow> g x w1))"
    using assms(2,3) 1 by (auto simp: safe_prog_def split: sum.split intro: wrel_trans)
qed

lemma safe_option:
  "safe_prog R f \<Longrightarrow> (\<And>b. x = Some b \<Longrightarrow> safe_prog R (g b)) \<Longrightarrow>
   safe_prog R (\<lambda>w. case x of None \<Rightarrow> f w | Some b \<Rightarrow> g b w)"
  by (cases x) simp_all

lemma safe_sum:
  "(\<And>e. safe_prog R (f e)) \<Longrightarrow> (\<And>b. safe_prog R (g b)) \<Longrightarrow>
   safe_prog R (\<lambda>w. case x of Inl e \<Rightarrow> f e w | Inr b \<Rightarrow> g b w)"
  by (cases x) simp_all

lemma safe_if:
  "(c \<Longrightarrow> safe_prog R f) \<Longrightarrow> (\<not> c \<Longrightarrow> safe_prog R g) \<Longrightarrow> safe_prog R (\<lambda>w. if c then f w else g w)"
  by (cases c) simp_all

lemma safe_after: "safe_prog R p \<Longrightarrow> safe_prog R (\<lambda>w. (x, if c then snd (p w) else w))"
  by (simp add: safe_prog_def wrel_refl)

lemma safe_snd: "safe_prog R p \<Longrightarrow> safe_prog R f \<Longrightarrow> safe_prog R (\<lambda>w. f (snd (p w)))"
  by (auto simp: safe_prog_def intro: wrel_trans)

lemma safe_AppendJobLogs: "safe_prog R (astore_AppendJobLogs i ls)"
proof (induction ls)
  case (Cons l ls)
  have "safe_prog R (exec (insert_log_stmt i l))"
    by (simp add: safe_stmt)
  then show ?case
    using Cons.IH unfolding astore_AppendJobLogs.simps(2) [abs_def]
    by (intro safe_bind safe_return) simp_all
qed (simp add: astore_AppendJobLogs.simps(1) [abs_def] safe_return)

lemma safe_store_jobs:
  "safe_prog R (astore_CreateJob i run ev)"
  "safe_prog R (astore_GetJob i)"
  "safe_prog R (astore_ListJobs f)"
  "IsTerminal s \<Longrightarrow> safe_prog R (astore_UpdateJobStatus i s None fr)"
  "safe_prog R (astore_SetJobFacts i fs)"
  "safe_prog R (astore_GetJobLogs i)"
  by (simp_all add: astore_CreateJob_def astore_GetJob_def astore_ListJobs_def
      astore_UpdateJobStatus_def astore_SetJobFacts_def astore_GetJobLogs_def safe_stmt)

lemma safe_store_users:
  "safe_prog R (astore_CreateAgent s1 s2 s3 lb n)"
  "safe_prog R (astore_GetAgentByID i)"
  "safe_prog R (astore_GetAgentByTokenHash s1)"
  "safe_prog R astore_ListAgents"
  "safe_prog R (astore_UpdateAgentHeartbeat i n t)"
  "safe_prog R (astore_GetUserByEmail s1)"
  "safe_prog R (astore_CreateAPIToken i s1 s2)"
  "safe_prog R (astore_GetAPITokenByHash s1)"
  "safe_prog R (astore_ListAPITokens i)"
  "safe_prog R (astore_DeleteAPIToken i k)"
  "safe_prog R (astore_TouchAPIToken i)"
  "safe_prog R (astore_GetApprovalRequest i)"
  "safe_prog R astore_ListPendingApprovals"
  "safe_prog R (astore_ResolveApproval i st k nt)"
  by (simp_all add: astore_CreateAgent_def astore_GetAgentByID_def astore_GetAgentByTokenHash_def
      astore_ListAgents_def astore_UpdateAgentHeartbeat_def astore_GetUserByEmail_def
      astore_CreateAPIToken_def astore_GetAPITokenByHash_def astore_ListAPITokens_def
      astore_DeleteAPIToken_def astore_TouchAPIToken_def astore_GetApprovalRequest_def
      astore_ListPendingApprovals_def astore_ResolveApproval_def safe_stmt)

lemma safe_store_catalogue:
  "safe_prog R (astore_CreateCredential s1 s2 kd s3)"
  "safe_prog R (astore_GetCredential i)"
  "safe_prog R (astore_ListCredentials co)"
  "safe_prog R (astore_UpdateCredential i s1 s2 kd s3)"
  "safe_prog R (astore_DeleteCredential i)"
  "safe_prog R (astore_CreateProject s1 s2 s3 s4 ci)"
  "safe_prog R (astore_GetProject i)"
  "safe_prog R (astore_ListProjects co)"
  "safe_prog R (astore_UpdateProject i s1 s2 s3 s4 ci)"
  "safe_prog R (astore_DeleteProject i)"
  "safe_prog R (astore_UpdateProjectSyncStatus i sy se)"
  "safe_prog R (astore_ListInventoryHosts co i)"
  "safe_prog R (astore_CreateJobTemplate s1 s2 i s3 ci vo)"
  "safe_prog R (astore_GetJobTemplate i)"
  "safe_prog R (astore_ListJobTemplates co)"
  "safe_prog R (astore_UpdateJobTemplate i s1 s2 s3 ci vo)"
  "safe_prog R (astore_DeleteJobTemplate i)"
  by (simp_all add: astore_CreateCredential_def astore_GetCredential_def astore_ListCredentials_def
      astore_UpdateCredential_def astore_DeleteCredential_def astore_CreateProject_def
      astore_GetProject_def astore_ListProjects_def astore_UpdateProject_def astore_DeleteProject_def
      astore_UpdateProjectSyncStatus_def astore_ListInventoryHosts_def astore_CreateJobTemplate_def
      astore_GetJobTemplate_def astore_ListJobTemplates_def astore_UpdateJobTemplate_def
      astore_DeleteJobTemplate_def safe_stmt)

lemma safe_store_workflows:
  "safe_prog R (astore_CreateSchedule s1 i s2 s3 b vo)"
  "safe_prog R (astore_GetSchedule i)"
  "safe_prog R (astore_ListSchedules co)"
  "safe_prog R (astore_UpdateSchedule i s1 s2 s3 b vo)"
  "safe_prog R (astore_DeleteSchedule i)"
  "safe_prog R (astore_CreateWorkflow s1 s2)"
  "safe_prog R (astore_GetWorkflow i)"
  "safe_prog R (astore_ListWorkflows co)"
  "safe_prog R (astore_UpdateWorkflow i s1 s2)"
  "safe_prog R (astore_DeleteWorkflow i)"
  "safe_prog R (astore_UpsertWorkflowNodes i ns)"
  "safe_prog R (astore_UpsertWorkflowEdges i es)"
  "safe_prog R (astore_GetWorkflowNodes i)"
  "safe_prog R (astore_GetWorkflowEdges i)"
  "safe_prog R (astore_CreateWorkflowRun i)"
  "safe_prog R (astore_GetWorkflowRun i)"
  "safe_prog R (astore_ListWorkflowRuns i)"
  by (simp_all add: astore_CreateSchedule_def astore_GetSchedule_def astore_ListSchedules_def
      astore_UpdateSchedule_def astore_DeleteSchedule_def astore_CreateWorkflow_def
      astore_GetWorkflow_def astore_ListWorkflows_def astore_UpdateWorkflow_def
      astore_DeleteWorkflow_def astore_UpsertWorkflowNodes_def astore_UpsertWorkflowEdges_def
      astore_GetWorkflowNodes_def astore_GetWorkflowEdges_def astore_CreateWorkflowRun_def
      astore_GetWorkflowRun_def astore_ListWorkflowRuns_def safe_stmt)

lemmas safe_store = safe_AppendJobLogs safe_store_jobs safe_store_users safe_store_catalogue
  safe_store_workflows

lemmas safe_rules = safe_return safe_with_id safe_option safe_sum safe_if safe_bind safe_on_store
  safe_after safe_store

lemma safe_jobs_handlers:
  "safe_prog R (h_ListJobs ext s1 s2 s3)"
  "safe_prog R (h_CreateJob ext b1)"
  "safe_prog R (h_GetJob ext s)"
  "safe_prog R (h_CancelJob ext s)"
  "safe_prog R (h_GetJobLogs ext s)"
  "safe_prog R (h_AgentPostLogs ext ag s b2)"
  "safe_prog R (h_AgentPostResult ext ag s b3)"
  unfolding h_ListJobs_def [abs_def] h_CreateJob_def [abs_def] h_GetJob_def h_CancelJob_def
    h_GetJobLogs_def h_AgentPostLogs_def [abs_def] h_AgentPostResult_def [abs_def] Let_def
  by (intro safe_rules; simp)+

lemma safe_users_handlers:
  "safe_prog R (h_RegisterAgent ext cfg s1 s2 b1)"
  "safe_prog R (h_AgentHeartbeat cfg ag b2)"
  "safe_prog R h_ListAgents"
  "safe_prog R (h_GetAgent ext s)"
  "safe_prog R (h_Login ext cfg now b3)"
  "safe_prog R (h_CreateAPIToken ext s u so)"
  "safe_prog R (h_ListAPITokens u)"
  "safe_prog R (h_DeleteAPIToken ext u s)"
  "safe_prog R h_ListPendingApprovals"
  "safe_prog R (h_GetApproval ext s)"
  "safe_prog R (h_ResolveApproval ext u s s1 so)"
  unfolding h_RegisterAgent_def [abs_def] h_AgentHeartbeat_def [abs_def] h_ListAgents_def [abs_def]
    h_GetAgent_def h_Login_def [abs_def] h_CreateAPIToken_def [abs_def] generateToken_def prod.case h_ListAPITokens_def [abs_def]
    h_DeleteAPIToken_def [abs_def] h_ListPendingApprovals_def [abs_def] h_GetApproval_def
    h_ResolveApproval_def [abs_def] Let_def
  by (intro safe_rules)+

lemma safe_encrypt_body:
  "(\<And>enc. safe_prog R (k enc)) \<Longrightarrow> safe_prog R (encrypt_body ext cfg nonce b k)"
  unfolding encrypt_body_def [abs_def] by (intro safe_rules)

lemma safe_with_cred: "(\<And>ci. safe_prog R (k ci)) \<Longrightarrow> safe_prog R (with_cred ext s k)"
  unfolding with_cred_def [abs_def] by (intro safe_rules)

lemma safe_credential_handlers:
  "safe_prog R (h_ListCredentials ext)"
  "safe_prog R (h_CreateCredential ext cfg nonce b)"
  "safe_prog R (h_GetCredential ext s)"
  "safe_prog R (h_UpdateCredential ext cfg nonce s b)"
  "safe_prog R (h_DeleteCredential ext s)"
  unfolding h_ListCredentials_def [abs_def] h_CreateCredential_def [abs_def] h_GetCredential_def
    h_UpdateCredential_def h_DeleteCredential_def
  by (intro safe_rules safe_encrypt_body)+

lemma safe_project_handlers:
  "safe_prog R (h_ListProjects ext)"
  "safe_prog R (h_CreateProject ext b)"
  "safe_prog R (h_GetProject ext s)"
  "safe_prog R (h_UpdateProject ext s b)"
  "safe_prog R (h_DeleteProject ext s)"
  "safe_prog R (h_SyncProject ext s)"
  "safe_prog R (h_ListInventoryHosts ext s)"
  unfolding h_ListProjects_def [abs_def] h_CreateProject_def [abs_def] h_GetProject_def
    h_UpdateProject_def h_DeleteProject_def h_SyncProject_def h_ListInventoryHosts_def Let_def
  by (intro safe_rules safe_with_cred)+

lemma safe_template_handlers:
  "safe_prog R (h_ListJobTemplates ext)"
  "safe_prog R (h_CreateJobTemplate ext b)"
  "safe_prog R (h_GetJobTemplate ext s)"
  "safe_prog R (h_UpdateJobTemplate ext s b)"
  "safe_prog R (h_DeleteJobTemplate ext s)"
  "safe_prog R (h_ListSchedules ext)"
  "safe_prog R (h_CreateSchedule ext sb)"
  "safe_prog R (h_GetSchedule ext s)"
  "safe_prog R (h_UpdateSchedule ext s sb)"
  "safe_prog R (h_DeleteSchedule ext s)"
  unfolding h_ListJobTemplates_def [abs_def] h_CreateJobTemplate_def [abs_def] h_GetJobTemplate_def
    h_UpdateJobTemplate_def h_DeleteJobTemplate_def h_ListSchedules_def [abs_def]
    h_CreateSchedule_def [abs_def] h_GetSchedule_def h_UpdateSchedule_def h_DeleteSchedule_def Let_def
  by (intro safe_rules safe_with_cred)+

lemma safe_bind_pair:
  assumes "safe_prog R p" and "\<And>x. safe_prog R (g x)"
  shows "safe_prog R (\<lambda>w. case p w of (x, w1) \<Rightarrow> g x w1)"
  unfolding safe_prog_def
proof
  fix w
  obtain x w1 where 1: "p w = (x, w1)" by fastforce
  then have "world_rel R w w1" using assms(1) by (metis safe_prog_def snd_conv)
  then show "world_rel R w (snd (case p w of (x, w1) \<Rightarrow> g x w1))"
    using 1 assms(2) by (auto simp: safe_prog_def intro: wrel_trans)
qed

lemma safe_workflow_handlers:
  "safe_prog R (h_ListWorkflows ext)"
  "safe_prog R (h_CreateWorkflow b)"
  "safe_prog R (h_GetWorkflow ext s)"
  "safe_prog R (h_UpdateWorkflow ext s b)"
  "safe_prog R (h_DeleteWorkflow ext s)"
  "safe_prog R (h_RunWorkflow ext s)"
  "safe_prog R (h_ListWorkflowRuns ext s)"
  "safe_prog R (h_GetWorkflowRun ext s)"
  unfolding h_ListWorkflows_def [abs_def] h_CreateWorkflow_def [abs_def] h_GetWorkflow_def
    h_UpdateWorkflow_def h_DeleteWorkflow_def h_RunWorkflow_def h_ListWorkflowRuns_def
    h_GetWorkflowRun_def Let_def
  by (intro safe_rules safe_bind_pair)+

lemmas safe_handlers = safe_jobs_handlers safe_users_handlers safe_credential_handlers
  safe_project_handlers safe_template_handlers safe_workflow_handlers

lemma safe_handle_user: "safe_prog R (handle_user ext cfg e ps rq u)"
  unfolding handle_user_def Let_def by (cases e) (simp_all add: safe_handlers safe_return)

lemma safe_handle_agent: "safe_prog R (handle_agent ext cfg e ps rq a)"
  unfolding handle_agent_def Let_def by (cases e) (simp_all add: safe_handlers safe_return)

lemma safe_handle_public: "safe_prog R (handle_public ext cfg now e rq)"
  unfolding handle_public_def by (cases e) (simp_all add: safe_handlers safe_return)

lemma safe_RequireUser: "(\<And>u. safe_prog R (h u)) \<Longrightarrow> safe_prog R (RequireUser ext sec now auth h)"
  unfolding RequireUser_def [abs_def] Let_def
  by (intro safe_return safe_if safe_sum safe_bind safe_snd safe_store)

lemma safe_RequireAgent: "(\<And>a. safe_prog R (h a)) \<Longrightarrow> safe_prog R (RequireAgent ext auth h)"
  unfolding RequireAgent_def [abs_def] Let_def by (intro safe_rules)

lemma safe_serve: "safe_prog R (serve chi ext cfg now rq)"
  unfolding safe_prog_def
proof
  fix w
  note s = safe_handle_public safe_RequireUser [OF safe_handle_user] safe_RequireAgent [OF safe_handle_agent]
  show "world_rel R w (snd (serve chi ext cfg now rq w))"
    using s by (auto simp: serve_def safe_prog_def wrel_refl split: routed.split access.split)
qed

lemma serve_rely:
  assumes "env_respects R w"
  shows "R (w_db w) (w_db (snd (serve chi ext cfg now rq w)))"
  using safe_serve assms by (auto simp: safe_prog_def world_rel_def)

end

text \<open>Relations that only look at the table of jobs.\<close>

locale api_rely = db_rely +
  assumes same_jobs: "db_jobs d' = db_jobs d \<Longrightarrow> R d d'"
    and insert_ok: "stmt_respects R (insert_job_stmt t run ev)"
    and finish_ok: "IsTerminal s \<Longrightarrow> stmt_respects R (UpdateJobStatus_stmt i s None fr)"
    and facts_ok: "stmt_respects R (SetJobFacts_stmt i fs)"

sublocale api_rely \<subseteq> api_stmts
proof
  have kept: "keeps_jobs q \<Longrightarrow> R d (effect q c d)" for q :: "'b stmt" and c d
    by (simp add: keeps_jobs_def effect_def same_jobs)
  show "f \<in> api_effects \<Longrightarrow> R d (f c d)" for f d c
  proof (induction rule: api_effects.induct)
    case (eff_insert_job t run ev)
    then show ?case using insert_ok by (simp add: effect_def stmt_respects_def)
  next
    case (eff_UpdateJobStatus s i fr)
    then show ?case using finish_ok by (simp add: effect_def stmt_respects_def)
  next
    case (eff_SetJobFacts i fs)
    then show ?case using facts_ok by (simp add: effect_def stmt_respects_def)
  qed (simp_all add: effect_def same_jobs keeps_jobs_all [unfolded keeps_jobs_def])
qed

subsection \<open>The instances\<close>

text \<open>No job becomes running that was not.\<close>

definition no_new_running :: "db \<Rightarrow> db \<Rightarrow> bool" where
  "no_new_running d d' \<longleftrightarrow> (\<forall>i. status_of d' i = Some JobStatusRunning \<longrightarrow>
     status_of d i = Some JobStatusRunning)"

lemma status_row_simps [simp]:
  "Job_ID (status_row t s a r j) = Job_ID j"
  "Job_Status (status_row t s a r j) = s"
  "Job_AgentID (status_row t s a r j) = coalesce a (Job_AgentID j)"
  by (simp_all add: status_row_def)

lemma UpdateJobStatus_jobs:
  "db_jobs (snd (UpdateJobStatus_stmt i s None fr c d)) =
     update_rows (\<lambda>j. Job_ID j = i) (status_row (db_now d) s None fr) (db_jobs d)"
  by (simp add: UpdateJobStatus_stmt_def agent_exists_def)

interpretation api_jr: api_rely jobs_rely
proof unfold_locales
  show "db_jobs d' = db_jobs d \<Longrightarrow> jobs_rely d d'" for d d'
    by (rule jobs_rely_same_jobs)
  show "stmt_respects jobs_rely (insert_job_stmt t run ev)" for t run ev
    by (rule insert_job_respects)
  show "stmt_respects jobs_rely (UpdateJobStatus_stmt i s None fr)" if "IsTerminal s" for s i fr
    unfolding stmt_respects_def
    using that by (auto simp: UpdateJobStatus_jobs intro!: jobs_rely_update)
  show "stmt_respects jobs_rely (SetJobFacts_stmt i fs)" for i fs
    unfolding stmt_respects_def
    by (auto simp: SetJobFacts_stmt_def intro!: jobs_rely_update)
qed

lemma job_wf_status_row: "IsTerminal s \<Longrightarrow> job_wf (status_row now s None fr j)"
  by (cases s) (simp_all add: job_wf_def status_row_def)

lemma job_wf_new_job: "job_wf (new_job now i t run ev)"
  by (simp add: job_wf_def new_job_def)

interpretation api_jw: api_rely keeps_jobs_wf
proof unfold_locales
  show "db_jobs d' = db_jobs d \<Longrightarrow> keeps_jobs_wf d d'" for d d'
    by (simp add: keeps_jobs_wf_def jobs_wf_def)
  show "stmt_respects keeps_jobs_wf (insert_job_stmt t run ev)" for t run ev
    by (auto simp: stmt_respects_def keeps_jobs_wf_def jobs_wf_def insert_job_stmt_def Let_def
        job_wf_new_job)
  show "stmt_respects keeps_jobs_wf (UpdateJobStatus_stmt i s None fr)" if "IsTerminal s" for s i fr
    using that by (auto simp: stmt_respects_def keeps_jobs_wf_def jobs_wf_def UpdateJobStatus_jobs
        set_update_rows job_wf_status_row)
  show "stmt_respects keeps_jobs_wf (SetJobFacts_stmt i fs)" for i fs
    by (auto simp: stmt_respects_def keeps_jobs_wf_def jobs_wf_def SetJobFacts_stmt_def
        set_update_rows job_wf_def)
qed

lemma no_new_running_update:
  assumes "db_jobs d' = update_rows P f (db_jobs d)" and "\<And>j. Job_ID (f j) = Job_ID j"
    and "\<And>j. Job_Status (f j) = JobStatusRunning \<Longrightarrow> Job_Status j = JobStatusRunning"
  shows "no_new_running d d'"
  using assms by (auto simp: no_new_running_def status_of_def lookup_update_rows split: if_splits)

interpretation api_nr: api_rely no_new_running
proof unfold_locales
  show "db_jobs d' = db_jobs d \<Longrightarrow> no_new_running d d'" for d d'
    by (simp add: no_new_running_def status_of_def)
  show "stmt_respects no_new_running (insert_job_stmt t run ev)" for t run ev
    by (auto simp: stmt_respects_def no_new_running_def status_of_def insert_job_stmt_def Let_def
        new_job_def lookup_row_append split: option.splits if_splits)
  show "stmt_respects no_new_running (UpdateJobStatus_stmt i s None fr)" if "IsTerminal s" for s i fr
    unfolding stmt_respects_def
    using that by (auto intro!: no_new_running_update [OF UpdateJobStatus_jobs])
  show "stmt_respects no_new_running (SetJobFacts_stmt i fs)" for i fs
    unfolding stmt_respects_def
    by (auto simp: SetJobFacts_stmt_def intro!: no_new_running_update)
qed (auto simp: no_new_running_def)

interpretation nr: lifecycle_rely no_new_running
proof unfold_locales
  fix fs ts a i rs
  assume "rec_move fs ts a"
  then show "stmt_respects no_new_running (TransitionJob_stmt i fs ts a rs)"
    unfolding stmt_respects_def
    by (auto simp: TransitionJob_stmt_def Let_def rec_move_def api_nr.rely_refl
        intro!: no_new_running_update)
qed

end
