(* ===== verification/ApiProps.thy ===== *)
theory ApiProps
  imports ApiSafety ReconcilerPass Scenario
begin

section \<open>The API server: properties\<close>

text \<open>
  What the server promises to the controllers under any interleaving, who can write at all, and
  what the handlers that carry the job lifecycle, logs, approvals, registration and tokens compute
  when no other process interferes.
\<close>

subsection \<open>Executing in an undisturbed world\<close>

lemma exec_nf_query_at:
  assumes "undisturbed w"
  shows "exec_nf (query (\<lambda>c d. one_row (f d))) w =
    ((case f (w_db w) of None \<Rightarrow> Inl ErrNotFound | Some x \<Rightarrow> Inr x), at_pos w (w_db w))"
  using assms by (simp add: exec_nf_def exec_at isNotFound_def one_row_def split: option.split)

lemma exec_tag_at:
  assumes "undisturbed w"
  shows "exec_tag q w =
    ((case fst (q (w_env w (w_pos w)) (w_db w)) of Inl e \<Rightarrow> Inl e
      | Inr n \<Rightarrow> if n = 0 then Inl ErrNotFound else Inr ()),
     at_pos w (snd (q (w_env w (w_pos w)) (w_db w))))"
  using assms by (simp add: exec_tag_def exec_at split: sum.split)

lemma respondStoreErr_not_found [simp]: "respondStoreErr ErrNotFound = respondError 404 ''not found''"
  by (simp add: respondStoreErr_def)

text \<open>The row that a result leaves behind.\<close>

definition result_row :: "time \<Rightarrow> ResultReq \<Rightarrow> Job \<Rightarrow> Job" where
  "result_row now b j = (status_row now (Result_Status b) None None j)\<lparr>
     Job_Facts := (if Result_Facts b \<noteq> [] then Result_Facts b else Job_Facts j)\<rparr>"

lemma SetJobFacts_after_status:
  "update_rows (\<lambda>j. Job_ID j = i) (\<lambda>j. j\<lparr>Job_Facts := fs, Job_UpdatedAt := now\<rparr>)
     (update_rows (\<lambda>j. Job_ID j = i) (status_row now s None None) js) =
   update_rows (\<lambda>j. Job_ID j = i) (\<lambda>j. (status_row now s None None j)\<lparr>Job_Facts := fs\<rparr>) js"
  by (induction js) (simp_all add: status_row_def)

lemma AgentPostResult_undisturbed:
  assumes "undisturbed w" and "uuid_Parse ext s = Some i"
  shows "(case h_AgentPostResult ext (Some a) s (Some b) w of (r, w') \<Rightarrow> (r, w_db w')) =
    (case job_of (w_db w) i of
       None \<Rightarrow> (respondError 404 ''not found'', w_db w)
     | Some j \<Rightarrow>
         if Job_AgentID j \<noteq> Some (Agent_ID a) then (respondError 403 ''forbidden'', w_db w)
         else if \<not> IsTerminal (Result_Status b) then (respondError 400 ''status must be terminal'', w_db w)
         else ((204, NoContent), (w_db w)\<lparr>db_jobs := update_rows (\<lambda>k. Job_ID k = i)
                 (result_row (db_now (w_db w)) b) (db_jobs (w_db w))\<rparr>))"
proof -
  have row: "result_row t b = (\<lambda>j. (status_row t (Result_Status b) None None j)\<lparr>Job_Facts := Result_Facts b\<rparr>)"
    if "Result_Facts b \<noteq> []" for t
    using that by (auto simp: result_row_def)
  have row0: "result_row t b = status_row t (Result_Status b) None None" if "Result_Facts b = []" for t
    using that by (auto simp: result_row_def status_row_def)
  show ?thesis
    using assms
    by (auto simp: h_AgentPostResult_def with_id_def astore_GetJob_def exec_nf_query_at
        astore_UpdateJobStatus_def astore_SetJobFacts_def exec_at UpdateJobStatus_stmt_def
        SetJobFacts_stmt_def agent_exists_def SetJobFacts_after_status row row0 split: option.split)
qed

lemma CancelJob_undisturbed:
  assumes "undisturbed w" and "uuid_Parse ext s = Some i"
  shows "(case h_CancelJob ext s w of (r, w') \<Rightarrow> (r, w_db w')) =
    (case job_of (w_db w) i of
       None \<Rightarrow> (respondError 404 ''not found'', w_db w)
     | Some j \<Rightarrow>
         if IsTerminal (Job_Status j) then (respondError 409 ''job is already in a terminal state'', w_db w)
         else ((204, NoContent), (w_db w)\<lparr>db_jobs := update_rows (\<lambda>k. Job_ID k = i)
                 (status_row (db_now (w_db w)) JobStatusCancelled None (Some ''cancelled by user''))
                 (db_jobs (w_db w))\<rparr>))"
  using assms
  by (auto simp: h_CancelJob_def with_id_def astore_GetJob_def exec_nf_query_at on_store_def
      astore_UpdateJobStatus_def exec_at UpdateJobStatus_stmt_def agent_exists_def split: option.split)

subsection \<open>Concrete parameters\<close>

definition demo_ext :: api_ext where
  "demo_ext = \<lparr>uuid_Parse = (\<lambda>s. if s = [] then None else Some (UUID s)),
     jwt_Sign = (\<lambda>secret cl. Inr (''jwt:'' @ uuid_String (Claims_UserID cl))),
     jwt_Parse = (\<lambda>kf now s. if take 4 s = ''jwt:''
        then Inr (\<lparr>Claims_UserID = UUID (drop 4 s), Claims_Email = [], Claims_ExpiresAt = 0,
                   Claims_IssuedAt = 0\<rparr>, True)
        else Inl (ErrMsg ''token is malformed'')),
     bcrypt_ok = (\<lambda>h p. h = p), sha256_hex = (\<lambda>s. ''hash-'' @ s), pg_collate = (\<lambda>s. 0),
     ext_crypto = tag_crypto\<rparr>"

definition demo_api_cfg :: ApiConfig where
  "demo_api_cfg = \<lparr>Api_EncryptionKey = demo_key, Api_JWTSecret = ''secret'', Api_JWTExpiry = 28800,
     Api_HeartbeatTTL = 30, Api_RegToken = ''join'', Api_CORSOrigins = [''http://localhost:5174'']\<rparr>"

definition sent_job :: Job where
  "sent_job = transition_row 90 JobStatusDispatched (Some (UUID ''a1'')) '''' (demo_job ''j3'' 80)"

definition sent_db :: db where
  "sent_db = demo_db\<lparr>db_jobs := [demo_job ''j1'' 50, sent_job]\<rparr>"

definition demo_a1 :: Agent where
  "demo_a1 = scan_agent_row (demo_agent ''a1'' 1 90)"

lemma demo_parse: "s \<noteq> [] \<Longrightarrow> uuid_Parse demo_ext s = Some (UUID s)"
  by (simp add: demo_ext_def)

definition cancel_req :: request where
  "cancel_req = \<lparr>Req_HTTPMethod = ''POST'', Req_Path = [''jobs'', ''j3'', ''cancel''],
     Req_Authorization = ''Bearer jwt:u1'', Req_RegistrationToken = [], Req_Query = (\<lambda>_. []),
     Req_Random = [], Req_Nonce = None, Body_Register = None, Body_Heartbeat = None, Body_Login = None,
     Body_TokenName = None, Body_Credential = None, Body_Project = None, Body_Template = None,
     Body_Schedule = None, Body_CreateJob = None, Body_Workflow = None, Body_Note = None,
     Body_Logs = None, Body_Result = None\<rparr>"

subsection \<open>Properties\<close>

text \<open>
  The API server keeps its promise to the controllers. Serving any request, with any
  authentication outcome, under any interleaving with other processes that keep the promise and any
  pattern of lost or unacknowledged statements, never puts a claimed job back to pending, never
  removes a job and keeps the primary key of jobs; this is exactly what at-most-once dispatch
  assumes of the environment.
\<close>

lemma api_keeps_jobs_promise:
  assumes "env_respects jobs_rely w"
  shows "jobs_rely (w_db w) (w_db (snd (serve chi ext cfg now rq w)))"
  using assms by (rule api_jr.serve_rely)

text \<open>
  C2: A result is accepted from the assigned agent only. With no interference, posting a result
  answers 404 for an unknown job, 403 unless the caller is the agent the job is assigned to, 400
  for a status that is not terminal, and changes nothing in these cases; otherwise it answers 204
  and the job's row gets the reported status, an end time, the facts if any are reported, and keeps
  its agent and failure reason, whatever status it had before. No other row and no other table
  changes.
\<close>

theorem AgentPostResult_effect:
  assumes "undisturbed w" and "uuid_Parse ext s = Some i"
  shows "(case h_AgentPostResult ext (Some a) s (Some b) w of (r, w') \<Rightarrow> (r, w_db w')) =
    (case job_of (w_db w) i of
       None \<Rightarrow> (respondError 404 ''not found'', w_db w)
     | Some j \<Rightarrow>
         if Job_AgentID j \<noteq> Some (Agent_ID a) then (respondError 403 ''forbidden'', w_db w)
         else if \<not> IsTerminal (Result_Status b) then (respondError 400 ''status must be terminal'', w_db w)
         else ((204, NoContent), (w_db w)\<lparr>db_jobs := update_rows (\<lambda>k. Job_ID k = i)
                 (result_row (db_now (w_db w)) b) (db_jobs (w_db w))\<rparr>))"
  using assms by (rule AgentPostResult_undisturbed)

theorem AgentPostResult_effect_witness:
  "(case h_AgentPostResult demo_ext (Some demo_a1) ''j3''
      (Some \<lparr>Result_Status = JobStatusSuccess, Result_ExitCode = 0, Result_Facts = []\<rparr>)
      (quiet_world sent_db) of (r, w') \<Rightarrow> (r, map Job_Status (db_jobs (w_db w')))) =
   ((204, NoContent), [JobStatusPending, JobStatusSuccess])"
  using AgentPostResult_effect [OF undisturbed_quiet_world, of demo_ext "''j3''" "UUID ''j3''" demo_a1
      "\<lparr>Result_Status = JobStatusSuccess, Result_ExitCode = 0, Result_Facts = []\<rparr>" sent_db]
  by (simp add: demo_parse sent_db_def sent_job_def demo_job_def new_job_def transition_row_def
      coalesce_def demo_a1_def scan_agent_row_def demo_agent_def result_row_def status_row_def
      split: prod.splits)

text \<open>
  C35: Cancelling. With no interference, cancelling answers 404 for an unknown job and 409 for one in
  a terminal status, changing nothing; otherwise the job becomes cancelled, with an end time and the
  reason that a user cancelled it. But the agent is not told and its later result is accepted: a job
  assigned to an agent that a user has cancelled becomes successful when the agent reports success.
\<close>

theorem CancelJob_effect_and_overwrite:
  assumes "undisturbed w" and "uuid_Parse ext s = Some i" and "h_CancelJob ext s w = (r, w1)"
    and "IsTerminal (Result_Status b)" and "h_AgentPostResult ext (Some a) s (Some b) w1 = (r2, w2)"
  shows "(r, w_db w1) = (case job_of (w_db w) i of
       None \<Rightarrow> (respondError 404 ''not found'', w_db w)
     | Some j \<Rightarrow>
         if IsTerminal (Job_Status j) then (respondError 409 ''job is already in a terminal state'', w_db w)
         else ((204, NoContent), (w_db w)\<lparr>db_jobs := update_rows (\<lambda>k. Job_ID k = i)
                 (status_row (db_now (w_db w)) JobStatusCancelled None (Some ''cancelled by user''))
                 (db_jobs (w_db w))\<rparr>)) \<and>
    (\<forall>j. job_of (w_db w) i = Some j \<and> \<not> IsTerminal (Job_Status j) \<and> Job_AgentID j = Some (Agent_ID a) \<longrightarrow>
       status_of (w_db w1) i = Some JobStatusCancelled \<and> r2 = (204, NoContent) \<and>
       status_of (w_db w2) i = Some (Result_Status b))"
proof -
  have u1: "undisturbed w1"
    using assms(1-3)
    by (auto simp: h_CancelJob_def with_id_def astore_GetJob_def exec_nf_query_at on_store_def
        astore_UpdateJobStatus_def exec_at split: option.splits sum.splits if_splits)
  have 1: "(r, w_db w1) = (case job_of (w_db w) i of
       None \<Rightarrow> (respondError 404 ''not found'', w_db w)
     | Some j \<Rightarrow>
         if IsTerminal (Job_Status j) then (respondError 409 ''job is already in a terminal state'', w_db w)
         else ((204, NoContent), (w_db w)\<lparr>db_jobs := update_rows (\<lambda>k. Job_ID k = i)
                 (status_row (db_now (w_db w)) JobStatusCancelled None (Some ''cancelled by user''))
                 (db_jobs (w_db w))\<rparr>))"
    using CancelJob_undisturbed [OF assms(1,2)] assms(3) by simp
  moreover have "status_of (w_db w1) i = Some JobStatusCancelled \<and> r2 = (204, NoContent) \<and>
      status_of (w_db w2) i = Some (Result_Status b)"
    if j: "job_of (w_db w) i = Some j" "\<not> IsTerminal (Job_Status j)" "Job_AgentID j = Some (Agent_ID a)" for j
  proof -
    have k: "Job_ID j = i" using j(1) by (auto dest: lookup_row_SomeD)
    have j1: "job_of (w_db w1) i = Some (status_row (db_now (w_db w)) JobStatusCancelled None
        (Some ''cancelled by user'') j)"
      using 1 j k by (simp add: lookup_update_rows)
    then show ?thesis
      using AgentPostResult_undisturbed [OF u1 assms(2), of a b] assms(4,5) j(3) k
      by (auto simp: status_of_def coalesce_def lookup_update_rows result_row_def)
  qed
  ultimately show ?thesis by blast
qed

theorem CancelJob_effect_and_overwrite_witness:
  "\<exists>w1 w2 r2. h_CancelJob demo_ext ''j3'' (quiet_world sent_db) = ((204, NoContent), w1) \<and>
     h_AgentPostResult demo_ext (Some demo_a1) ''j3''
       (Some \<lparr>Result_Status = JobStatusSuccess, Result_ExitCode = 0, Result_Facts = []\<rparr>) w1 = (r2, w2) \<and>
     status_of (w_db w1) (UUID ''j3'') = Some JobStatusCancelled \<and>
     status_of (w_db w2) (UUID ''j3'') = Some JobStatusSuccess"
proof -
  let ?b = "\<lparr>Result_Status = JobStatusSuccess, Result_ExitCode = 0, Result_Facts = []\<rparr>"
  obtain r w1 where 1: "h_CancelJob demo_ext ''j3'' (quiet_world sent_db) = (r, w1)" by fastforce
  obtain r2 w2 where 2: "h_AgentPostResult demo_ext (Some demo_a1) ''j3'' (Some ?b) w1 = (r2, w2)" by fastforce
  have "job_of sent_db (UUID ''j3'') = Some sent_job" "\<not> IsTerminal (Job_Status sent_job)"
      "Job_AgentID sent_job = Some (Agent_ID demo_a1)"
    by (simp_all add: sent_db_def sent_job_def demo_job_def new_job_def transition_row_def coalesce_def
        demo_a1_def scan_agent_row_def demo_agent_def)
  then show ?thesis
    using CancelJob_effect_and_overwrite [OF undisturbed_quiet_world demo_parse 1 _ 2] 1 2 by auto
qed

end
