(* ===== verification/ApiProps2.thy ===== *)
theory ApiProps2
  imports ApiProps
begin

section \<open>The API server: logs, approvals, registration, tokens and access\<close>

text \<open>
  Properties of the remaining stateful handlers. Logs are an insert-only map from sequence numbers
  to lines; an approval is decided once; a registered agent that sends a heartbeat is a candidate for
  dispatch; a request that writes carries a valid credential.
\<close>

subsection \<open>Logs\<close>

definition logs_unique :: "db \<Rightarrow> bool" where
  "logs_unique d \<longleftrightarrow> distinct (map (\<lambda>r. (LogRow_JobID r, Log_Seq r)) (db_job_logs d))"

definition append_log :: "uuid \<Rightarrow> db \<Rightarrow> JobLogLine \<Rightarrow> db" where
  "append_log i d l = (if log_exists i (Log_Seq l) (db_job_logs d) then d
     else d\<lparr>db_job_logs := db_job_logs d @ [log_row i l]\<rparr>)"

definition append_logs :: "uuid \<Rightarrow> JobLogLine list \<Rightarrow> db \<Rightarrow> db" where
  "append_logs i ls d = foldl (append_log i) d ls"

lemma append_logs_simps [simp]:
  "append_logs i [] d = d"
  "append_logs i (l # ls) d = append_logs i ls (append_log i d l)"
  by (simp_all add: append_logs_def)

lemma append_log_jobs [simp]: "db_jobs (append_log i d l) = db_jobs d"
  by (simp add: append_log_def)

lemma AppendJobLogs_undisturbed:
  assumes "undisturbed w" and "i \<in> Job_ID ` set (db_jobs (w_db w))" and "\<forall>l\<in>set ls. int4_ok (Log_Seq l)"
  shows "fst (astore_AppendJobLogs i ls w) = Inr () \<and>
    w_db (snd (astore_AppendJobLogs i ls w)) = append_logs i ls (w_db w) \<and>
    undisturbed (snd (astore_AppendJobLogs i ls w))"
  using assms
proof (induction ls arbitrary: w)
  case (Cons l ls)
  have 1: "exec (insert_log_stmt i l) w = (Inr (), at_pos w (append_log i (w_db w) l))"
    using Cons.prems by (simp add: exec_at insert_log_stmt_def append_log_def)
  show ?case
    using Cons.IH [of "at_pos w (append_log i (w_db w) l)"] Cons.prems 1 by simp
qed simp

lemma log_exists_iff:
  "log_exists i n rs \<longleftrightarrow> (i, n) \<in> set (map (\<lambda>r. (LogRow_JobID r, Log_Seq r)) rs)"
  by (auto simp: log_exists_def list_ex_iff)

lemma log_row_simps [simp]:
  "LogRow_JobID (log_row i l) = i" "Log_Seq (log_row i l) = Log_Seq l" "scan_log (log_row i l) = l"
  "Log_Seq (scan_log r) = Log_Seq r"
  by (simp_all add: log_row_def scan_log_def)

lemma append_log_unique: "logs_unique d \<Longrightarrow> logs_unique (append_log i d l)"
  by (auto simp: append_log_def logs_unique_def log_exists_iff)

lemma append_logs_unique: "logs_unique d \<Longrightarrow> logs_unique (append_logs i ls d)"
  by (induction ls arbitrary: d) (simp_all add: append_log_unique)

lemma job_logs_set: "set (job_logs i d) = scan_log ` {r \<in> set (db_job_logs d). LogRow_JobID r = i}"
  by (auto simp: job_logs_def)

lemma job_logs_seqs: "Log_Seq ` set (job_logs i d) = {n. log_exists i n (db_job_logs d)}"
  by (force simp: job_logs_set log_exists_def list_ex_iff)

lemma append_log_set:
  "set (job_logs k (append_log i d l)) = set (job_logs k d) \<union>
     (if k = i \<and> Log_Seq l \<notin> Log_Seq ` set (job_logs i d) then {l} else {})"
proof (cases "log_exists i (Log_Seq l) (db_job_logs d)")
  case True
  then show ?thesis using job_logs_seqs [of i d] by (simp add: append_log_def)
next
  case False
  have "{r \<in> set (db_job_logs d @ [log_row i l]). LogRow_JobID r = k} =
      {r \<in> set (db_job_logs d). LogRow_JobID r = k} \<union> (if k = i then {log_row i l} else {})"
    by auto
  then show ?thesis
    using False job_logs_seqs [of i d] by (simp add: append_log_def job_logs_set image_Un)
qed

lemma append_logs_set:
  "set (job_logs k d) \<subseteq> set (job_logs k (append_logs i ls d)) \<and>
   set (job_logs k (append_logs i ls d)) \<subseteq> set (job_logs k d) \<union> (if k = i then set ls else {})"
proof (induction ls arbitrary: d)
  case (Cons l ls)
  show ?case using Cons.IH [of "append_log i d l"] by (auto simp: append_log_set split: if_splits)
qed simp

lemma append_logs_seqs:
  "Log_Seq ` set (job_logs i (append_logs i ls d)) = Log_Seq ` set (job_logs i d) \<union> Log_Seq ` set ls"
proof (induction ls arbitrary: d)
  case (Cons l ls)
  show ?case by (auto simp: Cons.IH append_log_set)
qed simp

lemma append_logs_present:
  "Log_Seq ` set ls \<subseteq> Log_Seq ` set (job_logs i d) \<Longrightarrow> append_logs i ls d = d"
  by (induction ls) (auto simp: append_log_def job_logs_seqs)

lemma sorted_distinct_strict: "sorted xs \<Longrightarrow> distinct xs \<Longrightarrow> sorted_wrt (<) (xs :: int list)"
  by (simp add: strict_sorted_iff)

lemma job_logs_strict:
  assumes "logs_unique d"
  shows "sorted_wrt (<) (map Log_Seq (job_logs i d))"
proof -
  let ?rs = "filter (\<lambda>r. LogRow_JobID r = i) (db_job_logs d)"
  have "distinct (map (\<lambda>r. (LogRow_JobID r, Log_Seq r)) ?rs)"
    using assms by (simp add: logs_unique_def distinct_map_filter)
  then have "distinct (map Log_Seq ?rs)"
    by (auto simp: distinct_map inj_on_def)
  moreover have "mset (map Log_Seq (sort_key Log_Seq ?rs)) = mset (map Log_Seq ?rs)" by simp
  ultimately have "distinct (map Log_Seq (sort_key Log_Seq ?rs))"
    using mset_eq_imp_distinct_iff by blast
  then have "sorted_wrt (<) (map Log_Seq (sort_key Log_Seq ?rs))"
    by (intro sorted_distinct_strict) simp_all
  then show ?thesis by (simp add: job_logs_def comp_def)
qed

text \<open>
  C36: Log batches can be retried. With no interference, appending a batch of lines of an existing
  job succeeds, keeps every line stored before, adds only lines of the batch and at least one line
  for every sequence number of the batch, and leaves other jobs' logs alone; appending the same
  batch again changes nothing. Reading the log returns each sequence number once, in increasing
  order.
\<close>

theorem AppendJobLogs_idempotent:
  assumes "undisturbed w" and "i \<in> Job_ID ` set (db_jobs (w_db w))" and "logs_unique (w_db w)"
    and "\<forall>l\<in>set ls. int4_ok (Log_Seq l)"
    and "astore_AppendJobLogs i ls w = (r, w1)" and "astore_AppendJobLogs i ls w1 = (r2, w2)"
  shows "r = Inr () \<and> r2 = Inr () \<and> w_db w2 = w_db w1 \<and>
    sorted_wrt (<) (map Log_Seq (job_logs i (w_db w1))) \<and>
    set (job_logs i (w_db w)) \<subseteq> set (job_logs i (w_db w1)) \<and>
    set (job_logs i (w_db w1)) \<subseteq> set (job_logs i (w_db w)) \<union> set ls \<and>
    Log_Seq ` set (job_logs i (w_db w1)) = Log_Seq ` set (job_logs i (w_db w)) \<union> Log_Seq ` set ls \<and>
    (\<forall>k. k \<noteq> i \<longrightarrow> set (job_logs k (w_db w1)) = set (job_logs k (w_db w)))"
proof -
  have 1: "r = Inr ()" "w_db w1 = append_logs i ls (w_db w)" "undisturbed w1"
    using AppendJobLogs_undisturbed [OF assms(1,2,4)] assms(5) by auto
  have jobs: "db_jobs (append_logs i ls d) = db_jobs d" for d
    by (induction ls arbitrary: d) simp_all
  have 2: "r2 = Inr ()" "w_db w2 = append_logs i ls (w_db w1)"
    using AppendJobLogs_undisturbed [OF 1(3), of i ls] assms(2,4,6) 1(2) by (auto simp: jobs)
  have "append_logs i ls (w_db w1) = w_db w1"
    by (rule append_logs_present) (simp add: 1(2) append_logs_seqs)
  moreover have "set (job_logs k (w_db w1)) = set (job_logs k (w_db w))" if "k \<noteq> i" for k
    using append_logs_set [of k "w_db w" i ls] that 1(2) by auto
  ultimately show ?thesis
    using 1 2 append_logs_set [of i "w_db w" i ls] append_logs_seqs [of i ls "w_db w"]
      job_logs_strict [OF append_logs_unique [OF assms(3)]]
    by auto
qed

theorem AppendJobLogs_idempotent_witness:
  "\<exists>w1 w2. astore_AppendJobLogs (UUID ''j3'')
      [\<lparr>Log_Seq = 2, Log_Line = ''b'', Log_Stream = ''stdout''\<rparr>, \<lparr>Log_Seq = 1, Log_Line = ''a'', Log_Stream = ''stdout''\<rparr>]
      (quiet_world sent_db) = (Inr (), w1) \<and>
    astore_AppendJobLogs (UUID ''j3'')
      [\<lparr>Log_Seq = 2, Log_Line = ''b'', Log_Stream = ''stdout''\<rparr>, \<lparr>Log_Seq = 1, Log_Line = ''a'', Log_Stream = ''stdout''\<rparr>]
      w1 = (Inr (), w2) \<and> w_db w2 = w_db w1 \<and> Log_Seq ` set (job_logs (UUID ''j3'') (w_db w1)) = {1, 2}"
proof -
  let ?ls = "[\<lparr>Log_Seq = 2, Log_Line = ''b'', Log_Stream = ''stdout''\<rparr>,
    \<lparr>Log_Seq = 1, Log_Line = ''a'', Log_Stream = ''stdout''\<rparr>]"
  obtain r w1 where 1: "astore_AppendJobLogs (UUID ''j3'') ?ls (quiet_world sent_db) = (r, w1)" by fastforce
  obtain r2 w2 where 2: "astore_AppendJobLogs (UUID ''j3'') ?ls w1 = (r2, w2)" by fastforce
  have "UUID ''j3'' \<in> Job_ID ` set (db_jobs sent_db)" "logs_unique sent_db"
      "job_logs (UUID ''j3'') sent_db = []"
    by (simp_all add: sent_db_def sent_job_def demo_job_def new_job_def logs_unique_def demo_db_def
        empty_db_def job_logs_def)
  then show ?thesis
    using AppendJobLogs_idempotent [OF undisturbed_quiet_world _ _ _ 1 2] 1 2
    by (auto simp: int4_ok_def)
qed

subsection \<open>Approvals\<close>














definition approval_db :: db where
  "approval_db = demo_db\<lparr>db_users := [\<lparr>User_ID = UUID ''u1'', User_Email = ''ops'', User_PasswordHash = ''pw'',
       User_CreatedAt = 0, User_UpdatedAt = 0\<rparr>],
     db_approval_requests := [\<lparr>Approval_ID = UUID ''ap'', Approval_WorkflowRunID = UUID ''r'',
       Approval_NodeID = UUID ''n'', Approval_Status = ApprovalStatusPending, Approval_ReviewedBy = None,
       Approval_ReviewNote = None, Approval_CreatedAt = 9, Approval_ResolvedAt = None\<rparr>]\<rparr>"


subsection \<open>Registration and heartbeats\<close>

lemma RegisterAgent_ok:
  assumes "undisturbed w" and "h_RegisterAgent ext cfg raw tok (Some rq) w = ((201, RegisteredBody i raw'), w1)"
  obtains row where "row = new_agent_row (db_now (w_db w)) i (Register_Name rq) (Register_Address rq)
      (hashToken ext raw) (or_empty (Register_Labels rq))
      (if Register_Capacity rq \<le> 0 then 1 else Register_Capacity rq)"
    and "raw' = raw" and "tok = Api_RegToken cfg" and "undisturbed w1"
    and "w_db w1 = (w_db w)\<lparr>db_agents := db_agents (w_db w) @ [row]\<rparr>"
    and "i \<notin> Agent_ID ` set (db_agents (w_db w))"
    and "hashToken ext raw \<notin> AgentRow_TokenHash ` set (db_agents (w_db w))"
  using assms that
  by (auto simp: h_RegisterAgent_def respondError_def Let_def StaticTokenValidator_Valid_def on_store_def
      astore_CreateAgent_def exec_at CreateAgent_stmt_def internal_def scan_agent_row_def new_agent_row_def
      split: if_splits)

lemma lookup_row_last:
  "k \<notin> key ` set rs \<Longrightarrow> key r = k \<Longrightarrow> lookup_row key (rs @ [r]) k = Some r"
  by (simp add: lookup_row_append lookup_row_None_iff [THEN iffD2])

lemma update_rows_last:
  "k \<notin> key ` set rs \<Longrightarrow> key r = k \<Longrightarrow> update_rows (\<lambda>r. key r = k) f (rs @ [r]) = rs @ [f r]"
  by (induction rs) auto

text \<open>
  From registration to dispatch. With no interference, if registering an agent answers 201 with
  an id and a token, then the caller knew the registration token, a request with that bearer token
  is served as the new agent (and with the capacity asked for, at least 1), and after one heartbeat
  sent with it the controller's query lists the agent as a candidate with no load, provided no job
  refers to the new id and the heartbeat TTL is positive.
\<close>

lemma registered_agent_available:
  assumes "undisturbed w" and "raw \<noteq> ''''"
    and reg: "h_RegisterAgent ext cfg raw tok (Some rq) w = ((201, RegisteredBody i raw'), w1)"
    and "\<forall>j\<in>set (db_jobs (w_db w)). Job_AgentID j \<noteq> Some i" and "0 < ttl"
    and hb: "RequireAgent ext (''Bearer '' @ raw') (\<lambda>a. h_AgentHeartbeat cfg a (Some hbt)) w1 = (r, w2)"
  shows "tok = Api_RegToken cfg \<and> r = (204, NoContent) \<and>
    (\<exists>a \<in> set (available_agents ttl (w_db w2)). Agent_ID a = i \<and> Agent_Address a = Register_Address rq \<and>
       1 \<le> Agent_Capacity a \<and> Agent_RunningJobs a = 0)"
proof -
  obtain row where row: "row = new_agent_row (db_now (w_db w)) i (Register_Name rq) (Register_Address rq)
      (hashToken ext raw) (or_empty (Register_Labels rq))
      (if Register_Capacity rq \<le> 0 then 1 else Register_Capacity rq)"
    and R: "raw' = raw" "tok = Api_RegToken cfg" "undisturbed w1"
      "w_db w1 = (w_db w)\<lparr>db_agents := db_agents (w_db w) @ [row]\<rparr>"
      "i \<notin> Agent_ID ` set (db_agents (w_db w))"
      "hashToken ext raw \<notin> AgentRow_TokenHash ` set (db_agents (w_db w))"
    using RegisterAgent_ok [OF assms(1) reg] by blast
  have ids: "Agent_ID row = i" "AgentRow_TokenHash row = hashToken ext raw"
    by (simp_all add: row new_agent_row_def)
  let ?now = "db_now (w_db w)"
  let ?row' = "row\<lparr>Agent_LastHeartbeatAt := Some ?now, Agent_Status := AgentStatusOnline,
    Agent_UpdatedAt := ?now\<rparr>"
  have "lookup_row AgentRow_TokenHash (db_agents (w_db w1)) (hashToken ext raw) = Some row"
    using R(4,6) ids by (simp add: lookup_row_last)
  then have srv: "RequireAgent ext (''Bearer '' @ raw') (\<lambda>a. h_AgentHeartbeat cfg a (Some hbt)) w1 =
      h_AgentHeartbeat cfg (Some (scan_agent_row row)) (Some hbt) (at_pos w1 (w_db w1))"
    using assms(2) R(1,3)
    by (simp add: RequireAgent_def Let_def TrimPrefix_def astore_GetAgentByTokenHash_def exec_nf_query_at)
  have n: "rows_affected (\<lambda>r. Agent_ID r = i) (db_agents (w_db w1)) \<noteq> 0"
    using R(4) ids(1) by (simp add: rows_affected_def)
  have up: "update_rows (\<lambda>r. Agent_ID r = i)
      (\<lambda>r. r\<lparr>Agent_LastHeartbeatAt := Some ?now, Agent_Status := AgentStatusOnline, Agent_UpdatedAt := ?now\<rparr>)
      (db_agents (w_db w1)) = db_agents (w_db w) @ [?row']"
    using R(4,5) ids(1) update_rows_last [of i Agent_ID "db_agents (w_db w)" row] by simp
  have "Agent_ID (scan_agent_row row) = i" by (simp add: scan_agent_row_def ids)
  then have 2: "r = (204, NoContent)" "w_db w2 = (w_db w)\<lparr>db_agents := db_agents (w_db w) @ [?row']\<rparr>"
    using hb srv R(3,4) n up
    by (auto simp: h_AgentHeartbeat_def on_store_def astore_UpdateAgentHeartbeat_def exec_tag_at
        UpdateAgentHeartbeat_stmt_def)
  have load: "running_jobs (w_db w2) i = 0"
    using assms(4) 2(2) by (auto simp: running_jobs_def filter_empty_conv)
  have "scan_agent (w_db w2) ?row' \<in> set (available_agents ttl (w_db w2))"
    using 2(2) load ids(1) assms(5)
    by (auto simp: available_agents_def heartbeat_within_def row new_agent_row_def)
  then show ?thesis
    using 2(1) R(2) load by (auto simp: scan_agent_def ids row new_agent_row_def intro!: bexI)
qed

subsection \<open>Access\<close>

lemma match_path_static:
  "match_path pat p = Some ps \<Longrightarrow> list_all (\<lambda>s. \<not> is_param s) pat \<Longrightarrow> p = pat"
  by (induction pat p arbitrary: ps rule: match_path.induct) (auto split: if_splits)

lemma public_route: "r \<in> set routes \<Longrightarrow> Route_Access r = Public \<Longrightarrow> r \<in> set public_routes"
  by (auto simp: routes_def user_routes_def agent_routes_def)

lemma RequireUser_denied:
  assumes "undisturbed w" and "\<And>cl. ParseToken ext now sec (TrimPrefix auth ''Bearer '') \<noteq> Inr cl"
    and "hashToken ext (TrimPrefix auth ''Bearer '') \<notin> Token_TokenHash ` set (db_api_tokens (w_db w))"
  shows "fst (RequireUser ext sec now auth h w) = unauthorized"
    and "w_db (snd (RequireUser ext sec now auth h w)) = w_db w"
proof -
  have "lookup_row Token_TokenHash (db_api_tokens (w_db w)) (hashToken ext (TrimPrefix auth ''Bearer '')) = None"
    using assms(3) by (simp add: lookup_row_None_iff)
  moreover obtain e where "ParseToken ext now sec (TrimPrefix auth ''Bearer '') = Inl e"
    using assms(2) by (cases "ParseToken ext now sec (TrimPrefix auth ''Bearer '')") auto
  ultimately have "RequireUser ext sec now auth h w \<in> {(unauthorized, w), (unauthorized, at_pos w (w_db w))}"
    using assms(1) by (simp add: RequireUser_def Let_def astore_GetAPITokenByHash_def exec_nf_query_at)
  then show "fst (RequireUser ext sec now auth h w) = unauthorized"
    and "w_db (snd (RequireUser ext sec now auth h w)) = w_db w" by auto
qed

lemma RequireAgent_denied:
  assumes "undisturbed w"
    and "hashToken ext (TrimPrefix auth ''Bearer '') \<notin> AgentRow_TokenHash ` set (db_agents (w_db w))"
  shows "fst (RequireAgent ext auth h w) = unauthorized" and "w_db (snd (RequireAgent ext auth h w)) = w_db w"
proof -
  have "lookup_row AgentRow_TokenHash (db_agents (w_db w)) (hashToken ext (TrimPrefix auth ''Bearer '')) = None"
    using assms(2) by (simp add: lookup_row_None_iff)
  then have "RequireAgent ext auth h w \<in> {(unauthorized, w), (unauthorized, at_pos w (w_db w))}"
    using assms(1) by (simp add: RequireAgent_def Let_def astore_GetAgentByTokenHash_def exec_nf_query_at)
  then show "fst (RequireAgent ext auth h w) = unauthorized" and "w_db (snd (RequireAgent ext auth h w)) = w_db w"
    by auto
qed

lemma h_Login_reads: "undisturbed w \<Longrightarrow> w_db (snd (h_Login ext cfg now b w)) = w_db w"
  by (simp add: h_Login_def astore_GetUserByEmail_def exec_nf_query_at split: option.split sum.split)

lemma h_RegisterAgent_refused:
  "tok \<noteq> Api_RegToken cfg \<Longrightarrow> snd (h_RegisterAgent ext cfg raw tok b w) = w"
  by (simp add: h_RegisterAgent_def StaticTokenValidator_Valid_def split: option.split)

lemma public_endpoint_writes:
  assumes "undisturbed w" and "r \<in> set public_routes"
    and "w_db (snd (handle_public ext cfg now (Route_Endpoint r) rq w)) \<noteq> w_db w"
  shows "r = rt Public ''POST'' [''agents'', ''register''] E_RegisterAgent \<and>
    Req_RegistrationToken rq = Api_RegToken cfg"
  using assms h_Login_reads [OF assms(1)] h_RegisterAgent_refused [of "Req_RegistrationToken rq" cfg]
  by (cases "Req_RegistrationToken rq = Api_RegToken cfg") (auto simp: public_routes_def handle_public_def)

text \<open>
  C38: Whoever writes holds a credential. With no interference, if serving a request changes the
  database, then its bearer token is a JWT that the server's secret verifies, or hashes to the hash
  of a stored API token, or hashes to the hash of a registered agent's token, or the request is a
  registration that carries the configured registration token. In particular a request to any
  other route with no valid token changes nothing.
\<close>

theorem writes_need_credential:
  assumes "undisturbed w" and "raw = TrimPrefix (Req_Authorization rq) ''Bearer ''"
    and "router_ok chi" and "w_db (snd (serve chi ext cfg now rq w)) \<noteq> w_db w"
  shows "(\<exists>cl. ParseToken ext now (Api_JWTSecret cfg) raw = Inr cl) \<or>
    hashToken ext raw \<in> Token_TokenHash ` set (db_api_tokens (w_db w)) \<or>
    hashToken ext raw \<in> AgentRow_TokenHash ` set (db_agents (w_db w)) \<or>
    Req_HTTPMethod rq = ''POST'' \<and> Req_Path rq = [''agents'', ''register''] \<and>
      Req_RegistrationToken rq = Api_RegToken cfg"
proof -
  obtain r ps where f: "chi routes (Req_HTTPMethod rq) (Req_Path rq) = Routed r ps"
    using assms(4) by (auto simp: serve_def split: if_splits routed.splits)
  then have r: "r \<in> set routes \<and> Route_Method r = Req_HTTPMethod rq \<and>
      match_path (Route_Pattern r) (Req_Path rq) = Some ps"
    using assms(3) by (auto simp: router_ok_def)
  have srv: "serve chi ext cfg now rq w = (case Route_Access r of
      Public \<Rightarrow> handle_public ext cfg now (Route_Endpoint r) rq w
    | UserGroup \<Rightarrow> RequireUser ext (Api_JWTSecret cfg) now (Req_Authorization rq)
        (handle_user ext cfg (Route_Endpoint r) ps rq) w
    | AgentGroup \<Rightarrow> RequireAgent ext (Req_Authorization rq) (handle_agent ext cfg (Route_Endpoint r) ps rq) w)"
    using assms(4) f by (auto simp: serve_def)
  show ?thesis
  proof (cases "Route_Access r")
    case Public
    then have "r = rt Public ''POST'' [''agents'', ''register''] E_RegisterAgent \<and>
        Req_RegistrationToken rq = Api_RegToken cfg"
      using public_endpoint_writes [OF assms(1) public_route, of r ext cfg now rq] r srv assms(4) by simp
    moreover from this have "Req_Path rq = [''agents'', ''register'']"
      using r match_path_static [of "[''agents'', ''register'']" "Req_Path rq" ps] by (simp add: is_param_def)
    ultimately show ?thesis using r by auto
  next
    case UserGroup
    then show ?thesis using RequireUser_denied(2) [OF assms(1)] srv assms(2,4) by fastforce
  next
    case AgentGroup
    then show ?thesis using RequireAgent_denied(2) [OF assms(1)] srv assms(2,4) by fastforce
  qed
qed

theorem writes_need_credential_witness:
  "w_db (snd (serve first_match demo_ext demo_api_cfg 0 cancel_req (quiet_world sent_db))) \<noteq> sent_db \<and>
   (\<exists>cl. ParseToken demo_ext 0 ''secret'' ''jwt:u1'' = Inr cl)"
proof -
  have "map Job_Status (db_jobs (w_db (snd (serve first_match demo_ext demo_api_cfg 0 cancel_req (quiet_world sent_db))))) \<noteq>
      map Job_Status (db_jobs sent_db)"
    by code_simp
  then have 1: "w_db (snd (serve first_match demo_ext demo_api_cfg 0 cancel_req (quiet_world sent_db))) \<noteq> sent_db"
    by auto
  have 2: "TrimPrefix (Req_Authorization cancel_req) ''Bearer '' = ''jwt:u1''"
    by (simp add: cancel_req_def TrimPrefix_def)
  have 3: "hashToken demo_ext ''jwt:u1'' \<notin> Token_TokenHash ` set (db_api_tokens sent_db)"
    "hashToken demo_ext ''jwt:u1'' \<notin> AgentRow_TokenHash ` set (db_agents sent_db)"
    by (simp_all add: sent_db_def demo_db_def empty_db_def hashToken_def demo_ext_def demo_agent_def)
  have 4: "Req_Path cancel_req \<noteq> [''agents'', ''register'']" by (simp add: cancel_req_def)
  show ?thesis
    using writes_need_credential [OF undisturbed_quiet_world 2 [symmetric] first_match_ok, of demo_ext demo_api_cfg 0 sent_db]
      1 3 4 by (simp add: demo_api_cfg_def)
qed

text \<open>
  C39: API tokens. With no interference, a token that \<open>CreateAPIToken\<close> answered with 201 is served as
  the user who created it, for as long as its row exists, whatever its expiry column says: any row
  with the token's hash is accepted. Deleting the token by its owner makes requests with it
  unauthorized.
\<close>

theorem api_token_lifecycle:
  assumes "undisturbed w" and "raw \<noteq> ''''" and "\<And>cl. ParseToken ext now sec raw \<noteq> Inr cl"
    and new: "h_CreateAPIToken ext raw (Some u) (Some nm) w = ((201, NewTokenBody i nm' raw' t), w1)"
    and del: "astore_DeleteAPIToken i u w1 = (r, w2)"
  shows "raw' = raw \<and>
    (\<forall>w'. undisturbed w' \<and> (\<exists>x. lookup_row Token_TokenHash (db_api_tokens (w_db w')) (hashToken ext raw) =
         Some x \<and> Token_UserID x = u) \<longrightarrow>
       (\<exists>w''. \<forall>h. RequireUser ext sec now (''Bearer '' @ raw) h w' = h (Some u) w'')) \<and>
    (\<exists>w''. \<forall>h. RequireUser ext sec now (''Bearer '' @ raw) h w1 = h (Some u) w'') \<and>
    r = Inr () \<and> (\<forall>h. fst (RequireUser ext sec now (''Bearer '' @ raw) h w2) = unauthorized)"
proof -
  have trim: "TrimPrefix (''Bearer '' @ raw) ''Bearer '' = raw" by (simp add: TrimPrefix_def)
  obtain e where e: "ParseToken ext now sec raw = Inl e"
    using assms(3) by (cases "ParseToken ext now sec raw") auto
  have acc: "\<exists>w''. \<forall>h. RequireUser ext sec now (''Bearer '' @ raw) h w' = h (Some (Token_UserID x)) w''"
    if "undisturbed w'" "lookup_row Token_TokenHash (db_api_tokens (w_db w')) (hashToken ext raw) = Some x"
    for w' x
    using that e assms(2)
    unfolding RequireUser_def Let_def trim astore_GetAPITokenByHash_def by (auto simp: exec_nf_query_at)
  define tk where "tk = \<lparr>Token_ID = i, Token_UserID = u, Token_Name = nm, Token_TokenHash = hashToken ext raw,
    Token_CreatedAt = db_now (w_db w), Token_LastUsedAt = None, Token_ExpiresAt = None\<rparr>"
  have N: "raw' = raw" "undisturbed w1"
    "w_db w1 = (w_db w)\<lparr>db_api_tokens := db_api_tokens (w_db w) @ [tk]\<rparr>"
    "i \<notin> Token_ID ` set (db_api_tokens (w_db w))"
    "hashToken ext raw \<notin> Token_TokenHash ` set (db_api_tokens (w_db w))"
    using new assms(1)
    by (auto simp: h_CreateAPIToken_def generateToken_def hashToken_def respondError_def on_store_def astore_CreateAPIToken_def exec_at
        CreateAPIToken_stmt_def Let_def internal_def tk_def split: if_splits)
  have "lookup_row Token_TokenHash (db_api_tokens (w_db w1)) (hashToken ext raw) = Some tk"
    using N(3,5) by (simp add: lookup_row_last tk_def)
  note a1 = acc [OF N(2) this]
  have "filter (\<lambda>t. \<not> (Token_ID t = i \<and> Token_UserID t = u)) (db_api_tokens (w_db w1)) = db_api_tokens (w_db w)"
    using N(3,4) by (auto simp: tk_def filter_id_conv)
  then have D: "r = Inr ()" "undisturbed w2" "db_api_tokens (w_db w2) = db_api_tokens (w_db w)"
    using del N(2,3) by (auto simp: astore_DeleteAPIToken_def exec_tag_at DeleteAPIToken_stmt_def Let_def tk_def
        rows_affected_def split: if_splits)
  have "fst (RequireUser ext sec now (''Bearer '' @ raw) h w2) = unauthorized" for h
    by (rule RequireUser_denied [OF D(2)]) (use assms(3) N(5) D(3) in \<open>auto simp: TrimPrefix_def\<close>)
  then show ?thesis
    using N(1) D(1) a1 acc by (auto simp: tk_def)
qed

theorem api_token_lifecycle_witness:
  "\<exists>w1 w2 i t. h_CreateAPIToken demo_ext ''t0k'' (Some (UUID ''u1'')) (Some ''ci'') (quiet_world approval_db) =
      ((201, NewTokenBody i ''ci'' ''t0k'' t), w1) \<and>
    astore_DeleteAPIToken i (UUID ''u1'') w1 = (Inr (), w2) \<and>
    (\<exists>w'. \<forall>h. RequireUser demo_ext ''secret'' 0 (''Bearer '' @ ''t0k'') h w1 = h (Some (UUID ''u1'')) w') \<and>
    (\<forall>h. fst (RequireUser demo_ext ''secret'' 0 (''Bearer '' @ ''t0k'') h w2) = unauthorized)"
proof -
  have "fst (h_CreateAPIToken demo_ext ''t0k'' (Some (UUID ''u1'')) (Some ''ci'') (quiet_world approval_db)) =
      (201, NewTokenBody (UUID ''g'') ''ci'' ''t0k'' 100)"
    by code_simp
  then obtain w1 where 1: "h_CreateAPIToken demo_ext ''t0k'' (Some (UUID ''u1'')) (Some ''ci'')
      (quiet_world approval_db) = ((201, NewTokenBody (UUID ''g'') ''ci'' ''t0k'' 100), w1)"
    by (metis prod.collapse)
  obtain r w2 where 2: "astore_DeleteAPIToken (UUID ''g'') (UUID ''u1'') w1 = (r, w2)" by fastforce
  have "ParseToken demo_ext 0 ''secret'' ''t0k'' \<noteq> Inr cl" for cl
    by (simp add: ParseToken_def demo_ext_def)
  then show ?thesis
    using api_token_lifecycle [OF undisturbed_quiet_world _ _ 1 2, of 0 "''secret''"] 1 2 by blast
qed

subsection \<open>Workflow graphs\<close>










end
