(* ===== verification/GoStrings.thy ===== *)
theory GoStrings
  imports Prelude
begin

section \<open>The string functions of the Go standard library that the components call\<close>

text \<open>
  Strings are lists of bytes. White space is the ASCII white space of \<open>unicode.IsSpace\<close>; the
  functions agree with Go on every string that holds none of the white-space characters outside
  ASCII.
\<close>

definition is_space :: "char \<Rightarrow> bool" where
  "is_space c \<longleftrightarrow> c \<in> {CHR 0x20, CHR 0x09, CHR 0x0A, CHR 0x0B, CHR 0x0C, CHR 0x0D}"

definition TrimSpace :: "string \<Rightarrow> string" where
  "TrimSpace s = rev (dropWhile is_space (rev (dropWhile is_space s)))"

text \<open>\<open>strings.Fields\<close>: the maximal runs of characters that are not white space.\<close>

function Fields :: "string \<Rightarrow> string list" where
  "Fields s =
     (case dropWhile is_space s of
        [] \<Rightarrow> []
      | c # r \<Rightarrow> (c # takeWhile (\<lambda>x. \<not> is_space x) r) # Fields (dropWhile (\<lambda>x. \<not> is_space x) r))"
  by auto
termination
proof (relation "measure length", simp)
  fix s c r
  assume "dropWhile is_space s = c # r"
  then have "length (c # r) \<le> length s" by (metis length_dropWhile_le)
  then show "(dropWhile (\<lambda>x. \<not> is_space x) r, s) \<in> measure length"
    using length_dropWhile_le [of "\<lambda>x. \<not> is_space x" r] by simp
qed

declare Fields.simps [simp del]

text \<open>\<open>strings.HasPrefix\<close>, \<open>strings.Index\<close> of one byte, and \<open>strings.Split\<close> at one byte.\<close>

definition HasPrefix :: "string \<Rightarrow> string \<Rightarrow> bool" where
  "HasPrefix s p \<longleftrightarrow> take (length p) s = p"

definition HasSuffix :: "string \<Rightarrow> string \<Rightarrow> bool" where
  "HasSuffix s p \<longleftrightarrow> HasPrefix (rev s) (rev p)"

fun IndexByte :: "string \<Rightarrow> char \<Rightarrow> nat option" where
  "IndexByte [] c = None"
| "IndexByte (x # xs) c = (if x = c then Some 0 else map_option Suc (IndexByte xs c))"

fun SplitByte :: "string \<Rightarrow> char \<Rightarrow> string list" where
  "SplitByte [] c = [[]]"
| "SplitByte (x # xs) c =
     (if x = c then [] # SplitByte xs c
      else (case SplitByte xs c of [] \<Rightarrow> [[x]] | y # ys \<Rightarrow> (x # y) # ys))"

text \<open>\<open>strings.Join\<close> with one byte, and \<open>filepath.Clean\<close> and \<open>filepath.Join\<close> on Unix.\<close>

fun JoinByte :: "char \<Rightarrow> string list \<Rightarrow> string" where
  "JoinByte c [] = []"
| "JoinByte c [s] = s"
| "JoinByte c (s # t # ss) = s @ c # JoinByte c (t # ss)"

fun clean_segs :: "bool \<Rightarrow> string list \<Rightarrow> string list \<Rightarrow> string list" where
  "clean_segs rooted st [] = rev st"
| "clean_segs rooted st (s # ss) =
     (if s = [] \<or> s = ''.'' then clean_segs rooted st ss
      else if s = ''..'' then
        (case st of
           [] \<Rightarrow> clean_segs rooted (if rooted then [] else [s]) ss
         | t # ts \<Rightarrow> clean_segs rooted (if t = ''..'' then s # st else ts) ss)
      else clean_segs rooted (s # st) ss)"

definition filepath_Clean :: "string \<Rightarrow> string" where
  "filepath_Clean p =
     (let rooted = p \<noteq> [] \<and> hd p = CHR 0x2F;
          body = JoinByte (CHR 0x2F) (clean_segs rooted [] (SplitByte p (CHR 0x2F)))
      in if rooted then CHR 0x2F # body else if body = [] then ''.'' else body)"

definition filepath_Join :: "string \<Rightarrow> string \<Rightarrow> string" where
  "filepath_Join a b =
     (if a \<noteq> [] then filepath_Clean (a @ CHR 0x2F # b) else if b \<noteq> [] then filepath_Clean b else [])"

subsection \<open>Lemmas\<close>

lemma Fields_Nil [simp]: "Fields [] = []"
  by (simp add: Fields.simps)

lemma Fields_space [simp]: "is_space c \<Longrightarrow> Fields (c # s) = Fields s"
  by (subst (1 2) Fields.simps) simp

lemma Fields_word:
  assumes "\<forall>c\<in>set w. \<not> is_space c" and "w \<noteq> []" and "is_space b"
  shows "Fields (w @ b # s) = w # Fields s"
proof (cases w)
  case (Cons c r)
  have t: "takeWhile (\<lambda>x. \<not> is_space x) (r @ b # s) = r"
    "dropWhile (\<lambda>x. \<not> is_space x) (r @ b # s) = b # s"
    using assms(1,3) Cons by (simp_all add: takeWhile_append2 dropWhile_append2)
  show ?thesis using assms(1,3) Cons by (subst Fields.simps) (simp add: t)
qed (use assms in simp)

lemma Fields_words: "w \<in> set (Fields s) \<Longrightarrow> w \<noteq> [] \<and> (\<forall>c\<in>set w. \<not> is_space c)"
proof (induction s rule: Fields.induct)
  case (1 s)
  show ?case
  proof (cases "dropWhile is_space s")
    case Nil
    then have "Fields s = []" by (simp only: Fields.simps [of s] list.case)
    then show ?thesis using 1(2) by simp
  next
    case (Cons c r)
    then have c: "\<not> is_space c" by (metis dropWhile_eq_Cons_conv)
    have "w = c # takeWhile (\<lambda>x. \<not> is_space x) r \<or> w \<in> set (Fields (dropWhile (\<lambda>x. \<not> is_space x) r))"
      using 1(2) Cons by (subst (asm) Fields.simps) simp
    then show ?thesis using 1(1) [OF Cons] c set_takeWhileD [of _ "\<lambda>x. \<not> is_space x" r] by fastforce
  qed
qed

lemma Fields_hd: "s \<noteq> [] \<Longrightarrow> \<not> is_space (hd s) \<Longrightarrow> \<exists>w ws. Fields s = (hd s # w) # ws"
  by (subst (1) Fields.simps) (auto simp: neq_Nil_conv)

lemma IndexByte_Some_iff:
  "IndexByte s c = Some i \<longleftrightarrow> i < length s \<and> s ! i = c \<and> c \<notin> set (take i s)"
proof (induction s arbitrary: i)
  case (Cons x xs)
  then show ?case by (cases i) auto
qed simp

lemma IndexByte_None_iff: "IndexByte s c = None \<longleftrightarrow> c \<notin> set s"
  by (induction s) auto

lemma SplitByte_not_Nil [simp]: "SplitByte s c \<noteq> []"
  by (induction s) (auto split: list.splits)

lemma SplitByte_no_sep: "x \<in> set (SplitByte s c) \<Longrightarrow> c \<notin> set x"
  by (induction s arbitrary: x) (auto split: if_splits list.splits)

lemma SplitByte_append: "SplitByte (a @ c # b) c = SplitByte a c @ SplitByte b c"
proof (induction a)
  case (Cons x a)
  then show ?case by (cases "SplitByte a c") auto
qed simp

lemma clean_segs_append:
  "clean_segs r st (xs @ ys) = clean_segs r (rev (clean_segs r st xs)) ys"
  by (induction r st xs rule: clean_segs.induct) (auto split: list.splits)

lemma clean_segs_extends: "''..'' \<notin> set ss \<Longrightarrow> \<exists>rest. clean_segs r st ss = rev st @ rest"
proof (induction ss arbitrary: st)
  case (Cons s ss)
  show ?case using Cons.IH [of st] Cons.IH [of "s # st"] Cons.prems by auto
qed simp

text \<open>Joining a relative path without parent segments to a rooted directory stays below it.\<close>

definition below :: "string \<Rightarrow> string list \<Rightarrow> string" where
  "below dir rest = CHR 0x2F # JoinByte (CHR 0x2F) (clean_segs True [] (SplitByte dir (CHR 0x2F)) @ rest)"

lemma filepath_Join_below:
  assumes "dir \<noteq> []" and "hd dir = CHR 0x2F" and "''..'' \<notin> set (SplitByte path (CHR 0x2F))"
  shows "\<exists>rest. filepath_Join dir path = below dir rest"
proof -
  obtain rest where "clean_segs True (rev (clean_segs True [] (SplitByte dir (CHR 0x2F)))) (SplitByte path (CHR 0x2F))
      = clean_segs True [] (SplitByte dir (CHR 0x2F)) @ rest"
    using clean_segs_extends [OF assms(3), of True "rev (clean_segs True [] (SplitByte dir (CHR 0x2F)))"] by auto
  then have "filepath_Join dir path = below dir rest"
    using assms(1,2)
    by (simp add: filepath_Join_def filepath_Clean_def below_def SplitByte_append clean_segs_append)
  then show ?thesis by blast
qed

text \<open>Names of single path segments, and joining them to a rooted directory.\<close>

definition seg_ok :: "string \<Rightarrow> bool" where
  "seg_ok s \<longleftrightarrow> s \<noteq> [] \<and> s \<noteq> ''.'' \<and> s \<noteq> ''..'' \<and> CHR 0x2F \<notin> set s"

lemma SplitByte_plain: "c \<notin> set s \<Longrightarrow> SplitByte s c = [s]"
  by (induction s) auto

lemma SplitByte_JoinByte:
  "xs \<noteq> [] \<Longrightarrow> \<forall>x\<in>set xs. c \<notin> set x \<Longrightarrow> SplitByte (JoinByte c xs) c = xs"
  by (induction c xs rule: JoinByte.induct) (simp_all add: SplitByte_plain SplitByte_append)

lemma JoinByte_snoc: "xs \<noteq> [] \<Longrightarrow> JoinByte c (xs @ [x]) = JoinByte c xs @ c # x"
proof (induction c xs rule: JoinByte.induct)
  case (3 c s t ss)
  then show ?case by (cases ss) auto
qed simp_all

lemma clean_segs_id: "\<forall>s\<in>set ss. seg_ok s \<Longrightarrow> clean_segs r st ss = rev st @ ss"
  by (induction ss arbitrary: st) (auto simp: seg_ok_def)

lemma clean_segs_seg_ok:
  "\<forall>s\<in>set st. seg_ok s \<Longrightarrow> \<forall>s\<in>set ss. CHR 0x2F \<notin> set s \<Longrightarrow> \<forall>s\<in>set (clean_segs True st ss). seg_ok s"
proof (induction ss arbitrary: st)
  case (Cons s ss)
  show ?case
  proof (cases "s = [] \<or> s = ''.''")
    case True
    then show ?thesis using Cons by simp
  next
    case False
    note F = False
    show ?thesis
    proof (cases "s = ''..''")
      case True
      show ?thesis
      proof (cases st)
        case Nil
        then show ?thesis using Cons.IH [of "[]"] Cons.prems True by simp
      next
        case (Cons t ts)
        then have "t \<noteq> ''..''" "\<forall>s\<in>set ts. seg_ok s" using Cons.prems by (auto simp: seg_ok_def)
        then show ?thesis using Cons.IH [of ts] Cons.prems True Cons by simp
      qed
    next
      case False
      have "CHR 0x2F \<notin> set s" using Cons.prems(2) by simp
      then have "seg_ok s" unfolding seg_ok_def using F False by blast
      then have "\<forall>x\<in>set (clean_segs True (s # st) ss). seg_ok x"
        using Cons.prems by (intro Cons.IH) simp_all
      then show ?thesis using F False by simp
    qed
  qed
qed simp

definition dir_segs :: "string \<Rightarrow> string list" where
  "dir_segs d = clean_segs True [] (SplitByte d (CHR 0x2F))"

lemma dir_segs_ok: "\<forall>s\<in>set (dir_segs d). seg_ok s"
  unfolding dir_segs_def by (rule clean_segs_seg_ok) (auto dest: SplitByte_no_sep)

lemma filepath_Join_seg:
  assumes "d \<noteq> []" and "hd d = CHR 0x2F" and "seg_ok n"
  shows "filepath_Join d n = CHR 0x2F # JoinByte (CHR 0x2F) (dir_segs d @ [n])"
  using assms clean_segs_id [of "[n]" True "rev (dir_segs d)"]
  by (simp add: filepath_Join_def filepath_Clean_def SplitByte_append clean_segs_append SplitByte_plain
      seg_ok_def dir_segs_def)

lemma filepath_Join_twice:
  assumes "d \<noteq> []" and "hd d = CHR 0x2F" and "seg_ok i" and "seg_ok n"
  shows "filepath_Join (filepath_Join d i) n = filepath_Join d i @ CHR 0x2F # n"
proof -
  let ?S = "dir_segs d @ [i]"
  have ok: "\<forall>s\<in>set ?S. seg_ok s" using dir_segs_ok assms(3) by auto
  then have sp: "SplitByte (JoinByte (CHR 0x2F) ?S) (CHR 0x2F) = ?S"
    by (intro SplitByte_JoinByte) (auto simp: seg_ok_def)
  have "dir_segs (CHR 0x2F # JoinByte (CHR 0x2F) ?S) = clean_segs True [] ([] # ?S)"
    using sp by (subst dir_segs_def) simp
  also have "\<dots> = ?S" using clean_segs_id [OF ok] by simp
  finally have "dir_segs (filepath_Join d i) = ?S" using filepath_Join_seg [OF assms(1-3)] by simp
  then have "filepath_Join (filepath_Join d i) n = CHR 0x2F # JoinByte (CHR 0x2F) (?S @ [n])"
    using filepath_Join_seg [of "filepath_Join d i" n] filepath_Join_seg [OF assms(1-3)] assms(4) by simp
  also have "\<dots> = CHR 0x2F # JoinByte (CHR 0x2F) ?S @ CHR 0x2F # n"
    by (subst JoinByte_snoc) simp_all
  finally show ?thesis using filepath_Join_seg [OF assms(1-3)] by simp
qed

end
