(* ===== verification/Scheduler.thy ===== *)
theory Scheduler
  imports ControllerStore GoStrings
begin

section \<open>The scheduler (controller/internal/scheduler/scheduler.go)\<close>

text \<open>
  The scheduler keeps a registry from schedule ids to entries of a cron runner and synchronises it
  with the enabled schedules in the database; the runner calls the function of an entry when it is
  due, and that function creates a pending job.

  The cron runner (robfig/cron) and the time-zone database are packages outside the repository:
  they are the record \<open>cron_ext\<close>, over a type \<open>'c\<close> of runner states. \<open>cron_AddFunc\<close> is the method of
  a runner made with \<open>cron.WithSeconds()\<close>, \<open>cron_parse5\<close> the parser that \<open>register\<close> builds,
  \<open>fmt_q\<close> the verb \<open>%q\<close>. \<open>cron_funcs\<close>, which the code never calls, names what a state holds; the
  assumptions on the package, \<open>cron_laws\<close>, are stated with it.

  A registered function is a closure over the schedule's id, template and variables at the time of
  registration: the record \<open>job_func\<close>. The iteration order of the registry (a Go map) is the order of
  its association list.
\<close>

record job_func =
  Func_ScheduleID :: uuid
  Func_TemplateID :: uuid
  Func_ExtraVars :: vars

record 'c cron_ext =
  cron_New :: 'c
  cron_AddFunc :: "string \<Rightarrow> job_func \<Rightarrow> 'c \<Rightarrow> nat res \<times> 'c"
  cron_Remove :: "nat \<Rightarrow> 'c \<Rightarrow> 'c"
  cron_Entries :: "'c \<Rightarrow> (nat \<times> time) list"
  cron_parse5 :: "string \<Rightarrow> unit res"
  time_LoadLocation :: "string \<Rightarrow> string res"
  fmt_q :: "string \<Rightarrow> string"
  cron_funcs :: "'c \<Rightarrow> nat \<rightharpoonup> job_func"

record 'c Scheduler =
  Sched_cron :: 'c
  Sched_entryIDs :: "(uuid \<times> nat) list"

definition Scheduler_New :: "'c cron_ext \<Rightarrow> 'c Scheduler" where
  "Scheduler_New X = \<lparr>Sched_cron = cron_New X, Sched_entryIDs = []\<rparr>"

subsection \<open>Registering one schedule\<close>

definition closure :: "Schedule \<Rightarrow> job_func" where
  "closure sc = \<lparr>Func_ScheduleID = Schedule_ID sc, Func_TemplateID = Schedule_TemplateID sc,
     Func_ExtraVars = Schedule_ExtraVars sc\<rparr>"

definition register :: "'c cron_ext \<Rightarrow> Schedule \<Rightarrow> 'c Scheduler \<Rightarrow> unit res \<times> 'c Scheduler" where
  "register X sc S =
     (case time_LoadLocation X (Schedule_Timezone sc) of
        Inl e \<Rightarrow> (Inl (Wrapped (''load timezone '' @ fmt_q X (Schedule_Timezone sc)) e), S)
      | Inr loc \<Rightarrow>
         (case cron_parse5 X (Schedule_CronExpr sc) of
            Inl e \<Rightarrow> (Inl (Wrapped (''invalid cron expression '' @ fmt_q X (Schedule_CronExpr sc)) e), S)
          | Inr _ \<Rightarrow>
             (case cron_AddFunc X (''CRON_TZ='' @ loc @ '' '' @ Schedule_CronExpr sc)
                     (closure sc) (Sched_cron S) of
                (Inl e, c) \<Rightarrow> (Inl (Wrapped ''add cron func'' e), S\<lparr>Sched_cron := c\<rparr>)
              | (Inr entryID, c) \<Rightarrow>
                  (Inr (), \<lparr>Sched_cron = c,
                            Sched_entryIDs = AList.update (Schedule_ID sc) entryID (Sched_entryIDs S)\<rparr>))))"

subsection \<open>The sync cycle\<close>

fun remove_inactive :: "'c cron_ext \<Rightarrow> uuid list \<Rightarrow> (uuid \<times> nat) list \<Rightarrow> 'c Scheduler \<Rightarrow> 'c Scheduler" where
  "remove_inactive X active [] S = S"
| "remove_inactive X active ((i, entryID) # rest) S =
     remove_inactive X active rest
       (if i \<notin> set active
        then \<lparr>Sched_cron = cron_Remove X entryID (Sched_cron S),
              Sched_entryIDs = AList.delete i (Sched_entryIDs S)\<rparr>
        else S)"

fun register_new :: "'c cron_ext \<Rightarrow> Schedule list \<Rightarrow> 'c Scheduler \<Rightarrow> 'c Scheduler" where
  "register_new X [] S = S"
| "register_new X (sc # scs) S =
     register_new X scs
       (if map_of (Sched_entryIDs S) (Schedule_ID sc) \<noteq> None then S else snd (register X sc S))"

definition sync :: "'c cron_ext \<Rightarrow> 'c Scheduler \<Rightarrow> world \<Rightarrow> 'c Scheduler \<times> world" where
  "sync X S w =
     (case cstore_GetActiveSchedules w of
        (Inl e, w1) \<Rightarrow> (S, w1)
      | (Inr schedules, w1) \<Rightarrow>
          (register_new X schedules
             (remove_inactive X (map Schedule_ID schedules) (Sched_entryIDs S) S), w1))"

text \<open>\<open>Run\<close>: the first sync and then one at every tick of the timer; \<open>n\<close> syncs in all.\<close>

fun Run_syncs :: "'c cron_ext \<Rightarrow> nat \<Rightarrow> 'c Scheduler \<Rightarrow> world \<Rightarrow> 'c Scheduler \<times> world" where
  "Run_syncs X 0 S w = (S, w)"
| "Run_syncs X (Suc n) S w = (let (S1, w1) = sync X S w in Run_syncs X n S1 w1)"

subsection \<open>The function of an entry\<close>

text \<open>A missing key of the registry reads as the zero value.\<close>

definition next_run :: "'c cron_ext \<Rightarrow> 'c Scheduler \<Rightarrow> uuid \<Rightarrow> time option" where
  "next_run X S i =
     (let entryID = (case map_of (Sched_entryIDs S) i of None \<Rightarrow> 0 | Some e \<Rightarrow> e)
      in map_option snd (List.find (\<lambda>e. fst e = entryID) (cron_Entries X (Sched_cron S))))"

definition fire :: "'c cron_ext \<Rightarrow> 'c Scheduler \<Rightarrow> job_func \<Rightarrow> world \<Rightarrow> Job res \<times> world" where
  "fire X S f w =
     (case cstore_CreateJob (Func_TemplateID f) (Func_ExtraVars f) w of
        (Inl e, w1) \<Rightarrow> (Inl e, w1)
      | (Inr job, w1) \<Rightarrow>
          (Inr job, snd (cstore_UpdateScheduleLastRun (Func_ScheduleID f)
                          (next_run X S (Func_ScheduleID f)) w1)))"

subsection \<open>What the code relies on\<close>

text \<open>
  The runner's bookkeeping: \<open>AddFunc\<close> returns a new id for the function it adds, or an error and adds
  nothing; \<open>Remove\<close> removes; \<open>Entries\<close> lists what is there.
\<close>

definition cron_laws :: "'c cron_ext \<Rightarrow> bool" where
  "cron_laws X \<longleftrightarrow>
     cron_funcs X (cron_New X) = Map.empty \<and>
     (\<forall>spec f c i c'. cron_AddFunc X spec f c = (Inr i, c') \<longrightarrow>
        cron_funcs X c i = None \<and> cron_funcs X c' = (cron_funcs X c)(i \<mapsto> f)) \<and>
     (\<forall>spec f c e c'. cron_AddFunc X spec f c = (Inl e, c') \<longrightarrow> cron_funcs X c' = cron_funcs X c) \<and>
     (\<forall>i c. cron_funcs X (cron_Remove X i c) = (cron_funcs X c)(i := None)) \<and>
     (\<forall>c. fst ` set (cron_Entries X c) = dom (cron_funcs X c))"

text \<open>
  The documented syntax of specifications: words separated by white space, after an optional
  \<open>TZ=\<close> or \<open>CRON_TZ=\<close> prefix that reaches to the first blank. The parser for minute, hour, day of
  month, month and day of week takes five words; a runner with seconds takes six, of which the first
  is a seconds field (a number, \<open>*\<close> or \<open>?\<close>), or a descriptor that starts with \<open>@\<close>. Zone names hold no
  white space.
\<close>

definition cron_words :: "string \<Rightarrow> string list" where
  "cron_words spec = (if HasPrefix spec ''TZ='' \<or> HasPrefix spec ''CRON_TZ='' then tl (Fields spec)
                      else Fields spec)"

definition seconds_start :: "char \<Rightarrow> bool" where
  "seconds_start c \<longleftrightarrow> c \<in> set ''0123456789*?''"

definition cron_syntax :: "'c cron_ext \<Rightarrow> bool" where
  "cron_syntax X \<longleftrightarrow>
     (\<forall>s. isOk (cron_parse5 X s) \<longrightarrow> length (cron_words s) = 5 \<and> hd (hd (cron_words s)) \<noteq> CHR ''@'') \<and>
     (\<forall>s f c. isOk (fst (cron_AddFunc X s f c)) \<longrightarrow> cron_words s \<noteq> [] \<and>
        (hd (hd (cron_words s)) = CHR ''@'' \<or>
         length (cron_words s) = 6 \<and> seconds_start (hd (hd (cron_words s))))) \<and>
     (\<forall>s l. time_LoadLocation X s = Inr l \<longrightarrow> (\<forall>c\<in>set l. \<not> is_space c))"

text \<open>
  The registry invariant: registry and runner agree, one entry per registered schedule, whose
  function is that schedule's.
\<close>

definition registry_ok :: "'c cron_ext \<Rightarrow> 'c Scheduler \<Rightarrow> bool" where
  "registry_ok X S \<longleftrightarrow>
     distinct (map fst (Sched_entryIDs S)) \<and>
     (\<forall>i e. map_of (Sched_entryIDs S) i = Some e \<longrightarrow>
        (\<exists>f. cron_funcs X (Sched_cron S) e = Some f \<and> Func_ScheduleID f = i)) \<and>
     (\<forall>e f. cron_funcs X (Sched_cron S) e = Some f \<longrightarrow>
        map_of (Sched_entryIDs S) (Func_ScheduleID f) = Some e)"

text \<open>The function that runs for a schedule, when one does.\<close>

definition running_func :: "'c cron_ext \<Rightarrow> 'c Scheduler \<Rightarrow> uuid \<Rightarrow> job_func option" where
  "running_func X S i = Option.bind (map_of (Sched_entryIDs S) i) (cron_funcs X (Sched_cron S))"

text \<open>A schedule that nothing in the environment refuses.\<close>

definition registerable :: "'c cron_ext \<Rightarrow> Schedule \<Rightarrow> bool" where
  "registerable X sc \<longleftrightarrow> (\<exists>loc. time_LoadLocation X (Schedule_Timezone sc) = Inr loc \<and>
     isOk (cron_parse5 X (Schedule_CronExpr sc)) \<and>
     (\<forall>c. isOk (fst (cron_AddFunc X (''CRON_TZ='' @ loc @ '' '' @ Schedule_CronExpr sc) (closure sc) c))))"

subsection \<open>Registry and runner stay in step\<close>

lemma closure_id [simp]: "Func_ScheduleID (closure sc) = Schedule_ID sc"
  by (simp add: closure_def)

lemma cron_lawsD:
  assumes "cron_laws X"
  shows "cron_funcs X (cron_New X) = Map.empty"
    and "cron_AddFunc X s f c = (Inr i, c') \<Longrightarrow> cron_funcs X c i = None"
    and "cron_AddFunc X s f c = (Inr i, c') \<Longrightarrow> cron_funcs X c' = (cron_funcs X c)(i \<mapsto> f)"
    and "cron_AddFunc X s f c = (Inl e, c') \<Longrightarrow> cron_funcs X c' = cron_funcs X c"
    and "cron_funcs X (cron_Remove X i c) = (cron_funcs X c)(i := None)"
  using assms by (simp_all add: cron_laws_def)

lemma registry_New: "cron_laws X \<Longrightarrow> registry_ok X (Scheduler_New X)"
  by (simp add: registry_ok_def Scheduler_New_def cron_lawsD)

lemma registry_entry:
  "registry_ok X S \<Longrightarrow> map_of (Sched_entryIDs S) i = Some e \<Longrightarrow>
   \<exists>f. cron_funcs X (Sched_cron S) e = Some f \<and> Func_ScheduleID f = i"
  by (simp add: registry_ok_def)

lemma registry_func:
  "registry_ok X S \<Longrightarrow> cron_funcs X (Sched_cron S) e = Some f \<Longrightarrow>
   map_of (Sched_entryIDs S) (Func_ScheduleID f) = Some e"
  by (simp add: registry_ok_def)

lemma running_None_iff:
  "registry_ok X S \<Longrightarrow> running_func X S i = None \<longleftrightarrow> map_of (Sched_entryIDs S) i = None"
  by (cases "map_of (Sched_entryIDs S) i") (auto simp: running_func_def dest: registry_entry)

lemma remove_one:
  assumes "cron_laws X" and "registry_ok X S" and "map_of (Sched_entryIDs S) i = Some e"
  defines "S' \<equiv> \<lparr>Sched_cron = cron_Remove X e (Sched_cron S),
                  Sched_entryIDs = AList.delete i (Sched_entryIDs S)\<rparr>"
  shows "registry_ok X S'" and "running_func X S' = (running_func X S)(i := None)"
proof -
  note fs = cron_lawsD(5) [OF assms(1)]
  have other: "e' \<noteq> e" if "map_of (Sched_entryIDs S) k = Some e'" "k \<noteq> i" for k e'
    using registry_entry [OF assms(2) that(1)] registry_entry [OF assms(2,3)] that(2) by auto
  have same: "e' = e" if "cron_funcs X (Sched_cron S) e' = Some f" "Func_ScheduleID f = i" for e' f
    using registry_func [OF assms(2) that(1)] that(2) assms(3) by simp
  show "registry_ok X S'"
    using assms(2,3) other same
    by (auto simp: registry_ok_def S'_def fs delete_conv' distinct_delete split: if_splits)
  show "running_func X S' = (running_func X S)(i := None)"
    using other by (auto simp: fun_eq_iff running_func_def S'_def fs delete_conv' bind_eq_None_conv
        split: bind_splits)
qed

lemma remove_inactive_ok:
  assumes "cron_laws X"
  shows "registry_ok X S \<Longrightarrow> distinct (map fst rest) \<Longrightarrow>
    (\<forall>(i, e) \<in> set rest. map_of (Sched_entryIDs S) i = Some e) \<Longrightarrow>
    registry_ok X (remove_inactive X active rest S) \<and>
    running_func X (remove_inactive X active rest S) =
      (\<lambda>i. if i \<in> fst ` set rest \<and> i \<notin> set active then None else running_func X S i)"
proof (induction rest arbitrary: S)
  case (Cons ie rest)
  obtain i e where ie: "ie = (i, e)" by fastforce
  show ?case
  proof (cases "i \<in> set active")
    case True
    then show ?thesis using Cons.IH [of S] Cons.prems by (auto simp: ie fun_eq_iff)
  next
    case False
    let ?S = "\<lparr>Sched_cron = cron_Remove X e (Sched_cron S),
               Sched_entryIDs = AList.delete i (Sched_entryIDs S)\<rparr>"
    have m: "map_of (Sched_entryIDs S) i = Some e" using Cons.prems(3) by (simp add: ie)
    have "\<forall>(k, e') \<in> set rest. map_of (Sched_entryIDs ?S) k = Some e'"
      using Cons.prems(2,3) by (force simp: ie delete_conv')
    then show ?thesis
      using Cons.IH [of ?S] Cons.prems(2) False remove_one [OF assms Cons.prems(1) m]
      by (auto simp: ie fun_eq_iff)
  qed
qed simp

text \<open>One registration, and the loop over all schedules.\<close>

lemma register_cases:
  obtains (refused) e c where "register X sc S = (Inl e, S\<lparr>Sched_cron := c\<rparr>)"
      and "c = Sched_cron S \<or> (\<exists>s e'. cron_AddFunc X s (closure sc) (Sched_cron S) = (Inl e', c))"
  | (added) n c s where "register X sc S = (Inr (), \<lparr>Sched_cron = c,
         Sched_entryIDs = AList.update (Schedule_ID sc) n (Sched_entryIDs S)\<rparr>)"
      and "cron_AddFunc X s (closure sc) (Sched_cron S) = (Inr n, c)"
proof (cases "time_LoadLocation X (Schedule_Timezone sc)")
  case (Inl e)
  then show ?thesis by (intro refused [of _ "Sched_cron S"]) (simp_all add: register_def)
next
  case loc: (Inr loc)
  show ?thesis
  proof (cases "cron_parse5 X (Schedule_CronExpr sc)")
    case (Inl e)
    with loc show ?thesis by (intro refused [of _ "Sched_cron S"]) (simp_all add: register_def)
  next
    case (Inr u)
    let ?s = "''CRON_TZ='' @ loc @ '' '' @ Schedule_CronExpr sc"
    obtain x c where A: "cron_AddFunc X ?s (closure sc) (Sched_cron S) = (x, c)" by fastforce
    show ?thesis
    proof (cases x)
      case (Inl e)
      with A loc Inr show ?thesis by (intro refused [of _ c]) (auto simp: register_def)
    next
      case (Inr n)
      with A loc \<open>cron_parse5 X _ = Inr u\<close> show ?thesis by (intro added [of c n]) (auto simp: register_def)
    qed
  qed
qed

lemma register_ok:
  assumes laws: "cron_laws X" and ok: "registry_ok X S" and new: "map_of (Sched_entryIDs S) (Schedule_ID sc) = None"
  shows "registry_ok X (snd (register X sc S)) \<and>
    running_func X (snd (register X sc S)) =
      (if isOk (fst (register X sc S)) then (running_func X S)(Schedule_ID sc \<mapsto> closure sc)
       else running_func X S)"
proof (cases rule: register_cases [of X sc S])
  case (refused e c)
  then have "cron_funcs X c = cron_funcs X (Sched_cron S)" using cron_lawsD(4) [OF laws] by auto
  then show ?thesis using ok refused(1) by (simp add: registry_ok_def running_func_def [abs_def])
next
  case (added n c s)
  note F = cron_lawsD(2,3) [OF laws added(2)]
  have n: "map_of (Sched_entryIDs S) k \<noteq> Some n" for k
    using F(1) registry_entry [OF ok, of k n] by auto
  have id: "cron_funcs X (Sched_cron S) e = Some f \<Longrightarrow> Func_ScheduleID f \<noteq> Schedule_ID sc" for e f
    using registry_func [OF ok] new by fastforce
  have "running_func X (snd (register X sc S)) = (running_func X S)(Schedule_ID sc \<mapsto> closure sc)"
    using added(1) F n by (auto simp: fun_eq_iff running_func_def update_conv' split: bind_splits)
  moreover have "registry_ok X (snd (register X sc S))"
    using ok added(1) F n id by (auto simp: registry_ok_def update_conv' distinct_update)
  ultimately show ?thesis using added(1) by simp
qed

lemma register_new_ok:
  assumes "cron_laws X"
  shows "registry_ok X S \<Longrightarrow> registry_ok X (register_new X scs S) \<and>
    running_func X S \<subseteq>\<^sub>m running_func X (register_new X scs S) \<and>
    (\<forall>i f. running_func X S i = None \<longrightarrow> running_func X (register_new X scs S) i = Some f \<longrightarrow>
       f \<in> closure ` set scs \<and> Func_ScheduleID f = i) \<and>
    (\<forall>sc\<in>set scs. registerable X sc \<longrightarrow> running_func X (register_new X scs S) (Schedule_ID sc) \<noteq> None)"
proof (induction scs arbitrary: S)
  case Nil
  then show ?case by simp
next
  case (Cons sc scs)
  let ?S = "if map_of (Sched_entryIDs S) (Schedule_ID sc) \<noteq> None then S else snd (register X sc S)"
  have reg: "isOk (fst (register X sc S))" if "registerable X sc"
    using that by (auto simp: registerable_def register_def isOk_def split: sum.splits prod.splits)
      (metis fst_conv old.sum.simps(5))
  have S: "registry_ok X ?S" "running_func X S \<subseteq>\<^sub>m running_func X ?S"
    "running_func X ?S i = running_func X S i \<or> running_func X ?S i = Some (closure sc) \<and> i = Schedule_ID sc"
    "registerable X sc \<Longrightarrow> running_func X ?S (Schedule_ID sc) \<noteq> None" for i
    using Cons.prems register_ok [OF assms Cons.prems, of sc] running_None_iff [OF Cons.prems, of "Schedule_ID sc"] reg
    by (auto simp: map_le_def dom_def)
  note I = Cons.IH [OF S(1)]
  have "running_func X S \<subseteq>\<^sub>m running_func X (register_new X scs ?S)" using S(2) I map_le_trans by blast
  moreover have "f \<in> closure ` set (sc # scs) \<and> Func_ScheduleID f = i"
    if "running_func X S i = None" "running_func X (register_new X scs ?S) i = Some f" for i f
    using I that S(3) [of i] by (auto simp: map_le_def dom_def)
  moreover have "registerable X sc' \<longrightarrow> running_func X (register_new X scs ?S) (Schedule_ID sc') \<noteq> None"
    if "sc' \<in> set (sc # scs)" for sc'
    using I that S(4) by (auto simp: map_le_def dom_def)
  ultimately show ?case using I by simp
qed

end
