(* ===== verification/SchedulerProps.thy ===== *)
theory SchedulerProps
  imports Scheduler Scenario
begin

section \<open>Properties of the scheduler\<close>

text \<open>
  A cron runner for the witnesses: a counter and a list of entries, with the specifications it
  accepts as an argument, and the two syntaxes of \<open>cron_syntax\<close>.
\<close>

definition list_cron :: "(string \<Rightarrow> bool) \<Rightarrow> (string \<Rightarrow> bool) \<Rightarrow> (nat \<times> (nat \<times> job_func) list) cron_ext" where
  "list_cron five six = \<lparr>
     cron_New = (0, []),
     cron_AddFunc = (\<lambda>s f (n, es). if six s then (Inr (Suc n), (Suc n, (Suc n, f) # es))
                                    else (Inl (ErrMsg s), (n, es))),
     cron_Remove = (\<lambda>i (n, es). (n, filter (\<lambda>e. fst e \<noteq> i) es)),
     cron_Entries = (\<lambda>(n, es). map (\<lambda>e. (fst e, 500)) (filter (\<lambda>e. fst e \<le> n) es)),
     cron_parse5 = (\<lambda>s. if five s then Inr () else Inl (ErrMsg s)),
     time_LoadLocation = (\<lambda>s. if s = ''UTC'' then Inr s else Inl (ErrMsg s)),
     fmt_q = (\<lambda>s. [CHR 0x22] @ s @ [CHR 0x22]),
     cron_funcs = (\<lambda>(n, es). map_of (filter (\<lambda>e. fst e \<le> n) es))\<rparr>"

lemma map_of_upto [simp]:
  "map_of (filter (\<lambda>e. fst e \<le> n) es) i = (if i \<le> n then map_of es i else None)"
  "map_of (filter (\<lambda>e. fst e \<noteq> k \<and> fst e \<le> n) es) i = (if i \<noteq> k \<and> i \<le> n then map_of es i else None)"
  by (induction es) auto

lemma list_cron_laws: "cron_laws (list_cron five six)"
  unfolding cron_laws_def list_cron_def
  by (auto simp: fun_eq_iff dom_map_of_conv_image_fst image_image split: if_splits)

definition five_words :: "string \<Rightarrow> bool" where
  "five_words s \<longleftrightarrow> length (cron_words s) = 5 \<and> hd (hd (cron_words s)) \<noteq> CHR ''@''"

definition six_words :: "string \<Rightarrow> bool" where
  "six_words s \<longleftrightarrow> cron_words s \<noteq> [] \<and> (hd (hd (cron_words s)) = CHR ''@'' \<or>
     length (cron_words s) = 6 \<and> seconds_start (hd (hd (cron_words s))))"

lemma list_cron_syntax: "cron_syntax (list_cron five_words six_words)"
  by (auto simp: cron_syntax_def list_cron_def five_words_def six_words_def is_space_def isOk_def
      split: if_splits)

definition demo_schedule :: "string \<Rightarrow> string \<Rightarrow> Schedule" where
  "demo_schedule i expr = \<lparr>Schedule_ID = UUID i, Schedule_Name = i, Schedule_TemplateID = UUID ''t1'',
     Schedule_CronExpr = expr, Schedule_Timezone = ''UTC'', Schedule_Enabled = True,
     Schedule_ExtraVars = [], Schedule_LastRunAt = None, Schedule_NextRunAt = None,
     Schedule_CreatedAt = 4, Schedule_UpdatedAt = 4\<rparr>"

definition cron_db :: db where
  "cron_db = demo_db\<lparr>db_schedules := [demo_schedule ''s1'' ''0 5 * * *'', demo_schedule ''s2'' ''0 6 * * *'']\<rparr>"

subsection \<open>The sync cycle\<close>

lemma registry_distinct: "registry_ok X S \<Longrightarrow> distinct (map fst (Sched_entryIDs S))"
  by (simp add: registry_ok_def)

text \<open>
  C29: A sync keeps registry and cron runner in step. After a sync that could read the schedules, no
  schedule that is deleted or disabled has a running entry; an entry that was there before and whose
  schedule is still enabled is kept with the function it had, so an edited schedule goes on with the
  template, variables and expression of its first registration; a new entry runs the closure of one of
  the schedules read; and every schedule that nothing refuses has an entry. A sync that could not read
  changes nothing.
\<close>

theorem sync_registry:
  assumes laws: "cron_laws X" and ok: "registry_ok X S" and s: "sync X S w = (S', w')"
  shows "registry_ok X S' \<and>
    (case fst (cstore_GetActiveSchedules w) of
       Inl e \<Rightarrow> S' = S
     | Inr scs \<Rightarrow>
         (\<forall>i. i \<notin> Schedule_ID ` set scs \<longrightarrow> running_func X S' i = None) \<and>
         (\<forall>i f. i \<in> Schedule_ID ` set scs \<and> running_func X S i = Some f \<longrightarrow> running_func X S' i = Some f) \<and>
         (\<forall>i f. running_func X S i = None \<and> running_func X S' i = Some f \<longrightarrow>
            f \<in> closure ` set scs \<and> Func_ScheduleID f = i) \<and>
         (\<forall>sc\<in>set scs. registerable X sc \<longrightarrow> running_func X S' (Schedule_ID sc) \<noteq> None))"
proof (cases "fst (cstore_GetActiveSchedules w)")
  case (Inl e)
  then show ?thesis using s ok by (auto simp: sync_def split: prod.splits)
next
  case (Inr scs)
  let ?R = "remove_inactive X (map Schedule_ID scs) (Sched_entryIDs S) S"
  have S': "S' = register_new X scs ?R"
    using s Inr by (auto simp: sync_def split: prod.splits)
  have r: "registry_ok X ?R" "running_func X ?R = (\<lambda>i. if i \<in> fst ` set (Sched_entryIDs S) \<and>
      i \<notin> set (map Schedule_ID scs) then None else running_func X S i)"
    using remove_inactive_ok [OF laws ok registry_distinct [OF ok], of "map Schedule_ID scs"]
      registry_distinct [OF ok] by auto
  have none: "running_func X ?R i = None" if "i \<notin> Schedule_ID ` set scs" for i
    using that by (auto simp: r(2) running_None_iff [OF ok] map_of_eq_None_iff)
  have same: "running_func X ?R i = running_func X S i" if "i \<in> Schedule_ID ` set scs" for i
    using that by (simp add: r(2))
  note N = register_new_ok [OF laws r(1), of scs, folded S']
  have gone: "running_func X S' i = None" if "i \<notin> Schedule_ID ` set scs" for i
  proof (rule ccontr)
    assume "running_func X S' i \<noteq> None"
    then have "i \<in> Func_ScheduleID ` closure ` set scs" using N none [OF that] by blast
    then show False using that by (auto simp: image_image)
  qed
  moreover have "running_func X S' i = Some f" if "i \<in> Schedule_ID ` set scs" "running_func X S i = Some f" for i f
    using N same [OF that(1)] that(2) by (auto simp: map_le_def dom_def)
  moreover have "f \<in> closure ` set scs \<and> Func_ScheduleID f = i"
    if "running_func X S i = None" "running_func X S' i = Some f" for i f
    using N gone [of i] same [of i] that by (cases "i \<in> Schedule_ID ` set scs") auto
  ultimately show ?thesis using N Inr by auto
qed

text \<open>A registered schedule whose template is changed keeps its old function; the new one is added.\<close>

theorem sync_registry_witness:
  "\<exists>S'. sync (list_cron (\<lambda>_. True) (\<lambda>_. True))
     \<lparr>Sched_cron = (3, [(3, \<lparr>Func_ScheduleID = UUID ''s1'', Func_TemplateID = UUID ''old'', Func_ExtraVars = []\<rparr>)]),
      Sched_entryIDs = [(UUID ''s1'', 3)]\<rparr> (quiet_world cron_db) = (S', (quiet_world cron_db)\<lparr>w_pos := 1\<rparr>) \<and>
     map_option Func_TemplateID (running_func (list_cron (\<lambda>_. True) (\<lambda>_. True)) S' (UUID ''s1'')) = Some (UUID ''old'') \<and>
     running_func (list_cron (\<lambda>_. True) (\<lambda>_. True)) S' (UUID ''s3'') = None"
proof -
  let ?X = "list_cron (\<lambda>_. True) (\<lambda>_. True)"
  let ?f = "\<lparr>Func_ScheduleID = UUID ''s1'', Func_TemplateID = UUID ''old'', Func_ExtraVars = []\<rparr>"
  let ?S = "\<lparr>Sched_cron = (3, [(3, ?f)]), Sched_entryIDs = [(UUID ''s1'', 3)]\<rparr> :: (nat \<times> (nat \<times> job_func) list) Scheduler"
  let ?w = "quiet_world cron_db"
  have ok: "registry_ok ?X ?S" by (auto simp: registry_ok_def list_cron_def)
  have q: "cstore_GetActiveSchedules ?w = (Inr (db_schedules cron_db), ?w\<lparr>w_pos := 1\<rparr>)"
    by (simp add: cstore_GetActiveSchedules_def exec_ctx_def exec_undisturbed [OF undisturbed_quiet_world]
        GetActiveSchedules_stmt_def cron_db_def demo_schedule_def)
  obtain S' where S': "sync ?X ?S ?w = (S', ?w\<lparr>w_pos := 1\<rparr>)" by (simp add: sync_def q)
  have old: "running_func ?X ?S (UUID ''s1'') = Some ?f" by (simp add: running_func_def list_cron_def)
  have ids: "Schedule_ID ` set (db_schedules cron_db) = {UUID ''s1'', UUID ''s2''}"
    by (simp add: cron_db_def demo_schedule_def)
  note T = sync_registry [OF list_cron_laws ok S']
  have "running_func ?X S' (UUID ''s1'') = Some ?f" "running_func ?X S' (UUID ''s3'') = None"
    using T old ids by (simp_all add: q)
  then show ?thesis using S' by simp
qed

subsection \<open>The runner's syntax refuses every schedule\<close>

lemma add_refused:
  assumes syn: "cron_syntax X" and loc: "time_LoadLocation X z = Inr l" and p: "isOk (cron_parse5 X expr)"
  shows "\<not> isOk (fst (cron_AddFunc X (''CRON_TZ='' @ l @ '' '' @ expr) f c))"
proof
  let ?spec = "''CRON_TZ='' @ l @ '' '' @ expr"
  assume "isOk (fst (cron_AddFunc X ?spec f c))"
  then have six: "hd (hd (cron_words ?spec)) = CHR ''@'' \<or>
      length (cron_words ?spec) = 6 \<and> seconds_start (hd (hd (cron_words ?spec)))"
    using syn unfolding cron_syntax_def by blast
  have five: "length (cron_words expr) = 5" "hd (hd (cron_words expr)) \<noteq> CHR ''@''"
    using syn p unfolding cron_syntax_def by blast+
  have "\<forall>c\<in>set (''CRON_TZ='' @ l). \<not> is_space c"
    using syn loc unfolding cron_syntax_def by (auto simp: is_space_def)
  then have "Fields ((''CRON_TZ='' @ l) @ CHR '' '' # expr) = (''CRON_TZ='' @ l) # Fields expr"
    by (intro Fields_word) (simp_all add: is_space_def)
  then have spec: "cron_words ?spec = Fields expr" by (simp add: cron_words_def HasPrefix_def)
  note six' = six [unfolded spec]
  show False
  proof (cases "HasPrefix expr ''TZ='' \<or> HasPrefix expr ''CRON_TZ=''")
    case True
    then have "expr \<noteq> []" "hd expr = CHR ''T'' \<or> hd expr = CHR ''C''"
      by (cases expr; auto simp: HasPrefix_def)+
    then have "hd (hd (Fields expr)) = CHR ''T'' \<or> hd (hd (Fields expr)) = CHR ''C''"
      using Fields_hd [of expr] by (auto simp: is_space_def)
    then show ?thesis using six' by (auto simp: seconds_start_def)
  next
    case False
    then show ?thesis using six' five by (simp add: cron_words_def)
  qed
qed

lemma register_refused:
  assumes "cron_laws X" and "cron_syntax X"
  shows "Sched_entryIDs (snd (register X sc S)) = Sched_entryIDs S \<and>
    cron_funcs X (Sched_cron (snd (register X sc S))) = cron_funcs X (Sched_cron S)"
proof (cases rule: register_cases [of X sc S])
  case (refused e c)
  then show ?thesis using cron_lawsD(4) [OF assms(1)] by auto
next
  case (added n c s)
  then have "isOk (fst (register X sc S))" by simp
  then show ?thesis
    using add_refused [OF assms(2)]
    by (auto simp: register_def isOk_def split: sum.splits prod.splits) (metis fst_conv sum.case(2))+
qed

lemma sync_empty:
  assumes "cron_laws X" and "cron_syntax X"
    and "Sched_entryIDs S = []" and "cron_funcs X (Sched_cron S) = Map.empty"
  shows "Sched_entryIDs (fst (sync X S w)) = [] \<and> cron_funcs X (Sched_cron (fst (sync X S w))) = Map.empty"
proof -
  have "Sched_entryIDs (register_new X scs S) = Sched_entryIDs S \<and>
      cron_funcs X (Sched_cron (register_new X scs S)) = cron_funcs X (Sched_cron S)" for scs S
    by (induction scs arbitrary: S) (simp_all add: register_refused [OF assms(1,2)])
  then show ?thesis using assms(3,4) by (simp add: sync_def split: prod.split sum.split)
qed

text \<open>
  C30: With the documented syntax of the two parsers no schedule is ever registered: however often the
  scheduler syncs and whatever the database holds, its registry and the cron runner stay empty, so no
  scheduled job is ever created. The expression must pass the five-field parser, and the runner,
  made with \<open>cron.WithSeconds()\<close>, then refuses it.
\<close>

theorem nothing_is_scheduled:
  assumes "cron_laws X" and "cron_syntax X"
  shows "Sched_entryIDs (fst (Run_syncs X n (Scheduler_New X) w)) = [] \<and>
    cron_funcs X (Sched_cron (fst (Run_syncs X n (Scheduler_New X) w))) = Map.empty"
proof -
  have "Sched_entryIDs (fst (Run_syncs X n S w)) = [] \<and>
      cron_funcs X (Sched_cron (fst (Run_syncs X n S w))) = Map.empty"
    if "Sched_entryIDs S = []" "cron_funcs X (Sched_cron S) = Map.empty" for S
    using that
    by (induction n arbitrary: S w) (use sync_empty [OF assms] in \<open>auto simp: split_beta\<close>)
  then show ?thesis by (simp add: Scheduler_New_def cron_lawsD(1) [OF assms(1)])
qed

theorem nothing_is_scheduled_witness:
  "Sched_entryIDs (fst (Run_syncs (list_cron five_words six_words) 3
     (Scheduler_New (list_cron five_words six_words)) (quiet_world cron_db))) = [] \<and>
   isOk (cron_parse5 (list_cron five_words six_words) ''0 5 * * *'') \<and>
   isOk (fst (cron_AddFunc (list_cron five_words six_words) ''CRON_TZ=UTC 0 0 5 * * *''
     (closure (demo_schedule ''s1'' '''')) (0, [])))"
proof -
  have "isOk (cron_parse5 (list_cron five_words six_words) ''0 5 * * *'')" by code_simp
  moreover have "isOk (fst (cron_AddFunc (list_cron five_words six_words) ''CRON_TZ=UTC 0 0 5 * * *''
     (closure (demo_schedule ''s1'' '''')) (0, [])))" by code_simp
  ultimately show ?thesis
    using nothing_is_scheduled [OF list_cron_laws list_cron_syntax, of 3 "quiet_world cron_db"] by simp
qed

subsection \<open>The function of an entry\<close>

text \<open>
  The function of an entry, run when nobody interferes. If its template exists, exactly one job is
  added, pending, with the template and variables of the registration, and the schedule's row gets the
  time of this run and the time of the next one that the cron runner reports for its entry; if the
  template has been deleted, the error is reported and nothing changes.
\<close>

lemma fire_effect:
  assumes "undisturbed w" and "d = w_db w"
    and "i = call_uuid (w_env w (w_pos w)) 0" and "i \<notin> Job_ID ` set (db_jobs d)"
  shows "fire X S f w =
    (if Func_TemplateID f \<in> Template_ID ` set (db_job_templates d)
     then (Inr (new_job (db_now d) i (Func_TemplateID f) None (Func_ExtraVars f)),
       w\<lparr>w_pos := w_pos w + 2,
         w_db := d\<lparr>db_jobs := db_jobs d @ [new_job (db_now d) i (Func_TemplateID f) None (Func_ExtraVars f)],
           db_schedules := update_rows (\<lambda>s. Schedule_ID s = Func_ScheduleID f)
             (\<lambda>s. s\<lparr>Schedule_LastRunAt := Some (db_now d), Schedule_NextRunAt := next_run X S (Func_ScheduleID f),
                     Schedule_UpdatedAt := db_now d\<rparr>) (db_schedules d)\<rparr>\<rparr>)
     else (Inl (Wrapped ''create job: scan job'' (PgError ForeignKeyViolation)), w\<lparr>w_pos := w_pos w + 1\<rparr>))"
  using assms
  by (simp add: fire_def cstore_CreateJob_def cstore_UpdateScheduleLastRun_def exec_ctx_def exec_at
      insert_job_stmt_def run_exists_def Let_def UpdateScheduleLastRun_stmt_def)
     (simp add: at_pos_def)

end
