(* ===== verification/Inventory.thy ===== *)
theory Inventory
  imports ControllerStore GoStrings
begin

section \<open>The inventory synchroniser (controller/inventory/gitfile.go)\<close>

text \<open>
  \<open>GitSync\<close> clones or updates the repository of every project, parses the INI inventory in it, and
  replaces the project's hosts in the database. The file system and the \<open>git\<close> program are outside
  the repository: the record \<open>git_ext\<close>, over a type \<open>'fs\<close> of file-system states. \<open>git_exec\<close> runs
  \<open>git\<close> in a directory (\<open>None\<close>: the process's own) with an environment and arguments, and yields the error
  text and the output when it fails; \<open>os_Environ\<close> is the environment of the process;
  \<open>git_MkdirAll\<close> is \<open>os.MkdirAll\<close>; \<open>os_Open\<close> yields the content of a file, and the error that ended reading
  early, if one did; \<open>map_order\<close> is the iteration order that the runtime chooses for the map of hosts.
\<close>

record 'fs git_ext =
  os_NotExist :: "'fs \<Rightarrow> string \<Rightarrow> bool"
  os_Environ :: "string list"
  git_MkdirAll :: "string \<Rightarrow> 'fs \<Rightarrow> goerr option \<times> 'fs"
  git_exec :: "string option \<Rightarrow> string list \<Rightarrow> string list \<Rightarrow> 'fs \<Rightarrow> (string \<times> string) option \<times> 'fs"
  os_Open :: "'fs \<Rightarrow> string \<Rightarrow> (string \<times> goerr option) res"
  map_order :: "InventoryHost list \<Rightarrow> InventoryHost list"

subsection \<open>The INI parser\<close>

text \<open>
  \<open>bufio.Scanner\<close> with \<open>ScanLines\<close>: lines without their line end, no final empty line. A line of
  65536 bytes or more does not fit the scanner's buffer (\<open>MaxScanTokenSize\<close>) and ends the scan with an
  error.
\<close>

definition dropCR :: "string \<Rightarrow> string" where
  "dropCR l = (if l \<noteq> [] \<and> last l = CHR 0x0D then butlast l else l)"

definition raw_lines :: "string \<Rightarrow> string list" where
  "raw_lines s = (let ps = SplitByte s (CHR 0x0A) in if last ps = [] then butlast ps else ps)"

definition MaxScanTokenSize :: nat where
  "MaxScanTokenSize = 65536"

definition scan_err :: "string \<Rightarrow> goerr option \<Rightarrow> goerr option" where
  "scan_err s rd = (if list_ex (\<lambda>l. MaxScanTokenSize \<le> length l) (raw_lines s)
     then Some (ErrMsg ''bufio.Scanner: token too long'') else rd)"

text \<open>The parser's variables: the map of hosts, the current group, whether the section is skipped.\<close>

record ini =
  hostMap :: "InventoryHost gomap"
  currentGroup :: string
  skipSection :: bool

definition ini_start :: ini where
  "ini_start = \<lparr>hostMap = [], currentGroup = '''', skipSection = False\<rparr>"

definition new_host :: "uuid \<Rightarrow> string \<Rightarrow> InventoryHost" where
  "new_host projectID hostname = \<lparr>Host_ID = uuid_Nil, Host_ProjectID = projectID, Host_Hostname = hostname,
     Host_Groups = None, Host_Vars = [], Host_CreatedAt = time_Zero, Host_UpdatedAt = time_Zero\<rparr>"

definition inline_var :: "vars \<Rightarrow> string \<Rightarrow> vars" where
  "inline_var vs kv =
     (case IndexByte kv (CHR 0x3D) of
        Some i \<Rightarrow> if 0 < i then AList.update (take i kv) (JStr (drop (Suc i) kv)) vs else vs
      | None \<Rightarrow> vs)"

definition add_group :: "string \<Rightarrow> string list option \<Rightarrow> string list option" where
  "add_group g gs =
     (if g \<noteq> '''' \<and> g \<noteq> ''all''
      then (let old = (case gs of None \<Rightarrow> [] | Some xs \<Rightarrow> xs)
            in if g \<in> set old then gs else Some (old @ [g]))
      else gs)"

definition host_entry :: "uuid \<Rightarrow> string list \<Rightarrow> ini \<Rightarrow> ini" where
  "host_entry projectID parts st =
     (case parts of
        [] \<Rightarrow> st
      | hostname # kvs \<Rightarrow>
          (let h = (case map_of (hostMap st) hostname of None \<Rightarrow> new_host projectID hostname | Some h \<Rightarrow> h);
               h' = h\<lparr>Host_Vars := foldl inline_var (Host_Vars h) kvs,
                      Host_Groups := add_group (currentGroup st) (Host_Groups h)\<rparr>
           in st\<lparr>hostMap := AList.update hostname h' (hostMap st)\<rparr>))"

definition section_name :: "string \<Rightarrow> string" where
  "section_name line = take (length line - 2) (drop 1 line)"

definition ini_line :: "uuid \<Rightarrow> ini \<Rightarrow> string \<Rightarrow> ini" where
  "ini_line projectID st text =
     (let line = TrimSpace text
      in if line = '''' \<or> HasPrefix line ''#'' \<or> HasPrefix line '';'' then st
         else if HasPrefix line ''['' \<and> HasSuffix line '']'' then
           (if CHR 0x3A \<in> set (section_name line)
            then st\<lparr>currentGroup := '''', skipSection := True\<rparr>
            else st\<lparr>currentGroup := section_name line, skipSection := False\<rparr>)
         else if skipSection st then st
         else host_entry projectID (Fields line) st)"

definition parseINIInventory :: "'fs git_ext \<Rightarrow> 'fs \<Rightarrow> uuid \<Rightarrow> string \<Rightarrow> InventoryHost list res" where
  "parseINIInventory G fs projectID path =
     (case os_Open G fs path of
        Inl e \<Rightarrow> Inl (Wrapped (''open '' @ path) e)
      | Inr (content, rd) \<Rightarrow>
          (case scan_err content rd of
             Some e \<Rightarrow> Inl (Wrapped ''scan inventory'' e)
           | None \<Rightarrow> Inr (map_order G (map snd (hostMap
               (foldl (ini_line projectID) ini_start (map dropCR (raw_lines content))))))))"

subsection \<open>Running git\<close>

definition gitEnv :: "'fs git_ext \<Rightarrow> string \<Rightarrow> string list" where
  "gitEnv G sshCmd =
     (let env = os_Environ G in if sshCmd \<noteq> '''' then env @ [''GIT_SSH_COMMAND='' @ sshCmd] else env)"

definition git_outcome :: "string list \<Rightarrow> (string \<times> string) option \<Rightarrow> unit res" where
  "git_outcome args r =
     (case r of
        None \<Rightarrow> Inr ()
      | Some (err, out) \<Rightarrow> Inl (ErrMsg (''git '' @ hd args @ '': '' @ err @ [CHR 0x0A] @ TrimSpace out)))"

definition runGit :: "'fs git_ext \<Rightarrow> string \<Rightarrow> string list \<Rightarrow> 'fs \<Rightarrow> unit res \<times> 'fs" where
  "runGit G gitSSH args fs =
     (case git_exec G None (gitEnv G gitSSH) args fs of (r, fs') \<Rightarrow> (git_outcome args r, fs'))"

definition runGitIn :: "'fs git_ext \<Rightarrow> string \<Rightarrow> string \<Rightarrow> string list \<Rightarrow> 'fs \<Rightarrow> unit res \<times> 'fs" where
  "runGitIn G dir gitSSH args fs =
     (case git_exec G (Some dir) (gitEnv G gitSSH) args fs of (r, fs') \<Rightarrow> (git_outcome args r, fs'))"

definition cloneRepo :: "'fs git_ext \<Rightarrow> string \<Rightarrow> string \<Rightarrow> string \<Rightarrow> string \<Rightarrow> 'fs \<Rightarrow> unit res \<times> 'fs" where
  "cloneRepo G url branch dest gitSSH =
     runGit G gitSSH ([''clone'', ''--depth'', ''1''] @ (if branch \<noteq> '''' then [''--branch'', branch] else [])
                    @ [url, dest])"

definition fetchReset :: "'fs git_ext \<Rightarrow> string \<Rightarrow> string \<Rightarrow> string \<Rightarrow> 'fs \<Rightarrow> unit res \<times> 'fs" where
  "fetchReset G repoDir branch gitSSH fs =
     (case runGitIn G repoDir gitSSH [''fetch'', ''--depth'', ''1'', ''origin'', branch] fs of
        (Inl e, fs1) \<Rightarrow> (Inl e, fs1)
      | (Inr _, fs1) \<Rightarrow> runGitIn G repoDir gitSSH [''reset'', ''--hard'', ''origin/'' @ branch] fs1)"

subsection \<open>Synchronising one project, and all\<close>

text \<open>
  Every case of the switch on the kind of the project's credential leaves \<open>gitSSH\<close> and the URL as they
  are: git always runs with the empty \<open>gitSSH\<close>.
\<close>

definition sync_failed :: "uuid \<Rightarrow> string \<Rightarrow> goerr \<Rightarrow> 'fs \<times> world \<Rightarrow> unit res \<times> 'fs \<times> world" where
  "sync_failed i ctx e s =
     (Inl (Wrapped ctx e),
      fst s, snd (cstore_UpdateProjectSyncStatus i InventorySyncStatusFailed (error_text e) (snd s)))"

definition sync_repo :: "'fs git_ext \<Rightarrow> string \<Rightarrow> Project \<Rightarrow> 'fs \<times> world \<Rightarrow> unit res \<times> 'fs \<times> world" where
  "sync_repo G repoDir p s =
     (case s of (fs, w) \<Rightarrow>
      (if os_NotExist G fs repoDir
       then (case cloneRepo G (Project_RepoURL p) (Project_Branch p) repoDir '''' fs of
               (Inl e, fs1) \<Rightarrow> sync_failed (Project_ID p) ''clone'' e (fs1, w)
             | (Inr _, fs1) \<Rightarrow> (Inr (), fs1, w))
       else (case fetchReset G repoDir (Project_Branch p) '''' fs of
               (Inl e, fs1) \<Rightarrow> sync_failed (Project_ID p) ''fetch/reset'' e (fs1, w)
             | (Inr _, fs1) \<Rightarrow> (Inr (), fs1, w))))"

definition sync_hosts :: "'fs git_ext \<Rightarrow> string \<Rightarrow> Project \<Rightarrow> 'fs \<times> world \<Rightarrow> unit res \<times> 'fs \<times> world" where
  "sync_hosts G repoDir p s =
     (case s of (fs, w) \<Rightarrow>
      (case parseINIInventory G fs (Project_ID p) (filepath_Join repoDir (Project_InventoryPath p)) of
         Inl e \<Rightarrow> sync_failed (Project_ID p) ''parse inventory'' e (fs, w)
       | Inr hosts \<Rightarrow>
          (case cstore_UpsertInventoryHosts (Project_ID p) hosts w of
             (Inl e, w1) \<Rightarrow> sync_failed (Project_ID p) ''upsert hosts'' e (fs, w1)
           | (Inr _, w1) \<Rightarrow>
               (Inr (), fs, snd (cstore_UpdateProjectSyncStatus (Project_ID p) InventorySyncStatusOK '''' w1)))))"

definition syncProject :: "'fs git_ext \<Rightarrow> string \<Rightarrow> Project \<Rightarrow> 'fs \<times> world \<Rightarrow> unit res \<times> 'fs \<times> world" where
  "syncProject G workspaceDir p s =
     (let repoDir = filepath_Join workspaceDir (uuid_String (Project_ID p));
          body = (\<lambda>s. case sync_repo G repoDir p s of
                    (Inl e, s1) \<Rightarrow> (Inl e, s1)
                  | (Inr _, s1) \<Rightarrow> sync_hosts G repoDir p s1)
      in case Project_CredentialID p of
           None \<Rightarrow> body s
         | Some c \<Rightarrow>
             (case cstore_GetCredentialWithSecret c (snd s) of
                (Inl e, w1) \<Rightarrow> (Inl (Wrapped ''get credential'' e), fst s, w1)
              | (Inr _, w1) \<Rightarrow> body (fst s, w1)))"

fun sync_projects :: "'fs git_ext \<Rightarrow> string \<Rightarrow> Project list \<Rightarrow> 'fs \<times> world \<Rightarrow> 'fs \<times> world" where
  "sync_projects G dir [] s = s"
| "sync_projects G dir (p # ps) s =
     sync_projects G dir ps (if Project_RepoURL p = '''' then s else snd (syncProject G dir p s))"

definition syncAll :: "'fs git_ext \<Rightarrow> string \<Rightarrow> 'fs \<times> world \<Rightarrow> 'fs \<times> world" where
  "syncAll G workspaceDir s =
     (case cstore_GetAllProjects (snd s) of
        (Inl e, w1) \<Rightarrow> (fst s, w1)
      | (Inr projects, w1) \<Rightarrow> sync_projects G workspaceDir projects (fst s, w1))"

end
