(* ===== verification/InventoryProps.thy ===== *)
theory InventoryProps
  imports Inventory Scenario
begin

section \<open>Properties of the inventory synchroniser\<close>

subsection \<open>What an inventory file means\<close>

text \<open>
  A specification of the parser that has no map of hosts: the list of host entries of a file, each
  with the group it stands in, and for one host name the entries that name it.
\<close>

definition is_comment :: "string \<Rightarrow> bool" where
  "is_comment line \<longleftrightarrow> line = '''' \<or> HasPrefix line ''#'' \<or> HasPrefix line '';''"

definition is_header :: "string \<Rightarrow> bool" where
  "is_header line \<longleftrightarrow> HasPrefix line ''['' \<and> HasSuffix line '']''"

fun ini_entries :: "string \<Rightarrow> bool \<Rightarrow> string list \<Rightarrow> (string \<times> string list) list" where
  "ini_entries g skip [] = []"
| "ini_entries g skip (t # ts) =
     (let line = TrimSpace t
      in if is_comment line then ini_entries g skip ts
         else if is_header line
           then (if CHR 0x3A \<in> set (section_name line) then ini_entries '''' True ts
                 else ini_entries (section_name line) False ts)
         else if skip \<or> Fields line = [] then ini_entries g skip ts
         else (g, Fields line) # ini_entries g skip ts)"

definition entries_of :: "string \<Rightarrow> (string \<times> string list) list \<Rightarrow> (string \<times> string list) list" where
  "entries_of n es = filter (\<lambda>e. hd (snd e) = n) es"

text \<open>The groups of a host in the order of first appearance, and its assignments in file order.\<close>

definition host_groups :: "string \<Rightarrow> (string \<times> string list) list \<Rightarrow> string list" where
  "host_groups n es = rev (remdups (rev (filter (\<lambda>g. g \<noteq> '''' \<and> g \<noteq> ''all'') (map fst (entries_of n es)))))"

definition assignment :: "string \<Rightarrow> (string \<times> string) option" where
  "assignment kv = (case IndexByte kv (CHR 0x3D) of
     Some i \<Rightarrow> if 0 < i then Some (take i kv, drop (Suc i) kv) else None | None \<Rightarrow> None)"

definition host_assignments :: "string \<Rightarrow> (string \<times> string list) list \<Rightarrow> (string \<times> string) list" where
  "host_assignments n es = List.map_filter assignment (concat (map (\<lambda>e. tl (snd e)) (entries_of n es)))"

subsection \<open>The parser meets the specification\<close>

definition put_entry :: "uuid \<Rightarrow> InventoryHost gomap \<Rightarrow> string \<times> string list \<Rightarrow> InventoryHost gomap" where
  "put_entry pid m e = hostMap (host_entry pid (snd e) \<lparr>hostMap = m, currentGroup = fst e, skipSection = False\<rparr>)"

lemma host_entry_simps [simp]:
  "currentGroup (host_entry pid p st) = currentGroup st"
  "skipSection (host_entry pid p st) = skipSection st"
  "host_entry pid [] st = st"
  "hostMap (host_entry pid p st) = put_entry pid (hostMap st) (currentGroup st, p)"
  by (cases p; simp add: host_entry_def put_entry_def Let_def)+

lemma foldl_ini_line:
  "hostMap (foldl (ini_line pid) st ts) =
     foldl (put_entry pid) (hostMap st) (ini_entries (currentGroup st) (skipSection st) ts)"
proof (induction ts arbitrary: st)
  case (Cons t ts)
  have "hostMap (foldl (ini_line pid) st (t # ts)) =
      foldl (put_entry pid) (hostMap (ini_line pid st t))
        (ini_entries (currentGroup (ini_line pid st t)) (skipSection (ini_line pid st t)) ts)"
    by (simp add: Cons.IH)
  also have "\<dots> = foldl (put_entry pid) (hostMap st) (ini_entries (currentGroup st) (skipSection st) (t # ts))"
    by (simp add: ini_line_def Let_def is_comment_def is_header_def del: host_entry_simps(4))
       (simp add: host_entry_simps(4))
  finally show ?case .
qed simp

lemma foldl_inline_var:
  "foldl inline_var vs kvs =
     foldl (\<lambda>m (k, v). AList.update k v m) vs (map (\<lambda>(k, v). (k, JStr v)) (List.map_filter assignment kvs))"
  by (induction kvs arbitrary: vs)
     (auto simp: inline_var_def assignment_def List.map_filter_simps split: option.splits)

lemma foldl_add_group:
  "foldl (\<lambda>gs g. add_group g gs) None gs =
     (let xs = rev (remdups (rev (filter (\<lambda>g. g \<noteq> '''' \<and> g \<noteq> ''all'') gs))) in if xs = [] then None else Some xs)"
proof (induction gs rule: rev_induct)
  case (snoc g gs)
  show ?case
    unfolding foldl_append foldl.simps snoc.IH
    by (auto simp: add_group_def Let_def filter_empty_conv)
qed simp

definition host_of :: "uuid \<Rightarrow> string \<Rightarrow> (string \<times> string list) list \<Rightarrow> InventoryHost" where
  "host_of pid n es = (new_host pid n)\<lparr>
     Host_Vars := foldl inline_var [] (concat (map (\<lambda>e. tl (snd e)) (entries_of n es))),
     Host_Groups := foldl (\<lambda>gs g. add_group g gs) None (map fst (entries_of n es))\<rparr>"

lemma entries_of_simps [simp]:
  "entries_of n [] = []"
  "entries_of n (es @ [e]) = entries_of n es @ (if hd (snd e) = n then [e] else [])"
  by (simp_all add: entries_of_def)

lemma put_entry_simp:
  "snd e = n # kvs \<Longrightarrow> put_entry pid m e = AList.update n
     (let h = (case map_of m n of None \<Rightarrow> new_host pid n | Some h \<Rightarrow> h)
      in h\<lparr>Host_Vars := foldl inline_var (Host_Vars h) kvs, Host_Groups := add_group (fst e) (Host_Groups h)\<rparr>) m"
  by (simp add: put_entry_def host_entry_def Let_def)

lemma put_entries:
  assumes "\<forall>e\<in>set es. snd e \<noteq> []"
  shows "distinct (map fst (foldl (put_entry pid) [] es)) \<and>
    (\<forall>n. map_of (foldl (put_entry pid) [] es) n =
      (if n \<in> (hd \<circ> snd) ` set es then Some (host_of pid n es) else None))"
  using assms
proof (induction es rule: rev_induct)
  case (snoc e es)
  obtain n kvs where e: "snd e = n # kvs" using snoc.prems by (cases "snd e") auto
  let ?m = "foldl (put_entry pid) [] es"
  have IH: "distinct (map fst ?m)"
    "map_of ?m k = (if k \<in> (hd \<circ> snd) ` set es then Some (host_of pid k es) else None)" for k
    using snoc by auto
  have "(let h = (case map_of ?m n of None \<Rightarrow> new_host pid n | Some h \<Rightarrow> h)
      in h\<lparr>Host_Vars := foldl inline_var (Host_Vars h) kvs, Host_Groups := add_group (fst e) (Host_Groups h)\<rparr>)
      = host_of pid n (es @ [e])"
  proof (cases "n \<in> (hd \<circ> snd) ` set es")
    case True
    then show ?thesis using e by (simp add: IH(2) Let_def host_of_def)
  next
    case False
    then have "entries_of n es = []" by (auto simp: entries_of_def filter_empty_conv)
    then show ?thesis using e False by (simp add: IH(2) Let_def host_of_def new_host_def)
  qed
  moreover have "host_of pid k (es @ [e]) = host_of pid k es" if "k \<noteq> n" for k
    using that e by (simp add: host_of_def)
  ultimately show ?case
    using IH e by (auto simp: put_entry_simp [OF e] distinct_update update_conv')
qed simp

lemma parse_meets_spec:
  assumes "os_Open G fs path = Inr (content, None)" and "\<forall>l\<in>set (raw_lines content). length l < MaxScanTokenSize"
    and "\<And>hs. mset (map_order G hs) = mset hs"
    and es: "es = ini_entries '''' False (map dropCR (raw_lines content))"
  shows "\<exists>hosts. parseINIInventory G fs pid path = Inr hosts \<and>
    distinct (map Host_Hostname hosts) \<and> Host_Hostname ` set hosts = (hd \<circ> snd) ` set es \<and>
    (\<forall>h\<in>set hosts. Host_ProjectID h = pid \<and>
       Host_Groups h = (if host_groups (Host_Hostname h) es = [] then None
                        else Some (host_groups (Host_Hostname h) es)) \<and>
       map_of (Host_Vars h) = map_of (rev (map (\<lambda>(k, v). (k, JStr v)) (host_assignments (Host_Hostname h) es))))"
proof -
  let ?m = "foldl (put_entry pid) [] es"
  let ?hosts = "map_order G (map snd ?m)"
  have "snd e \<noteq> []" if "e \<in> set (ini_entries g sk ts)" for e g sk ts
    using that by (induction ts arbitrary: g sk) (auto simp: Let_def split: if_splits)
  then have ne: "\<forall>e\<in>set es. snd e \<noteq> []" by (auto simp: es)
  note P = put_entries [OF ne, of pid]
  have "scan_err content None = None" using assms(2) by (auto simp: scan_err_def list_ex_iff)
  then have parse: "parseINIInventory G fs pid path = Inr ?hosts"
    by (simp add: parseINIInventory_def assms(1) es foldl_ini_line ini_start_def)
  have name: "Host_Hostname (host_of pid n es) = n" for n by (simp add: host_of_def new_host_def)
  have pairs: "h = host_of pid n es \<and> n \<in> (hd \<circ> snd) ` set es" if "(n, h) \<in> set ?m" for n h
    using P map_of_is_SomeI [OF _ that] by (auto split: if_splits)
  then have names: "map Host_Hostname (map snd ?m) = map fst ?m" using name by fastforce
  have keys: "fst ` set ?m = (hd \<circ> snd) ` set es"
  proof -
    have "fst ` set ?m = dom (map_of ?m)" by (simp add: dom_map_of_conv_image_fst)
    also have "\<dots> = (hd \<circ> snd) ` set es" using P by (auto simp: dom_def split: if_splits)
    finally show ?thesis .
  qed
  have set: "set ?hosts = snd ` set ?m" using assms(3) [of "map snd ?m"] by (metis mset_eq_setD set_map)
  have "mset (map Host_Hostname ?hosts) = mset (map fst ?m)"
    using assms(3) [of "map snd ?m"] names by (metis mset_map)
  then have dist: "distinct (map Host_Hostname ?hosts)" using P by (metis mset_eq_imp_distinct_iff)
  have hn: "Host_Hostname ` set ?hosts = (hd \<circ> snd) ` set es"
    using names keys by (metis (no_types) set list.set_map)
  have "Host_ProjectID h = pid \<and>
       Host_Groups h = (if host_groups (Host_Hostname h) es = [] then None
                        else Some (host_groups (Host_Hostname h) es)) \<and>
       map_of (Host_Vars h) = map_of (rev (map (\<lambda>(k, v). (k, JStr v)) (host_assignments (Host_Hostname h) es)))"
    if "h \<in> set ?hosts" for h
  proof -
    from that have "h \<in> snd ` set ?m" by (simp only: set)
    then obtain n where "h = host_of pid n es" using pairs by fastforce
    then show ?thesis
      by (simp add: name) (simp add: host_of_def new_host_def foldl_add_group host_groups_def Let_def
          foldl_inline_var map_of_foldl_update host_assignments_def)
  qed
  then show ?thesis using parse dist hn by blast
qed

text \<open>
  C25: The parser returns what the file says. When the file can be read and has no line that overflows
  the scanner, the result holds one host per host name that occurs in an entry outside the
  \<open>:vars\<close> and \<open>:children\<close> sections, whatever order the map of hosts is walked in; its groups are
  the sections it stands in, without \<open>all\<close> and duplicates, in the order of first appearance (and the
  slice is nil if there are none); each variable has the value assigned last.
\<close>

theorem parse_inventory_spec:
  assumes "os_Open G fs path = Inr (content, None)" and "\<forall>l\<in>set (raw_lines content). length l < MaxScanTokenSize"
    and "\<And>hs. mset (map_order G hs) = mset hs"
    and es: "es = ini_entries '''' False (map dropCR (raw_lines content))"
  shows "\<exists>hosts. parseINIInventory G fs pid path = Inr hosts \<and>
    distinct (map Host_Hostname hosts) \<and> Host_Hostname ` set hosts = (hd \<circ> snd) ` set es \<and>
    (\<forall>h\<in>set hosts. Host_ProjectID h = pid \<and>
       Host_Groups h = (if host_groups (Host_Hostname h) es = [] then None
                        else Some (host_groups (Host_Hostname h) es)) \<and>
       map_of (Host_Vars h) = map_of (rev (map (\<lambda>(k, v). (k, JStr v)) (host_assignments (Host_Hostname h) es))))"
  using parse_meets_spec [OF assms] .

text \<open>A file system with one inventory file in it, on which every \<open>git\<close> command succeeds.\<close>

definition demo_ini :: string where
  "demo_ini = ''[all]'' @ [CHR 0x0A] @ ''web01 ansible_port=22'' @ [CHR 0x0A] @ ''[web]'' @ [CHR 0x0A] @
     ''web01 ansible_port=2222 x'' @ [CHR 0x0A] @ ''db01 # spare'' @ [CHR 0x0A] @
     ''[web:vars]'' @ [CHR 0x0A] @ ''ansible_user=ubuntu'' @ [CHR 0x0A]"

definition demo_git :: "string git_ext" where
  "demo_git = \<lparr>os_NotExist = (\<lambda>fs p. fs = ''''),
     os_Environ = [], git_MkdirAll = (\<lambda>d fs. (None, fs)), git_exec = (\<lambda>dir e args fs. (None, fs)),
     os_Open = (\<lambda>fs p. if p = ''/w/p1/hosts'' then Inr (fs, None) else Inl (ErrMsg ''no such file'')),
     map_order = rev\<rparr>"

lemma demo_git_order: "mset (map_order demo_git hs) = mset hs"
  by (simp add: demo_git_def)

theorem parse_inventory_spec_witness:
  "\<exists>hosts. parseINIInventory demo_git demo_ini (UUID ''p1'') ''/w/p1/hosts'' = Inr hosts \<and>
     Host_Hostname ` set hosts = {''web01'', ''db01''} \<and>
     (\<forall>h\<in>set hosts. Host_Groups h = Some [''web'']) \<and>
     (\<forall>h\<in>set hosts. Host_Hostname h = ''web01'' \<longrightarrow> map_of (Host_Vars h) ''ansible_port'' = Some (JStr ''2222''))"
proof -
  let ?es' = "[(''all'', [''web01'', ''ansible_port=22'']), (''web'', [''web01'', ''ansible_port=2222'', ''x'']),
     (''web'', [''db01'', ''#'', ''spare''])]"
  have es: "?es' = ini_entries '''' False (map dropCR (raw_lines demo_ini))" by code_simp
  have "raw_lines demo_ini = [''[all]'', ''web01 ansible_port=22'', ''[web]'', ''web01 ansible_port=2222 x'',
      ''db01 # spare'', ''[web:vars]'', ''ansible_user=ubuntu'']" by code_simp
  then have len: "\<forall>l\<in>set (raw_lines demo_ini). length l < MaxScanTokenSize"
    by (simp add: MaxScanTokenSize_def)
  have op: "os_Open demo_git demo_ini ''/w/p1/hosts'' = Inr (demo_ini, None)" by (simp add: demo_git_def)
  have g: "host_groups ''web01'' ?es' = [''web'']" "host_groups ''db01'' ?es' = [''web'']" by code_simp+
  have v: "map_of (rev (map (\<lambda>(k, v). (k, JStr v)) (host_assignments ''web01'' ?es'))) ''ansible_port'' =
      Some (JStr ''2222'')" by code_simp
  have n: "(hd \<circ> snd) ` set ?es' = {''web01'', ''db01''}" by auto
  obtain hosts where H: "parseINIInventory demo_git demo_ini (UUID ''p1'') ''/w/p1/hosts'' = Inr hosts"
    "Host_Hostname ` set hosts = (hd \<circ> snd) ` set ?es'"
    "\<forall>h\<in>set hosts. Host_Groups h = (if host_groups (Host_Hostname h) ?es' = [] then None
        else Some (host_groups (Host_Hostname h) ?es')) \<and>
      map_of (Host_Vars h) = map_of (rev (map (\<lambda>(k, v). (k, JStr v)) (host_assignments (Host_Hostname h) ?es')))"
    using parse_inventory_spec [OF op len demo_git_order es, of "UUID ''p1''"] by blast
  have "Host_Groups h = Some [''web'']" if "h \<in> set hosts" for h
  proof -
    have "Host_Hostname h \<in> {''web01'', ''db01''}" using that H(2) unfolding n by blast
    then show ?thesis using that H(3) g by (metis insert_iff empty_iff list.distinct(1))
  qed
  moreover have "map_of (Host_Vars h) ''ansible_port'' = Some (JStr ''2222'')"
    if "h \<in> set hosts" "Host_Hostname h = ''web01''" for h
    using that H(3) v by metis
  ultimately show ?thesis using H(1,2) unfolding n by blast
qed

subsection \<open>What a sync does to the database\<close>

text \<open>What a stored row keeps of a host: everything but the generated columns.\<close>

definition stored :: "InventoryHost \<Rightarrow> uuid \<times> string \<times> string list option \<times> vars" where
  "stored h = (Host_ProjectID h, Host_Hostname h, Host_Groups h, Host_Vars h)"

definition to_store :: "uuid \<Rightarrow> InventoryHost \<Rightarrow> uuid \<times> string \<times> string list option \<times> vars" where
  "to_store pid h = (pid, Host_Hostname h, Some (case Host_Groups h of None \<Rightarrow> [] | Some gs \<Rightarrow> gs), Host_Vars h)"

definition sync_outcome :: "db \<Rightarrow> uuid \<Rightarrow> (InventorySyncStatus \<times> string option) option" where
  "sync_outcome d pid =
     map_option (\<lambda>p. (Project_SyncStatus p, Project_SyncError p)) (lookup_row Project_ID (db_projects d) pid)"

lemma insert_hosts_ok:
  "insert_hosts c n pid hs d = Inr d' \<Longrightarrow>
   \<exists>rows. d' = d\<lparr>db_inventory_hosts := db_inventory_hosts d @ rows\<rparr> \<and> map stored rows = map (to_store pid) hs"
proof (induction hs arbitrary: n d)
  case (Cons h hs)
  obtain r where r: "insert_hosts c (Suc n) pid hs (d\<lparr>db_inventory_hosts := db_inventory_hosts d @ [r]\<rparr>) = Inr d'"
    "stored r = to_store pid h"
    using Cons.prems by (auto simp: Let_def stored_def to_store_def split: if_splits)
  obtain rows where "d' = d\<lparr>db_inventory_hosts := (db_inventory_hosts d @ [r]) @ rows\<rparr>"
    "map stored rows = map (to_store pid) hs"
    using Cons.IH [OF r(1)] by auto
  then show ?case using r(2) by (intro exI [of _ "r # rows"]) simp
qed (auto intro: exI [of _ "[]"])

lemma insert_hosts_nil_groups:
  "call_nil_null c \<Longrightarrow> h \<in> set hs \<Longrightarrow> Host_Groups h = None \<Longrightarrow> \<exists>e. insert_hosts c n pid hs d = Inl e"
  by (induction hs arbitrary: n d) (auto simp: Let_def)

lemma status_update:
  assumes "undisturbed w"
  shows "cstore_UpdateProjectSyncStatus pid st msg w = (Inr (), w') \<Longrightarrow>
      db_inventory_hosts (w_db w') = db_inventory_hosts (w_db w) \<and>
      sync_outcome (w_db w') pid = map_option (\<lambda>_. (st, if msg = '''' then None else Some msg)) (sync_outcome (w_db w) pid)"
    and "\<exists>w'. cstore_UpdateProjectSyncStatus pid st msg w = (Inr (), w')"
proof -
  let ?err = "if msg = '''' then None else Some msg"
  have e: "cstore_UpdateProjectSyncStatus pid st msg w =
      (Inr (), at_pos w (snd (UpdateProjectSyncStatus_stmt pid st ?err (w_env w (w_pos w)) (w_db w))))"
    by (simp add: cstore_UpdateProjectSyncStatus_def exec_at [OF assms] UpdateProjectSyncStatus_stmt_def)
  then show "\<exists>w'. cstore_UpdateProjectSyncStatus pid st msg w = (Inr (), w')" by blast
  have "sync_outcome (snd (UpdateProjectSyncStatus_stmt pid st er c d)) pid =
      map_option (\<lambda>_. (st, er)) (sync_outcome d pid)" for er c d
    by (cases "lookup_row Project_ID (db_projects d) pid")
       (simp_all add: UpdateProjectSyncStatus_stmt_def sync_outcome_def lookup_update_rows, auto dest: lookup_row_SomeD)
  moreover have "db_inventory_hosts (snd (UpdateProjectSyncStatus_stmt pid st er c d)) = db_inventory_hosts d" for er c d
    by (simp add: UpdateProjectSyncStatus_stmt_def)
  ultimately show "cstore_UpdateProjectSyncStatus pid st msg w = (Inr (), w') \<Longrightarrow>
      db_inventory_hosts (w_db w') = db_inventory_hosts (w_db w) \<and>
      sync_outcome (w_db w') pid = map_option (\<lambda>_. (st, ?err)) (sync_outcome (w_db w) pid)"
    using e by auto
qed

definition hosts_of :: "db \<Rightarrow> uuid \<Rightarrow> InventoryHost list" where
  "hosts_of d pid = filter (\<lambda>h. Host_ProjectID h = pid) (db_inventory_hosts d)"

definition failed_sync :: "uuid \<Rightarrow> goerr \<Rightarrow> db \<Rightarrow> db \<Rightarrow> bool" where
  "failed_sync pid e d d' \<longleftrightarrow> db_inventory_hosts d' = db_inventory_hosts d \<and>
     sync_outcome d' pid = map_option (\<lambda>_. (InventorySyncStatusFailed,
       if error_text e = '''' then None else Some (error_text e))) (sync_outcome d pid)"

lemma sync_failed_effect:
  assumes "undisturbed w" and "sync_failed pid ctx e (fs, w) = (r, fs', w')"
  shows "r = Inl (Wrapped ctx e) \<and> fs' = fs \<and> failed_sync pid e (w_db w) (w_db w')"
  using assms(2) status_update(1) [OF assms(1), of pid InventorySyncStatusFailed "error_text e"]
    status_update(2) [OF assms(1), of pid InventorySyncStatusFailed "error_text e"]
  by (auto simp: sync_failed_def failed_sync_def)

definition good_sync :: "uuid \<Rightarrow> InventoryHost list \<Rightarrow> db \<Rightarrow> db \<Rightarrow> bool" where
  "good_sync pid hosts d d' \<longleftrightarrow> map stored (hosts_of d' pid) = map (to_store pid) hosts \<and>
     (\<forall>q. q \<noteq> pid \<longrightarrow> hosts_of d' q = hosts_of d q) \<and>
     sync_outcome d' pid = map_option (\<lambda>_. (InventorySyncStatusOK, None)) (sync_outcome d pid)"

lemma upsert_effect:
  assumes "UpsertInventoryHosts_stmt pid hosts c d = (x, d')"
  shows "case x of Inl e \<Rightarrow> d' = d
    | Inr _ \<Rightarrow> map stored (hosts_of d' pid) = map (to_store pid) hosts \<and>
        (\<forall>q. q \<noteq> pid \<longrightarrow> hosts_of d' q = hosts_of d q) \<and> sync_outcome d' pid = sync_outcome d pid"
proof (cases x)
  case (Inl e)
  then show ?thesis using assms by (auto simp: UpsertInventoryHosts_stmt_def Let_def split: sum.splits)
next
  case (Inr u)
  let ?d = "d\<lparr>db_inventory_hosts := filter (\<lambda>h. Host_ProjectID h \<noteq> pid) (db_inventory_hosts d)\<rparr>"
  have "insert_hosts c 0 pid hosts ?d = Inr d'"
    using assms Inr by (auto simp: UpsertInventoryHosts_stmt_def Let_def split: sum.splits)
  then obtain rows where R: "d' = ?d\<lparr>db_inventory_hosts := db_inventory_hosts ?d @ rows\<rparr>"
    "map stored rows = map (to_store pid) hosts" using insert_hosts_ok by blast
  have own: "Host_ProjectID r = pid" if "r \<in> set rows" for r
  proof -
    have "stored r \<in> set (map (to_store pid) hosts)" using that R(2) [symmetric] by simp
    then show ?thesis by (auto simp: stored_def to_store_def)
  qed
  have none: "filter (\<lambda>h. Host_ProjectID h = q) rows = (if q = pid then rows else [])" for q
    using own by (auto simp: filter_id_conv filter_empty_conv)
  have fl: "filter (\<lambda>h. Host_ProjectID h \<noteq> pid \<and> Host_ProjectID h = q) hs =
      (if q = pid then [] else filter (\<lambda>h. Host_ProjectID h = q) hs)" for q hs
    by (auto intro: filter_cong simp: filter_empty_conv)
  show ?thesis using R none Inr by (simp add: hosts_of_def sync_outcome_def fl)
qed

text \<open>An error of a later step than the credential, reported in the project's row.\<close>

definition reported :: "Project \<Rightarrow> goerr \<Rightarrow> db \<Rightarrow> db \<Rightarrow> bool" where
  "reported p e d d' \<longleftrightarrow>
     (\<exists>ctx e'. e = Wrapped ctx e' \<and> ctx \<noteq> ''get credential'' \<and> failed_sync (Project_ID p) e' d d')"

lemma sync_failed_reported:
  "undisturbed w \<Longrightarrow> sync_failed (Project_ID p) ctx e (fs, w) = (r, fs', w') \<Longrightarrow> ctx \<noteq> ''get credential'' \<Longrightarrow>
   \<exists>e'. r = Inl e' \<and> fs' = fs \<and> reported p e' (w_db w) (w_db w')"
  using sync_failed_effect [of w "Project_ID p" ctx e fs r fs' w'] by (auto simp: reported_def)

lemma sync_hosts_effect:
  assumes u: "undisturbed w" and s: "sync_hosts G dir p (fs, w) = (r, fs', w')"
  shows "fs' = fs \<and> (case r of
      Inr _ \<Rightarrow> (\<exists>hosts. parseINIInventory G fs (Project_ID p) (filepath_Join dir (Project_InventoryPath p)) = Inr hosts \<and>
        good_sync (Project_ID p) hosts (w_db w) (w_db w'))
    | Inl e \<Rightarrow> reported p e (w_db w) (w_db w'))"
proof (cases "parseINIInventory G fs (Project_ID p) (filepath_Join dir (Project_InventoryPath p))")
  case (Inl e)
  then show ?thesis using s sync_failed_reported [OF u, of p "''parse inventory''" e fs r fs' w'] by (auto simp: sync_hosts_def)
next
  case (Inr hosts)
  obtain x d1 where U: "UpsertInventoryHosts_stmt (Project_ID p) hosts (w_env w (w_pos w)) (w_db w) = (x, d1)" by fastforce
  have st: "cstore_UpsertInventoryHosts (Project_ID p) hosts w = (x, at_pos w d1)"
    by (simp add: cstore_UpsertInventoryHosts_def exec_at [OF u] U)
  note E = upsert_effect [OF U]
  have u1: "undisturbed (at_pos w d1)" using u by simp
  show ?thesis
  proof (cases x)
    case (Inl e)
    then show ?thesis
      using s Inr st E sync_failed_reported [OF u1, of p "''upsert hosts''" e fs r fs' w'] by (auto simp: sync_hosts_def)
  next
    case x: (Inr v)
    obtain w2 where w2: "cstore_UpdateProjectSyncStatus (Project_ID p) InventorySyncStatusOK '''' (at_pos w d1) = (Inr (), w2)"
      using status_update(2) [OF u1] by blast
    have "r = Inr () \<and> fs' = fs \<and> w' = w2" using s Inr st x w2 by (simp add: sync_hosts_def)
    then show ?thesis
      using E x Inr status_update(1) [OF u1 w2] by (simp add: good_sync_def hosts_of_def)
  qed
qed

lemma sync_repo_effect:
  assumes u: "undisturbed w" and s: "sync_repo G dir p (fs, w) = (r, fs', w')"
  shows "case r of Inr _ \<Rightarrow> w' = w | Inl e \<Rightarrow> reported p e (w_db w) (w_db w')"
proof -
  have f: "\<exists>e'. r = Inl e' \<and> reported p e' (w_db w) (w_db w')"
    if "sync_failed (Project_ID p) ctx e (fs1, w) = (r, fs', w')" "ctx \<in> {''clone'', ''fetch/reset''}" for ctx e fs1
    using sync_failed_reported [OF u that(1)] that(2) by auto
  obtain x fs1 where x: "(if os_NotExist G fs dir then cloneRepo G (Project_RepoURL p) (Project_Branch p) dir '''' fs
      else fetchReset G dir (Project_Branch p) '''' fs) = (x, fs1)" by fastforce
  show ?thesis
  proof (cases x)
    case (Inl e)
    then show ?thesis using s x f [of "''clone''" e fs1] f [of "''fetch/reset''" e fs1]
      by (cases "os_NotExist G fs dir") (auto simp: sync_repo_def)
  next
    case (Inr v)
    then show ?thesis using s x by (cases "os_NotExist G fs dir") (auto simp: sync_repo_def)
  qed
qed

text \<open>What follows the reading of the credential.\<close>

lemma sync_body_effect:
  assumes u: "undisturbed w"
    and b: "(case sync_repo G dir p (fs, w) of (Inl e, s1) \<Rightarrow> (Inl e, s1) | (Inr _, s1) \<Rightarrow> sync_hosts G dir p s1) =
      (r, fs', w')"
  shows "case r of
      Inr _ \<Rightarrow> (\<exists>hosts. parseINIInventory G fs' (Project_ID p) (filepath_Join dir (Project_InventoryPath p)) = Inr hosts \<and>
        good_sync (Project_ID p) hosts (w_db w) (w_db w'))
    | Inl e \<Rightarrow> reported p e (w_db w) (w_db w')"
proof -
  obtain x fs1 w2 where R: "sync_repo G dir p (fs, w) = (x, fs1, w2)" by (metis prod_cases3)
  note E = sync_repo_effect [OF u R]
  show ?thesis using b R E sync_hosts_effect [OF u, of G dir p fs1 r fs' w'] by (cases x) auto
qed

text \<open>
  C26: A sync of a project, when nobody interferes, either replaces its hosts or keeps them. If it
  succeeds, the project's rows are exactly the parsed hosts, the rows of other projects are as
  before, and the project is marked synced without error. If it fails, no host of any project is
  touched, and, unless reading the project's credential was what failed, the project is marked
  failed with the error's text.
\<close>

theorem sync_replaces_or_keeps:
  assumes u: "undisturbed w" and s: "syncProject G ws p (fs, w) = (r, fs', w')"
  shows "case r of
      Inr _ \<Rightarrow> (\<exists>hosts. parseINIInventory G fs' (Project_ID p)
          (filepath_Join (filepath_Join ws (uuid_String (Project_ID p))) (Project_InventoryPath p)) = Inr hosts \<and>
        good_sync (Project_ID p) hosts (w_db w) (w_db w'))
    | Inl e \<Rightarrow> (\<exists>ctx e'. e = Wrapped ctx e' \<and>
        (if ctx = ''get credential'' then w_db w' = w_db w \<and> Project_CredentialID p \<noteq> None
         else failed_sync (Project_ID p) e' (w_db w) (w_db w')))"
proof -
  let ?dir = "filepath_Join ws (uuid_String (Project_ID p))"
  note body = sync_body_effect [where dir = ?dir and p = p and G = G and fs = fs]
  show ?thesis
  proof (cases "Project_CredentialID p")
    case None
    then have "case r of
        Inr _ \<Rightarrow> (\<exists>hosts. parseINIInventory G fs' (Project_ID p) (filepath_Join ?dir (Project_InventoryPath p)) = Inr hosts \<and>
          good_sync (Project_ID p) hosts (w_db w) (w_db w'))
      | Inl e \<Rightarrow> reported p e (w_db w) (w_db w')"
      using body [OF u] s by (simp add: syncProject_def Let_def)
    then show ?thesis by (cases r) (auto simp: reported_def)
  next
    case (Some c)
    obtain x w1 where C: "cstore_GetCredentialWithSecret c w = (x, w1)" by fastforce
    then have w1: "undisturbed w1" "w_db w1 = w_db w"
      using u by (auto simp: cstore_GetCredentialWithSecret_def exec_ctx_def exec_at GetCredentialWithSecret_stmt_def)
    show ?thesis
    proof (cases x)
      case (Inl e)
      then show ?thesis using Some C s w1(2) by (auto simp: syncProject_def Let_def)
    next
      case (Inr cred)
      then have "case r of
          Inr _ \<Rightarrow> (\<exists>hosts. parseINIInventory G fs' (Project_ID p) (filepath_Join ?dir (Project_InventoryPath p)) = Inr hosts \<and>
            good_sync (Project_ID p) hosts (w_db w) (w_db w'))
        | Inl e \<Rightarrow> reported p e (w_db w) (w_db w')"
        using body [OF w1(1), unfolded w1(2)] s Some C by (simp add: syncProject_def Let_def)
      then show ?thesis by (cases r) (auto simp: reported_def)
    qed
  qed
qed

lemma demo_paths:
  "filepath_Join ''/w'' ''p1'' = ''/w/p1''" "filepath_Join ''/w/p1'' ''hosts'' = ''/w/p1/hosts''"
  by code_simp+

lemma demo_project_simps:
  "Project_ID demo_project = UUID ''p1''" "Project_CredentialID demo_project = None"
  "Project_InventoryPath demo_project = ''hosts''"
  by (simp_all add: demo_project_def)

lemma demo_repo:
  "fs \<noteq> '''' \<Longrightarrow> sync_repo demo_git ''/w/p1'' demo_project (fs, w) = (Inr (), fs, w)"
  by (simp add: sync_repo_def demo_git_def fetchReset_def runGitIn_def git_outcome_def)

theorem sync_replaces_or_keeps_witness:
  "\<exists>w' hosts. syncProject demo_git ''/w'' demo_project (demo_ini, quiet_world demo_db) = (Inr (), demo_ini, w') \<and>
     length hosts = 2 \<and> good_sync (UUID ''p1'') hosts demo_db (w_db w')"
proof -
  let ?w = "quiet_world demo_db"
  let ?hs = "rev (map snd (hostMap (foldl (ini_line (UUID ''p1'')) ini_start (map dropCR (raw_lines demo_ini)))))"
  have "raw_lines demo_ini = [''[all]'', ''web01 ansible_port=22'', ''[web]'', ''web01 ansible_port=2222 x'',
      ''db01 # spare'', ''[web:vars]'', ''ansible_user=ubuntu'']" by code_simp
  then have "scan_err demo_ini None = None" by (simp add: scan_err_def MaxScanTokenSize_def)
  then have p: "parseINIInventory demo_git demo_ini (UUID ''p1'') ''/w/p1/hosts'' = Inr ?hs"
    by (simp add: parseINIInventory_def demo_git_def)
  have "fst (cstore_UpsertInventoryHosts (UUID ''p1'') ?hs ?w) = Inr ()" by code_simp
  then obtain w1 where up: "cstore_UpsertInventoryHosts (UUID ''p1'') ?hs ?w = (Inr (), w1)" by (metis prod.collapse)
  have ne: "demo_ini \<noteq> ''''" by (simp add: demo_ini_def)
  obtain w' where s: "syncProject demo_git ''/w'' demo_project (demo_ini, ?w) = (Inr (), demo_ini, w')"
    using p up by (simp add: syncProject_def sync_hosts_def demo_project_simps demo_paths demo_repo [OF ne])
  have "good_sync (UUID ''p1'') ?hs demo_db (w_db w')"
    using sync_replaces_or_keeps [OF undisturbed_quiet_world s] p by (simp add: demo_project_simps demo_paths)
  moreover have "length ?hs = 2" by code_simp
  ultimately show ?thesis using s by blast
qed

text \<open>
  C27: An inventory with a host that stands in no group but \<open>all\<close> is never stored. The parser leaves
  the host's groups nil, the driver sends a nil slice as NULL, and the column \<open>groups\<close> refuses NULL:
  the whole sync fails, the project is marked failed and keeps the hosts it had.
\<close>

theorem ungrouped_host_blocks_sync:
  assumes u: "undisturbed w" and nn: "call_nil_null (w_env w (w_pos w))" and c: "Project_CredentialID p = None"
    and dir: "dir = filepath_Join ws (uuid_String (Project_ID p))"
    and r: "sync_repo G dir p (fs, w) = (Inr (), fs1, w)"
    and ps: "parseINIInventory G fs1 (Project_ID p) (filepath_Join dir (Project_InventoryPath p)) = Inr hosts"
    and h: "h \<in> set hosts" "Host_Groups h = None"
  shows "\<exists>e w'. syncProject G ws p (fs, w) = (Inl (Wrapped ''upsert hosts'' e), fs1, w') \<and>
    failed_sync (Project_ID p) e (w_db w) (w_db w')"
proof -
  let ?d = "(w_db w)\<lparr>db_inventory_hosts := filter (\<lambda>h. Host_ProjectID h \<noteq> Project_ID p) (db_inventory_hosts (w_db w))\<rparr>"
  obtain e where "insert_hosts (w_env w (w_pos w)) 0 (Project_ID p) hosts ?d = Inl e"
    using insert_hosts_nil_groups [OF nn h] by blast
  then have up: "cstore_UpsertInventoryHosts (Project_ID p) hosts w = (Inl e, at_pos w (w_db w))"
    by (simp add: cstore_UpsertInventoryHosts_def exec_at [OF u] UpsertInventoryHosts_stmt_def)
  obtain r' fs' w' where f: "sync_failed (Project_ID p) ''upsert hosts'' e (fs1, at_pos w (w_db w)) = (r', fs', w')"
    by (metis prod_cases3)
  have "undisturbed (at_pos w (w_db w))" using u by simp
  then have "r' = Inl (Wrapped ''upsert hosts'' e) \<and> fs' = fs1 \<and> failed_sync (Project_ID p) e (w_db w) (w_db w')"
    using sync_failed_effect [OF _ f] by simp
  moreover have "syncProject G ws p (fs, w) = sync_failed (Project_ID p) ''upsert hosts'' e (fs1, at_pos w (w_db w))"
    using c r ps up by (simp add: syncProject_def Let_def dir sync_hosts_def)
  ultimately show ?thesis using f by auto
qed

definition loose_ini :: string where
  "loose_ini = ''[all]'' @ [CHR 0x0A] @ ''web01'' @ [CHR 0x0A]"

theorem ungrouped_host_blocks_sync_witness:
  "\<exists>e w'. syncProject demo_git ''/w'' demo_project (loose_ini, quiet_world demo_db) =
     (Inl (Wrapped ''upsert hosts'' e), loose_ini, w') \<and>
   sync_outcome (w_db w') (UUID ''p1'') \<noteq> None \<and> failed_sync (UUID ''p1'') e demo_db (w_db w')"
proof -
  let ?w = "quiet_world demo_db"
  have r: "sync_repo demo_git ''/w/p1'' demo_project (loose_ini, ?w) = (Inr (), loose_ini, ?w)"
    by (rule demo_repo) (simp add: loose_ini_def)
  have p: "parseINIInventory demo_git loose_ini (UUID ''p1'') ''/w/p1/hosts'' = Inr [new_host (UUID ''p1'') ''web01'']"
  proof -
    have "raw_lines loose_ini = [''[all]'', ''web01'']" by code_simp
    then have "scan_err loose_ini None = None" by (simp add: scan_err_def MaxScanTokenSize_def)
    moreover have "rev (map snd (hostMap (foldl (ini_line (UUID ''p1'')) ini_start (map dropCR (raw_lines loose_ini))))) =
        [new_host (UUID ''p1'') ''web01'']" by code_simp
    ultimately show ?thesis by (simp add: parseINIInventory_def demo_git_def)
  qed
  have nn: "call_nil_null (w_env ?w (w_pos ?w))" by (simp add: quiet_world_def quiet_def)
  obtain e w' where S: "syncProject demo_git ''/w'' demo_project (loose_ini, ?w) = (Inl (Wrapped ''upsert hosts'' e), loose_ini, w')"
    "failed_sync (UUID ''p1'') e demo_db (w_db w')"
    using ungrouped_host_blocks_sync [OF undisturbed_quiet_world nn demo_project_simps(2) _ r, of "''/w''" "[new_host (UUID ''p1'') ''web01'']"
        "new_host (UUID ''p1'') ''web01''"] p
    by (auto simp: demo_paths demo_project_simps new_host_def)
  moreover have "sync_outcome demo_db (UUID ''p1'') \<noteq> None" by code_simp
  ultimately show ?thesis by (auto simp: failed_sync_def)
qed

subsection \<open>Which files a sync reads\<close>



text \<open>
  The credential of a project is read and not used: whatever its kind and its content, the sync is
  that of the project without one, and git sees the environment of the controller.
\<close>

lemma sync_ignores_credential:
  assumes "Project_CredentialID p = Some c" and "cstore_GetCredentialWithSecret c w = (Inr cred, w1)"
  shows "syncProject G ws p (fs, w) = syncProject G ws (p\<lparr>Project_CredentialID := None\<rparr>) (fs, w1)"
    and "gitEnv G '''' = os_Environ G"
proof -
  have "sync_repo G dir (p\<lparr>Project_CredentialID := None\<rparr>) = sync_repo G dir p" for dir
    by (rule ext) (simp add: sync_repo_def split: prod.split sum.split)
  moreover have "sync_hosts G dir (p\<lparr>Project_CredentialID := None\<rparr>) = sync_hosts G dir p" for dir
    by (rule ext) (simp add: sync_hosts_def split: prod.split sum.split)
  ultimately show "syncProject G ws p (fs, w) = syncProject G ws (p\<lparr>Project_CredentialID := None\<rparr>) (fs, w1)"
    using assms by (simp add: syncProject_def Let_def split: prod.split sum.split)
  show "gitEnv G '''' = os_Environ G" by (simp add: gitEnv_def)
qed

end
