(* ===== verification/Loops.thy ===== *)
theory Loops
  imports ReconcilerPass Scheduler Inventory
begin

section \<open>The loops of the controller (the three \<open>Run\<close> methods)\<close>

text \<open>
  The reconciler, the scheduler and the inventory synchroniser each run in a goroutine: a \<open>for\<close> loop around
  a \<open>select\<close> on a ticker and on the cancellation of the context. Which channel a \<open>select\<close> takes, and when, is
  up to the runtime: a run is given by the list of its choices, and one that does not end is a list without
  \<open>Cancelled\<close>, after which the loop is \<open>Waiting\<close>. \<open>time.NewTicker\<close> panics on an interval that is not
  positive; the state at that moment is kept (\<open>Crashed\<close>).
\<close>

datatype select_case = Ticked | Cancelled

datatype 's loop_end = Waiting (loop_state: 's) | Returned (loop_state: 's) | Crashed (loop_state: 's)

fun for_select :: "('s \<Rightarrow> 's) \<Rightarrow> select_case list \<Rightarrow> 's \<Rightarrow> 's loop_end" where
  "for_select body [] s = Waiting s"
| "for_select body (Cancelled # es) s = Returned s"
| "for_select body (Ticked # es) s = for_select body es (body s)"

definition NewTicker_ok :: "duration \<Rightarrow> bool" where
  "NewTicker_ok d \<longleftrightarrow> 0 < d"

definition ticker_loop :: "duration \<Rightarrow> ('s \<Rightarrow> 's) \<Rightarrow> select_case list \<Rightarrow> 's \<Rightarrow> 's loop_end" where
  "ticker_loop interval body es s = (if NewTicker_ok interval then for_select body es s else Crashed s)"

definition reconciler_Run :: "'s Reconciler \<Rightarrow> duration \<Rightarrow> select_case list \<Rightarrow> 's \<Rightarrow> 's loop_end" where
  "reconciler_Run r interval es s = ticker_loop interval (tick r) es s"

text \<open>The scheduler makes a new cron runner, which is stopped when \<open>Run\<close> returns.\<close>

definition scheduler_Run ::
  "'c cron_ext \<Rightarrow> duration \<Rightarrow> select_case list \<Rightarrow> 'c Scheduler \<Rightarrow> world \<Rightarrow> ('c Scheduler \<times> world) loop_end" where
  "scheduler_Run X syncInterval es S w =
     ticker_loop syncInterval (\<lambda>(S, w). sync X S w) es (sync X (S\<lparr>Sched_cron := cron_New X\<rparr>) w)"

text \<open>An error of creating the workspace directory is only logged.\<close>

definition gitsync_Run ::
  "'fs git_ext \<Rightarrow> string \<Rightarrow> duration \<Rightarrow> select_case list \<Rightarrow> 'fs \<times> world \<Rightarrow> ('fs \<times> world) loop_end" where
  "gitsync_Run G workspaceDir interval es s =
     (let (_, fs1) = git_MkdirAll G workspaceDir (fst s)
      in ticker_loop interval (syncAll G workspaceDir) es (syncAll G workspaceDir (fs1, snd s)))"

subsection \<open>What a run amounts to\<close>

definition rounds :: "select_case list \<Rightarrow> nat" where
  "rounds es = length (takeWhile (\<lambda>e. e = Ticked) es)"

lemma rounds_simps [simp]: "rounds [] = 0" "rounds (Cancelled # es) = 0" "rounds (Ticked # es) = Suc (rounds es)"
  by (simp_all add: rounds_def)

lemma funpow_swap: "(f ^^ n) (f s) = f ((f ^^ n) s)"
  by (induction n) simp_all

lemma for_select_rounds:
  "for_select body es s =
     (if Cancelled \<in> set es then Returned ((body ^^ rounds es) s) else Waiting ((body ^^ rounds es) s))"
proof (induction body es s rule: for_select.induct)
  case (3 body es s)
  then show ?case by (simp add: funpow_swap)
qed simp_all

lemma ticker_loop_rounds:
  "loop_state (ticker_loop interval body es s) = (if 0 < interval then (body ^^ rounds es) s else s)"
  by (simp add: ticker_loop_def NewTicker_ok_def for_select_rounds)

text \<open>Nothing that happens after the cancellation has an effect.\<close>

lemma ticker_loop_stops:
  "ticker_loop interval body (es @ Cancelled # later) s = ticker_loop interval body (es @ [Cancelled]) s"
proof -
  have "for_select body (es @ Cancelled # later) s = for_select body (es @ [Cancelled]) s"
    by (induction body es s rule: for_select.induct) simp_all
  then show ?thesis by (simp add: ticker_loop_def)
qed

lemma Run_syncs_funpow: "Run_syncs X n S w = ((\<lambda>(S, w). sync X S w) ^^ n) (S, w)"
proof (induction n arbitrary: S w)
  case (Suc n)
  obtain S1 w1 where 1: "sync X S w = (S1, w1)" by fastforce
  then show ?case using Suc [of S1 w1] funpow_swap [of n "\<lambda>(S, w). sync X S w" "(S, w)"] by simp
qed simp

lemma scheduler_Run_syncs:
  assumes "0 < interval"
  shows "loop_state (scheduler_Run X interval es S w) =
    Run_syncs X (Suc (rounds es)) (S\<lparr>Sched_cron := cron_New X\<rparr>) w"
proof -
  obtain S1 w1 where 1: "sync X (S\<lparr>Sched_cron := cron_New X\<rparr>) w = (S1, w1)" by fastforce
  then show ?thesis
    using assms Run_syncs_funpow [of X "rounds es" S1 w1]
    by (simp add: scheduler_Run_def ticker_loop_rounds)
qed

end
