(* ===== verification/System.thy ===== *)
theory System
  imports ApiSafety Loops
begin

section \<open>The platform: controllers and API servers on one database\<close>

text \<open>
  The abstract job machine. \<open>job_step\<close> is one statement of some process, seen from the table of
  jobs: a controller's compare-and-set of one of the shapes \<open>rec_move\<close>, the insertion of a pending
  job, the API server's unconditional change to a terminal status, the storing of facts, or anything
  that leaves the table alone. Every interleaving of the platform's processes is a sequence of such
  steps: the interpretations below show that a tick of a controller and the serving of a request,
  run in an environment that makes such sequences, make one too. What holds along every sequence is
  therefore a property of the whole platform.

  \<open>job_trace\<close> additionally records which jobs were claimed, by whichever controller.
\<close>

subsection \<open>The scheduler and the inventory synchroniser as processes\<close>

text \<open>A loop keeps what its body keeps, however long it runs.\<close>

context db_rely
begin

lemma wrel_funpow:
  assumes "\<And>s. world_rel R (world_of s) (world_of (body s))"
  shows "world_rel R (world_of s) (world_of ((body ^^ n) s))"
proof (induction n)
  case (Suc n)
  then show ?case using wrel_trans [OF Suc assms] by simp
qed (simp add: wrel_refl)

lemma wrel_loop:
  assumes "\<And>s. world_rel R (world_of s) (world_of (body s))"
  shows "world_rel R (world_of s) (world_of (loop_state (ticker_loop interval body es s)))"
  using wrel_funpow [of world_of body s "rounds es", OF assms] by (simp add: ticker_loop_rounds wrel_refl)

end

text \<open>
  The scheduler and the synchroniser add one statement that inserts jobs, which the API server has
  too, and three that write schedules, projects and hosts. A relation that the statements of all
  processes respect is respected by every process.
\<close>

locale platform_rely = lifecycle_rely R + api_stmts R for R +
  assumes last_run_ok: "stmt_respects R (UpdateScheduleLastRun_stmt i t)"
    and sync_status_ok: "stmt_respects R (UpdateProjectSyncStatus_stmt i st e)"
    and hosts_ok: "stmt_respects R (UpsertInventoryHosts_stmt i hs)"
begin

lemma wrel_fire: "world_rel R w (snd (fire X S f w))"
proof -
  obtain x w1 where 1: "cstore_CreateJob (Func_TemplateID f) (Func_ExtraVars f) w = (x, w1)" by fastforce
  have e1: "world_rel R w w1"
    using 1 wrel_exec [OF stmt_ok [OF api_effects.eff_insert_job]] by (auto simp: cstore_CreateJob_def)
  have e2: "world_rel R w1 (snd (cstore_UpdateScheduleLastRun i t w1))" for i t
    unfolding cstore_UpdateScheduleLastRun_def by (rule wrel_stmt [OF last_run_ok prod.collapse [symmetric]])
  show ?thesis using 1 e1 wrel_trans [OF e1 e2] by (simp add: fire_def split: sum.split)
qed

lemma wrel_sync: "world_rel R w (snd (sync X S w))"
proof -
  obtain x w1 where 1: "cstore_GetActiveSchedules w = (x, w1)" by fastforce
  then have "world_rel R w w1"
    by (auto simp: cstore_GetActiveSchedules_def GetActiveSchedules_stmt_def intro: wrel_query)
  then show ?thesis using 1 by (simp add: sync_def split: sum.split)
qed

lemma wrel_sync_status: "world_rel R w (snd (cstore_UpdateProjectSyncStatus i st m w))"
  unfolding cstore_UpdateProjectSyncStatus_def by (rule wrel_stmt [OF sync_status_ok prod.collapse [symmetric]])

lemma wrel_upsert: "cstore_UpsertInventoryHosts i hs w = (x, w') \<Longrightarrow> world_rel R w w'"
  unfolding cstore_UpsertInventoryHosts_def by (rule wrel_stmt [OF hosts_ok])

lemma wrel_sync_failed: "world_rel R (snd s) (snd (snd (sync_failed i ctx e s)))"
  by (simp add: sync_failed_def wrel_sync_status)

lemma wrel_sync_repo: "world_rel R (snd s) (snd (snd (sync_repo G dir p s)))"
  using wrel_sync_failed [of "(_, snd s)"]
  by (cases s) (auto simp: sync_repo_def wrel_refl split: sum.split prod.split)

lemma wrel_sync_hosts: "world_rel R (snd s) (snd (snd (sync_hosts G dir p s)))"
proof (cases s)
  case (Pair fs w)
  show ?thesis
  proof (cases "parseINIInventory G fs (Project_ID p) (filepath_Join dir (Project_InventoryPath p))")
    case (Inl e)
    then show ?thesis using wrel_sync_failed [of "(fs, w)"] by (simp add: sync_hosts_def Pair)
  next
    case (Inr hosts)
    obtain x w1 where 1: "cstore_UpsertInventoryHosts (Project_ID p) hosts w = (x, w1)" by fastforce
    note e1 = wrel_upsert [OF 1]
    show ?thesis
      using Inr 1 wrel_trans [OF e1 wrel_sync_status] wrel_trans [OF e1 wrel_sync_failed [of "(fs, w1)", simplified]]
      by (cases x) (simp_all add: sync_hosts_def Pair)
  qed
qed

lemma wrel_syncProject: "world_rel R (snd s) (snd (snd (syncProject G ws p s)))"
proof -
  let ?dir = "filepath_Join ws (uuid_String (Project_ID p))"
  have body: "world_rel R (snd s) (snd (snd (case sync_repo G ?dir p s of
      (Inl e, s1) \<Rightarrow> (Inl e, s1) | (Inr _, s1) \<Rightarrow> sync_hosts G ?dir p s1)))" for s
    using wrel_sync_repo [of s G ?dir p] wrel_trans [OF wrel_sync_repo [of s G ?dir p] wrel_sync_hosts]
    by (auto split: prod.split sum.split)
  have cred: "cstore_GetCredentialWithSecret c w = (x, w1) \<Longrightarrow> world_rel R w w1" for c w x w1
    by (auto simp: cstore_GetCredentialWithSecret_def GetCredentialWithSecret_stmt_def intro: wrel_query)
  show ?thesis
  proof (cases "Project_CredentialID p")
    case None
    then show ?thesis using body [of s] by (simp add: syncProject_def Let_def)
  next
    case (Some c)
    obtain x w1 where 1: "cstore_GetCredentialWithSecret c (snd s) = (x, w1)" by fastforce
    show ?thesis
      using Some 1 cred [OF 1] wrel_trans [OF cred [OF 1] body [of "(fst s, w1)", simplified]]
      by (cases x) (simp_all add: syncProject_def Let_def)
  qed
qed

lemma wrel_sync_projects: "world_rel R (snd s) (snd (sync_projects G ws ps s))"
proof (induction ps arbitrary: s)
  case (Cons p ps)
  then show ?case using wrel_trans [OF wrel_syncProject Cons.IH] by auto
qed (simp add: wrel_refl)

lemma wrel_syncAll: "world_rel R (snd s) (snd (syncAll G ws s))"
proof -
  obtain x w1 where 1: "cstore_GetAllProjects (snd s) = (x, w1)" by fastforce
  then have "world_rel R (snd s) w1"
    by (auto simp: cstore_GetAllProjects_def GetAllProjects_stmt_def intro: wrel_query)
  then show ?thesis
    using 1 wrel_trans [OF _ wrel_sync_projects [of "(fst s, w1)", simplified]]
    by (cases x) (simp_all add: syncAll_def)
qed

lemma wrel_scheduler_Run: "world_rel R w (snd (loop_state (scheduler_Run X interval es S w)))"
proof -
  let ?s = "sync X (S\<lparr>Sched_cron := cron_New X\<rparr>) w"
  have "world_rel R w (snd ?s)" by (rule wrel_sync)
  moreover have "world_rel R (snd ?s) (snd (loop_state (ticker_loop interval (\<lambda>(S, w). sync X S w) es ?s)))"
    by (rule wrel_loop) (auto simp: split_beta wrel_sync)
  ultimately show ?thesis unfolding scheduler_Run_def by (rule wrel_trans)
qed

lemma wrel_gitsync_Run: "world_rel R (snd s) (snd (loop_state (gitsync_Run G ws interval es s)))"
proof -
  let ?s = "syncAll G ws (snd (git_MkdirAll G ws (fst s)), snd s)"
  have "world_rel R (snd s) (snd ?s)" using wrel_syncAll [of "(snd (git_MkdirAll G ws (fst s)), snd s)"] by simp
  moreover have "world_rel R (snd ?s) (snd (loop_state (ticker_loop interval (syncAll G ws) es ?s)))"
    by (rule wrel_loop) (rule wrel_syncAll)
  ultimately show ?thesis unfolding gitsync_Run_def by (simp add: split_beta wrel_trans)
qed

lemma reconciler_rely:
  "env_respects R w \<Longrightarrow>
   R (w_db w) (w_db (loop_state (reconciler_Run (pg_reconciler cr key url_ok cfg) interval es w)))"
  using ticks_rely [of w "rounds es" cr key url_ok cfg] by (simp add: reconciler_Run_def ticker_loop_rounds rely_refl)

lemma scheduler_rely:
  "env_respects R w \<Longrightarrow> R (w_db w) (w_db (snd (loop_state (scheduler_Run X interval es S w))))"
  using wrel_scheduler_Run [of w X interval es S] by (simp add: world_rel_def)

lemma gitsync_rely:
  "env_respects R w \<Longrightarrow> R (w_db w) (w_db (snd (loop_state (gitsync_Run G ws interval es (fs, w)))))"
  using wrel_gitsync_Run [of "(fs, w)" G ws interval es] by (simp add: world_rel_def)

lemma fire_rely: "env_respects R w \<Longrightarrow> R (w_db w) (w_db (snd (fire X S f w)))"
  using wrel_fire [of w X S f] by (simp add: world_rel_def)

lemmas processes_rely = reconciler_rely scheduler_rely gitsync_rely fire_rely serve_rely

end

text \<open>For a relation that only looks at the jobs, the statements on other tables are no concern.\<close>

lemma insert_hosts_jobs: "insert_hosts c n i hs d = Inr d' \<Longrightarrow> db_jobs d' = db_jobs d"
  by (induction hs arbitrary: n d) (auto simp: Let_def split: if_splits)

locale jobs_platform = lifecycle_rely R + api_rely R for R

sublocale jobs_platform \<subseteq> platform_rely
proof unfold_locales
  show "stmt_respects R (UpdateScheduleLastRun_stmt i t)" for i t
    by (auto simp: stmt_respects_def UpdateScheduleLastRun_stmt_def intro: same_jobs)
  show "stmt_respects R (UpdateProjectSyncStatus_stmt i st e)" for i st e
    by (auto simp: stmt_respects_def UpdateProjectSyncStatus_stmt_def intro: same_jobs)
  show "stmt_respects R (UpsertInventoryHosts_stmt i hs)" for i hs
    by (auto simp: stmt_respects_def UpsertInventoryHosts_stmt_def Let_def rely_refl split: sum.split
        intro!: same_jobs dest!: insert_hosts_jobs)
qed

subsection \<open>The job machine\<close>

inductive job_step :: "db \<Rightarrow> db \<Rightarrow> bool" where
  step_move: "rec_move fs ts a \<Longrightarrow> job_step d (snd (TransitionJob_stmt i fs ts a rs c d))"
| step_insert: "job_step d (snd (insert_job_stmt t run ev c d))"
| step_finish: "IsTerminal s \<Longrightarrow> job_step d (snd (UpdateJobStatus_stmt i s None fr c d))"
| step_facts: "job_step d (snd (SetJobFacts_stmt i fs c d))"
| step_other: "db_jobs d' = db_jobs d \<Longrightarrow> job_step d d'"

inductive_cases job_stepE: "job_step d d'"

inductive job_trace :: "db \<Rightarrow> uuid list \<Rightarrow> db \<Rightarrow> bool" where
  trace_refl: "job_trace d [] d"
| trace_step: "job_trace d js d1 \<Longrightarrow> job_step d1 d2 \<Longrightarrow> job_trace d js d2"
| trace_claim: "job_trace d js d1 \<Longrightarrow> ts \<noteq> JobStatusPending \<Longrightarrow>
    TransitionJob_stmt i JobStatusPending ts a rs c d1 = (Inr True, d2) \<Longrightarrow> job_trace d (js @ [i]) d2"

interpretation sys: jobs_platform "job_step\<^sup>*\<^sup>*"
proof unfold_locales
  show "stmt_respects job_step\<^sup>*\<^sup>* (TransitionJob_stmt i fs ts a rs)" if "rec_move fs ts a" for fs ts a i rs
    using that by (auto simp: stmt_respects_def intro: step_move)
qed (auto simp: stmt_respects_def intro: step_other step_insert step_finish step_facts)

subsection \<open>What the job machine keeps\<close>

text \<open>Every relation that both process types keep is kept by the machine, so its interpretations apply.\<close>

lemma job_step_jobs_rely: "job_step d d' \<Longrightarrow> jobs_rely d d'"
proof (induction rule: job_step.induct)
  case (step_move fs ts a d i rs c)
  then show ?case
    using TransitionJob_respects [of ts i fs a rs] by (auto simp: stmt_respects_def rec_move_def)
qed (use api_jr.insert_ok api_jr.finish_ok api_jr.facts_ok api_jr.same_jobs in
      \<open>auto simp: stmt_respects_def\<close>)

lemma job_step_keeps_wf: "job_step d d' \<Longrightarrow> keeps_jobs_wf d d'"
proof (induction rule: job_step.induct)
  case (step_move fs ts a d i rs c)
  then show ?case using jw.move_respects [of fs ts a i rs] by (auto simp: stmt_respects_def)
qed (use api_jw.insert_ok api_jw.finish_ok api_jw.facts_ok api_jw.same_jobs in
      \<open>auto simp: stmt_respects_def\<close>)

lemma job_step_no_running: "job_step d d' \<Longrightarrow> no_new_running d d'"
proof (induction rule: job_step.induct)
  case (step_move fs ts a d i rs c)
  then show ?case using nr.move_respects [of fs ts a i rs] by (auto simp: stmt_respects_def)
qed (use api_nr.insert_ok api_nr.finish_ok api_nr.facts_ok api_nr.same_jobs in
      \<open>auto simp: stmt_respects_def\<close>)

lemma job_steps_jobs_rely: "job_step\<^sup>*\<^sup>* d d' \<Longrightarrow> jobs_rely d d'"
  by (induction rule: rtranclp_induct) (auto intro: jr.rely_refl jr.rely_trans job_step_jobs_rely)

lemma job_steps_keeps_wf: "job_step\<^sup>*\<^sup>* d d' \<Longrightarrow> keeps_jobs_wf d d'"
  by (induction rule: rtranclp_induct) (auto intro: jw.rely_refl jw.rely_trans job_step_keeps_wf)

lemma job_steps_no_running: "job_step\<^sup>*\<^sup>* d d' \<Longrightarrow> no_new_running d d'"
  by (induction rule: rtranclp_induct) (auto intro: api_nr.rely_refl api_nr.rely_trans job_step_no_running)

abbreviation db_claimed :: "db \<Rightarrow> uuid \<Rightarrow> bool" where
  "db_claimed d i \<equiv> claimed status_of d i"

lemma jobs_rely_claimed: "jobs_rely d d' \<Longrightarrow> db_claimed d i \<Longrightarrow> db_claimed d' i"
  by (fastforce simp: jobs_rely_def no_repend_def claimed_def)

lemma claim_respects:
  "ts \<noteq> JobStatusPending \<Longrightarrow> TransitionJob_stmt i fs ts a rs c d = (x, d') \<Longrightarrow> jobs_rely d d'"
  using TransitionJob_respects [of ts i fs a rs] by (metis stmt_respects_def snd_conv)

lemma job_trace_rely: "job_trace d js d' \<Longrightarrow> jobs_rely d d'"
  by (induction rule: job_trace.induct)
     (auto intro: jr.rely_refl jr.rely_trans job_step_jobs_rely claim_respects)

lemma job_trace_claims:
  "job_trace d js d' \<Longrightarrow> unique_jobs d \<Longrightarrow>
   distinct js \<and> (\<forall>i\<in>set js. \<not> db_claimed d i \<and> db_claimed d' i)"
proof (induction rule: job_trace.induct)
  case (trace_refl d)
  then show ?case by simp
next
  case (trace_step d js d1 d2)
  then show ?case using job_step_jobs_rely jobs_rely_claimed by blast
next
  case (trace_claim d js d1 ts i a rs c d2)
  have u1: "unique_jobs d1"
    using job_trace_rely [OF trace_claim.hyps(1)] trace_claim.prems by (simp add: jobs_rely_def)
  have r: "status_of d1 i = Some JobStatusPending" "agent_exists d1 a"
    using trace_claim.hyps(3) TransitionJob_result [OF u1, of i JobStatusPending ts a rs c]
    by (auto split: if_splits)
  have "status_of d2 i = Some ts"
    using trace_claim.hyps(3) TransitionJob_status [OF u1, of i JobStatusPending ts a rs c i] r by simp
  then have c2: "db_claimed d2 i" using trace_claim.hyps(2) by (simp add: claimed_def)
  have n1: "\<not> db_claimed d1 i" using r(1) by (simp add: claimed_def)
  then have "i \<notin> set js" "\<not> db_claimed d i"
    using trace_claim.IH [OF trace_claim.prems] jobs_rely_claimed [OF job_trace_rely [OF trace_claim.hyps(1)]]
    by blast+
  then show ?case
    using trace_claim.IH [OF trace_claim.prems] c2
      jobs_rely_claimed [OF claim_respects [OF trace_claim.hyps(2,3)]] by auto
qed

end
