(* ===== verification/AgentServer.thy ===== *)
theory AgentServer
  imports Types "HOL-Library.Multiset"
begin

section \<open>The agent's dispatch listener (agent/internal/server/server.go)\<close>

text \<open>
  The agent accepts payloads from the controller and executes each in a goroutine of its own. Handlers
  run concurrently, so a handler is split at its accesses to shared state: \<open>dispatch_check\<close> reads the
  counter, \<open>dispatch_register\<close> is the locked write of the map, \<open>dispatch_start\<close> the increment of the
  counter and the start of the goroutine; \<open>finish_remove\<close> and \<open>finish_count\<close> are the deferred block
  of \<open>executeJob\<close>. \<open>handleDispatch\<close> and \<open>handleCancel\<close> are the handlers run without interruption; the
  relation \<open>agent_step\<close> interleaves the pieces of any number of them.

  A cancel function is the number of the context it cancels. The Go \<open>map\<close> of running jobs is an
  association list, the counter (an atomic 64-bit integer that counts goroutines) an integer.
\<close>

record Server =
  Srv_capacity :: int
  Srv_running :: "(uuid \<times> nat) list"
  Srv_count :: int

definition Server_New :: "int \<Rightarrow> Server" where
  "Server_New capacity = \<lparr>Srv_capacity = capacity, Srv_running = [], Srv_count = 0\<rparr>"

definition RunningJobs :: "Server \<Rightarrow> int" where
  "RunningJobs s = Srv_count s"

subsection \<open>The handlers and their pieces\<close>

definition dispatch_check :: "JobPayload option \<Rightarrow> Server \<Rightarrow> nat + JobPayload" where
  "dispatch_check body s =
     (case body of
        None \<Rightarrow> Inl 400
      | Some payload \<Rightarrow>
          if Payload_JobID payload = uuid_Nil then Inl 400
          else if Srv_capacity s \<le> Srv_count s then Inl 503
          else Inr payload)"

definition dispatch_register :: "JobPayload \<Rightarrow> nat \<Rightarrow> Server \<Rightarrow> Server" where
  "dispatch_register payload ctx s =
     s\<lparr>Srv_running := AList.update (Payload_JobID payload) ctx (Srv_running s)\<rparr>"

definition dispatch_start :: "Server \<Rightarrow> Server" where
  "dispatch_start s = s\<lparr>Srv_count := Srv_count s + 1\<rparr>"

definition handleDispatch :: "JobPayload option \<Rightarrow> nat \<Rightarrow> Server \<Rightarrow> nat \<times> Server" where
  "handleDispatch body ctx s =
     (case dispatch_check body s of
        Inl code \<Rightarrow> (code, s)
      | Inr payload \<Rightarrow> (202, dispatch_start (dispatch_register payload ctx s)))"

text \<open>\<open>handleCancel\<close> also yields the context that it cancels.\<close>

definition handleCancel :: "(string \<Rightarrow> uuid option) \<Rightarrow> string \<Rightarrow> Server \<Rightarrow> nat \<times> nat option" where
  "handleCancel parse param s =
     (case parse param of
        None \<Rightarrow> (400, None)
      | Some i \<Rightarrow> (case map_of (Srv_running s) i of None \<Rightarrow> (404, None) | Some ctx \<Rightarrow> (202, Some ctx)))"

definition finish_remove :: "JobPayload \<Rightarrow> Server \<Rightarrow> Server" where
  "finish_remove payload s = s\<lparr>Srv_running := AList.delete (Payload_JobID payload) (Srv_running s)\<rparr>"

definition finish_count :: "Server \<Rightarrow> Server" where
  "finish_count s = s\<lparr>Srv_count := Srv_count s - 1\<rparr>"

subsection \<open>Interleaving\<close>

text \<open>
  Where a goroutine stands: a handler that passed the capacity check (\<open>Admitted\<close>), that has
  registered its cancel function (\<open>Registered\<close>); an \<open>executeJob\<close> at work (\<open>Executing\<close>) or between the
  two halves of its deferred block (\<open>Removed\<close>).
\<close>

datatype task =
    Admitted (task_payload: JobPayload) (task_ctx: nat)
  | Registered (task_payload: JobPayload) (task_ctx: nat)
  | Executing (task_payload: JobPayload) (task_ctx: nat)
  | Removed (task_payload: JobPayload) (task_ctx: nat)

record agent_state =
  as_server :: Server
  as_tasks :: "task list"
  as_accepted :: "JobPayload list"
  as_contexts :: nat
  as_cancelled :: "nat list"

definition agent_init :: "int \<Rightarrow> agent_state" where
  "agent_init capacity = \<lparr>as_server = Server_New capacity, as_tasks = [], as_accepted = [],
     as_contexts = 0, as_cancelled = []\<rparr>"

inductive agent_step :: "agent_state \<Rightarrow> agent_state \<Rightarrow> bool" where
  admit: "dispatch_check body (as_server s) = Inr p \<Longrightarrow>
    agent_step s (s\<lparr>as_tasks := as_tasks s @ [Admitted p (as_contexts s)],
                    as_accepted := as_accepted s @ [p], as_contexts := Suc (as_contexts s)\<rparr>)"
| registers: "as_tasks s = xs @ Admitted p c # ys \<Longrightarrow>
    agent_step s (s\<lparr>as_server := dispatch_register p c (as_server s), as_tasks := xs @ Registered p c # ys\<rparr>)"
| starts: "as_tasks s = xs @ Registered p c # ys \<Longrightarrow>
    agent_step s (s\<lparr>as_server := dispatch_start (as_server s), as_tasks := xs @ Executing p c # ys\<rparr>)"
| cancels: "handleCancel parse param (as_server s) = (code, Some c) \<Longrightarrow>
    agent_step s (s\<lparr>as_cancelled := as_cancelled s @ [c]\<rparr>)"
| removes: "as_tasks s = xs @ Executing p c # ys \<Longrightarrow>
    agent_step s (s\<lparr>as_server := finish_remove p (as_server s), as_tasks := xs @ Removed p c # ys\<rparr>)"
| finishes: "as_tasks s = xs @ Removed p c # ys \<Longrightarrow>
    agent_step s (s\<lparr>as_server := finish_count (as_server s), as_tasks := xs @ ys\<rparr>)"

fun in_flight :: "task \<Rightarrow> bool" where
  "in_flight (Admitted p c) = True"
| "in_flight (Registered p c) = True"
| "in_flight (Executing p c) = False"
| "in_flight (Removed p c) = False"

abbreviation handlers :: "agent_state \<Rightarrow> nat" where
  "handlers s \<equiv> length (filter in_flight (as_tasks s))"

abbreviation jobs_held :: "agent_state \<Rightarrow> nat" where
  "jobs_held s \<equiv> length (filter (\<lambda>t. \<not> in_flight t) (as_tasks s))"

text \<open>States reachable with at most \<open>k\<close> dispatch handlers between their check and their increment.\<close>

inductive agent_reach :: "int \<Rightarrow> nat \<Rightarrow> agent_state \<Rightarrow> bool" for capacity k where
  reach_init: "agent_reach capacity k (agent_init capacity)"
| reach_step: "agent_reach capacity k s \<Longrightarrow> agent_step s s' \<Longrightarrow> handlers s' \<le> k \<Longrightarrow>
    agent_reach capacity k s'"

inductive_cases agent_stepE: "agent_step s s'"

lemmas server_ops = dispatch_register_def dispatch_start_def finish_remove_def finish_count_def

lemma dispatch_check_InrD:
  "dispatch_check body s = Inr p \<Longrightarrow> body = Some p \<and> Payload_JobID p \<noteq> uuid_Nil \<and> Srv_count s < Srv_capacity s"
  by (auto simp: dispatch_check_def split: option.splits if_splits)

lemma agent_step_capacity:
  "agent_step s s' \<Longrightarrow> Srv_capacity (as_server s') = Srv_capacity (as_server s)"
  by (erule agent_stepE) (simp_all add: server_ops)

lemma agent_step_count:
  assumes "agent_step s s'" and "Srv_count (as_server s) = int (jobs_held s)"
  shows "Srv_count (as_server s') = int (jobs_held s')"
  using assms by (elim agent_stepE) (simp_all add: server_ops)

lemma agent_step_load:
  assumes "agent_step s s'" and "Srv_count (as_server s) = int (jobs_held s)"
  shows "jobs_held s' + handlers s' \<le> jobs_held s + handlers s \<or>
    int (jobs_held s') < Srv_capacity (as_server s')"
  using assms by (elim agent_stepE) (auto simp: server_ops dest!: dispatch_check_InrD)

lemma agent_reach_load:
  assumes "agent_reach capacity k s" and "0 \<le> capacity" and "1 \<le> k"
  shows "Srv_capacity (as_server s) = capacity \<and> Srv_count (as_server s) = int (jobs_held s) \<and>
    int (jobs_held s + handlers s) \<le> capacity + int k - 1"
  using assms(1)
proof induction
  case reach_init
  then show ?case using assms(2,3) by (simp add: agent_init_def Server_New_def)
next
  case (reach_step s s')
  then show ?case
    using agent_step_capacity [OF reach_step.hyps(2)] agent_step_count [OF reach_step.hyps(2)]
      agent_step_load [OF reach_step.hyps(2)] by linarith
qed

subsection \<open>The map of running jobs\<close>

text \<open>
  When no job id is accepted twice, the map holds exactly the tasks between their registration and
  their removal, each with its own context.
\<close>

fun in_map :: "task \<Rightarrow> bool" where
  "in_map (Admitted p c) = False"
| "in_map (Registered p c) = True"
| "in_map (Executing p c) = True"
| "in_map (Removed p c) = False"

abbreviation task_id :: "task \<Rightarrow> uuid" where
  "task_id t \<equiv> Payload_JobID (task_payload t)"

definition running_ok :: "agent_state \<Rightarrow> bool" where
  "running_ok s \<longleftrightarrow> mset (map task_payload (as_tasks s)) \<subseteq># mset (as_accepted s) \<and>
     (\<forall>i c. map_of (Srv_running (as_server s)) i = Some c \<longleftrightarrow>
        (\<exists>t\<in>set (as_tasks s). in_map t \<and> task_id t = i \<and> task_ctx t = c))"

lemma distinct_submset:
  assumes "mset xs \<subseteq># mset ys" and "distinct ys"
  shows "distinct xs"
proof -
  obtain zs where "mset ys = mset xs + mset zs"
    using assms(1) by (metis ex_mset subset_mset.le_iff_add)
  then have "mset ys = mset (xs @ zs)" by simp
  then show ?thesis using assms(2) by (metis distinct_append mset_eq_imp_distinct_iff)
qed

lemma accepted_task_ids:
  assumes "running_ok s" and "distinct (map Payload_JobID (as_accepted s))"
  shows "distinct (map task_id (as_tasks s))"
proof -
  have "image_mset Payload_JobID (mset (map task_payload (as_tasks s))) \<subseteq>#
      image_mset Payload_JobID (mset (as_accepted s))"
    using assms(1) by (simp add: running_ok_def image_mset_subseteq_mono)
  then have "mset (map task_id (as_tasks s)) \<subseteq># mset (map Payload_JobID (as_accepted s))"
    by (simp add: image_mset.compositionality comp_def)
  then show ?thesis using assms(2) by (rule distinct_submset)
qed

lemma running_okD:
  "running_ok s \<Longrightarrow> map_of (Srv_running (as_server s)) i = Some c \<longleftrightarrow>
     (\<exists>t\<in>set (as_tasks s). in_map t \<and> task_id t = i \<and> task_ctx t = c)"
  by (simp add: running_ok_def)

lemma running_okI:
  assumes "mset (map task_payload (as_tasks s)) \<subseteq># mset (as_accepted s)"
    and "\<And>i c. map_of (Srv_running (as_server s)) i = Some c \<longleftrightarrow>
      (\<exists>t\<in>set (as_tasks s). in_map t \<and> task_id t = i \<and> task_ctx t = c)"
  shows "running_ok s"
  using assms by (simp add: running_ok_def)

lemma agent_step_running_ok:
  assumes "agent_step s s'" and ok: "running_ok s" and dist: "distinct (map Payload_JobID (as_accepted s))"
  shows "running_ok s'"
proof -
  note ids = accepted_task_ids [OF ok dist]
  have sub: "mset (map task_payload (as_tasks s)) \<subseteq># mset (as_accepted s)" using ok by (simp add: running_ok_def)
  show ?thesis
    using assms(1)
  proof cases
    case (admit body p)
    have "mset (map task_payload (as_tasks s)) + {#p#} \<subseteq># mset (as_accepted s) + {#p#}"
      using sub by simp
    then show ?thesis using admit running_okD [OF ok] by (intro running_okI) auto
  next
    case (registers xs p c ys)
    then have others: "task_id t \<noteq> Payload_JobID p" if "t \<in> set xs \<union> set ys" for t
      using ids that by (auto simp: image_iff)
    show ?thesis
    proof (rule running_okI)
      show "map_of (Srv_running (as_server s')) i = Some c' \<longleftrightarrow>
        (\<exists>t\<in>set (as_tasks s'). in_map t \<and> task_id t = i \<and> task_ctx t = c')" for i c'
        using registers running_okD [OF ok, of i c'] others
        by (cases "i = Payload_JobID p") (auto simp: server_ops update_conv')
    qed (use registers sub in \<open>simp add: server_ops\<close>)
  next
    case (starts xs p c ys)
    then show ?thesis
      using sub running_okD [OF ok] by (intro running_okI) (simp_all add: server_ops)
  next
    case (cancels parse param code c)
    then show ?thesis using ok by (simp add: running_ok_def)
  next
    case (removes xs p c ys)
    then have others: "task_id t \<noteq> Payload_JobID p" if "t \<in> set xs \<union> set ys" for t
      using ids that by (auto simp: image_iff)
    show ?thesis
    proof (rule running_okI)
      show "map_of (Srv_running (as_server s')) i = Some c' \<longleftrightarrow>
        (\<exists>t\<in>set (as_tasks s'). in_map t \<and> task_id t = i \<and> task_ctx t = c')" for i c'
        using removes running_okD [OF ok, of i c'] others
        by (cases "i = Payload_JobID p") (auto simp: server_ops delete_conv')
    qed (use removes sub in \<open>simp add: server_ops\<close>)
  next
    case (finishes xs p c ys)
    have "mset (map task_payload (xs @ ys)) \<subseteq># mset (map task_payload (as_tasks s))"
      using finishes by simp
    then have "mset (map task_payload (xs @ ys)) \<subseteq># mset (as_accepted s)"
      using sub by (rule subset_mset.order_trans)
    then show ?thesis
      using finishes running_okD [OF ok] by (intro running_okI) (auto simp: server_ops)
  qed
qed

lemma agent_reach_running_ok:
  assumes "agent_reach capacity k s" and "distinct (map Payload_JobID (as_accepted s))"
  shows "running_ok s"
  using assms
proof induction
  case reach_init
  then show ?case by (simp add: running_ok_def agent_init_def Server_New_def)
next
  case (reach_step s s')
  have "distinct (map Payload_JobID (as_accepted s))"
    using reach_step.hyps(2) reach_step.prems by cases auto
  then show ?case using agent_step_running_ok [OF reach_step.hyps(2)] reach_step.IH by simp
qed

end
