(* ===== verification/LogBatcher.thy ===== *)
theory LogBatcher
  imports Types
begin

section \<open>The agent's log batcher (agent/internal/runner/runner.go)\<close>

text \<open>
  \<open>LogBatcher\<close> collects lines from the goroutines that read the playbook's output and hands them, in
  batches, to its \<open>flush\<close> function from one goroutine of its own (\<open>run\<close>). The state has the buffer,
  the \<open>done\<close> channel (\<open>True\<close>: closed), the batch that \<open>doFlush\<close> has taken out of the buffer and not
  yet passed on, and whether \<open>run\<close> has returned. Ghost fields record what was added, what was passed
  to \<open>flush\<close>, and whether a line was added after \<open>Flush\<close>.

  \<open>run\<close> ignores its argument \<open>batchSize\<close>, and so does the model.
\<close>

record LogBatcher =
  lb_buf :: "JobLogLine list"
  lb_done :: bool
  lb_taken :: "JobLogLine list option"
  lb_last :: bool
  lb_stopped :: bool
  lb_added :: "JobLogLine list"
  lb_flushed :: "JobLogLine list list"
  lb_late :: bool

definition NewLogBatcher :: LogBatcher where
  "NewLogBatcher = \<lparr>lb_buf = [], lb_done = False, lb_taken = None, lb_last = False, lb_stopped = False,
     lb_added = [], lb_flushed = [], lb_late = False\<rparr>"

definition Add :: "JobLogLine \<Rightarrow> LogBatcher \<Rightarrow> LogBatcher" where
  "Add line b = b\<lparr>lb_buf := lb_buf b @ [line], lb_added := lb_added b @ [line], lb_late := lb_late b \<or> lb_done b\<rparr>"

text \<open>\<open>Flush\<close> closes the channel and returns; closing it twice panics.\<close>

definition Flush :: "LogBatcher \<Rightarrow> LogBatcher option" where
  "Flush b = (if lb_done b then None else Some (b\<lparr>lb_done := True\<rparr>))"

text \<open>The locked half of \<open>doFlush\<close>, and the call of \<open>flush\<close> after it.\<close>

definition doFlush_take :: "LogBatcher \<Rightarrow> LogBatcher" where
  "doFlush_take b = (if lb_buf b = [] then b else b\<lparr>lb_taken := Some (lb_buf b), lb_buf := []\<rparr>)"

definition doFlush_send :: "LogBatcher \<Rightarrow> LogBatcher" where
  "doFlush_send b =
     (case lb_taken b of None \<Rightarrow> b
      | Some batch \<Rightarrow> b\<lparr>lb_taken := None, lb_flushed := lb_flushed b @ [batch]\<rparr>)"

text \<open>
  One step: a line is added, \<open>Flush\<close> is called, the ticker or the closed channel makes \<open>run\<close> take a
  batch (in the second case for the last time), a taken batch is passed on, and \<open>run\<close> returns once its
  last batch is.
\<close>

inductive batch_step :: "LogBatcher \<Rightarrow> LogBatcher \<Rightarrow> bool" where
  adds: "batch_step b (Add line b)"
| closes: "Flush b = Some b' \<Longrightarrow> batch_step b b'"
| ticks: "\<not> lb_last b \<Longrightarrow> lb_taken b = None \<Longrightarrow> batch_step b (doFlush_take b)"
| ends: "\<not> lb_last b \<Longrightarrow> lb_taken b = None \<Longrightarrow> lb_done b \<Longrightarrow>
    batch_step b ((doFlush_take b)\<lparr>lb_last := True\<rparr>)"
| sends: "lb_taken b \<noteq> None \<Longrightarrow> batch_step b (doFlush_send b)"
| returns: "lb_last b \<Longrightarrow> lb_taken b = None \<Longrightarrow> batch_step b (b\<lparr>lb_stopped := True\<rparr>)"

definition pending :: "LogBatcher \<Rightarrow> JobLogLine list" where
  "pending b = (case lb_taken b of None \<Rightarrow> [] | Some batch \<Rightarrow> batch)"

text \<open>
  The invariant: nothing is lost, duplicated or reordered, batches are not empty, and after the last
  batch was taken the buffer only holds lines that came too late.
\<close>

definition batcher_ok :: "LogBatcher \<Rightarrow> bool" where
  "batcher_ok b \<longleftrightarrow>
     concat (lb_flushed b) @ pending b @ lb_buf b = lb_added b \<and>
     [] \<notin> set (lb_flushed b) \<and> lb_taken b \<noteq> Some [] \<and>
     (lb_last b \<longrightarrow> lb_done b \<and> (lb_buf b = [] \<or> lb_late b)) \<and>
     (lb_stopped b \<longrightarrow> lb_last b \<and> lb_taken b = None)"

lemma batcher_ok_New: "batcher_ok NewLogBatcher"
  by (simp add: batcher_ok_def NewLogBatcher_def pending_def)

lemma batch_step_ok: "batch_step b b' \<Longrightarrow> batcher_ok b \<Longrightarrow> batcher_ok b'"
proof (induction rule: batch_step.induct)
  case (sends b)
  then show ?case by (auto simp: batcher_ok_def doFlush_send_def pending_def)
qed (auto simp: batcher_ok_def Add_def Flush_def doFlush_take_def pending_def split: if_splits option.splits)

lemma batch_steps_ok: "batch_step\<^sup>*\<^sup>* NewLogBatcher b \<Longrightarrow> batcher_ok b"
  by (induction rule: rtranclp_induct) (auto intro: batcher_ok_New batch_step_ok)

text \<open>What \<open>run\<close> still has to do once the channel is closed, when it reacts to the channel.\<close>

inductive drain_step :: "LogBatcher \<Rightarrow> LogBatcher \<Rightarrow> bool" where
  drain_ends: "\<not> lb_last b \<Longrightarrow> lb_taken b = None \<Longrightarrow> lb_done b \<Longrightarrow>
    drain_step b ((doFlush_take b)\<lparr>lb_last := True\<rparr>)"
| drain_sends: "lb_taken b \<noteq> None \<Longrightarrow> drain_step b (doFlush_send b)"
| drain_returns: "lb_last b \<Longrightarrow> lb_taken b = None \<Longrightarrow> \<not> lb_stopped b \<Longrightarrow> drain_step b (b\<lparr>lb_stopped := True\<rparr>)"

inductive_cases drain_stepE: "drain_step b b'"

definition drain_measure :: "LogBatcher \<Rightarrow> nat" where
  "drain_measure b = (if lb_stopped b then 0 else 1) + (if lb_taken b = None then 0 else 1) + (if lb_last b then 0 else 2)"

lemma drain_step_batch: "drain_step b b' \<Longrightarrow> batch_step b b'"
  by (induction rule: drain_step.induct) (auto intro: batch_step.intros)

lemma drain_step_frame:
  "drain_step b b' \<Longrightarrow> lb_added b' = lb_added b \<and> lb_late b' = lb_late b \<and> (lb_done b \<longrightarrow> lb_done b')"
  by (erule drain_stepE) (auto simp: doFlush_take_def doFlush_send_def split: option.splits)

lemma drain_step_measure: "drain_step b b' \<Longrightarrow> drain_measure b' < drain_measure b"
  by (erule drain_stepE) (auto simp: drain_measure_def doFlush_take_def doFlush_send_def split: option.splits)

lemma drain_steps_bound: "(drain_step ^^ n) b b' \<Longrightarrow> n + drain_measure b' \<le> drain_measure b"
proof (induction n arbitrary: b')
  case (Suc n)
  then obtain c where "(drain_step ^^ n) b c" "drain_step c b'" by auto
  then show ?case using Suc.IH [of c] drain_step_measure [of c b'] by simp
qed simp

lemma drain_steps_frame:
  "drain_step\<^sup>*\<^sup>* b b' \<Longrightarrow> lb_added b' = lb_added b \<and> lb_late b' = lb_late b \<and> (lb_done b \<longrightarrow> lb_done b')"
  by (induction rule: rtranclp_induct) (auto dest: drain_step_frame)

lemma drain_stuck:
  assumes "\<not> (\<exists>b'. drain_step b b')" and "lb_done b"
  shows "lb_taken b = None \<and> lb_last b \<and> lb_stopped b"
proof -
  have t: "lb_taken b = None" using assms(1) drain_sends by blast
  moreover have "lb_last b" using assms t drain_ends by blast
  ultimately show ?thesis using assms(1) drain_returns by blast
qed

end
