(* ===== verification/AgentRunner.thy ===== *)
theory AgentRunner
  imports GoStrings LogBatcher
begin

section \<open>Executing a job on the agent (agent/internal/runner)\<close>

text \<open>
  \<open>Run\<close> creates a directory for the job, writes the secrets into it, clones the repository, writes
  inventory and variables, runs \<open>ansible-playbook\<close>, and removes everything.

  The file system is an explicit store: paths with mode and content. What the operating system and
  the programs that are started do is the record \<open>run_ext\<close>: whether making a directory, writing a
  file (failing on opening it, or after a part was written), removing a file or a tree fails; what
  \<open>git\<close> and \<open>ansible-playbook\<close> do with their arguments, the environment variables added for them, and
  the files; whether the job's context is cancelled when \<open>Run\<close> asks. \<open>json_vars\<close> is the JSON encoder,
  \<open>fmt_s\<close> the verb \<open>%s\<close> on a decoded JSON value, and \<open>vars_order\<close> and \<open>groups_order\<close> are the
  iteration orders that the runtime chooses for the maps in \<open>WriteInventory\<close>.
\<close>

type_synonym files = "(string \<times> (nat \<times> string)) list"

text \<open>
  How \<open>ansible-playbook\<close> ended: a pipe could not be made, it could not be started, waiting for it
  failed, or it exited with a code; with the lines it wrote, in the order of their numbers.
\<close>

datatype playbook_end = NoPipe | NoStart | WaitFailed "(string \<times> string) list" | Exited int "(string \<times> string) list"

record run_ext =
  os_MkdirAll :: "string \<Rightarrow> files \<Rightarrow> goerr option"
  os_Write :: "string \<Rightarrow> files \<Rightarrow> (goerr \<times> string option) option"
  os_Remove :: "string \<Rightarrow> files \<Rightarrow> goerr option"
  os_RemoveAll :: "string \<Rightarrow> files \<Rightarrow> files option"
  exec_git :: "string list \<Rightarrow> string list \<Rightarrow> files \<Rightarrow> (string \<times> string) option \<times> files"
  exec_playbook :: "string list \<Rightarrow> string list \<Rightarrow> files \<Rightarrow> playbook_end \<times> files"
  ctx_cancelled :: bool
  json_vars :: "vars \<Rightarrow> string res"
  fmt_s :: "json \<Rightarrow> string"
  vars_order :: "vars \<Rightarrow> vars"
  groups_order :: "(string \<times> string list) list \<Rightarrow> (string \<times> string list) list"

subsection \<open>Files\<close>

text \<open>Opening with \<open>O_CREATE\<close> and \<open>O_TRUNC\<close> gives the mode to a new file only.\<close>

definition put_file :: "string \<Rightarrow> nat \<Rightarrow> string \<Rightarrow> files \<Rightarrow> files" where
  "put_file path mode content fs =
     AList.update path (case map_of fs path of None \<Rightarrow> mode | Some (m, _) \<Rightarrow> m, content) fs"

definition write_file :: "run_ext \<Rightarrow> string \<Rightarrow> nat \<Rightarrow> string \<Rightarrow> files \<Rightarrow> unit res \<times> files" where
  "write_file X path mode content fs =
     (case os_Write X path fs of
        None \<Rightarrow> (Inr (), put_file path mode content fs)
      | Some (e, None) \<Rightarrow> (Inl e, fs)
      | Some (e, Some part) \<Rightarrow> (Inl e, put_file path mode part fs))"

definition under :: "string \<Rightarrow> string \<Rightarrow> bool" where
  "under dir p \<longleftrightarrow> p = dir \<or> HasPrefix p (dir @ [CHR 0x2F])"

definition remove_all :: "run_ext \<Rightarrow> string \<Rightarrow> files \<Rightarrow> files" where
  "remove_all X dir fs =
     (case os_RemoveAll X dir fs of
        None \<Rightarrow> filter (\<lambda>e. \<not> under dir (fst e)) fs
      | Some fs' \<Rightarrow> fs')"

subsection \<open>Credentials (credential.go)\<close>

record Creds =
  Creds_SSHKeyPath :: string
  Creds_VaultPassPath :: string
  Creds_AnsibleUser :: string
  Creds_Env :: "string list"
  Creds_written :: "string list"

definition no_creds :: Creds where
  "no_creds = \<lparr>Creds_SSHKeyPath = '''', Creds_VaultPassPath = '''', Creds_AnsibleUser = '''',
     Creds_Env = [], Creds_written = []\<rparr>"

definition field :: "CredentialSecret \<Rightarrow> string \<Rightarrow> string" where
  "field c k = (case map_of (Secret_Fields c) k of None \<Rightarrow> '''' | Some v \<Rightarrow> v)"

definition writeSecret :: "run_ext \<Rightarrow> string \<Rightarrow> string \<Rightarrow> files \<Rightarrow> unit res \<times> files" where
  "writeSecret X path data = write_file X path 384 data"

text \<open>
  One round of the loop in \<open>Materialize\<close>: the key or password field must be there, goes to a file of
  its own (mode 0600), and the result records where.
\<close>

definition materialize_one ::
  "run_ext \<Rightarrow> string \<Rightarrow> CredentialSecret \<Rightarrow> Creds \<Rightarrow> files \<Rightarrow> Creds res \<times> files" where
  "materialize_one X jobDir c cr fs =
     (case Secret_Kind c of
        CredentialKindSSHKey \<Rightarrow>
          (let key = field c ''private_key''; path = filepath_Join jobDir ''id_rsa''
           in if key = '''' then (Inl (ErrMsg ''ssh_key credential is missing private_key field''), fs)
              else (case writeSecret X path key fs of
                 (Inl e, fs1) \<Rightarrow> (Inl (Wrapped ''write ssh key'' e), fs1)
               | (Inr _, fs1) \<Rightarrow>
                   (Inr (cr\<lparr>Creds_written := Creds_written cr @ [path], Creds_SSHKeyPath := path,
                       Creds_Env := Creds_Env cr @ [''GIT_SSH_COMMAND=ssh -i '' @ path @
                         '' -o StrictHostKeyChecking=no -o BatchMode=yes'']\<rparr>), fs1)))
      | CredentialKindMachineUser \<Rightarrow>
          (let key = field c ''private_key''; path = filepath_Join jobDir ''machine_id_rsa''
           in if key = '''' then (Inl (ErrMsg ''machine_user credential is missing private_key field''), fs)
              else (case writeSecret X path key fs of
                 (Inl e, fs1) \<Rightarrow> (Inl (Wrapped ''write machine_user key'' e), fs1)
               | (Inr _, fs1) \<Rightarrow>
                   (Inr (cr\<lparr>Creds_written := Creds_written cr @ [path], Creds_SSHKeyPath := path,
                       Creds_AnsibleUser := field c ''username''\<rparr>), fs1)))
      | CredentialKindVaultPassword \<Rightarrow>
          (let pass = field c ''password''; path = filepath_Join jobDir ''vault_pass.txt''
           in if pass = '''' then (Inl (ErrMsg ''vault_password credential is missing password field''), fs)
              else (case writeSecret X path pass fs of
                 (Inl e, fs1) \<Rightarrow> (Inl (Wrapped ''write vault password'' e), fs1)
               | (Inr _, fs1) \<Rightarrow>
                   (Inr (cr\<lparr>Creds_written := Creds_written cr @ [path], Creds_VaultPassPath := path\<rparr>), fs1)))
      | CredentialKindHTTPSToken \<Rightarrow> (Inr cr, fs)
      | CredentialKindOther _ \<Rightarrow> (Inr cr, fs))"

fun materialize_loop ::
  "run_ext \<Rightarrow> string \<Rightarrow> CredentialSecret list \<Rightarrow> Creds \<Rightarrow> files \<Rightarrow> Creds res \<times> files" where
  "materialize_loop X jobDir [] cr fs = (Inr cr, fs)"
| "materialize_loop X jobDir (c # cs) cr fs =
     (case materialize_one X jobDir c cr fs of
        (Inl e, fs1) \<Rightarrow> (Inl e, fs1)
      | (Inr cr1, fs1) \<Rightarrow> materialize_loop X jobDir cs cr1 fs1)"

definition Materialize :: "run_ext \<Rightarrow> string \<Rightarrow> CredentialSecret list \<Rightarrow> files \<Rightarrow> Creds res \<times> files" where
  "Materialize X jobDir creds = materialize_loop X jobDir creds no_creds"

fun Cleanup :: "run_ext \<Rightarrow> string list \<Rightarrow> files \<Rightarrow> files" where
  "Cleanup X [] fs = fs"
| "Cleanup X (p # ps) fs =
     Cleanup X ps (case os_Remove X p fs of None \<Rightarrow> AList.delete p fs | Some e \<Rightarrow> fs)"

fun httpsCloneURL :: "string \<Rightarrow> CredentialSecret list \<Rightarrow> string" where
  "httpsCloneURL repoURL [] = repoURL"
| "httpsCloneURL repoURL (c # cs) =
     (if Secret_Kind c = CredentialKindHTTPSToken \<and> field c ''token'' \<noteq> '''' \<and>
         length ''https://'' < length repoURL \<and> HasPrefix repoURL ''https://''
      then ''https://'' @ ''oauth2:'' @ field c ''token'' @ ''@'' @ drop (length ''https://'') repoURL
      else httpsCloneURL repoURL cs)"

subsection \<open>The inventory file (inventory.go)\<close>

definition NL :: char where "NL = CHR 0x0A"

definition host_line :: "run_ext \<Rightarrow> InventoryHost \<Rightarrow> string" where
  "host_line X h = Host_Hostname h @ '' ansible_host='' @ Host_Hostname h @
     concat (map (\<lambda>(k, v). '' '' @ k @ ''='' @ fmt_s X v) (vars_order X (Host_Vars h)))"

definition groups_of :: "InventoryHost \<Rightarrow> string list" where
  "groups_of h = (case Host_Groups h of None \<Rightarrow> [] | Some gs \<Rightarrow> gs)"

definition add_member :: "string \<Rightarrow> (string \<times> string list) list \<Rightarrow> string \<Rightarrow> (string \<times> string list) list" where
  "add_member hostname groups g =
     AList.update g ((case map_of groups g of None \<Rightarrow> [] | Some ms \<Rightarrow> ms) @ [hostname]) groups"

definition collect_groups :: "InventoryHost list \<Rightarrow> (string \<times> string list) list" where
  "collect_groups hosts = foldl (\<lambda>m h. foldl (add_member (Host_Hostname h)) m (groups_of h)) [] hosts"

definition group_lines :: "string \<times> string list \<Rightarrow> string list" where
  "group_lines g = (''['' @ fst g @ '']'') # snd g @ ['''']"

definition inventory_lines :: "run_ext \<Rightarrow> InventoryHost list \<Rightarrow> string list" where
  "inventory_lines X hosts = ''[all]'' # map (host_line X) hosts @ [''''] @
     concat (map group_lines (groups_order X (collect_groups hosts)))"

definition inventory_text :: "run_ext \<Rightarrow> InventoryHost list \<Rightarrow> string" where
  "inventory_text X hosts = concat (map (\<lambda>l. l @ [NL]) (inventory_lines X hosts))"

definition WriteInventory :: "run_ext \<Rightarrow> string \<Rightarrow> InventoryHost list \<Rightarrow> files \<Rightarrow> unit res \<times> files" where
  "WriteInventory X path hosts = write_file X path 420 (inventory_text X hosts)"

subsection \<open>Clone, variables, playbook (runner.go)\<close>

definition gitClone ::
  "run_ext \<Rightarrow> string \<Rightarrow> string \<Rightarrow> string \<Rightarrow> CredentialSecret list \<Rightarrow> Creds \<Rightarrow> files \<Rightarrow> unit res \<times> files" where
  "gitClone X repoURL branch dest rawCreds creds fs =
     (if repoURL = '''' then (Inr (), fs)
      else (case exec_git X ([''clone'', ''--depth'', ''1''] @ (if branch \<noteq> '''' then [''--branch'', branch] else [])
                    @ [httpsCloneURL repoURL rawCreds, dest]) (Creds_Env creds) fs of
         (None, fs1) \<Rightarrow> (Inr (), fs1)
       | (Some (err, out), fs1) \<Rightarrow> (Inl (ErrMsg (''git clone: '' @ err @ [NL] @ out)), fs1)))"

definition writeExtraVars :: "run_ext \<Rightarrow> string \<Rightarrow> vars \<Rightarrow> files \<Rightarrow> unit res \<times> files" where
  "writeExtraVars X path vs fs =
     (case json_vars X vs of Inl e \<Rightarrow> (Inl e, fs) | Inr data \<Rightarrow> write_file X path 420 data fs)"

definition playbook_args :: "string \<Rightarrow> string \<Rightarrow> string \<Rightarrow> Creds \<Rightarrow> string list" where
  "playbook_args playbookPath inventoryPath extraVarsPath creds =
     [''-i'', inventoryPath] @
     (if extraVarsPath \<noteq> '''' then [''--extra-vars'', ''@'' @ extraVarsPath] else []) @
     (if Creds_VaultPassPath creds \<noteq> '''' then [''--vault-password-file'', Creds_VaultPassPath creds] else []) @
     (if Creds_SSHKeyPath creds \<noteq> '''' then [''--private-key'', Creds_SSHKeyPath creds] else []) @
     (if Creds_AnsibleUser creds \<noteq> '''' then [''--user'', Creds_AnsibleUser creds] else []) @ [playbookPath]"

text \<open>\<open>seq.Add(1)\<close> numbers the lines from 1.\<close>

definition number_lines :: "(string \<times> string) list \<Rightarrow> JobLogLine list" where
  "number_lines ls = map (\<lambda>(n, line, stream). \<lparr>Log_Seq = int n, Log_Line = line, Log_Stream = stream\<rparr>)
     (zip [1..<Suc (length ls)] ls)"

definition runPlaybook ::
  "run_ext \<Rightarrow> string \<Rightarrow> string \<Rightarrow> string \<Rightarrow> Creds \<Rightarrow> files \<Rightarrow> int \<times> JobLogLine list \<times> files" where
  "runPlaybook X playbookPath inventoryPath extraVarsPath creds fs =
     (case exec_playbook X (playbook_args playbookPath inventoryPath extraVarsPath creds)
             ([''ANSIBLE_FORCE_COLOR=1'', ''ANSIBLE_STDOUT_CALLBACK=default''] @ Creds_Env creds) fs of
        (NoPipe, fs1) \<Rightarrow> (-1, [], fs1)
      | (NoStart, fs1) \<Rightarrow> (-1, [], fs1)
      | (WaitFailed ls, fs1) \<Rightarrow> (-1, number_lines ls, fs1)
      | (Exited code ls, fs1) \<Rightarrow> (code, number_lines ls, fs1))"

subsection \<open>The whole run\<close>

record Result =
  Result_JobStatus :: JobStatus
  Result_Code :: int

abbreviation failed_early :: Result where
  "failed_early \<equiv> \<lparr>Result_JobStatus = JobStatusFailed, Result_Code = -1\<rparr>"

text \<open>
  \<open>Run\<close> from the clone on, with the credentials in place; the deferred calls are in \<open>Run\<close>.
\<close>

definition run_steps ::
  "run_ext \<Rightarrow> JobPayload \<Rightarrow> string \<Rightarrow> Creds \<Rightarrow> files \<Rightarrow> Result \<times> JobLogLine list \<times> files" where
  "run_steps X payload jobDir creds fs =
     (let repoDir = filepath_Join jobDir ''repo'';
          inventoryPath = filepath_Join jobDir ''inventory.ini'';
          extraVarsPath = filepath_Join jobDir ''extra_vars.json''
      in case gitClone X (Payload_RepoURL payload) (Payload_RepoBranch payload) repoDir
                (Payload_Credentials payload) creds fs of
           (Inl e, fs1) \<Rightarrow> (failed_early, [], fs1)
         | (Inr _, fs1) \<Rightarrow>
            (case WriteInventory X inventoryPath (Payload_Inventory payload) fs1 of
               (Inl e, fs2) \<Rightarrow> (failed_early, [], fs2)
             | (Inr _, fs2) \<Rightarrow>
                (case writeExtraVars X extraVarsPath (Payload_ExtraVars payload) fs2 of
                   (Inl e, fs3) \<Rightarrow> (failed_early, [], fs3)
                 | (Inr _, fs3) \<Rightarrow>
                    (case runPlaybook X (filepath_Join repoDir (Payload_Playbook payload)) inventoryPath
                            extraVarsPath creds fs3 of
                       (exitCode, ls, fs4) \<Rightarrow>
                         (\<lparr>Result_JobStatus = (if ctx_cancelled X then JobStatusCancelled
                             else if exitCode \<noteq> 0 then JobStatusFailed else JobStatusSuccess),
                           Result_Code = exitCode\<rparr>, ls, fs4)))))"

definition Run :: "run_ext \<Rightarrow> JobPayload \<Rightarrow> string \<Rightarrow> files \<Rightarrow> Result \<times> JobLogLine list \<times> files" where
  "Run X payload workDir fs =
     (let jobDir = filepath_Join workDir (uuid_String (Payload_JobID payload))
      in case os_MkdirAll X jobDir fs of
           Some e \<Rightarrow> (failed_early, [], fs)
         | None \<Rightarrow>
            (case Materialize X jobDir (Payload_Credentials payload) fs of
               (Inl e, fs1) \<Rightarrow> (failed_early, [], remove_all X jobDir fs1)
             | (Inr creds, fs1) \<Rightarrow>
                (case run_steps X payload jobDir creds fs1 of
                   (result, ls, fs2) \<Rightarrow>
                     (result, ls, remove_all X jobDir (Cleanup X (Creds_written creds) fs2)))))"

end
