(* ===== verification/AgentProps.thy ===== *)
theory AgentProps
  imports AgentServer AgentRunner Scenario
begin

section \<open>Properties of the agent\<close>

definition demo_payload :: "string \<Rightarrow> JobPayload" where
  "demo_payload i = \<lparr>Payload_JobID = UUID i, Payload_TemplateID = UUID ''t1'', Payload_Playbook = ''site.yml'',
     Payload_Inventory = [demo_host], Payload_ExtraVars = [],
     Payload_Credentials = [\<lparr>Secret_Kind = CredentialKindSSHKey, Secret_Fields = [(''private_key'', ''KEY'')]\<rparr>],
     Payload_CallbackURL = ''http://api'', Payload_RepoURL = ''https://host/site'', Payload_RepoBranch = ''main''\<rparr>"

lemma demo_payload_id [simp]: "Payload_JobID (demo_payload i) = UUID i"
  by (simp add: demo_payload_def)

subsection \<open>Capacity\<close>

text \<open>
  C11: The agent's capacity. The counter that the listener compares with its capacity is the number of
  jobs it holds. If at most \<open>k\<close> dispatch handlers run between their check and their increment at a
  time, the agent never holds more than capacity plus \<open>k - 1\<close> jobs: one request at a time keeps the
  capacity, concurrent requests can exceed it by as many as there are, less one.
\<close>

theorem agent_load_bounded:
  assumes "agent_reach capacity k s" and "0 \<le> capacity" and "1 \<le> k"
  shows "RunningJobs (as_server s) = int (jobs_held s) \<and> RunningJobs (as_server s) \<le> capacity + int k - 1"
  using agent_reach_load [OF assms] by (simp add: RunningJobs_def)

text \<open>The bound is sharp: two concurrent requests to an agent of capacity one are both accepted.\<close>

theorem agent_load_bounded_witness:
  "\<exists>s. agent_reach 1 2 s \<and> RunningJobs (as_server s) = 2 \<and> RunningJobs (as_server s) \<le> 1 + int 2 - 1"
proof -
  let ?p = "demo_payload ''j1''" and ?q = "demo_payload ''j2''"
  define s0 where "s0 = agent_init 1"
  define s1 where "s1 = s0\<lparr>as_tasks := as_tasks s0 @ [Admitted ?p (as_contexts s0)],
    as_accepted := as_accepted s0 @ [?p], as_contexts := Suc (as_contexts s0)\<rparr>"
  define s2 where "s2 = s1\<lparr>as_tasks := as_tasks s1 @ [Admitted ?q (as_contexts s1)],
    as_accepted := as_accepted s1 @ [?q], as_contexts := Suc (as_contexts s1)\<rparr>"
  define s3 where "s3 = s2\<lparr>as_server := dispatch_register ?p 0 (as_server s2),
    as_tasks := [] @ Registered ?p 0 # [Admitted ?q 1]\<rparr>"
  define s4 where "s4 = s3\<lparr>as_server := dispatch_start (as_server s3), as_tasks := [] @ Executing ?p 0 # [Admitted ?q 1]\<rparr>"
  define s5 where "s5 = s4\<lparr>as_server := dispatch_register ?q 1 (as_server s4),
    as_tasks := [Executing ?p 0] @ Registered ?q 1 # []\<rparr>"
  define s6 where "s6 = s5\<lparr>as_server := dispatch_start (as_server s5), as_tasks := [Executing ?p 0] @ Executing ?q 1 # []\<rparr>"
  note defs = s0_def s1_def s2_def s3_def s4_def s5_def s6_def agent_init_def Server_New_def server_ops
  have "agent_reach 1 2 s0" unfolding s0_def by (rule reach_init)
  then have "agent_reach 1 2 s1"
  proof (rule reach_step)
    show "agent_step s0 s1"
      unfolding s1_def by (rule admit [where body = "Some ?p"]) (simp add: dispatch_check_def defs uuid_Nil_def)
  qed (simp add: defs)
  then have "agent_reach 1 2 s2"
  proof (rule reach_step)
    show "agent_step s1 s2"
      unfolding s2_def by (rule admit [where body = "Some ?q"]) (simp add: dispatch_check_def defs uuid_Nil_def)
  qed (simp add: defs)
  then have "agent_reach 1 2 s3"
    by (rule reach_step) (unfold s3_def, rule registers, simp_all add: defs)
  then have "agent_reach 1 2 s4"
    by (rule reach_step) (unfold s4_def, rule starts, simp_all add: defs)
  then have "agent_reach 1 2 s5"
    by (rule reach_step) (unfold s5_def, rule registers, simp_all add: defs)
  then have r: "agent_reach 1 2 s6"
    by (rule reach_step) (unfold s6_def, rule starts, simp_all add: defs)
  moreover have "RunningJobs (as_server s6) = 2" by (simp add: RunningJobs_def defs)
  ultimately show ?thesis using agent_load_bounded [OF r] by (intro exI [of _ s6]) simp
qed

subsection \<open>Cancelling\<close>

text \<open>
  C12: Cancelling hits the right job. If no job id was accepted twice, then in every reachable state a
  cancel request for a job that is registered or executing answers 202 and cancels exactly the
  context of that job, and for any other id it answers 404 and cancels nothing. (The controller sends
  a job's payload at most once, so the hypothesis holds as long as there is no other client.)
\<close>

theorem cancel_hits_job:
  assumes "agent_reach capacity k s" and "distinct (map Payload_JobID (as_accepted s))"
    and "parse param = Some i"
  shows "case List.find (\<lambda>t. in_map t \<and> task_id t = i) (as_tasks s) of
      Some t \<Rightarrow> handleCancel parse param (as_server s) = (202, Some (task_ctx t))
    | None \<Rightarrow> handleCancel parse param (as_server s) = (404, None)"
proof -
  note ok = agent_reach_running_ok [OF assms(1,2)]
  show ?thesis
  proof (cases "List.find (\<lambda>t. in_map t \<and> task_id t = i) (as_tasks s)")
    case None
    then have "map_of (Srv_running (as_server s)) i = None"
      using running_okD [OF ok, of i] by (auto simp: find_None_iff) (metis option.exhaust)
    then show ?thesis using None assms(3) by (simp add: handleCancel_def)
  next
    case (Some t)
    then have "map_of (Srv_running (as_server s)) i = Some (task_ctx t)"
      using running_okD [OF ok, of i "task_ctx t"] by (auto simp: find_Some_iff)
    then show ?thesis using Some assms(3) by (simp add: handleCancel_def)
  qed
qed

theorem cancel_hits_job_witness:
  "\<exists>s. agent_reach 1 1 s \<and> as_tasks s = [Registered (demo_payload ''j1'') 0] \<and>
     handleCancel (\<lambda>x. Some (UUID x)) ''j1'' (as_server s) = (202, Some 0) \<and>
     handleCancel (\<lambda>x. Some (UUID x)) ''j2'' (as_server s) = (404, None)"
proof -
  let ?p = "demo_payload ''j1''"
  define s0 where "s0 = agent_init 1"
  define s1 where "s1 = s0\<lparr>as_tasks := as_tasks s0 @ [Admitted ?p (as_contexts s0)],
    as_accepted := as_accepted s0 @ [?p], as_contexts := Suc (as_contexts s0)\<rparr>"
  define s2 where "s2 = s1\<lparr>as_server := dispatch_register ?p 0 (as_server s1), as_tasks := [] @ Registered ?p 0 # []\<rparr>"
  note defs = s0_def s1_def s2_def agent_init_def Server_New_def server_ops
  have "agent_reach 1 1 s0" unfolding s0_def by (rule reach_init)
  then have "agent_reach 1 1 s1"
  proof (rule reach_step)
    show "agent_step s0 s1"
      unfolding s1_def by (rule admit [where body = "Some ?p"]) (simp add: dispatch_check_def defs uuid_Nil_def)
  qed (simp add: defs)
  then have r: "agent_reach 1 1 s2"
    by (rule reach_step) (unfold s2_def, rule registers, simp_all add: defs)
  have d: "distinct (map Payload_JobID (as_accepted s2))" by (simp add: defs)
  have t: "as_tasks s2 = [Registered ?p 0]" by (simp add: defs)
  show ?thesis
    using r t cancel_hits_job [OF r d, of "\<lambda>x. Some (UUID x)" "''j1''"]
      cancel_hits_job [OF r d, of "\<lambda>x. Some (UUID x)" "''j2''"] by auto
qed

subsection \<open>Logs\<close>

text \<open>
  C13: Log lines arrive complete and in order. At every moment the batches passed on, the batch in
  hand and the buffer, one after the other, are the lines added so far: nothing is lost, doubled or
  reordered, and no batch is empty. Once \<open>Flush\<close> has closed the channel, the batcher's goroutine needs
  at most four more steps, and when it can do no more it has returned; if no line was added after
  \<open>Flush\<close>, every line has then been passed on. \<open>Flush\<close> itself does not wait for that.
\<close>

theorem log_batches_complete:
  assumes r: "batch_step\<^sup>*\<^sup>* NewLogBatcher b"
  shows "concat (lb_flushed b) @ pending b @ lb_buf b = lb_added b \<and> [] \<notin> set (lb_flushed b) \<and>
    (\<forall>n b'. (drain_step ^^ n) b b' \<longrightarrow> n \<le> 4) \<and>
    (\<forall>b'. lb_done b \<and> drain_step\<^sup>*\<^sup>* b b' \<and> \<not> (\<exists>b''. drain_step b' b'') \<longrightarrow>
       lb_stopped b' \<and> (\<not> lb_late b \<longrightarrow> concat (lb_flushed b') = lb_added b))"
proof -
  have ok: "batcher_ok b" by (rule batch_steps_ok [OF r])
  have "drain_measure b \<le> 4" by (simp add: drain_measure_def)
  then have "n \<le> 4" if "(drain_step ^^ n) b b'" for n b'
    using drain_steps_bound [OF that] by simp
  moreover have "lb_stopped b' \<and> (\<not> lb_late b \<longrightarrow> concat (lb_flushed b') = lb_added b)"
    if "lb_done b" "drain_step\<^sup>*\<^sup>* b b'" "\<not> (\<exists>b''. drain_step b' b'')" for b'
  proof -
    have "batch_step\<^sup>*\<^sup>* b b'" using that(2) by (rule rtranclp_mono [THEN predicate2D, rotated]) (auto intro: drain_step_batch)
    then have ok': "batcher_ok b'" using r by (intro batch_steps_ok) simp
    note fr = drain_steps_frame [OF that(2)]
    have "lb_taken b' = None \<and> lb_last b' \<and> lb_stopped b'" using drain_stuck [OF that(3)] fr that(1) by simp
    then show ?thesis using ok' fr by (auto simp: batcher_ok_def pending_def)
  qed
  ultimately show ?thesis using ok by (auto simp: batcher_ok_def)
qed

theorem log_batches_complete_witness:
  "\<exists>b b'. batch_step\<^sup>*\<^sup>* NewLogBatcher b \<and> lb_done b \<and> lb_flushed b = [] \<and> lb_buf b \<noteq> [] \<and>
     drain_step\<^sup>*\<^sup>* b b' \<and> concat (lb_flushed b') = lb_added b"
proof -
  let ?l = "\<lparr>Log_Seq = 1, Log_Line = ''ok'', Log_Stream = ''stdout''\<rparr>"
  define a where "a = Add ?l NewLogBatcher"
  define b where "b = a\<lparr>lb_done := True\<rparr>"
  define c where "c = (doFlush_take b)\<lparr>lb_last := True\<rparr>"
  define d where "d = doFlush_send c"
  define e where "e = d\<lparr>lb_stopped := True\<rparr>"
  note defs = a_def b_def c_def d_def e_def Add_def NewLogBatcher_def doFlush_take_def doFlush_send_def
  have "batch_step NewLogBatcher a" unfolding a_def by (rule adds)
  moreover have "batch_step a b" by (rule closes) (simp add: Flush_def defs)
  ultimately have r: "batch_step\<^sup>*\<^sup>* NewLogBatcher b" by simp
  have "drain_step b c" unfolding c_def by (rule drain_ends) (simp_all add: defs)
  moreover have "drain_step c d" unfolding d_def by (rule drain_sends) (simp add: defs)
  moreover have "drain_step d e" unfolding e_def by (rule drain_returns) (simp_all add: defs)
  ultimately have s: "drain_step\<^sup>*\<^sup>* b e" by (meson converse_rtranclp_into_rtranclp r_into_rtranclp)
  have "\<not> (\<exists>x. drain_step e x)" by (auto simp: defs elim!: drain_stepE)
  moreover have "lb_done b \<and> lb_flushed b = [] \<and> lb_buf b \<noteq> [] \<and> \<not> lb_late b" by (simp add: defs)
  ultimately show ?thesis using log_batches_complete [OF r] r s by blast
qed

subsection \<open>A run\<close>

lemma run_steps_result:
  "run_steps X p d cr fs = (r, ls, fs') \<Longrightarrow> IsTerminal (Result_JobStatus r) \<and>
    (Result_JobStatus r = JobStatusSuccess \<longrightarrow> Result_Code r = 0 \<and> \<not> ctx_cancelled X)"
  by (auto simp: run_steps_def Let_def split: sum.splits prod.splits if_splits)

lemma number_lines_seq: "map Log_Seq (number_lines ls) = map int [1..<Suc (length ls)]"
proof -
  have "map Log_Seq (number_lines ls) = map (int \<circ> fst) (zip [1..<Suc (length ls)] ls)"
    by (simp add: number_lines_def split_beta comp_def del: upt_Suc)
  also have "\<dots> = map int (map fst (zip [1..<Suc (length ls)] ls))" by (simp only: map_map)
  also have "\<dots> = map int [1..<Suc (length ls)]" by (subst map_fst_zip) (simp_all del: upt_Suc)
  finally show ?thesis .
qed

lemma run_steps_lines:
  assumes "run_steps X p d cr fs = (r, ls, fs')"
  shows "map Log_Seq ls = map int [1..<Suc (length ls)]"
proof -
  have "ls = [] \<or> (\<exists>xs. ls = number_lines xs)"
    using assms
    by (auto simp: run_steps_def runPlaybook_def Let_def split: sum.splits prod.splits playbook_end.splits)
  moreover have "length (number_lines xs) = length xs" for xs by (simp add: number_lines_def del: upt_Suc)
  ultimately show ?thesis using number_lines_seq by (auto simp del: upt_Suc)
qed

lemma remove_all_clean:
  "os_RemoveAll X d fs = None \<Longrightarrow> under d p \<Longrightarrow> map_of (remove_all X d fs) p = None"
  by (auto simp: remove_all_def map_of_eq_None_iff)

lemma under_seg: "under d (d @ CHR 0x2F # n)"
  by (simp add: under_def HasPrefix_def)

text \<open>
  C10: What a run leaves and reports. Whatever fails on the way (writing a secret, the clone, the
  inventory, the playbook itself, cancellation), the status that \<open>Run\<close> returns is terminal, so the
  API server accepts it; it is success only if the playbook exited with code 0 and the job was not
  cancelled; log lines are numbered from 1 without gaps. If the job's directory could be made, then
  after the run no file is left below it, in particular none of the secrets; the removal of the tree
  is assumed to work.
\<close>

theorem run_reports_and_cleans:
  assumes "Run X payload workDir fs = (r, ls, fs')" and "\<And>d fs. os_RemoveAll X d fs = None"
    and "workDir \<noteq> []" and "hd workDir = CHR 0x2F" and "seg_ok (uuid_String (Payload_JobID payload))"
    and "jobDir = filepath_Join workDir (uuid_String (Payload_JobID payload))"
  shows "IsTerminal (Result_JobStatus r) \<and>
    (Result_JobStatus r = JobStatusSuccess \<longrightarrow> Result_Code r = 0 \<and> \<not> ctx_cancelled X) \<and>
    map Log_Seq ls = map int [1..<Suc (length ls)] \<and>
    (if os_MkdirAll X jobDir fs = None
     then (\<forall>p. under jobDir p \<longrightarrow> map_of fs' p = None) \<and>
       (\<forall>n. seg_ok n \<longrightarrow> map_of fs' (filepath_Join jobDir n) = None)
     else fs' = fs)"
proof (cases "os_MkdirAll X jobDir fs")
  case (Some e)
  then show ?thesis using assms(1,6) by (auto simp: Run_def)
next
  case None
  obtain x fs1 where M: "Materialize X jobDir (Payload_Credentials payload) fs = (x, fs1)" by fastforce
  have clean: "(\<forall>p. under jobDir p \<longrightarrow> map_of fs' p = None)" if "fs' = remove_all X jobDir g" for g
    using remove_all_clean [OF assms(2)] that by simp
  have names: "\<forall>n. seg_ok n \<longrightarrow> map_of fs' (filepath_Join jobDir n) = None"
    if "\<forall>p. under jobDir p \<longrightarrow> map_of fs' p = None"
    using that under_seg filepath_Join_twice [OF assms(3-5)] by (simp add: assms(6))
  show ?thesis
  proof (cases x)
    case (Inl e)
    then have "r = failed_early" "ls = []" "fs' = remove_all X jobDir fs1"
      using assms(1,6) None M by (simp_all add: Run_def)
    then show ?thesis using clean names None by simp
  next
    case (Inr creds)
    obtain r2 l2 fs2 where S: "run_steps X payload jobDir creds fs1 = (r2, l2, fs2)" by (metis prod_cases3)
    then have "r = r2" "ls = l2" "fs' = remove_all X jobDir (Cleanup X (Creds_written creds) fs2)"
      using assms(1,6) None M Inr by (simp_all add: Run_def)
    then show ?thesis using run_steps_result [OF S] run_steps_lines [OF S] clean names None by simp
  qed
qed

definition demo_run :: run_ext where
  "demo_run = \<lparr>os_MkdirAll = (\<lambda>d fs. None), os_Write = (\<lambda>p fs. None), os_Remove = (\<lambda>p fs. None),
     os_RemoveAll = (\<lambda>d fs. None), exec_git = (\<lambda>args env fs. (None, (last args, (493, '''')) # fs)),
     exec_playbook = (\<lambda>args env fs. (Exited 0 [(''ok'', ''stdout'')], fs)), ctx_cancelled = False,
     json_vars = (\<lambda>vs. Inr ''{}''), fmt_s = (\<lambda>j. case j of JStr s \<Rightarrow> s | _ \<Rightarrow> ''''), vars_order = rev,
     groups_order = rev\<rparr>"

theorem run_reports_and_cleans_witness:
  "map_of (snd (snd (Run demo_run (demo_payload ''j1'') ''/tmp/aop'' []))) ''/tmp/aop/j1/id_rsa'' = None \<and>
   map_of (snd (Materialize demo_run ''/tmp/aop/j1'' (Payload_Credentials (demo_payload ''j1'')) [])) ''/tmp/aop/j1/id_rsa''
     = Some (384, ''KEY'') \<and>
   Result_JobStatus (fst (Run demo_run (demo_payload ''j1'') ''/tmp/aop'' [])) = JobStatusSuccess"
proof -
  obtain r ls fs' where R: "Run demo_run (demo_payload ''j1'') ''/tmp/aop'' [] = (r, ls, fs')" by (metis prod_cases3)
  have rm: "os_RemoveAll demo_run d fs = None" "os_MkdirAll demo_run d fs = None" for d fs by (simp_all add: demo_run_def)
  have j: "''/tmp/aop/j1'' = filepath_Join ''/tmp/aop'' (uuid_String (Payload_JobID (demo_payload ''j1'')))"
    and k: "filepath_Join ''/tmp/aop/j1'' ''id_rsa'' = ''/tmp/aop/j1/id_rsa''" by code_simp+
  have "\<forall>n. seg_ok n \<longrightarrow> map_of fs' (filepath_Join ''/tmp/aop/j1'' n) = None"
    using run_reports_and_cleans [OF R rm(1) _ _ _ j] rm(2) by (simp add: seg_ok_def)
  moreover have "seg_ok ''id_rsa''" by (simp add: seg_ok_def)
  ultimately have "map_of fs' ''/tmp/aop/j1/id_rsa'' = None" using k by metis
  moreover have "map_of (snd (Materialize demo_run ''/tmp/aop/j1'' (Payload_Credentials (demo_payload ''j1'')) [])) ''/tmp/aop/j1/id_rsa''
     = Some (384, ''KEY'')" by code_simp
  moreover have "Result_JobStatus (fst (Run demo_run (demo_payload ''j1'') ''/tmp/aop'' [])) = JobStatusSuccess" by code_simp
  ultimately show ?thesis using R by simp
qed

end
