(* ===== verification/InventoryRoundTrip.thy ===== *)
theory InventoryRoundTrip
  imports InventoryProps AgentProps
begin

section \<open>The agent's inventory file, read back by the controller's parser\<close>

text \<open>
  Two components know the inventory format: the controller parses INI files
  (\<open>controller/inventory/gitfile.go\<close>), the agent writes them (\<open>agent/internal/runner/inventory.go\<close>).
  Reading back what was written gives the same hosts, groups and variables, for hosts such as the
  parser produces.
\<close>

definition word_ok :: "string \<Rightarrow> bool" where
  "word_ok s \<longleftrightarrow> s \<noteq> [] \<and> (\<forall>c\<in>set s. \<not> is_space c)"

definition name_ok :: "string \<Rightarrow> bool" where
  "name_ok s \<longleftrightarrow> word_ok s \<and> hd s \<notin> {CHR ''#'', CHR '';'', CHR ''[''}"

definition var_ok :: "string \<times> json \<Rightarrow> bool" where
  "var_ok kv \<longleftrightarrow> word_ok (fst kv) \<and> CHR ''='' \<notin> set (fst kv) \<and>
     (\<exists>v. snd kv = JStr v \<and> (\<forall>c\<in>set v. \<not> is_space c))"

definition group_ok :: "string \<Rightarrow> bool" where
  "group_ok g \<longleftrightarrow> g \<noteq> [] \<and> g \<noteq> ''all'' \<and> CHR '':'' \<notin> set g \<and> NL \<notin> set g"

definition host_ok :: "InventoryHost \<Rightarrow> bool" where
  "host_ok h \<longleftrightarrow> name_ok (Host_Hostname h) \<and> distinct (map fst (Host_Vars h)) \<and>
     (\<forall>kv\<in>set (Host_Vars h). var_ok kv) \<and> distinct (groups_of h) \<and> (\<forall>g\<in>set (groups_of h). group_ok g)"

subsection \<open>Lines\<close>

lemma NL_space: "is_space NL" by (simp add: is_space_def NL_def)

lemma raw_lines_concat:
  assumes "\<forall>l\<in>set ls. NL \<notin> set l"
  shows "raw_lines (concat (map (\<lambda>l. l @ [NL]) ls)) = ls"
proof -
  have "SplitByte (concat (map (\<lambda>l. l @ [NL]) ls)) NL = ls @ [[]]"
    using assms by (induction ls) (auto simp: SplitByte_append SplitByte_plain)
  then show ?thesis by (simp add: raw_lines_def NL_def)
qed

lemma TrimSpace_id:
  assumes "s \<noteq> []" and "\<not> is_space (hd s)" and "\<not> is_space (last s)"
  shows "TrimSpace s = s"
proof -
  have "dropWhile is_space s = s" using assms(1,2) by (cases s) auto
  moreover have "dropWhile is_space (rev s) = rev s"
    using assms(1,3) by (cases s rule: rev_cases) auto
  ultimately show ?thesis by (simp add: TrimSpace_def)
qed

lemma dropCR_id: "l = [] \<or> \<not> is_space (last l) \<Longrightarrow> dropCR l = l"
  by (auto simp: dropCR_def is_space_def)

lemma Fields_one: "word_ok w \<Longrightarrow> Fields w = [w]"
  by (cases w; subst Fields.simps)
     (auto simp: word_ok_def takeWhile_eq_all_conv [THEN iffD2] dropWhile_eq_Nil_conv [THEN iffD2])

lemma Fields_words_concat:
  assumes "word_ok w" and "\<forall>x\<in>set ws. word_ok x"
  shows "Fields (w @ concat (map (\<lambda>x. CHR '' '' # x) ws)) = w # ws"
  using assms
proof (induction ws arbitrary: w)
  case Nil
  then show ?case by (simp add: Fields_one)
next
  case (Cons x ws)
  have "Fields (w @ CHR '' '' # (x @ concat (map (\<lambda>x. CHR '' '' # x) ws))) = w # Fields (x @ concat (map (\<lambda>x. CHR '' '' # x) ws))"
    using Cons.prems by (intro Fields_word) (auto simp: word_ok_def is_space_def)
  then show ?case using Cons by simp
qed

definition var_word :: "run_ext \<Rightarrow> string \<times> json \<Rightarrow> string" where
  "var_word X kv = fst kv @ ''='' @ fmt_s X (snd kv)"

definition host_words :: "run_ext \<Rightarrow> InventoryHost \<Rightarrow> string list" where
  "host_words X h = (''ansible_host='' @ Host_Hostname h) # map (var_word X) (vars_order X (Host_Vars h))"

lemma host_line_words:
  "host_line X h = Host_Hostname h @ concat (map (\<lambda>x. CHR '' '' # x) (host_words X h))"
  by (simp add: host_line_def host_words_def var_word_def comp_def)
     (rule arg_cong [where f = concat], rule map_cong, auto)

lemma words_ends:
  assumes "word_ok w" and "\<forall>x\<in>set ws. word_ok x" and "l = w @ concat (map (\<lambda>x. CHR '' '' # x) ws)"
  shows "l \<noteq> []" "hd l = hd w" "\<not> is_space (last l)" "NL \<notin> set l"
proof -
  have ok: "NL \<notin> set x" "\<not> is_space (last x)" "x \<noteq> []" if "word_ok x" for x
    using that NL_space by (auto simp: word_ok_def)
  show "l \<noteq> []" "hd l = hd w" using ok assms(1,3) by (auto simp: hd_append)
  show "\<not> is_space (last l)"
  proof (cases ws rule: rev_cases)
    case Nil
    then show ?thesis using ok assms by simp
  next
    case (snoc ys y)
    then show ?thesis using ok [of y] assms by simp
  qed
  have "NL \<noteq> CHR '' ''" by (simp add: NL_def)
  then show "NL \<notin> set l" using ok assms by auto
qed

subsection \<open>The lines the agent writes, as entries\<close>

lemma ini_host_line:
  assumes "name_ok w" and "\<forall>x\<in>set ws. word_ok x" and "l = w @ concat (map (\<lambda>x. CHR '' '' # x) ws)"
  shows "ini_entries g False (l # ls) = (g, w # ws) # ini_entries g False ls"
proof -
  have w: "word_ok w" using assms(1) by (simp add: name_ok_def)
  note E = words_ends [OF w assms(2,3)]
  have hd: "\<not> is_space (hd w)" using w by (auto simp: word_ok_def)
  then have t: "TrimSpace l = l" using E by (simp add: TrimSpace_id)
  have "\<not> is_comment l" "\<not> is_header l"
    using E assms(1) by (auto simp: is_comment_def is_header_def name_ok_def HasPrefix_def neq_Nil_conv)
  moreover have "Fields l = w # ws" using Fields_words_concat [OF w assms(2)] assms(3) by simp
  ultimately show ?thesis by (simp add: t)
qed

lemma ini_header_line:
  assumes "CHR '':'' \<notin> set g"
  shows "ini_entries g' skip ((CHR ''['' # g @ '']'') # ls) = ini_entries g False ls"
proof -
  let ?l = "CHR ''['' # g @ '']''"
  have "TrimSpace ?l = ?l" by (rule TrimSpace_id) (simp_all add: is_space_def)
  moreover have "section_name ?l = g" by (simp add: section_name_def)
  moreover have "\<not> is_comment ?l" "is_header ?l"
    by (simp_all add: is_comment_def is_header_def HasPrefix_def HasSuffix_def)
  ultimately show ?thesis using assms by simp
qed

lemma ini_name_line: "name_ok w \<Longrightarrow> ini_entries g False (w # ls) = (g, [w]) # ini_entries g False ls"
  using ini_host_line [of w "[]" w g ls] by (simp del: ini_entries.simps)

lemma ini_blank_line: "ini_entries g skip ('''' # ls) = ini_entries g skip ls"
  by (simp add: TrimSpace_def is_comment_def)

lemma ini_members:
  assumes "\<forall>m\<in>set ms. name_ok m"
  shows "ini_entries g False (ms @ '''' # ls) = map (\<lambda>m. (g, [m])) ms @ ini_entries g False ls"
  using assms by (induction ms) (simp_all add: ini_blank_line ini_name_line del: ini_entries.simps)

lemma ini_groups:
  assumes "\<forall>(g, ms)\<in>set gs. CHR '':'' \<notin> set g \<and> (\<forall>m\<in>set ms. name_ok m)"
  shows "ini_entries g' False (concat (map group_lines gs)) = concat (map (\<lambda>(g, ms). map (\<lambda>m. (g, [m])) ms) gs)"
  using assms
proof (induction gs arbitrary: g')
  case (Cons x gs)
  then show ?case
    by (cases x) (simp add: group_lines_def ini_header_line ini_members del: ini_entries.simps)
qed simp

lemma ini_hosts:
  assumes "\<forall>h\<in>set hs. name_ok (Host_Hostname h) \<and> (\<forall>x\<in>set (host_words X h). word_ok x)"
  shows "ini_entries g False (map (host_line X) hs @ '''' # ls) =
    map (\<lambda>h. (g, Host_Hostname h # host_words X h)) hs @ ini_entries g False ls"
  using assms
  by (induction hs) (simp_all add: ini_blank_line ini_host_line [OF _ _ host_line_words] del: ini_entries.simps)

definition inventory_entries :: "run_ext \<Rightarrow> InventoryHost list \<Rightarrow> (string \<times> string list) list" where
  "inventory_entries X hs = map (\<lambda>h. (''all'', Host_Hostname h # host_words X h)) hs @
     concat (map (\<lambda>(g, ms). map (\<lambda>m. (g, [m])) ms) (groups_order X (collect_groups hs)))"

subsection \<open>The groups the agent collects\<close>

definition members :: "(string \<times> string list) list \<Rightarrow> string \<Rightarrow> string list" where
  "members gs g = (case map_of gs g of None \<Rightarrow> [] | Some ms \<Rightarrow> ms)"

lemma members_add_member: "members (add_member n gs g) g' = members gs g' @ (if g' = g then [n] else [])"
  by (simp add: members_def add_member_def update_conv')

lemma add_member_keys:
  "fst ` set (add_member n gs g) = insert g (fst ` set gs)"
  "distinct (map fst gs) \<Longrightarrow> distinct (map fst (add_member n gs g))"
  by (auto simp: add_member_def dom_update distinct_update)

lemma add_members:
  "set (members (foldl (add_member n) gs xs) g) = set (members gs g) \<union> (if g \<in> set xs then {n} else {})"
  "fst ` set (foldl (add_member n) gs xs) = fst ` set gs \<union> set xs"
  "distinct (map fst gs) \<Longrightarrow> distinct (map fst (foldl (add_member n) gs xs))"
  by (induction xs arbitrary: gs) (auto simp: members_add_member add_member_keys)

lemma collect_groups_spec:
  "set (members (collect_groups hs) g) = {Host_Hostname h | h. h \<in> set hs \<and> g \<in> set (groups_of h)}"
  "fst ` set (collect_groups hs) = \<Union> (set ` groups_of ` set hs)"
  "distinct (map fst (collect_groups hs))"
  unfolding collect_groups_def
  by (induction hs rule: rev_induct) (auto simp: add_members members_def [of "[]"])

lemma collect_groups_member:
  assumes "(g, ms) \<in> set (collect_groups hs)"
  shows "set ms = {Host_Hostname h | h. h \<in> set hs \<and> g \<in> set (groups_of h)}"
  using collect_groups_spec(1) [of hs g] map_of_is_SomeI [OF collect_groups_spec(3) assms] by (simp add: members_def)

lemma collect_groups_find:
  assumes "h \<in> set hs" and "g \<in> set (groups_of h)"
  shows "\<exists>ms. (g, ms) \<in> set (collect_groups hs) \<and> Host_Hostname h \<in> set ms"
proof -
  have "g \<in> fst ` set (collect_groups hs)" using collect_groups_spec(2) [of hs] assms by auto
  then obtain ms where "(g, ms) \<in> set (collect_groups hs)" by auto
  then show ?thesis using collect_groups_member assms by blast
qed

subsection \<open>Reading back\<close>

text \<open>What the runtime is free to choose: the order of a map's entries; and \<open>%s\<close> of a string is the string.\<close>

definition orders_ok :: "run_ext \<Rightarrow> bool" where
  "orders_ok X \<longleftrightarrow> (\<forall>vs. mset (vars_order X vs) = mset vs) \<and> (\<forall>gs. mset (groups_order X gs) = mset gs) \<and>
     (\<forall>s. fmt_s X (JStr s) = s)"

lemma orders_ok_sets:
  assumes "orders_ok X"
  shows "set (vars_order X vs) = set vs" "set (groups_order X gs) = set gs"
  using assms by (auto simp: orders_ok_def dest: mset_eq_setD)

lemma host_words_ok:
  assumes "orders_ok X" and "host_ok h"
  shows "\<forall>x\<in>set (host_words X h). word_ok x"
proof -
  have "word_ok (''ansible_host='' @ Host_Hostname h)"
    using assms(2) by (auto simp: host_ok_def name_ok_def word_ok_def is_space_def)
  moreover have "word_ok (var_word X kv)" if "kv \<in> set (Host_Vars h)" for kv
    using assms that by (fastforce simp: host_ok_def var_ok_def var_word_def orders_ok_def word_ok_def is_space_def)
  ultimately show ?thesis by (auto simp: host_words_def orders_ok_sets [OF assms(1)])
qed

lemma inventory_groups_ok:
  assumes "\<forall>h\<in>set hs. host_ok h" and "(g, ms) \<in> set (collect_groups hs)"
  shows "group_ok g \<and> (\<forall>m\<in>set ms. name_ok m)"
proof -
  have "g \<in> fst ` set (collect_groups hs)" using assms(2) by force
  then have "g \<in> \<Union> (set ` groups_of ` set hs)" by (simp only: collect_groups_spec(2))
  then have "group_ok g" using assms(1) by (auto simp: host_ok_def)
  then show ?thesis using assms(1) collect_groups_member [OF assms(2)] by (auto simp: host_ok_def)
qed

lemma inventory_lines_entries:
  assumes "orders_ok X" and "\<forall>h\<in>set hs. host_ok h"
  shows "ini_entries '''' False (inventory_lines X hs) = inventory_entries X hs"
proof -
  have "ini_entries '''' False (''[all]'' # ls) = ini_entries ''all'' False ls" for ls
    using ini_header_line [of "''all''" "''''" False ls] by simp
  moreover have "\<forall>h\<in>set hs. name_ok (Host_Hostname h) \<and> (\<forall>x\<in>set (host_words X h). word_ok x)"
    using assms host_words_ok by (auto simp: host_ok_def)
  moreover have "\<forall>(g, ms)\<in>set (groups_order X (collect_groups hs)). CHR '':'' \<notin> set g \<and> (\<forall>m\<in>set ms. name_ok m)"
    using inventory_groups_ok [OF assms(2)] by (auto simp: orders_ok_sets [OF assms(1)] group_ok_def)
  ultimately show ?thesis
    by (simp add: inventory_lines_def inventory_entries_def ini_hosts ini_groups del: ini_entries.simps)
qed

lemma inventory_lines_clean:
  assumes "orders_ok X" and "\<forall>h\<in>set hs. host_ok h" and "l \<in> set (inventory_lines X hs)"
  shows "NL \<notin> set l" "dropCR l = l"
proof -
  have "NL \<notin> set l \<and> (l = [] \<or> \<not> is_space (last l))"
    using assms(3) unfolding inventory_lines_def
  proof (simp, elim disjE)
    assume "l = ''[all]''"
    then show ?thesis by (simp add: NL_def is_space_def)
  next
    assume "l \<in> host_line X ` set hs"
    then obtain h where h: "h \<in> set hs" "l = host_line X h" by auto
    then have "word_ok (Host_Hostname h)" using assms(2) by (auto simp: host_ok_def name_ok_def)
    moreover have "\<forall>x\<in>set (host_words X h). word_ok x" using host_words_ok [OF assms(1)] assms(2) h(1) by blast
    ultimately show ?thesis using words_ends(3,4) [OF _ _ h(2) [unfolded host_line_words]] by simp
  next
    assume "\<exists>x\<in>set (groups_order X (collect_groups hs)). l \<in> set (group_lines x)"
    then obtain g ms where g: "(g, ms) \<in> set (collect_groups hs)" "l \<in> set (group_lines (g, ms))"
      by (auto simp: orders_ok_sets [OF assms(1)])
    have "NL \<notin> set l \<and> \<not> is_space (last l)" if "l \<in> set ms"
      using words_ends [of l "[]" l] inventory_groups_ok [OF assms(2) g(1)] that by (auto simp: name_ok_def)
    then show ?thesis
      using g(2) inventory_groups_ok [OF assms(2) g(1)] by (auto simp: group_lines_def NL_def is_space_def group_ok_def)
  qed simp
  then show "NL \<notin> set l" "dropCR l = l" using dropCR_id by auto
qed

lemma IndexByte_append: "c \<notin> set k \<Longrightarrow> IndexByte (k @ c # v) c = Some (length k)"
  by (induction k) auto

lemma assignment_var: "k \<noteq> [] \<Longrightarrow> CHR ''='' \<notin> set k \<Longrightarrow> assignment (k @ CHR ''='' # v) = Some (k, v)"
  by (simp add: assignment_def IndexByte_append)

lemma host_words_assign:
  assumes "orders_ok X" and "host_ok h"
  shows "map (\<lambda>(k, v). (k, JStr v)) (List.map_filter assignment (host_words X h)) =
    (''ansible_host'', JStr (Host_Hostname h)) # vars_order X (Host_Vars h)"
proof -
  have "assignment (''ansible_host='' @ Host_Hostname h) = Some (''ansible_host'', Host_Hostname h)"
    using assignment_var [of "''ansible_host''" "Host_Hostname h"] by simp
  moreover have "map (\<lambda>(k, v). (k, JStr v)) (List.map_filter assignment (map (var_word X) vs)) = vs"
    if "\<forall>kv\<in>set vs. var_ok kv" for vs
    using that assms(1)
    by (induction vs)
       (auto simp: List.map_filter_simps var_word_def assignment_var var_ok_def word_ok_def orders_ok_def)
  moreover have "\<forall>kv\<in>set (vars_order X (Host_Vars h)). var_ok kv"
    using assms by (simp add: orders_ok_sets host_ok_def)
  ultimately show ?thesis by (simp add: host_words_def List.map_filter_simps)
qed

lemma inventory_entries_names:
  assumes "orders_ok X"
  shows "(hd \<circ> snd) ` set (inventory_entries X hs) = Host_Hostname ` set hs"
proof -
  have "set ms \<subseteq> Host_Hostname ` set hs" if "(g, ms) \<in> set (collect_groups hs)" for g ms
    using collect_groups_member [OF that] by auto
  then show ?thesis by (auto simp: inventory_entries_def orders_ok_sets [OF assms] image_Un image_image) blast+
qed

lemma filter_by_name:
  assumes "distinct (map f xs)" and "x \<in> set xs"
  shows "filter (\<lambda>y. f y = f x) xs = [x]"
  using assms by (induction xs) (auto simp: filter_empty_conv image_iff)

lemma entries_of_host:
  assumes "distinct (map Host_Hostname hs)" and "h \<in> set hs"
  shows "entries_of (Host_Hostname h) (inventory_entries X hs) = (''all'', Host_Hostname h # host_words X h) #
    entries_of (Host_Hostname h) (concat (map (\<lambda>(g, ms). map (\<lambda>m. (g, [m])) ms) (groups_order X (collect_groups hs))))"
  using filter_by_name [OF assms]
  by (simp add: entries_of_def inventory_entries_def filter_map comp_def)

lemma host_assignments_host:
  assumes "distinct (map Host_Hostname hs)" and "h \<in> set hs"
  shows "host_assignments (Host_Hostname h) (inventory_entries X hs) = List.map_filter assignment (host_words X h)"
proof -
  have "concat (map (\<lambda>e. tl (snd e)) (filter P (concat (map (\<lambda>(g, ms). map (\<lambda>m. (g, [m])) ms) gs)))) = []"
    for P and gs :: "(string \<times> string list) list"
    by auto
  note tails = this
  show ?thesis by (simp add: host_assignments_def entries_of_host [OF assms]) (simp only: entries_of_def tails append_Nil2)
qed

lemma host_groups_host:
  assumes "orders_ok X" and "\<forall>h\<in>set hs. host_ok h" and "distinct (map Host_Hostname hs)" and "h \<in> set hs"
  shows "set (host_groups (Host_Hostname h) (inventory_entries X hs)) = set (groups_of h)"
proof -
  have same: "h' = h" if "h' \<in> set hs" "Host_Hostname h' = Host_Hostname h" for h'
    using assms(3,4) that by (auto simp: distinct_map dest: inj_onD)
  have ok: "g \<noteq> '''' \<and> g \<noteq> ''all''" if "g \<in> set (groups_of h)" for g
    using assms(2,4) that by (auto simp: host_ok_def group_ok_def)
  have "set (map fst (entries_of (Host_Hostname h) (inventory_entries X hs))) = insert ''all'' (set (groups_of h))"
    using collect_groups_find [OF assms(4)] collect_groups_member [of _ _ hs] same
    by (simp add: entries_of_host [OF assms(3,4)])
       (fastforce simp: entries_of_def orders_ok_sets [OF assms(1)] image_iff)
  then show ?thesis using ok by (auto simp: host_groups_def simp del: set_map)
qed

lemma host_vars_host:
  assumes "orders_ok X" and "host_ok h"
  shows "map_of (rev ((''ansible_host'', JStr (Host_Hostname h)) # vars_order X (Host_Vars h))) =
    [''ansible_host'' \<mapsto> JStr (Host_Hostname h)] ++ map_of (Host_Vars h)"
proof -
  have "mset (map fst (vars_order X (Host_Vars h))) = mset (map fst (Host_Vars h))"
    using assms(1) by (simp add: orders_ok_def)
  from mset_eq_imp_distinct_iff [OF this] have "distinct (map fst (vars_order X (Host_Vars h)))"
    using assms(2) by (simp add: host_ok_def)
  then have "map_of (rev (vars_order X (Host_Vars h))) = map_of (Host_Vars h)"
    using assms(2) orders_ok_sets(1) [OF assms(1)]
    by (subst map_of_inject_set) (simp_all add: host_ok_def rev_map [symmetric])
  then show ?thesis by simp
qed

text \<open>
  C14: Reading the agent's inventory file with the controller's parser gives back what was written.
  For hosts with distinct names, free of white space and of the characters that start a comment or a
  section, string variables, and group names other than \<open>all\<close> with no colon: if \<open>WriteInventory\<close>
  succeeds and no line is longer than the scanner allows, \<open>parseINIInventory\<close> on the written file
  returns exactly one host per host written, with the same groups and the same variables, next to the
  \<open>ansible_host\<close> that the agent adds (a variable of that name that the host has wins).
\<close>

theorem inventory_round_trip:
  fixes G :: "files git_ext"
  assumes "orders_ok X" and "\<forall>h\<in>set hs. host_ok h" and "distinct (map Host_Hostname hs)"
    and "\<forall>l\<in>set (inventory_lines X hs). length l < MaxScanTokenSize"
    and "WriteInventory X path hs fs = (Inr (), fs')"
    and "\<And>fs p m t. map_of fs p = Some (m, t) \<Longrightarrow> os_Open G fs p = Inr (t, None)"
    and "\<And>hs. mset (map_order G hs) = mset hs"
  shows "\<exists>got. parseINIInventory G fs' pid path = Inr got \<and> distinct (map Host_Hostname got) \<and>
    Host_Hostname ` set got = Host_Hostname ` set hs \<and>
    (\<forall>h\<in>set hs. \<forall>h'\<in>set got. Host_Hostname h' = Host_Hostname h \<longrightarrow>
       distinct (groups_of h') \<and> set (groups_of h') = set (groups_of h) \<and>
       map_of (Host_Vars h') = [''ansible_host'' \<mapsto> JStr (Host_Hostname h)] ++ map_of (Host_Vars h))"
proof -
  have "\<exists>m. map_of fs' path = Some (m, inventory_text X hs)"
    using assms(5) by (auto simp: WriteInventory_def write_file_def put_file_def update_conv' split: option.splits)
  then have opened: "os_Open G fs' path = Inr (inventory_text X hs, None)" using assms(6) by blast
  have lines: "raw_lines (inventory_text X hs) = inventory_lines X hs"
    using inventory_lines_clean(1) [OF assms(1,2)] by (simp add: inventory_text_def raw_lines_concat)
  moreover have "map dropCR (inventory_lines X hs) = inventory_lines X hs"
    using inventory_lines_clean(2) [OF assms(1,2)] by (simp add: map_idI)
  ultimately have es: "inventory_entries X hs = ini_entries '''' False (map dropCR (raw_lines (inventory_text X hs)))"
    using inventory_lines_entries [OF assms(1,2)] by simp
  have len: "\<forall>l\<in>set (raw_lines (inventory_text X hs)). length l < MaxScanTokenSize" using assms(4) lines by simp
  note names = inventory_entries_names [OF assms(1), of hs]
  obtain got where B: "parseINIInventory G fs' pid path = Inr got" "distinct (map Host_Hostname got)"
    "Host_Hostname ` set got = Host_Hostname ` set hs"
    "\<forall>h\<in>set got. Host_Groups h = (if host_groups (Host_Hostname h) (inventory_entries X hs) = [] then None
        else Some (host_groups (Host_Hostname h) (inventory_entries X hs))) \<and>
       map_of (Host_Vars h) =
         map_of (rev (map (\<lambda>(k, v). (k, JStr v)) (host_assignments (Host_Hostname h) (inventory_entries X hs))))"
    using parse_meets_spec [OF opened len assms(7) es, of pid] unfolding names by blast
  have "distinct (groups_of h') \<and> set (groups_of h') = set (groups_of h) \<and>
       map_of (Host_Vars h') = [''ansible_host'' \<mapsto> JStr (Host_Hostname h)] ++ map_of (Host_Vars h)"
    if "h \<in> set hs" "h' \<in> set got" "Host_Hostname h' = Host_Hostname h" for h h'
  proof -
    have ok: "host_ok h" using assms(2) that(1) by blast
    have "groups_of h' = host_groups (Host_Hostname h) (inventory_entries X hs)"
      using B(4) that(2,3) by (simp add: groups_of_def)
    then show ?thesis
      using host_groups_host [OF assms(1-3) that(1)] B(4) that(2,3) host_vars_host [OF assms(1) ok]
      by (simp add: host_assignments_host [OF assms(3) that(1)] host_words_assign [OF assms(1) ok] host_groups_def)
  qed
  then show ?thesis using B by blast
qed


text \<open>Two hosts, written into an empty file system, read with the maps walked backwards.\<close>

definition demo_hosts :: "InventoryHost list" where
  "demo_hosts = [(new_host (UUID ''p1'') ''web01'')\<lparr>Host_Groups := Some [''web'', ''eu''],
       Host_Vars := [(''ansible_port'', JStr ''22''), (''role'', JStr '''')]\<rparr>,
     (new_host (UUID ''p1'') ''db01'')\<lparr>Host_Groups := Some [''eu'']\<rparr>]"

definition files_git :: "files git_ext" where
  "files_git = \<lparr>os_NotExist = (\<lambda>fs p. map_of fs p = None), os_Environ = [], git_MkdirAll = (\<lambda>d fs. (None, fs)), git_exec = (\<lambda>dir e args fs. (None, fs)),
     os_Open = (\<lambda>fs p. case map_of fs p of None \<Rightarrow> Inl (ErrMsg ''no such file'') | Some (_, t) \<Rightarrow> Inr (t, None)),
     map_order = rev\<rparr>"

theorem inventory_round_trip_witness:
  "\<exists>got. parseINIInventory files_git (snd (WriteInventory demo_run ''/w/inventory'' demo_hosts [])) (UUID ''p1'') ''/w/inventory''
      = Inr got \<and> Host_Hostname ` set got = {''web01'', ''db01''} \<and>
    (\<forall>h\<in>set got. Host_Hostname h = ''web01'' \<longrightarrow>
       set (groups_of h) = {''web'', ''eu''} \<and> map_of (Host_Vars h) ''ansible_port'' = Some (JStr ''22''))"
proof -
  have X: "orders_ok demo_run" by (simp add: orders_ok_def demo_run_def)
  have hs: "\<forall>h\<in>set demo_hosts. host_ok h" "distinct (map Host_Hostname demo_hosts)"
    by (simp_all add: demo_hosts_def host_ok_def new_host_def groups_of_def group_ok_def var_ok_def name_ok_def
        word_ok_def is_space_def NL_def)
  have "inventory_lines demo_run demo_hosts = [''[all]'', ''web01 ansible_host=web01 role= ansible_port=22'',
      ''db01 ansible_host=db01'', '''', ''[eu]'', ''web01'', ''db01'', '''', ''[web]'', ''web01'', '''']" by code_simp
  then have "\<forall>l\<in>set (inventory_lines demo_run demo_hosts). length l < MaxScanTokenSize"
    by (simp add: MaxScanTokenSize_def)
  from inventory_round_trip [OF X hs this, of "''/w/inventory''" "[]" _ files_git "UUID ''p1''"]
  have "\<exists>got. parseINIInventory files_git (snd (WriteInventory demo_run ''/w/inventory'' demo_hosts [])) (UUID ''p1'') ''/w/inventory''
      = Inr got \<and> Host_Hostname ` set got = Host_Hostname ` set demo_hosts \<and>
     (\<forall>h\<in>set demo_hosts. \<forall>h'\<in>set got. Host_Hostname h' = Host_Hostname h \<longrightarrow>
       set (groups_of h') = set (groups_of h) \<and>
       map_of (Host_Vars h') = [''ansible_host'' \<mapsto> JStr (Host_Hostname h)] ++ map_of (Host_Vars h))"
    by (force simp: files_git_def WriteInventory_def write_file_def demo_run_def)
  then show ?thesis by (force simp: demo_hosts_def new_host_def groups_of_def)
qed

end
