(* ===== verification/ApiClient.thy ===== *)
theory ApiClient
  imports ApiProps2 AgentRunner
begin

section \<open>The agent's client of the API server (agent/internal/apiclient/client.go)\<close>

text \<open>
  \<open>Register\<close>, \<open>Heartbeat\<close>, \<open>PostLogs\<close> and \<open>PostResult\<close> each build one POST request, send it and map
  the status code to an error. \<open>http.Client.Do\<close> is the argument \<open>net\<close>: a function from the request
  and the state of whatever is behind it to a reply or a transport error (a timeout included).
  \<open>url_ok\<close> is the URL check of \<open>http.NewRequestWithContext\<close>, \<open>dec\<close> the JSON decoder applied to the body
  of a registration's reply.

  \<open>api_net\<close> is the network with the API server of this repository behind it, reached under the
  client's base URL.
\<close>

record Client =
  Client_base :: string
  Client_token :: string
  Client_agentID :: uuid

definition Client_New :: "string \<Rightarrow> Client" where
  "Client_New baseURL = \<lparr>Client_base = baseURL, Client_token = '''', Client_agentID = uuid_Nil\<rparr>"

datatype client_body =
    RegisterOut RegisterReq
  | HeartbeatOut AgentHeartbeat
  | LogsOut "JobLogLine list"
  | ResultOut ResultReq

record client_req =
  CReq_Method :: string
  CReq_URL :: string
  CReq_Authorization :: string
  CReq_RegistrationToken :: string
  CReq_Body :: client_body

datatype client_reply = Unreachable string | Answer nat api_body

type_synonym 's net = "client_req \<Rightarrow> 's \<Rightarrow> client_reply \<times> 's"

definition setBearer :: "Client \<Rightarrow> client_req \<Rightarrow> client_req" where
  "setBearer c req = req\<lparr>CReq_Authorization := ''Bearer '' @ Client_token c\<rparr>"

definition new_post :: "string \<Rightarrow> client_body \<Rightarrow> client_req" where
  "new_post url body = \<lparr>CReq_Method = ''POST'', CReq_URL = url, CReq_Authorization = '''',
     CReq_RegistrationToken = '''', CReq_Body = body\<rparr>"

definition Register ::
  "(string \<Rightarrow> bool) \<Rightarrow> (api_body \<Rightarrow> (uuid \<times> string) res) \<Rightarrow> 's net \<Rightarrow> string \<Rightarrow> string \<Rightarrow> string \<Rightarrow>
   string gomap option \<Rightarrow> int \<Rightarrow> Client \<Rightarrow> 's \<Rightarrow> unit res \<times> Client \<times> 's" where
  "Register url_ok dec net regToken name address labels capacity c s =
     (let url = Client_base c @ ''/agents/register'';
          body = RegisterOut \<lparr>Register_Name = name, Register_Address = address, Register_Labels = labels,
                   Register_Capacity = capacity\<rparr>
      in if \<not> url_ok url then (Inl (ErrMsg url), c, s)
         else (case net ((new_post url body)\<lparr>CReq_RegistrationToken := regToken\<rparr>) s of
            (Unreachable e, s1) \<Rightarrow> (Inl (Wrapped ''register'' (ErrMsg e)), c, s1)
          | (Answer code b, s1) \<Rightarrow>
              if code \<noteq> 201 then (Inl (ErrMsg (''register: api returned '' @ fmt_d code)), c, s1)
              else (case dec b of
                 Inl e \<Rightarrow> (Inl (Wrapped ''register: decode response'' e), c, s1)
               | Inr (agentID, token) \<Rightarrow>
                   (Inr (), c\<lparr>Client_agentID := agentID, Client_token := token\<rparr>, s1))))"

text \<open>The common part of the three requests that carry the bearer token.\<close>

definition post_authorized ::
  "(string \<Rightarrow> bool) \<Rightarrow> 's net \<Rightarrow> string \<Rightarrow> string \<Rightarrow> client_body \<Rightarrow> Client \<Rightarrow> 's \<Rightarrow> unit res \<times> 's" where
  "post_authorized url_ok net what url body c s =
     (if \<not> url_ok url then (Inl (ErrMsg url), s)
      else (case net (setBearer c (new_post url body)) s of
         (Unreachable e, s1) \<Rightarrow> (Inl (Wrapped what (ErrMsg e)), s1)
       | (Answer code b, s1) \<Rightarrow>
           if code \<noteq> 204 then (Inl (ErrMsg (what @ '': api returned '' @ fmt_d code)), s1) else (Inr (), s1)))"

definition Heartbeat :: "(string \<Rightarrow> bool) \<Rightarrow> 's net \<Rightarrow> int \<Rightarrow> Client \<Rightarrow> 's \<Rightarrow> unit res \<times> 's" where
  "Heartbeat url_ok net runningJobs c =
     post_authorized url_ok net ''heartbeat'' (Client_base c @ ''/agent/heartbeat'')
       (HeartbeatOut \<lparr>Heartbeat_AgentID = Client_agentID c, Heartbeat_RunningJobs = runningJobs,
          Heartbeat_Version = ''v0.1.0''\<rparr>) c"

definition PostLogs :: "(string \<Rightarrow> bool) \<Rightarrow> 's net \<Rightarrow> uuid \<Rightarrow> JobLogLine list \<Rightarrow> Client \<Rightarrow> 's \<Rightarrow> unit res \<times> 's" where
  "PostLogs url_ok net jobID lines c s =
     (if lines = [] then (Inr (), s)
      else post_authorized url_ok net ''post logs'' (Client_base c @ ''/agent/jobs/'' @ uuid_String jobID @ ''/logs'')
             (LogsOut lines) c s)"

definition PostResult ::
  "(string \<Rightarrow> bool) \<Rightarrow> 's net \<Rightarrow> uuid \<Rightarrow> JobStatus \<Rightarrow> int \<Rightarrow> vars option \<Rightarrow> Client \<Rightarrow> 's \<Rightarrow> unit res \<times> 's" where
  "PostResult url_ok net jobID status exitCode facts c =
     post_authorized url_ok net ''post result'' (Client_base c @ ''/agent/jobs/'' @ uuid_String jobID @ ''/result'')
       (ResultOut \<lparr>Result_Status = status, Result_ExitCode = exitCode,
          Result_Facts = (case facts of None \<Rightarrow> [] | Some f \<Rightarrow> f)\<rparr>) c"

subsection \<open>Executing a job and reporting it (executeJob of agent/internal/server/server.go)\<close>

text \<open>
  The batcher's flush function posts one batch; an error is only logged, and so is one of
  \<open>PostResult\<close>. How the ticker cuts the lines into batches (\<open>batching\<close>) and how many batches are posted
  before the result (\<open>k\<close>, since \<open>Flush\<close> does not wait) is up to the scheduler.
\<close>

definition post_batch :: "(string \<Rightarrow> bool) \<Rightarrow> 's net \<Rightarrow> uuid \<Rightarrow> Client \<Rightarrow> 's \<Rightarrow> JobLogLine list \<Rightarrow> 's" where
  "post_batch url_ok net jobID c s batch = snd (PostLogs url_ok net jobID batch c s)"

definition executeJob ::
  "run_ext \<Rightarrow> (string \<Rightarrow> bool) \<Rightarrow> 's net \<Rightarrow> (JobLogLine list \<Rightarrow> JobLogLine list list) \<Rightarrow> nat \<Rightarrow> JobPayload \<Rightarrow> string \<Rightarrow>
   Client \<Rightarrow> files \<times> 's \<Rightarrow> files \<times> 's" where
  "executeJob X url_ok net batching k payload workDir c st =
     (case Run X payload workDir (fst st) of
        (result, ls, fs1) \<Rightarrow>
          (let jobID = Payload_JobID payload;
               s1 = foldl (post_batch url_ok net jobID c) (snd st) (take k (batching ls));
               s2 = snd (PostResult url_ok net jobID (Result_JobStatus result) (Result_Code result) None c s1)
           in (fs1, foldl (post_batch url_ok net jobID c) s2 (drop k (batching ls)))))"

subsection \<open>The API server behind the network\<close>

text \<open>
  The server sees the path of the URL cut at its slashes, the headers, and the body decoded into the
  struct of the handler that asks for it.
\<close>

definition wire_path :: "string \<Rightarrow> string \<Rightarrow> string list" where
  "wire_path base url = tl (SplitByte (drop (length base) url) (CHR 0x2F))"

definition wire_request :: "string \<Rightarrow> string \<Rightarrow> client_req \<Rightarrow> request" where
  "wire_request base rand q =
     \<lparr>Req_HTTPMethod = CReq_Method q, Req_Path = wire_path base (CReq_URL q),
      Req_Authorization = CReq_Authorization q, Req_RegistrationToken = CReq_RegistrationToken q,
      Req_Query = (\<lambda>_. ''''), Req_Random = rand, Req_Nonce = None,
      Body_Register = (case CReq_Body q of RegisterOut b \<Rightarrow> Some b | _ \<Rightarrow> None),
      Body_Heartbeat = (case CReq_Body q of HeartbeatOut b \<Rightarrow> Some b | _ \<Rightarrow> None),
      Body_Login = None, Body_TokenName = None, Body_Credential = None, Body_Project = None,
      Body_Template = None, Body_Schedule = None, Body_CreateJob = None, Body_Workflow = None, Body_Note = None,
      Body_Logs = (case CReq_Body q of LogsOut b \<Rightarrow> Some b | _ \<Rightarrow> None),
      Body_Result = (case CReq_Body q of ResultOut b \<Rightarrow> Some b | _ \<Rightarrow> None)\<rparr>"

definition api_net :: "string \<Rightarrow> router \<Rightarrow> api_ext \<Rightarrow> ApiConfig \<Rightarrow> time \<Rightarrow> string \<Rightarrow> world net" where
  "api_net base chi ext cfg now rand q w =
     (if HasPrefix (CReq_URL q) base
      then (case serve chi ext cfg now (wire_request base rand q) w of ((code, b), w1) \<Rightarrow> (Answer code b, w1))
      else (Unreachable ''no such host'', w))"

text \<open>
  The other half of the router's contract: a path that fits one registered route of its method, and no
  other, is given to that route.
\<close>

definition router_complete :: "router \<Rightarrow> bool" where
  "router_complete chi \<longleftrightarrow> (\<forall>rs m p r ps. r \<in> set rs \<and> Route_Method r = m \<and> match_path (Route_Pattern r) p = Some ps \<and>
     (\<forall>r'\<in>set rs. Route_Method r' = m \<and> match_path (Route_Pattern r') p \<noteq> None \<longrightarrow> r' = r) \<longrightarrow> chi rs m p = Routed r ps)"

lemma first_match_complete: "router_complete first_match"
  unfolding router_complete_def
proof (intro allI impI, elim conjE)
  fix rs :: "route list" and m p r ps
  assume r: "r \<in> set rs" "Route_Method r = m" "match_path (Route_Pattern r) p = Some ps"
    and u: "\<forall>r'\<in>set rs. Route_Method r' = m \<and> match_path (Route_Pattern r') p \<noteq> None \<longrightarrow> r' = r"
  let ?P = "\<lambda>r. Route_Method r = m \<and> match_path (Route_Pattern r) p \<noteq> None"
  have "List.find ?P rs \<noteq> None" using r by (auto simp: find_None_iff)
  then obtain r' where "List.find ?P rs = Some r'" by auto
  moreover from this have "r' = r" using u nth_mem by (fastforce simp: find_Some_iff)
  ultimately show "first_match rs m p = Routed r ps" using r by (simp add: first_match_def)
qed

definition fitting :: "string \<Rightarrow> string list \<Rightarrow> route list" where
  "fitting m p = filter (\<lambda>r. Route_Method r = m \<and> match_path (Route_Pattern r) p \<noteq> None) routes"

lemma routed_if_only:
  assumes "router_complete chi" and "fitting m p = [r]" and "match_path (Route_Pattern r) p = Some ps"
  shows "chi routes m p = Routed r ps"
proof -
  have "r \<in> set (fitting m p)" "\<forall>r'\<in>set (fitting m p). r' = r" using assms(2) by auto
  then show ?thesis using assms(1,3) by (auto simp: router_complete_def fitting_def)
qed

lemmas routes_defs = fitting_def routes_def public_routes_def user_routes_def agent_routes_def is_param_def

lemma fitting_paths:
  "fitting ''POST'' [''agents'', ''register''] = [rt Public ''POST'' [''agents'', ''register''] E_RegisterAgent]"
  "fitting ''POST'' [''agent'', ''heartbeat''] = [rt AgentGroup ''POST'' [''agent'', ''heartbeat''] E_AgentHeartbeat]"
  "fitting ''POST'' [''agent'', ''jobs'', i, ''logs''] =
     [rt AgentGroup ''POST'' [''agent'', ''jobs'', ''{job_id}'', ''logs''] E_AgentPostLogs]"
  "fitting ''POST'' [''agent'', ''jobs'', i, ''result''] =
     [rt AgentGroup ''POST'' [''agent'', ''jobs'', ''{job_id}'', ''result''] E_AgentPostResult]"
  by (simp_all add: routes_defs)

lemma wire_paths:
  assumes "CHR 0x2F \<notin> set i"
  shows "wire_path base (base @ ''/agents/register'') = [''agents'', ''register'']"
    "wire_path base (base @ ''/agent/heartbeat'') = [''agent'', ''heartbeat'']"
    "wire_path base (base @ ''/agent/jobs/'' @ i @ ''/logs'') = [''agent'', ''jobs'', i, ''logs'']"
    "wire_path base (base @ ''/agent/jobs/'' @ i @ ''/result'') = [''agent'', ''jobs'', i, ''result'']"
  using assms by (simp_all add: wire_path_def SplitByte_append SplitByte_plain)

text \<open>A request with the token of a registered agent reaches its handler as that agent's.\<close>

definition knows :: "api_ext \<Rightarrow> db \<Rightarrow> string \<Rightarrow> AgentRow \<Rightarrow> bool" where
  "knows ext d token r \<longleftrightarrow> token \<noteq> [] \<and>
     lookup_row AgentRow_TokenHash (db_agents d) (hashToken ext token) = Some r"

lemma serve_agent:
  assumes "undisturbed w" and "knows ext (w_db w) token r" and "router_complete chi"
    and "Req_HTTPMethod rq = ''POST''" and "Req_Authorization rq = ''Bearer '' @ token"
    and "fitting ''POST'' (Req_Path rq) = [rt AgentGroup ''POST'' pat e]" and "match_path pat (Req_Path rq) = Some ps"
  shows "serve chi ext cfg now rq w = handle_agent ext cfg e ps rq (Some (scan_agent_row r)) (at_pos w (w_db w))"
  using assms routed_if_only [OF assms(3,6)]
  by (simp add: serve_def RequireAgent_def TrimPrefix_def Let_def knows_def astore_GetAgentByTokenHash_def exec_nf_query_at)

lemma HasPrefix_append [simp]: "HasPrefix (base @ s) base"
  by (simp add: HasPrefix_def)

lemma posted_simps [simp]:
  "CReq_URL (setBearer c (new_post url b)) = url"
  "Req_HTTPMethod (wire_request base rand (setBearer c (new_post url b))) = ''POST''"
  "Req_Path (wire_request base rand (setBearer c (new_post url b))) = wire_path base url"
  "Req_Authorization (wire_request base rand (setBearer c (new_post url b))) = ''Bearer '' @ Client_token c"
  "Body_Result (wire_request base rand (setBearer c (new_post url b))) = (case b of ResultOut x \<Rightarrow> Some x | _ \<Rightarrow> None)"
  "Body_Heartbeat (wire_request base rand (setBearer c (new_post url b))) = (case b of HeartbeatOut x \<Rightarrow> Some x | _ \<Rightarrow> None)"
  "Body_Logs (wire_request base rand (setBearer c (new_post url b))) = (case b of LogsOut x \<Rightarrow> Some x | _ \<Rightarrow> None)"
  by (simp_all add: setBearer_def new_post_def wire_request_def)

lemma exec_env: "exec q w = (x, w') \<Longrightarrow> w_env w' = w_env w"
  using exec_world(1) [of q w] by simp

lemma PostResult_env:
  assumes "h_AgentPostResult ext (Some a) s (Some b) (at_pos w d) = (x, w1)"
  shows "w_env w1 = w_env w"
  using assms
  by (auto simp: h_AgentPostResult_def with_id_def astore_GetJob_def exec_nf_def astore_UpdateJobStatus_def
      astore_SetJobFacts_def split: option.splits prod.splits sum.splits if_splits dest!: exec_env)

lemma post_result_served:
  assumes "undisturbed w" and "knows ext (w_db w) (Client_token c) r" and "router_complete chi" and "\<And>u. url_ok u"
    and "CHR 0x2F \<notin> set (uuid_String i)" and "uuid_Parse ext (uuid_String i) = Some i"
    and "job_of (w_db w) i = Some j" and "Job_AgentID j = Some (Agent_ID r)" and "IsTerminal st"
    and "PostResult url_ok (api_net (Client_base c) chi ext cfg now rand) i st code None c w = (z, w')"
  shows "z = Inr () \<and> undisturbed w' \<and> w_db w' = (w_db w)\<lparr>db_jobs := update_rows (\<lambda>k. Job_ID k = i)
    (status_row (db_now (w_db w)) st None None) (db_jobs (w_db w))\<rparr>"
proof -
  let ?b = "\<lparr>Result_Status = st, Result_ExitCode = code, Result_Facts = []\<rparr>"
  let ?q = "setBearer c (new_post (Client_base c @ ''/agent/jobs/'' @ uuid_String i @ ''/result'') (ResultOut ?b))"
  let ?rq = "wire_request (Client_base c) rand ?q"
  note path = wire_paths(4) [OF assms(5), simplified]
  have "serve chi ext cfg now ?rq w = handle_agent ext cfg E_AgentPostResult [uuid_String i] ?rq (Some (scan_agent_row r))
      (at_pos w (w_db w))"
    by (rule serve_agent [OF assms(1-3), where pat = "[''agent'', ''jobs'', ''{job_id}'', ''result'']"])
       (simp_all add: path fitting_paths is_param_def)
  also have "\<dots> = h_AgentPostResult ext (Some (scan_agent_row r)) (uuid_String i) (Some ?b) (at_pos w (w_db w))"
    by (simp add: handle_agent_def)
  finally have serve: "serve chi ext cfg now ?rq w = \<dots>" .
  have row: "result_row t ?b = status_row t st None None" for t by (auto simp: result_row_def status_row_def)
  obtain x w1 where h: "h_AgentPostResult ext (Some (scan_agent_row r)) (uuid_String i) (Some ?b) (at_pos w (w_db w)) = (x, w1)"
    by fastforce
  have "x = (204, NoContent)" "w_db w1 = (w_db w)\<lparr>db_jobs := update_rows (\<lambda>k. Job_ID k = i)
      (status_row (db_now (w_db w)) st None None) (db_jobs (w_db w))\<rparr>"
    using AgentPostResult_undisturbed [of "at_pos w (w_db w)" ext "uuid_String i" i "scan_agent_row r" ?b] assms(1,6-9) h
    by (simp_all add: row scan_agent_row_def)
  moreover have "undisturbed w1" using PostResult_env [OF h] assms(1) undisturbed_cong [of w1 w] by simp
  ultimately show ?thesis
    using assms(4,10) serve h by (simp add: PostResult_def post_authorized_def api_net_def)
qed

lemma append_logs_jobs [simp]:
  "db_jobs (append_logs i ls d) = db_jobs d" "db_agents (append_logs i ls d) = db_agents d"
  by (induction ls arbitrary: d) (simp_all add: append_log_def)

text \<open>What a client needs to report on a job: its own row, and a job assigned to it.\<close>

definition may_report :: "api_ext \<Rightarrow> db \<Rightarrow> Client \<Rightarrow> uuid \<Rightarrow> bool" where
  "may_report ext d c i \<longleftrightarrow> (\<exists>r j. knows ext d (Client_token c) r \<and> job_of d i = Some j \<and>
     Job_AgentID j = Some (Agent_ID r))"

lemma may_report_cong: "db_agents d' = db_agents d \<Longrightarrow> db_jobs d' = db_jobs d \<Longrightarrow> may_report ext d' c i = may_report ext d c i"
  by (simp add: may_report_def knows_def)

lemma post_batch_served:
  assumes "undisturbed w" and "may_report ext (w_db w) c i" and "router_complete chi" and "\<And>u. url_ok u"
    and "CHR 0x2F \<notin> set (uuid_String i)" and "uuid_Parse ext (uuid_String i) = Some i"
    and "\<forall>l\<in>set ls. int4_ok (Log_Seq l)"
    and "w' = post_batch url_ok (api_net (Client_base c) chi ext cfg now rand) i c w ls"
  shows "undisturbed w' \<and> w_db w' = append_logs i ls (w_db w)"
proof (cases "ls = []")
  case True
  then show ?thesis using assms(1,8) by (simp add: post_batch_def PostLogs_def)
next
  case False
  obtain r j where r: "knows ext (w_db w) (Client_token c) r" "job_of (w_db w) i = Some j" "Job_AgentID j = Some (Agent_ID r)"
    using assms(2) by (auto simp: may_report_def)
  let ?q = "setBearer c (new_post (Client_base c @ ''/agent/jobs/'' @ uuid_String i @ ''/logs'') (LogsOut ls))"
  let ?rq = "wire_request (Client_base c) rand ?q"
  note path = wire_paths(3) [OF assms(5), simplified]
  let ?w1 = "at_pos (at_pos w (w_db w)) (w_db w)"
  have "serve chi ext cfg now ?rq w = handle_agent ext cfg E_AgentPostLogs [uuid_String i] ?rq (Some (scan_agent_row r))
      (at_pos w (w_db w))"
    by (rule serve_agent [OF assms(1) r(1) assms(3), where pat = "[''agent'', ''jobs'', ''{job_id}'', ''logs'']"])
       (simp_all add: path fitting_paths is_param_def)
  also have "\<dots> = on_store internal (\<lambda>_. (204, NoContent)) (astore_AppendJobLogs i ls ?w1)"
    using r(2,3) assms(1,6)
    by (simp add: handle_agent_def h_AgentPostLogs_def with_id_def astore_GetJob_def exec_nf_query_at scan_agent_row_def)
  finally have serve: "serve chi ext cfg now ?rq w = \<dots>" .
  have "i \<in> Job_ID ` set (db_jobs (w_db ?w1))" using r(2) by (auto dest: lookup_row_SomeD)
  from AppendJobLogs_undisturbed [OF _ this assms(7)]
  have "fst (astore_AppendJobLogs i ls ?w1) = Inr () \<and> w_db (snd (astore_AppendJobLogs i ls ?w1)) = append_logs i ls (w_db w) \<and>
      undisturbed (snd (astore_AppendJobLogs i ls ?w1))" using assms(1) by simp
  then show ?thesis
    using False assms(4,8) serve
    by (cases "astore_AppendJobLogs i ls ?w1")
       (simp add: post_batch_def PostLogs_def post_authorized_def api_net_def on_store_def)
qed

lemma append_logs_append: "append_logs i (xs @ ys) d = append_logs i ys (append_logs i xs d)"
  by (simp add: append_logs_def)

lemma post_batches_served:
  assumes "undisturbed w" and "may_report ext (w_db w) c i" and "router_complete chi" and "\<And>u. url_ok u"
    and "CHR 0x2F \<notin> set (uuid_String i)" and "uuid_Parse ext (uuid_String i) = Some i"
    and "\<forall>l\<in>set (concat bs). int4_ok (Log_Seq l)"
    and "w' = foldl (post_batch url_ok (api_net (Client_base c) chi ext cfg now rand) i c) w bs"
  shows "undisturbed w' \<and> w_db w' = append_logs i (concat bs) (w_db w)"
  using assms(1,2,7,8)
proof (induction bs arbitrary: w)
  case (Cons b bs)
  let ?w1 = "post_batch url_ok (api_net (Client_base c) chi ext cfg now rand) i c w b"
  have 1: "undisturbed ?w1 \<and> w_db ?w1 = append_logs i b (w_db w)"
    using post_batch_served [OF Cons.prems(1,2) assms(3-6) _ refl] Cons.prems(3) by simp
  then have "may_report ext (w_db ?w1) c i" using Cons.prems(2) may_report_cong [of "append_logs i b (w_db w)" "w_db w"] by simp
  then show ?case using Cons.IH [of ?w1] Cons.prems(3,4) 1 by (simp add: append_logs_append)
qed simp

lemma append_logs_fresh:
  assumes "distinct (map Log_Seq ls)" and "Log_Seq ` set ls \<inter> Log_Seq ` set (job_logs i d) = {}"
  shows "set (job_logs i (append_logs i ls d)) = set (job_logs i d) \<union> set ls"
  using assms
proof (induction ls arbitrary: d)
  case (Cons l ls)
  have l: "set (job_logs i (append_log i d l)) = insert l (set (job_logs i d))" using Cons.prems(2) by (simp add: append_log_set)
  then have "Log_Seq ` set ls \<inter> Log_Seq ` set (job_logs i (append_log i d l)) = {}" using Cons.prems by auto
  from Cons.IH [OF _ this] Cons.prems(1)
  have "set (job_logs i (append_logs i ls (append_log i d l))) = set (job_logs i (append_log i d l)) \<union> set ls" by simp
  then show ?case by (simp add: l)
qed simp

lemma append_logs_cong:
  "db_job_logs d' = db_job_logs d \<Longrightarrow> db_job_logs (append_logs i ls d') = db_job_logs (append_logs i ls d)"
proof (induction ls arbitrary: d d')
  case (Cons l ls)
  then have "db_job_logs (append_log i d' l) = db_job_logs (append_log i d l)" by (simp add: append_log_def)
  from Cons.IH [OF this] show ?case by simp
qed simp

lemma job_logs_new:
  assumes "logs_unique d" and "job_logs i d = []" and "sorted_wrt (<) (map Log_Seq ls)"
  shows "job_logs i (append_logs i ls d) = ls"
proof -
  have d: "distinct (map Log_Seq ls)" using assms(3) by (simp add: strict_sorted_iff)
  have set: "set (job_logs i (append_logs i ls d)) = set ls" using append_logs_fresh [OF d] assms(2) by simp
  have s: "sorted_wrt (<) (map Log_Seq (job_logs i (append_logs i ls d)))"
    by (rule job_logs_strict [OF append_logs_unique [OF assms(1)]])
  show ?thesis
  proof (rule map_sorted_distinct_set_unique [where f = Log_Seq])
    show "inj_on Log_Seq (set (job_logs i (append_logs i ls d)) \<union> set ls)" unfolding set using d by (simp add: distinct_map)
  qed (use s assms(3) d set in \<open>simp_all only: strict_sorted_iff\<close>)
qed

lemma at_pos_frame: "w_http (at_pos w d) = w_http w" "w_sent (at_pos w d) = w_sent w"
  by (simp_all add: at_pos_def)

lemma heartbeat_served:
  assumes "undisturbed w" and "knows ext (w_db w) (Client_token c) r" and "router_complete chi" and "\<And>u. url_ok u"
    and "Heartbeat url_ok (api_net (Client_base c) chi ext cfg now rand) n c w = (z, w')"
  shows "z = Inr () \<and> undisturbed w' \<and> w_http w' = w_http w \<and> w_sent w' = w_sent w \<and>
    w_db w' = (w_db w)\<lparr>db_agents := update_rows (\<lambda>k. Agent_ID k = Agent_ID r)
      (\<lambda>k. k\<lparr>Agent_LastHeartbeatAt := Some (db_now (w_db w)), Agent_Status := AgentStatusOnline,
              Agent_UpdatedAt := db_now (w_db w)\<rparr>) (db_agents (w_db w))\<rparr>"
proof -
  let ?b = "\<lparr>Heartbeat_AgentID = Client_agentID c, Heartbeat_RunningJobs = n, Heartbeat_Version = ''v0.1.0''\<rparr>"
  let ?q = "setBearer c (new_post (Client_base c @ ''/agent/heartbeat'') (HeartbeatOut ?b))"
  let ?rq = "wire_request (Client_base c) rand ?q"
  note path = wire_paths(2) [of "[]", simplified]
  have "serve chi ext cfg now ?rq w = handle_agent ext cfg E_AgentHeartbeat [] ?rq (Some (scan_agent_row r))
      (at_pos w (w_db w))"
    by (rule serve_agent [OF assms(1-3), where pat = "[''agent'', ''heartbeat'']"])
       (simp_all add: path fitting_paths is_param_def)
  also have "\<dots> = h_AgentHeartbeat cfg (Some (scan_agent_row r)) (Some ?b) (at_pos w (w_db w))"
    by (simp add: handle_agent_def)
  finally have serve: "serve chi ext cfg now ?rq w = \<dots>" .
  have "r \<in> set (db_agents (w_db w))" using assms(2) by (auto simp: knows_def dest: lookup_row_SomeD)
  then have "rows_affected (\<lambda>k. Agent_ID k = Agent_ID r) (db_agents (w_db w)) \<noteq> 0"
    by (auto simp: rows_affected_def filter_empty_conv)
  then show ?thesis
    using assms(1,4,5) serve
    by (auto simp: Heartbeat_def post_authorized_def api_net_def h_AgentHeartbeat_def astore_UpdateAgentHeartbeat_def
        exec_tag_at on_store_def UpdateAgentHeartbeat_stmt_def scan_agent_row_def at_pos_frame)
qed

lemma register_served:
  assumes "undisturbed w" and "router_complete chi" and "\<And>u. url_ok u"
    and "\<And>i t. dec (RegisteredBody i t) = Inr (i, t)" and "name \<noteq> ''''" and "address \<noteq> ''''"
    and "Api_RegToken cfg = regToken" and "int4_ok capacity" and "0 < capacity"
    and "db_agents (w_db w) = []"
    and "Register url_ok dec (api_net base chi ext cfg now rand) regToken name address labels capacity (Client_New base) w
      = (z, c, w')"
  shows "z = Inr () \<and> undisturbed w' \<and> w_http w' = w_http w \<and> w_sent w' = w_sent w \<and>
    Client_base c = base \<and> Client_token c = rand \<and>
    w_db w' = (w_db w)\<lparr>db_agents := [new_agent_row (db_now (w_db w)) (Client_agentID c) name address
      (hashToken ext rand) (or_empty labels) capacity]\<rparr>"
proof -
  let ?b = "\<lparr>Register_Name = name, Register_Address = address, Register_Labels = labels, Register_Capacity = capacity\<rparr>"
  let ?q = "(new_post (base @ ''/agents/register'') (RegisterOut ?b))\<lparr>CReq_RegistrationToken := regToken\<rparr>"
  let ?rq = "wire_request base rand ?q"
  have rq: "Req_HTTPMethod ?rq = ''POST''" "Req_Path ?rq = [''agents'', ''register'']" "Body_Register ?rq = Some ?b"
    "Req_Random ?rq = rand" "Req_RegistrationToken ?rq = regToken" "HasPrefix (CReq_URL ?q) base"
    using wire_paths(1) [of "[]" base] by (simp_all add: wire_request_def new_post_def)
  have "chi routes ''POST'' [''agents'', ''register''] = Routed (rt Public ''POST'' [''agents'', ''register''] E_RegisterAgent) []"
    by (rule routed_if_only [OF assms(2)]) (simp_all add: fitting_paths is_param_def)
  then have serve: "serve chi ext cfg now ?rq w = h_RegisterAgent ext cfg rand regToken (Some ?b) w"
    using rq by (simp add: serve_def handle_public_def)
  show ?thesis
    using assms serve rq undisturbed_cong [of w' w]
    by (auto simp: Register_def Let_def Client_New_def api_net_def h_RegisterAgent_def StaticTokenValidator_Valid_def
        on_store_def astore_CreateAgent_def exec_at CreateAgent_stmt_def new_agent_row_def scan_agent_row_def at_pos_def)
qed

end
