(* ===== verification/Deployment.thy ===== *)
theory Deployment
  imports ApiClient AgentProps ReconcilerProps
begin

section \<open>From registration to result\<close>

text \<open>
  The three programs composed: an agent registers with the API server and sends a heartbeat, a
  controller's pass dispatches the pending jobs to it, the agent executes a payload and reports the
  result to the API server.
\<close>

lemma payload_of_agents [simp]: "payload_of cr key cfg (d\<lparr>db_agents := as\<rparr>) job = payload_of cr key cfg d job"
proof -
  have "secrets_of cr key (d\<lparr>db_agents := as\<rparr>) ci = secrets_of cr key d ci" for ci
    by (simp add: secrets_of_def secret_of_def Let_def split: option.split)
  then show ?thesis by (simp add: payload_of_def split: option.split sum.split)
qed

lemma pending_batch_agents [simp]: "pending_batch (d\<lparr>db_agents := as\<rparr>) = pending_batch d"
  by (simp add: pending_batch_def)

lemma only_agent_selected:
  assumes "db_agents d = [r]" and "Agent_Status r = AgentStatusOnline"
    and "heartbeat_within d ttl (Agent_LastHeartbeatAt r)" and "0 < Agent_Capacity r"
    and "\<forall>j\<in>set (db_jobs d). Job_AgentID j = None"
  shows "Select (available_agents ttl d) = Inr (scan_agent d r)"
proof -
  have "running_jobs d (Agent_ID r) = 0" using assms(5) by (auto simp: running_jobs_def filter_empty_conv)
  then show ?thesis using assms(1-4) by (simp add: available_agents_def Select_def)
qed

lemma pass_to_only_agent:
  assumes "undisturbed w" and "unique_jobs (w_db w)" and "accepting url_ok w" and "db_agents (w_db w) = [r]"
    and "Agent_Status r = AgentStatusOnline" and "heartbeat_within (w_db w) (Rec_HeartbeatTTL cfg) (Agent_LastHeartbeatAt r)"
    and "0 < Agent_Capacity r" and "\<forall>j\<in>set (db_jobs (w_db w)). Job_AgentID j = None"
    and "\<forall>j\<in>set (pending_batch (w_db w)). isOk (payload_of cr key cfg (w_db w) j)"
    and "w' = dispatchPending (pg_reconciler cr key url_ok cfg) w"
  shows "dispatched_jobs w' = dispatched_jobs w @ map Job_ID (pending_batch (w_db w)) \<and>
    sets_jobs w w' (move_jobs (Job_ID ` set (pending_batch (w_db w))) JobStatusPending (db_now (w_db w))
      JobStatusDispatched (Some (Agent_ID r)) '''' (db_jobs (w_db w)))"
proof -
  obtain w1 where 1: "reads w w1" "w' = dispatch_jobs (pg_reconciler cr key url_ok cfg)
      (available_agents (Rec_HeartbeatTTL cfg) (w_db w)) (pending_batch (w_db w)) w1"
    using dispatchPending_undisturbed [OF assms(1)] assms(10) by metis
  note sel = only_agent_selected [OF assms(4-8)]
  have id: "Agent_ID (scan_agent (w_db w) r) = Agent_ID r" by (simp add: scan_agent_def)
  note r1 = readsD [OF 1(1)]
  have "dispatched_jobs w' = dispatched_jobs w1 @ map Job_ID (pending_batch (w_db w)) \<and>
    sets_jobs w1 w' (move_jobs (Job_ID ` set (pending_batch (w_db w))) JobStatusPending (db_now (w_db w1))
      JobStatusDispatched (Some (Agent_ID r)) '''' (db_jobs (w_db w1)))"
    unfolding 1(2) id [symmetric]
    by (rule dispatch_jobs_accepted)
       (use assms(2-4,9) sel r1 pending_batch_facts [OF assms(2)] reads_undisturbed [OF 1(1)] assms(1)
        in \<open>simp_all add: accepting_def id\<close>)
  then show ?thesis using r1 reads_sets_jobs [OF 1(1)] by (simp add: dispatched_jobs_def)
qed

text \<open>The result that a job gets, given to the row that the pass claimed.\<close>

lemma claimed_row:
  assumes "unique_jobs d" and "job \<in> set (pending_batch d)"
    and "db_jobs d' = move_jobs (Job_ID ` set (pending_batch d)) JobStatusPending now JobStatusDispatched (Some a) '''' (db_jobs d)"
  shows "\<exists>j. job_of d' (Job_ID job) = Some j \<and> Job_AgentID j = Some a \<and> Job_Status j = JobStatusDispatched"
proof -
  have "status_of d (Job_ID job) = Some JobStatusPending" using pending_batch_facts(2) [OF assms(1,2)] .
  then obtain j where j: "job_of d (Job_ID job) = Some j" "Job_Status j = JobStatusPending" "Job_ID j = Job_ID job"
    by (auto simp: status_of_def dest: lookup_row_SomeD)
  then show ?thesis using assms(2,3) by (auto simp: move_jobs_def lookup_update_rows coalesce_def)
qed

lemma Run_reports:
  assumes "Run X p workDir fs = (result, ls, fs')"
  shows "IsTerminal (Result_JobStatus result)" "map Log_Seq ls = map int [1..<Suc (length ls)]"
  using assms
  by (auto simp: Run_def Let_def simp del: upt_Suc split: option.splits prod.splits sum.splits
      dest: run_steps_result run_steps_lines)

lemma lines_numbered:
  assumes "map Log_Seq ls = map int [1..<Suc (length ls)]" and "length ls < 2 ^ 31"
  shows "sorted_wrt (<) (map Log_Seq ls)" "l \<in> set ls \<Longrightarrow> int4_ok (Log_Seq l)"
proof -
  show "sorted_wrt (<) (map Log_Seq ls)" unfolding assms(1) by (simp add: sorted_wrt_map del: upt_Suc)
  assume "l \<in> set ls"
  then have "Log_Seq l \<in> set (map Log_Seq ls)" by simp
  then obtain n where "Log_Seq l = int n" "n \<le> length ls" unfolding assms(1) by (auto simp del: upt_Suc)
  then show "int4_ok (Log_Seq l)" using assms(2) by (simp add: int4_ok_def)
qed

lemma executeJob_served:
  assumes "undisturbed w" and "may_report ext (w_db w) c i" and "router_complete chi" and "\<And>u. url_ok u"
    and "CHR 0x2F \<notin> set (uuid_String i)" and "uuid_Parse ext (uuid_String i) = Some i"
    and "Payload_JobID p = i" and "Run X p workDir fs = (result, ls, fs1)" and "length ls < 2 ^ 31" and "concat (batching ls) = ls"
    and "executeJob X url_ok (api_net (Client_base c) chi ext cfg now rand) batching k p workDir c (fs, w) = (fs', w')"
    and "logs_unique (w_db w)" and "job_logs i (w_db w) = []"
  shows "db_jobs (w_db w') = update_rows (\<lambda>k. Job_ID k = i)
      (status_row (db_now (w_db w)) (Result_JobStatus result) None None) (db_jobs (w_db w)) \<and>
    job_logs i (w_db w') = ls"
proof -
  let ?net = "api_net (Client_base c) chi ext cfg now rand"
  note served = post_batches_served [OF _ _ assms(3-6) _ refl, where cfg = cfg and now = now and rand = rand]
  note L = lines_numbered [OF Run_reports(2) [OF assms(8)] assms(9)]
  let ?pre = "take k (batching ls)" and ?suf = "drop k (batching ls)"
  have all: "concat ?pre @ concat ?suf = ls"
    using assms(10) by (metis append_take_drop_id concat_append)
  then have i4: "\<forall>l\<in>set (concat ?pre). int4_ok (Log_Seq l)" "\<forall>l\<in>set (concat ?suf). int4_ok (Log_Seq l)"
    using L(2) by (metis Un_iff set_append)+
  define w1 where "w1 = foldl (post_batch url_ok ?net i c) w ?pre"
  have 1: "undisturbed w1" "w_db w1 = append_logs i (concat ?pre) (w_db w)"
    using served [OF assms(1,2) i4(1)] by (simp_all add: w1_def)
  obtain z w2 where 2: "PostResult url_ok ?net i (Result_JobStatus result) (Result_Code result) None c w1 = (z, w2)" by fastforce
  have m1: "may_report ext (w_db w1) c i" using assms(2) may_report_cong [of "w_db w1" "w_db w"] 1(2) by simp
  then obtain r j where r: "knows ext (w_db w1) (Client_token c) r" "job_of (w_db w1) i = Some j" "Job_AgentID j = Some (Agent_ID r)"
    by (auto simp: may_report_def)
  note P = post_result_served [OF 1(1) r(1) assms(3,4,5,6) r(2,3) Run_reports(1) [OF assms(8)] 2]
  have "job_of (w_db w2) i = Some (status_row (db_now (w_db w1)) (Result_JobStatus result) None None j)"
    using P r(2) lookup_row_SomeD [OF r(2)] by (simp add: lookup_update_rows)
  then have m2: "may_report ext (w_db w2) c i"
    using P r(1,3) by (auto simp: may_report_def knows_def coalesce_def)
  have w': "w' = foldl (post_batch url_ok ?net i c) w2 ?suf"
    using assms(7,8,11) 2 by (simp add: executeJob_def Let_def w1_def)
  have 3: "w_db w' = append_logs i (concat ?suf) (w_db w2)"
    using served [OF _ m2 i4(2)] P by (simp add: w')
  have now: "db_now (append_logs i xs d) = db_now d" for xs d by (induction xs arbitrary: d) (simp_all add: append_log_def)
  have "db_job_logs (w_db w') = db_job_logs (append_logs i ls (w_db w))"
    using append_logs_cong [of "w_db w2" "w_db w1" i "concat ?suf"] P 1(2) append_logs_append [of i "concat ?pre" "concat ?suf"]
    by (simp add: 3 all)
  then have "job_logs i (w_db w') = job_logs i (append_logs i ls (w_db w))" by (simp add: job_logs_def)
  then show ?thesis using job_logs_new [OF assms(12,13) L(1)] P 1(2) by (simp add: 3 now)
qed

text \<open>A database with jobs but no agent yet, and the decoder of a registration's reply.\<close>

definition fresh_db :: db where
  "fresh_db = demo_db\<lparr>db_agents := [], db_job_templates := [demo_template\<lparr>Template_CredentialID := None\<rparr>]\<rparr>"

definition demo_dec :: "api_body \<Rightarrow> (uuid \<times> string) res" where
  "demo_dec b = (case b of RegisteredBody i t \<Rightarrow> Inr (i, t) | _ \<Rightarrow> Inl (ErrMsg ''unexpected body''))"

definition fresh_payload :: JobPayload where
  "fresh_payload = (case payload_of tag_crypto demo_key demo_cfg fresh_db (demo_job ''j1'' 50) of
     Inl e \<Rightarrow> demo_payload '''' | Inr p \<Rightarrow> p)"

definition fresh_line :: JobLogLine where
  "fresh_line = \<lparr>Log_Seq = 1, Log_Line = ''ok'', Log_Stream = ''stdout''\<rparr>"

lemma fresh_payload: "payload_of tag_crypto demo_key demo_cfg fresh_db (demo_job ''j1'' 50) = Inr fresh_payload"
proof -
  have "isOk (payload_of tag_crypto demo_key demo_cfg fresh_db (demo_job ''j1'' 50))" by code_simp
  then show ?thesis by (auto simp: fresh_payload_def isOk_def split: sum.splits)
qed

lemma fresh_run: "\<exists>fs1. Run demo_run fresh_payload ''/tmp/aop'' [] =
    (\<lparr>Result_JobStatus = JobStatusSuccess, Result_Code = 0\<rparr>, [fresh_line], fs1)"
proof -
  have "(case Run demo_run fresh_payload ''/tmp/aop'' [] of (r, ls, _) \<Rightarrow>
      r = \<lparr>Result_JobStatus = JobStatusSuccess, Result_Code = 0\<rparr> \<and> ls = [fresh_line])" by code_simp
  then show ?thesis by (auto split: prod.splits)
qed

end
