(* ===== verification/Config.thy ===== *)
theory Config
  imports Reconciler ApiHandlers AgentServer GoStrings
begin

section \<open>Configuration from the environment (controller, api and agent internal/config)\<close>

text \<open>
  Each program's \<open>Load\<close> reads the process environment (\<open>env\<close>, the empty string for a variable that
  is not set), collects every error, and returns either the joined errors or a configuration. The
  parsers of the standard library that it calls are here too: \<open>time.ParseDuration\<close>, \<open>hex.DecodeString\<close>,
  \<open>strconv.Atoi\<close> and \<open>strings.SplitN\<close>. Durations are nanoseconds. \<open>frac f unit scale\<close> stands for the
  floating-point expression \<open>uint64(float64(f) * (float64(unit) / scale))\<close> in the first, \<open>host\<close> for what
  \<open>os.Hostname\<close> returns. Error texts quote the input as it is.
\<close>

subsection \<open>Parsers of the standard library\<close>

definition is_digit :: "char \<Rightarrow> bool" where
  "is_digit c \<longleftrightarrow> 48 \<le> (of_char c :: int) \<and> (of_char c :: int) \<le> 57"

definition digit_value :: "char \<Rightarrow> int" where
  "digit_value c = of_char c - 48"

fun leadingInt :: "int \<Rightarrow> string \<Rightarrow> (int \<times> string) option" where
  "leadingInt x [] = Some (x, [])"
| "leadingInt x (c # s) =
     (if \<not> is_digit c then Some (x, c # s)
      else if 2 ^ 63 div 10 < x then None
      else if 2 ^ 63 < x * 10 + digit_value c then None
      else leadingInt (x * 10 + digit_value c) s)"

fun leadingFraction :: "int \<Rightarrow> int \<Rightarrow> bool \<Rightarrow> string \<Rightarrow> int \<times> int \<times> string" where
  "leadingFraction x scale overflow [] = (x, scale, [])"
| "leadingFraction x scale overflow (c # s) =
     (if \<not> is_digit c then (x, scale, c # s)
      else if overflow \<or> (2 ^ 63 - 1) div 10 < x \<or> 2 ^ 63 < x * 10 + digit_value c
      then leadingFraction x scale True s
      else leadingFraction (x * 10 + digit_value c) (scale * 10) False s)"

definition unitMap :: "string \<Rightarrow> int option" where
  "unitMap = map_of [(''ns'', 1), (''us'', 10 ^ 3), ([CHR 0xC2, CHR 0xB5, CHR ''s''], 10 ^ 3),
     ([CHR 0xCE, CHR 0xBC, CHR ''s''], 10 ^ 3), (''ms'', 10 ^ 6), (''s'', 10 ^ 9), (''m'', 60 * 10 ^ 9),
     (''h'', 3600 * 10 ^ 9)]"

definition bad_duration :: "string \<Rightarrow> goerr" where
  "bad_duration s = ErrMsg (''time: invalid duration '' @ [CHR 0x22] @ s @ [CHR 0x22])"

definition starts_number :: "char \<Rightarrow> bool" where
  "starts_number c \<longleftrightarrow> c = CHR ''.'' \<or> is_digit c"

text \<open>One round of the loop of \<open>ParseDuration\<close>: a number with a unit, and what follows it.\<close>

definition dur_term :: "(int \<Rightarrow> int \<Rightarrow> int \<Rightarrow> int) \<Rightarrow> string \<Rightarrow> string \<Rightarrow> (int \<times> string) res" where
  "dur_term frac orig s =
     (if \<not> starts_number (hd s) then Inl (bad_duration orig)
      else case leadingInt 0 s of
        None \<Rightarrow> Inl (bad_duration orig)
      | Some (v, s1) \<Rightarrow>
          (let dot = (s1 \<noteq> [] \<and> hd s1 = CHR ''.'');
               (f, scale, s2) = (if dot then leadingFraction 0 1 False (tl s1) else (0, 1, s1));
               pre = (length s1 \<noteq> length s);
               post = (dot \<and> length s2 \<noteq> length (tl s1));
               u = takeWhile (\<lambda>c. \<not> starts_number c) s2;
               rest = dropWhile (\<lambda>c. \<not> starts_number c) s2
           in if \<not> pre \<and> \<not> post then Inl (bad_duration orig)
              else if u = [] then Inl (ErrMsg (''time: missing unit in duration '' @ [CHR 0x22] @ orig @ [CHR 0x22]))
              else (case unitMap u of
                 None \<Rightarrow> Inl (ErrMsg (''time: unknown unit '' @ [CHR 0x22] @ u @ [CHR 0x22] @ '' in duration ''
                           @ [CHR 0x22] @ orig @ [CHR 0x22]))
               | Some unit \<Rightarrow>
                   if 2 ^ 63 div unit < v then Inl (bad_duration orig)
                   else if 0 < f then (if 2 ^ 63 < v * unit + frac f unit scale then Inl (bad_duration orig)
                                       else Inr (v * unit + frac f unit scale, rest))
                   else Inr (v * unit, rest))))"

lemma leadingInt_length: "leadingInt x s = Some (v, r) \<Longrightarrow> length r \<le> length s"
  by (induction x s rule: leadingInt.induct) (auto split: if_splits)

lemma leadingFraction_length: "leadingFraction x sc o1 s = (f, sc', r) \<Longrightarrow> length r \<le> length s"
  by (induction x sc o1 s rule: leadingFraction.induct) (auto split: if_splits)

lemma dropWhile_shorter: "takeWhile P s \<noteq> [] \<Longrightarrow> length (dropWhile P s) < length s"
  by (cases s) (auto simp: le_imp_less_Suc length_dropWhile_le split: if_splits)

lemma dur_term_shorter:
  assumes "dur_term frac orig s = Inr (v, r)"
  shows "length r < length s"
proof -
  obtain x s1 where 1: "leadingInt 0 s = Some (x, s1)" "length s1 \<le> length s"
    using assms leadingInt_length by (auto simp: dur_term_def split: if_splits option.splits)
  define t where "t = (if s1 \<noteq> [] \<and> hd s1 = CHR ''.'' then leadingFraction 0 1 False (tl s1) else (0, 1, s1))"
  obtain f sc s2 where t: "t = (f, sc, s2)" by (cases t) auto
  then have "length s2 \<le> length s1"
    using leadingFraction_length [of 0 1 False "tl s1"] by (cases s1) (auto simp: t_def split: if_splits)
  moreover have "r = dropWhile (\<lambda>c. \<not> starts_number c) s2" "takeWhile (\<lambda>c. \<not> starts_number c) s2 \<noteq> []"
    using assms 1(1) t by (auto simp: dur_term_def Let_def t_def [symmetric] split: if_splits option.splits)
  ultimately show ?thesis using dropWhile_shorter [of "\<lambda>c. \<not> starts_number c" s2] 1(2) by simp
qed

function dur_loop :: "(int \<Rightarrow> int \<Rightarrow> int \<Rightarrow> int) \<Rightarrow> string \<Rightarrow> int \<Rightarrow> string \<Rightarrow> int res" where
  "dur_loop frac orig d s =
     (if s = [] then Inr d
      else (case dur_term frac orig s of
         Inl e \<Rightarrow> Inl e
       | Inr vr \<Rightarrow>
           (let d' = (d + fst vr) mod 2 ^ 64
            in if 2 ^ 63 < d' then Inl (bad_duration orig) else dur_loop frac orig d' (snd vr))))"
  by pat_completeness auto
termination
  by (relation "measure (\<lambda>(frac, orig, d, s). length s)")
     (auto dest: dur_term_shorter [of _ _ _ "fst x" "snd x" for x, simplified])

declare dur_loop.simps [simp del]

definition ParseDuration :: "(int \<Rightarrow> int \<Rightarrow> int \<Rightarrow> int) \<Rightarrow> string \<Rightarrow> duration res" where
  "ParseDuration frac orig =
     (let signed = (orig \<noteq> [] \<and> (hd orig = CHR ''-'' \<or> hd orig = CHR ''+''));
          neg = (signed \<and> hd orig = CHR ''-'');
          s = (if signed then tl orig else orig)
      in if s = ''0'' then Inr 0
         else if s = [] then Inl (bad_duration orig)
         else (case dur_loop frac orig 0 s of
            Inl e \<Rightarrow> Inl e
          | Inr d \<Rightarrow> if neg then Inr (- d)
                     else if 2 ^ 63 - 1 < d then Inl (bad_duration orig) else Inr d))"

definition hex_val :: "char \<Rightarrow> int option" where
  "hex_val c =
     (let n = (of_char c :: int)
      in if 48 \<le> n \<and> n \<le> 57 then Some (n - 48)
         else if 97 \<le> n \<and> n \<le> 102 then Some (n - 87)
         else if 65 \<le> n \<and> n \<le> 70 then Some (n - 55) else None)"

definition bad_hex :: "char \<Rightarrow> goerr" where
  "bad_hex c = ErrMsg (''encoding/hex: invalid byte: '' @ [c])"

fun hex_DecodeString :: "string \<Rightarrow> string res" where
  "hex_DecodeString [] = Inr []"
| "hex_DecodeString [c] = Inl (if hex_val c = None then bad_hex c else ErrMsg ''encoding/hex: odd length hex string'')"
| "hex_DecodeString (a # b # s) =
     (case hex_val a of None \<Rightarrow> Inl (bad_hex a) | Some x \<Rightarrow>
     (case hex_val b of None \<Rightarrow> Inl (bad_hex b) | Some y \<Rightarrow>
     (case hex_DecodeString s of Inl e \<Rightarrow> Inl e | Inr r \<Rightarrow> Inr (char_of (16 * x + y) # r))))"

definition Atoi :: "string \<Rightarrow> int res" where
  "Atoi v =
     (let signed = (v \<noteq> [] \<and> (hd v = CHR ''-'' \<or> hd v = CHR ''+''));
          s = (if signed then tl v else v);
          n = foldl (\<lambda>x c. x * 10 + digit_value c) 0 s;
          m = (if signed \<and> hd v = CHR ''-'' then - n else n)
      in if s = [] \<or> (\<exists>c\<in>set s. \<not> is_digit c) then Inl (ErrMsg (''strconv.Atoi: parsing '' @ v @ '': invalid syntax''))
         else if m < - (2 ^ 63) \<or> 2 ^ 63 - 1 < m then Inl (ErrMsg (''strconv.Atoi: parsing '' @ v @ '': value out of range''))
         else Inr m)"

definition SplitN2 :: "string \<Rightarrow> char \<Rightarrow> string list" where
  "SplitN2 s c = (case IndexByte s c of None \<Rightarrow> [s] | Some i \<Rightarrow> [take i s, drop (Suc i) s])"

subsection \<open>Reading one variable\<close>

type_synonym env = "string \<Rightarrow> string"

definition second :: duration where "second = 10 ^ 9"

definition required :: "env \<Rightarrow> string \<Rightarrow> goerr list" where
  "required env name = (if env name = '''' then [ErrMsg (name @ '' is required'')] else [])"

definition string_or :: "env \<Rightarrow> string \<Rightarrow> string \<Rightarrow> string" where
  "string_or env name dflt = (if env name \<noteq> '''' then env name else dflt)"

definition duration_or :: "(int \<Rightarrow> int \<Rightarrow> int \<Rightarrow> int) \<Rightarrow> env \<Rightarrow> string \<Rightarrow> duration \<Rightarrow> goerr list \<times> duration" where
  "duration_or frac env name dflt =
     (if env name \<noteq> ''''
      then (case ParseDuration frac (env name) of
              Inl e \<Rightarrow> ([Wrapped (name @ '' invalid'') e], dflt)
            | Inr d \<Rightarrow> ([], d))
      else ([], dflt))"

subsection \<open>The controller (controller/internal/config)\<close>

record CtlConfig =
  Ctl_DBURL :: string
  Ctl_APIURL :: string
  Ctl_EncryptionKey :: "string option"
  Ctl_LogLevel :: string
  Ctl_LogFormat :: string
  Ctl_ReconcileInterval :: duration
  Ctl_HeartbeatTTL :: duration
  Ctl_DispatchTimeout :: duration
  Ctl_RunningTimeout :: duration
  Ctl_WorkspaceDir :: string
  Ctl_SyncInterval :: duration

definition ctl_key :: "env \<Rightarrow> goerr list \<times> string option" where
  "ctl_key env =
     (let v = env ''AOP_ENCRYPTION_KEY''
      in if v \<noteq> ''''
         then (case hex_DecodeString v of
            Inl e \<Rightarrow> ([Wrapped ''AOP_ENCRYPTION_KEY: invalid hex'' e], None)
          | Inr key \<Rightarrow>
              if length key \<noteq> 32
              then ([ErrMsg (''AOP_ENCRYPTION_KEY: must be 32 bytes (64 hex chars), got '' @ fmt_d (length key) @ '' bytes'')], None)
              else ([], Some key))
         else ([], None))"

definition controller_Load :: "(int \<Rightarrow> int \<Rightarrow> int \<Rightarrow> int) \<Rightarrow> env \<Rightarrow> goerr list + CtlConfig" where
  "controller_Load frac env =
     (let (e_key, key) = ctl_key env;
          (e1, reconcile) = duration_or frac env ''AOP_RECONCILE_INTERVAL'' (5 * second);
          (e2, ttl) = duration_or frac env ''AOP_AGENT_HEARTBEAT_TTL'' (30 * second);
          (e3, dispatch) = duration_or frac env ''AOP_JOB_DISPATCH_TIMEOUT'' (60 * second);
          (e4, running) = duration_or frac env ''AOP_JOB_RUNNING_TIMEOUT'' (3600 * second);
          (e5, sync) = duration_or frac env ''AOP_SYNC_INTERVAL'' (5 * 60 * second);
          errs = required env ''AOP_DB_URL'' @ required env ''AOP_API_URL'' @ e_key @ e1 @ e2 @ e3 @ e4 @ e5
      in if errs \<noteq> [] then Inl errs
         else Inr \<lparr>Ctl_DBURL = env ''AOP_DB_URL'', Ctl_APIURL = env ''AOP_API_URL'', Ctl_EncryptionKey = key,
           Ctl_LogLevel = string_or env ''AOP_LOG_LEVEL'' ''info'', Ctl_LogFormat = string_or env ''AOP_LOG_FORMAT'' ''json'',
           Ctl_ReconcileInterval = reconcile, Ctl_HeartbeatTTL = ttl, Ctl_DispatchTimeout = dispatch,
           Ctl_RunningTimeout = running, Ctl_WorkspaceDir = string_or env ''AOP_WORKSPACE_DIR'' ''/tmp/aop-workspace'',
           Ctl_SyncInterval = sync\<rparr>)"

text \<open>What \<open>main\<close> hands to the reconciler.\<close>

definition reconciler_config :: "CtlConfig \<Rightarrow> RecConfig" where
  "reconciler_config c = \<lparr>Rec_APIURL = Ctl_APIURL c, Rec_HeartbeatTTL = Ctl_HeartbeatTTL c,
     Rec_DispatchTimeout = Ctl_DispatchTimeout c, Rec_RunningTimeout = Ctl_RunningTimeout c\<rparr>"

subsection \<open>The API server (api/internal/config)\<close>

text \<open>The fields that the handlers read are the record \<open>ApiConfig\<close>; these are the others.\<close>

record ApiServerConfig = ApiConfig +
  Api_DBUrl :: string
  Api_Port :: string
  Api_LogLevel :: string
  Api_LogFormat :: string

definition api_key :: "env \<Rightarrow> goerr list \<times> string" where
  "api_key env =
     (let keyHex = env ''AOP_ENCRYPTION_KEY''
      in if keyHex = '''' then ([ErrMsg ''AOP_ENCRYPTION_KEY is required''], '''')
         else (case hex_DecodeString keyHex of
            Inl _ \<Rightarrow> ([ErrMsg ''AOP_ENCRYPTION_KEY must be a 64-character hex string (32 bytes)''], '''')
          | Inr key \<Rightarrow>
              if length key \<noteq> 32
              then ([ErrMsg ''AOP_ENCRYPTION_KEY must be a 64-character hex string (32 bytes)''], '''')
              else ([], key)))"

definition api_Load :: "(int \<Rightarrow> int \<Rightarrow> int \<Rightarrow> int) \<Rightarrow> env \<Rightarrow> goerr list + ApiServerConfig" where
  "api_Load frac env =
     (let corsOrigins = (if env ''AOP_CORS_ORIGINS'' \<noteq> '''' then SplitByte (env ''AOP_CORS_ORIGINS'') (CHR 0x2C)
                         else [''http://localhost:5174'']);
          (e_key, key) = api_key env;
          (e1, expiry) = duration_or frac env ''AOP_JWT_EXPIRY'' (8 * 3600 * second);
          (e2, ttl) = duration_or frac env ''AOP_AGENT_HEARTBEAT_TTL'' (30 * second);
          errs = required env ''AOP_DB_URL'' @ e_key @ required env ''AOP_JWT_SECRET'' @
            required env ''AOP_REGISTRATION_TOKEN'' @ e1 @ e2
      in if errs \<noteq> [] then Inl errs
         else Inr \<lparr>Api_EncryptionKey = key, Api_JWTSecret = env ''AOP_JWT_SECRET'', Api_JWTExpiry = expiry,
           Api_HeartbeatTTL = ttl, Api_RegToken = env ''AOP_REGISTRATION_TOKEN'', Api_CORSOrigins = corsOrigins,
           Api_DBUrl = env ''AOP_DB_URL'', Api_Port = string_or env ''AOP_PORT'' ''8080'',
           Api_LogLevel = string_or env ''AOP_LOG_LEVEL'' ''info'', Api_LogFormat = string_or env ''AOP_LOG_FORMAT'' ''json''\<rparr>)"

subsection \<open>The agent (agent/internal/config)\<close>

record AgentConfig =
  Agt_APIURL :: string
  Agt_RegistrationToken :: string
  Agt_AgentName :: string
  Agt_AgentAddress :: string
  Agt_Capacity :: int
  Agt_HeartbeatInterval :: duration
  Agt_WorkDir :: string
  Agt_Port :: string
  Agt_LogLevel :: string
  Agt_LogFormat :: string
  Agt_Labels :: "string gomap"

definition agent_capacity :: "env \<Rightarrow> goerr list \<times> int" where
  "agent_capacity env =
     (let v = env ''AOP_CAPACITY''
      in if v \<noteq> ''''
         then (case Atoi v of
            Inl _ \<Rightarrow> ([ErrMsg ''AOP_CAPACITY must be a positive integer''], 4)
          | Inr n \<Rightarrow> if n \<le> 0 then ([ErrMsg ''AOP_CAPACITY must be a positive integer''], 4) else ([], n))
         else ([], 4))"

definition add_label :: "string gomap \<Rightarrow> string \<Rightarrow> string gomap" where
  "add_label labels pair =
     (case SplitN2 (TrimSpace pair) (CHR 0x3D) of
        [k, v] \<Rightarrow> AList.update (TrimSpace k) (TrimSpace v) labels
      | _ \<Rightarrow> labels)"

definition agent_Load :: "(int \<Rightarrow> int \<Rightarrow> int \<Rightarrow> int) \<Rightarrow> string res \<Rightarrow> env \<Rightarrow> goerr list + AgentConfig" where
  "agent_Load frac host env =
     (let name = (if env ''AOP_AGENT_NAME'' = '''' then (case host of Inl _ \<Rightarrow> ''agent'' | Inr h \<Rightarrow> h)
                  else env ''AOP_AGENT_NAME'');
          (e1, capacity) = agent_capacity env;
          (e2, interval) = duration_or frac env ''AOP_HEARTBEAT_INTERVAL'' (10 * second);
          labels = (if env ''AOP_LABELS'' \<noteq> '''' then foldl add_label [] (SplitByte (env ''AOP_LABELS'') (CHR 0x2C)) else []);
          errs = required env ''AOP_API_URL'' @ required env ''AOP_REGISTRATION_TOKEN'' @
            (if env ''AOP_AGENT_ADDRESS'' = ''''
             then [ErrMsg ''AOP_AGENT_ADDRESS is required (full URL the controller uses to reach this agent)''] else []) @ e1 @ e2
      in if errs \<noteq> [] then Inl errs
         else Inr \<lparr>Agt_APIURL = env ''AOP_API_URL'', Agt_RegistrationToken = env ''AOP_REGISTRATION_TOKEN'',
           Agt_AgentName = name, Agt_AgentAddress = env ''AOP_AGENT_ADDRESS'', Agt_Capacity = capacity,
           Agt_HeartbeatInterval = interval, Agt_WorkDir = string_or env ''AOP_WORK_DIR'' ''/tmp/aop'',
           Agt_Port = string_or env ''AOP_PORT'' ''7000'', Agt_LogLevel = string_or env ''AOP_LOG_LEVEL'' ''info'',
           Agt_LogFormat = string_or env ''AOP_LOG_FORMAT'' ''json'', Agt_Labels = labels\<rparr>)"

end
