(* ===== verification/ConfigProps.thy ===== *)
theory ConfigProps
  imports Config
begin

section \<open>Properties of the configuration\<close>

text \<open>
  Which environments load, and what a loaded configuration promises to the components that are built
  from it.
\<close>

lemma dur_loop_bounds:
  assumes "dur_loop frac orig d s = Inr r" and "0 \<le> d" and "d \<le> 2 ^ 63"
  shows "0 \<le> r \<and> r \<le> 2 ^ 63"
  using assms
proof (induction frac orig d s rule: dur_loop.induct)
  case (1 frac orig d s)
  show ?case
  proof (cases "s = []")
    case True
    then show ?thesis using 1(2-4) by (simp add: dur_loop.simps)
  next
    case False
    then obtain vr where v: "dur_term frac orig s = Inr vr" "\<not> 2 ^ 63 < (d + fst vr) mod 2 ^ 64"
      "dur_loop frac orig ((d + fst vr) mod 2 ^ 64) (snd vr) = Inr r"
      using 1(2) by (subst (asm) dur_loop.simps) (auto simp: Let_def split: sum.splits if_splits)
    show ?thesis by (rule 1(1) [OF False v(1) refl v(2,3)]) (use v(2) in auto)
  qed
qed

lemma ParseDuration_bounds:
  "ParseDuration frac s = Inr d \<Longrightarrow> - (2 ^ 63) \<le> d \<and> d < 2 ^ 63"
  by (auto simp: ParseDuration_def Let_def split: if_splits sum.splits dest!: dur_loop_bounds)

lemma duration_or_bounds:
  assumes "duration_or frac env name dflt = (e, d)" and "0 \<le> dflt" and "dflt < 2 ^ 63"
  shows "- (2 ^ 63) \<le> d \<and> d < 2 ^ 63"
  using assms ParseDuration_bounds by (auto simp: duration_or_def split: if_splits sum.splits)

definition duration_ok :: "(int \<Rightarrow> int \<Rightarrow> int \<Rightarrow> int) \<Rightarrow> env \<Rightarrow> string \<Rightarrow> bool" where
  "duration_ok frac env name \<longleftrightarrow> env name = '''' \<or> isOk (ParseDuration frac (env name))"

lemma duration_or_error: "fst (duration_or frac env name dflt) = [] \<longleftrightarrow> duration_ok frac env name"
  by (auto simp: duration_or_def duration_ok_def isOk_def split: sum.splits)

lemma required_Nil [simp]: "required env name = [] \<longleftrightarrow> env name \<noteq> ''''"
  by (simp add: required_def)

definition key_valid :: "string \<Rightarrow> bool" where
  "key_valid v \<longleftrightarrow> (case hex_DecodeString v of Inl _ \<Rightarrow> False | Inr key \<Rightarrow> length key = 32)"

lemma controller_loads_iff:
  "(\<exists>c. controller_Load frac env = Inr c) \<longleftrightarrow>
     env ''AOP_DB_URL'' \<noteq> '''' \<and> env ''AOP_API_URL'' \<noteq> '''' \<and>
     (env ''AOP_ENCRYPTION_KEY'' = '''' \<or> key_valid (env ''AOP_ENCRYPTION_KEY'')) \<and>
     (\<forall>n\<in>{''AOP_RECONCILE_INTERVAL'', ''AOP_AGENT_HEARTBEAT_TTL'', ''AOP_JOB_DISPATCH_TIMEOUT'',
            ''AOP_JOB_RUNNING_TIMEOUT'', ''AOP_SYNC_INTERVAL''}. duration_ok frac env n)"
proof -
  have "fst (ctl_key env) = [] \<longleftrightarrow> env ''AOP_ENCRYPTION_KEY'' = '''' \<or> key_valid (env ''AOP_ENCRYPTION_KEY'')"
    by (auto simp: ctl_key_def key_valid_def Let_def split: sum.splits)
  then show ?thesis
    by (auto simp: controller_Load_def Let_def split_beta duration_or_error)
qed

lemma api_loads_iff:
  "(\<exists>a. api_Load frac env = Inr a) \<longleftrightarrow>
     env ''AOP_DB_URL'' \<noteq> '''' \<and> key_valid (env ''AOP_ENCRYPTION_KEY'') \<and> env ''AOP_JWT_SECRET'' \<noteq> '''' \<and>
     env ''AOP_REGISTRATION_TOKEN'' \<noteq> '''' \<and>
     (\<forall>n\<in>{''AOP_JWT_EXPIRY'', ''AOP_AGENT_HEARTBEAT_TTL''}. duration_ok frac env n)"
proof -
  have "fst (api_key env) = [] \<longleftrightarrow> key_valid (env ''AOP_ENCRYPTION_KEY'')"
    by (auto simp: api_key_def key_valid_def Let_def split: sum.splits)
  then show ?thesis by (simp add: api_Load_def Let_def split_beta duration_or_error)
qed

lemma agent_loads_iff:
  "(\<exists>g. agent_Load frac host env = Inr g) \<longleftrightarrow>
     env ''AOP_API_URL'' \<noteq> '''' \<and> env ''AOP_REGISTRATION_TOKEN'' \<noteq> '''' \<and> env ''AOP_AGENT_ADDRESS'' \<noteq> '''' \<and>
     (env ''AOP_CAPACITY'' = '''' \<or> (\<exists>n. Atoi (env ''AOP_CAPACITY'') = Inr n \<and> 0 < n)) \<and>
     duration_ok frac env ''AOP_HEARTBEAT_INTERVAL''"
proof -
  have "fst (agent_capacity env) = [] \<longleftrightarrow>
      env ''AOP_CAPACITY'' = '''' \<or> (\<exists>n. Atoi (env ''AOP_CAPACITY'') = Inr n \<and> 0 < n)"
    by (auto simp: agent_capacity_def Let_def split: sum.splits)
  then show ?thesis by (auto simp: agent_Load_def Let_def split_beta duration_or_error)
qed

lemma Atoi_bounds: "Atoi v = Inr n \<Longrightarrow> - (2 ^ 63) \<le> n \<and> n < 2 ^ 63"
  by (auto simp: Atoi_def Let_def split: if_splits)

lemma add_labels_distinct: "distinct (map fst ls) \<Longrightarrow> distinct (map fst (foldl add_label ls ps))"
  by (induction ps arbitrary: ls) (simp_all add: add_label_def distinct_update split: list.split)

definition int64_ok :: "int \<Rightarrow> bool" where
  "int64_ok n \<longleftrightarrow> - (2 ^ 63) \<le> n \<and> n < 2 ^ 63"

lemma duration_or_int64:
  "0 \<le> dflt \<Longrightarrow> dflt < 2 ^ 63 \<Longrightarrow> int64_ok (snd (duration_or frac env name dflt))"
  using duration_or_bounds [of frac env name dflt] by (auto simp: int64_ok_def intro: prod.exhaust_sel)

lemma controller_wf:
  assumes "controller_Load frac env = Inr c"
  shows "Ctl_DBURL c \<noteq> '''' \<and> Ctl_APIURL c \<noteq> '''' \<and> Ctl_WorkspaceDir c \<noteq> '''' \<and>
    (\<forall>key. Ctl_EncryptionKey c = Some key \<longrightarrow> length key = 32) \<and>
    (\<forall>d\<in>{Ctl_ReconcileInterval c, Ctl_HeartbeatTTL c, Ctl_DispatchTimeout c, Ctl_RunningTimeout c, Ctl_SyncInterval c}.
       int64_ok d)"
proof -
  have "length key = 32" if "snd (ctl_key env) = Some key" for key
    using that by (auto simp: ctl_key_def Let_def split: if_splits sum.splits)
  then show ?thesis
    using assms
    by (auto simp: controller_Load_def Let_def split_beta duration_or_int64 second_def string_or_def split: if_splits)
qed

lemma api_wf:
  assumes "api_Load frac env = Inr a"
  shows "length (Api_EncryptionKey a) = 32 \<and> Api_JWTSecret a \<noteq> '''' \<and> Api_RegToken a \<noteq> '''' \<and>
    Api_DBUrl a \<noteq> '''' \<and> Api_CORSOrigins a \<noteq> [] \<and> int64_ok (Api_JWTExpiry a) \<and> int64_ok (Api_HeartbeatTTL a)"
proof -
  have "fst (api_key env) = [] \<Longrightarrow> length (snd (api_key env)) = 32"
    by (auto simp: api_key_def Let_def split: if_splits sum.splits)
  then show ?thesis
    using assms by (auto simp: api_Load_def Let_def split_beta duration_or_int64 second_def split: if_splits)
qed

lemma agent_Load_fields:
  assumes "agent_Load frac host env = Inr g"
  shows "Agt_APIURL g \<noteq> ''''" "Agt_RegistrationToken g \<noteq> ''''" "Agt_AgentAddress g \<noteq> ''''"
    "Agt_AgentName g = (if env ''AOP_AGENT_NAME'' = '''' then (case host of Inl _ \<Rightarrow> ''agent'' | Inr h \<Rightarrow> h) else env ''AOP_AGENT_NAME'')"
    "Agt_Capacity g = snd (agent_capacity env)"
    "Agt_HeartbeatInterval g = snd (duration_or frac env ''AOP_HEARTBEAT_INTERVAL'' (10 * second))"
    "\<exists>ps. Agt_Labels g = foldl add_label [] ps"
proof -
  have g: "env ''AOP_API_URL'' \<noteq> ''''" "env ''AOP_REGISTRATION_TOKEN'' \<noteq> ''''" "env ''AOP_AGENT_ADDRESS'' \<noteq> ''''"
    using agent_loads_iff [of frac host env] assms by auto
  show "Agt_APIURL g \<noteq> ''''" "Agt_RegistrationToken g \<noteq> ''''" "Agt_AgentAddress g \<noteq> ''''"
    "Agt_AgentName g = (if env ''AOP_AGENT_NAME'' = '''' then (case host of Inl _ \<Rightarrow> ''agent'' | Inr h \<Rightarrow> h) else env ''AOP_AGENT_NAME'')"
    "Agt_Capacity g = snd (agent_capacity env)"
    "Agt_HeartbeatInterval g = snd (duration_or frac env ''AOP_HEARTBEAT_INTERVAL'' (10 * second))"
    using assms g unfolding agent_Load_def Let_def split_beta by (simp_all split: if_split_asm) auto
  have "Agt_Labels g = (if env ''AOP_LABELS'' \<noteq> '''' then foldl add_label [] (SplitByte (env ''AOP_LABELS'') (CHR 0x2C)) else [])"
    using assms g unfolding agent_Load_def Let_def split_beta by (simp split: if_split_asm) auto
  then show "\<exists>ps. Agt_Labels g = foldl add_label [] ps" by (metis foldl_Nil)
qed

lemma agent_wf:
  assumes "agent_Load frac host env = Inr g" and "host \<noteq> Inr ''''"
  shows "Agt_APIURL g \<noteq> '''' \<and> Agt_RegistrationToken g \<noteq> '''' \<and> Agt_AgentName g \<noteq> '''' \<and> Agt_AgentAddress g \<noteq> '''' \<and>
    1 \<le> Agt_Capacity g \<and> int64_ok (Agt_Capacity g) \<and> int64_ok (Agt_HeartbeatInterval g) \<and> distinct (map fst (Agt_Labels g))"
proof -
  have "1 \<le> snd (agent_capacity env) \<and> int64_ok (snd (agent_capacity env))"
    by (auto simp: agent_capacity_def Let_def int64_ok_def split: sum.splits dest: Atoi_bounds)
  moreover have "distinct (map fst (Agt_Labels g))"
    using agent_Load_fields(7) [OF assms(1)] add_labels_distinct [of "[]"] by auto
  moreover have "Agt_AgentName g \<noteq> ''''"
    unfolding agent_Load_fields(4) [OF assms(1)] using assms(2) by (cases host) auto
  ultimately show ?thesis
    using agent_Load_fields(1-3,5,6) [OF assms(1)] by (simp add: duration_or_int64 second_def)
qed

lemma same_key_and_ttl:
  assumes "controller_Load frac env = Inr c" and "api_Load frac env = Inr a"
  shows "Ctl_EncryptionKey c = Some (Api_EncryptionKey a)" "Ctl_HeartbeatTTL c = Api_HeartbeatTTL a"
proof -
  have "fst (api_key env) = [] \<Longrightarrow> snd (ctl_key env) = Some (snd (api_key env))"
    by (auto simp: api_key_def ctl_key_def Let_def split: if_splits sum.splits)
  then show "Ctl_EncryptionKey c = Some (Api_EncryptionKey a)" "Ctl_HeartbeatTTL c = Api_HeartbeatTTL a"
    using assms by (auto simp: controller_Load_def api_Load_def Let_def split_beta split: if_splits)
qed

text \<open>
  C15: What a loaded configuration promises. Any configuration that \<open>Load\<close> returns has its required
  fields, an encryption key of 32 bytes (the controller may have none), durations that fit 64 bits, at
  least one allowed origin, and for an agent a positive capacity and labels without duplicates; and
  when the API server and a controller load from the same environment, the controller has a key, the
  one that the API server encrypts with, and both use the same heartbeat limit.
\<close>

theorem loaded_configs_wf:
  assumes "controller_Load frac env = Inr c" and "api_Load frac env = Inr a"
    and "agent_Load frac host env' = Inr g" and "host \<noteq> Inr ''''"
  shows "Ctl_DBURL c \<noteq> '''' \<and> Ctl_APIURL c \<noteq> '''' \<and> Api_DBUrl a = Ctl_DBURL c \<and>
    length (Api_EncryptionKey a) = 32 \<and> Ctl_EncryptionKey c = Some (Api_EncryptionKey a) \<and>
    Api_JWTSecret a \<noteq> '''' \<and> Api_RegToken a \<noteq> '''' \<and> Api_CORSOrigins a \<noteq> [] \<and>
    Rec_HeartbeatTTL (reconciler_config c) = Api_HeartbeatTTL a \<and>
    (\<forall>d\<in>{Ctl_ReconcileInterval c, Ctl_HeartbeatTTL c, Ctl_DispatchTimeout c, Ctl_RunningTimeout c, Ctl_SyncInterval c,
           Api_JWTExpiry a, Agt_HeartbeatInterval g}. int64_ok d) \<and>
    Agt_APIURL g \<noteq> '''' \<and> Agt_RegistrationToken g \<noteq> '''' \<and> Agt_AgentName g \<noteq> '''' \<and> Agt_AgentAddress g \<noteq> '''' \<and>
    1 \<le> Agt_Capacity g \<and> int64_ok (Agt_Capacity g) \<and> distinct (map fst (Agt_Labels g))"
proof -
  have "Api_DBUrl a = Ctl_DBURL c"
    using assms(1,2) by (auto simp: controller_Load_def api_Load_def Let_def split_beta split: if_splits)
  then show ?thesis
    using controller_wf [OF assms(1)] api_wf [OF assms(2)] agent_wf [OF assms(3,4)] same_key_and_ttl [OF assms(1,2)]
    by (simp add: reconciler_config_def)
qed


text \<open>An environment for all three programs, and exact arithmetic for fractions.\<close>

definition demo_vars :: "(string \<times> string) list" where
  "demo_vars = [(''AOP_DB_URL'', ''postgres://db''), (''AOP_API_URL'', ''http://api''),
     (''AOP_ENCRYPTION_KEY'', replicate 64 CHR ''a''), (''AOP_JWT_SECRET'', ''s3cret''),
     (''AOP_REGISTRATION_TOKEN'', ''join''), (''AOP_AGENT_ADDRESS'', ''http://a1:7000''),
     (''AOP_AGENT_HEARTBEAT_TTL'', ''1m30s''), (''AOP_CAPACITY'', ''12''), (''AOP_LABELS'', ''zone=eu, gpu'')]"

definition demo_env :: env where
  "demo_env n = (case map_of demo_vars n of None \<Rightarrow> '''' | Some v \<Rightarrow> v)"

definition exact :: "int \<Rightarrow> int \<Rightarrow> int \<Rightarrow> int" where
  "exact f unit scale = f * unit div scale"

lemma ParseDuration_values:
  "ParseDuration exact ''1m30s'' = Inr (90 * 10 ^ 9)"
  "ParseDuration exact ''-1.5h'' = Inr (- (5400 * 10 ^ 9))"
  "ParseDuration exact ''0s'' = Inr 0"
  "ParseDuration exact ''5'' = Inl (ErrMsg (''time: missing unit in duration '' @ [CHR 0x22] @ ''5'' @ [CHR 0x22]))"
  "ParseDuration exact ''9223372036854775808ns'' = Inl (bad_duration ''9223372036854775808ns'')"
  by code_simp+

text \<open>A heartbeat interval of zero or less is accepted.\<close>

lemma nonpositive_interval_loads:
  assumes "ParseDuration frac v = Inr d" and "d \<le> 0" and "v \<noteq> ''''"
    and "\<forall>n. n \<noteq> ''AOP_HEARTBEAT_INTERVAL'' \<longrightarrow> env n = demo_env n" and "env ''AOP_HEARTBEAT_INTERVAL'' = v"
  shows "\<exists>g. agent_Load frac host env = Inr g \<and> Agt_HeartbeatInterval g \<le> 0"
proof -
  have "env ''AOP_API_URL'' = ''http://api''" "env ''AOP_REGISTRATION_TOKEN'' = ''join''"
    "env ''AOP_AGENT_ADDRESS'' = ''http://a1:7000''" "env ''AOP_CAPACITY'' = ''12''"
    using assms(4) by (simp_all add: demo_env_def demo_vars_def)
  moreover have "Atoi ''12'' = Inr 12" by code_simp
  ultimately have "\<exists>g. agent_Load frac host env = Inr g"
    unfolding agent_loads_iff using assms(1,5) by (simp add: duration_ok_def)
  then obtain g where g: "agent_Load frac host env = Inr g" by blast
  then show ?thesis using agent_Load_fields(6) [OF g] assms by (simp add: duration_or_def)
qed

theorem loaded_configs_wf_witness:
  "\<exists>c a g. controller_Load exact demo_env = Inr c \<and> api_Load exact demo_env = Inr a \<and>
     agent_Load exact (Inl ErrConn) demo_env = Inr g \<and> Ctl_EncryptionKey c = Some (Api_EncryptionKey a) \<and>
     length (Api_EncryptionKey a) = 32 \<and> Api_HeartbeatTTL a = 90 * 10 ^ 9 \<and>
     Agt_Capacity g = 12 \<and> Agt_Labels g = [(''zone'', ''eu'')] \<and> int64_ok (Agt_Capacity g)"
proof -
  have "isOk (case controller_Load exact demo_env of Inl _ \<Rightarrow> Inl ErrConn | Inr c \<Rightarrow> Inr ())"
    "(case api_Load exact demo_env of Inl _ \<Rightarrow> False | Inr a \<Rightarrow> Api_HeartbeatTTL a = 90 * 10 ^ 9)"
    "(case agent_Load exact (Inl ErrConn) demo_env of Inl _ \<Rightarrow> False
      | Inr g \<Rightarrow> Agt_Capacity g = 12 \<and> Agt_Labels g = [(''zone'', ''eu'')])"
    by code_simp+
  then obtain c a g where L: "controller_Load exact demo_env = Inr c" "api_Load exact demo_env = Inr a"
    "agent_Load exact (Inl ErrConn) demo_env = Inr g" "Api_HeartbeatTTL a = 90 * 10 ^ 9"
    "Agt_Capacity g = 12" "Agt_Labels g = [(''zone'', ''eu'')]"
    by (auto split: sum.splits)
  then show ?thesis using loaded_configs_wf [OF L(1-3)] by auto
qed

end
