(* ===== verification/Startup.thy ===== *)
theory Startup
  imports ConfigProps Deployment System
begin

section \<open>How the processes start (controller, api and agent cmd/*/main.go)\<close>

text \<open>
  \<open>main\<close> of each program loads the configuration, sets up logging, connects, and builds the components
  from it. A fatal error ends the process with the step it happened in. Connecting to the database is the
  pgx package's (\<open>pgx_ext\<close>, in which a pool is named by its configuration), the names of log levels are
  zerolog's (\<open>parse_level\<close>), hashing a password is bcrypt's. \<open>time.NewTicker\<close> panics on an interval that is
  not positive: the loops that \<open>main\<close> starts with the configured intervals do so at once.
\<close>

datatype 'a started = Fatal string "goerr list" | Panicked string | Started 'a

subsection \<open>Logging\<close>

record logger =
  log_level :: string
  log_console :: bool

definition build_logger :: "(string \<Rightarrow> string res) \<Rightarrow> string \<Rightarrow> bool \<Rightarrow> logger" where
  "build_logger parse_level level console =
     \<lparr>log_level = (case parse_level level of Inl _ \<Rightarrow> ''info'' | Inr l \<Rightarrow> l), log_console = console\<rparr>"

definition controller_buildLogger :: "(string \<Rightarrow> string res) \<Rightarrow> CtlConfig \<Rightarrow> logger" where
  "controller_buildLogger parse_level cfg = build_logger parse_level (Ctl_LogLevel cfg) (Ctl_LogFormat cfg = ''pretty'')"

definition api_buildLogger :: "(string \<Rightarrow> string res) \<Rightarrow> ApiServerConfig \<Rightarrow> logger" where
  "api_buildLogger parse_level cfg = build_logger parse_level (Api_LogLevel cfg) (Api_LogFormat cfg = ''console'')"

definition agent_buildLogger :: "(string \<Rightarrow> string res) \<Rightarrow> AgentConfig \<Rightarrow> logger" where
  "agent_buildLogger parse_level cfg = build_logger parse_level (Agt_LogLevel cfg) (Agt_LogFormat cfg = ''console'')"

subsection \<open>Connecting to the database\<close>

record pool_config =
  Pool_URL :: string
  Pool_MaxConns :: int
  Pool_MinConns :: int

record pgx_ext =
  pgx_ParseConfig :: "string \<Rightarrow> pool_config res"
  pgx_NewWithConfig :: "pool_config \<Rightarrow> goerr option"
  pgx_Ping :: "pool_config \<Rightarrow> goerr option"

definition Connect :: "pgx_ext \<Rightarrow> string \<Rightarrow> pool_config res" where
  "Connect P dbURL =
     (case pgx_ParseConfig P dbURL of
        Inl e \<Rightarrow> Inl e
      | Inr cfg0 \<Rightarrow>
          (let cfg = cfg0\<lparr>Pool_MaxConns := 20, Pool_MinConns := 2\<rparr>
           in case pgx_NewWithConfig P cfg of
                Some e \<Rightarrow> Inl e
              | None \<Rightarrow> (case pgx_Ping P cfg of Some e \<Rightarrow> Inl e | None \<Rightarrow> Inr cfg)))"

text \<open>\<open>pgxpool.New\<close> parses and connects, with the pool sizes of the URL.\<close>

definition pgxpool_New :: "pgx_ext \<Rightarrow> string \<Rightarrow> pool_config res" where
  "pgxpool_New P dbURL =
     (case pgx_ParseConfig P dbURL of
        Inl e \<Rightarrow> Inl e
      | Inr cfg \<Rightarrow> (case pgx_NewWithConfig P cfg of Some e \<Rightarrow> Inl e | None \<Rightarrow> Inr cfg))"

subsection \<open>The three programs\<close>

record controller =
  main_log :: logger
  main_rec :: "world Reconciler"
  main_workspace :: string
  main_reconcile :: duration
  main_sync :: duration

definition controller_main ::
  "(string \<Rightarrow> string res) \<Rightarrow> pgx_ext \<Rightarrow> crypto \<Rightarrow> (string \<Rightarrow> bool) \<Rightarrow> (int \<Rightarrow> int \<Rightarrow> int \<Rightarrow> int) \<Rightarrow> env \<Rightarrow>
   controller started" where
  "controller_main parse_level P cr url_ok frac env =
     (case controller_Load frac env of
        Inl es \<Rightarrow> Fatal ''config error'' es
      | Inr cfg \<Rightarrow>
     (case pgxpool_New P (Ctl_DBURL cfg) of
        Inl e \<Rightarrow> Fatal ''connect to database'' [e]
      | Inr pool \<Rightarrow>
     (case pgx_Ping P pool of
        Some e \<Rightarrow> Fatal ''ping database'' [e]
      | None \<Rightarrow>
          if \<not> NewTicker_ok (Ctl_ReconcileInterval cfg) \<or> \<not> NewTicker_ok (Ctl_SyncInterval cfg)
          then Panicked ''non-positive interval for NewTicker''
          else Started \<lparr>main_log = controller_buildLogger parse_level cfg,
                 main_rec = pg_reconciler cr (case Ctl_EncryptionKey cfg of None \<Rightarrow> '''' | Some k \<Rightarrow> k) url_ok
                   (reconciler_config cfg),
                 main_workspace = Ctl_WorkspaceDir cfg, main_reconcile = Ctl_ReconcileInterval cfg,
                 main_sync = Ctl_SyncInterval cfg\<rparr>)))"

definition api_main ::
  "(string \<Rightarrow> string res) \<Rightarrow> pgx_ext \<Rightarrow> (int \<Rightarrow> int \<Rightarrow> int \<Rightarrow> int) \<Rightarrow> env \<Rightarrow> (logger \<times> ApiServerConfig) started" where
  "api_main parse_level P frac env =
     (case api_Load frac env of
        Inl es \<Rightarrow> Fatal ''config error'' es
      | Inr cfg \<Rightarrow>
          (case Connect P (Api_DBUrl cfg) of
             Inl e \<Rightarrow> Fatal ''db connect'' [e]
           | Inr _ \<Rightarrow> Started (api_buildLogger parse_level cfg, cfg)))"

record agent_proc =
  proc_log :: logger
  proc_client :: Client
  proc_state :: agent_state
  proc_interval :: duration
  proc_workDir :: string

definition agent_main ::
  "(string \<Rightarrow> string res) \<Rightarrow> run_ext \<Rightarrow> (string \<Rightarrow> bool) \<Rightarrow> (api_body \<Rightarrow> (uuid \<times> string) res) \<Rightarrow> 's net \<Rightarrow>
   (int \<Rightarrow> int \<Rightarrow> int \<Rightarrow> int) \<Rightarrow> string res \<Rightarrow> env \<Rightarrow> files \<Rightarrow> 's \<Rightarrow> agent_proc started \<times> 's" where
  "agent_main parse_level X url_ok dec net frac host env fs s =
     (case agent_Load frac host env of
        Inl es \<Rightarrow> (Fatal ''config error'' es, s)
      | Inr cfg \<Rightarrow>
          (case os_MkdirAll X (Agt_WorkDir cfg) fs of
             Some e \<Rightarrow> (Fatal ''create work dir'' [e], s)
           | None \<Rightarrow>
               (case Register url_ok dec net (Agt_RegistrationToken cfg) (Agt_AgentName cfg) (Agt_AgentAddress cfg)
                       (Some (Agt_Labels cfg)) (Agt_Capacity cfg) (Client_New (Agt_APIURL cfg)) s of
                  (Inl e, c, s1) \<Rightarrow> (Fatal ''registration failed'' [e], s1)
                | (Inr _, c, s1) \<Rightarrow>
                    (if \<not> NewTicker_ok (Agt_HeartbeatInterval cfg)
                     then Panicked ''non-positive interval for NewTicker''
                     else Started \<lparr>proc_log = agent_buildLogger parse_level cfg, proc_client = c, proc_state = agent_init (Agt_Capacity cfg),
                            proc_interval = Agt_HeartbeatInterval cfg, proc_workDir = Agt_WorkDir cfg\<rparr>, s1))))"

text \<open>One round of the heartbeat loop; an error is only logged.\<close>

definition heartbeat_tick :: "(string \<Rightarrow> bool) \<Rightarrow> 's net \<Rightarrow> agent_proc \<Rightarrow> 's \<Rightarrow> 's" where
  "heartbeat_tick url_ok net pr s =
     snd (Heartbeat url_ok net (RunningJobs (as_server (proc_state pr))) (proc_client pr) s)"

subsection \<open>How they end\<close>

text \<open>
  Once it has started, \<open>main\<close> waits for a signal while a goroutine serves HTTP; \<open>ListenAndServe\<close> returns
  when it fails, or with \<open>http.ErrServerClosed\<close> when \<open>Shutdown\<close> is called. A run is the list of what
  happens: the listener returns, a signal arrives, \<open>Shutdown\<close> returns (its error is only logged).
\<close>

datatype main_event = ServeReturned goerr | Signalled | ShutdownReturned "goerr option"

datatype main_exit = ExitFatal string goerr | ExitMain

definition ErrServerClosed :: goerr where
  "ErrServerClosed = ErrMsg ''http: Server closed''"

fun main_waits :: "string \<Rightarrow> bool \<Rightarrow> main_event list \<Rightarrow> main_exit option" where
  "main_waits msg quit [] = None"
| "main_waits msg quit (ServeReturned e # es) =
     (if e \<noteq> ErrServerClosed then Some (ExitFatal msg e) else main_waits msg quit es)"
| "main_waits msg quit (Signalled # es) = main_waits msg True es"
| "main_waits msg quit (ShutdownReturned r # es) = (if quit then Some ExitMain else main_waits msg quit es)"

definition api_waits :: "main_event list \<Rightarrow> main_exit option" where
  "api_waits = main_waits ''server error'' False"

definition agent_waits :: "main_event list \<Rightarrow> main_exit option" where
  "agent_waits = main_waits ''dispatch server error'' False"

text \<open>The controller serves nothing: it cancels its loops and returns without waiting for them.\<close>

fun controller_waits :: "main_event list \<Rightarrow> main_exit option" where
  "controller_waits [] = None"
| "controller_waits (Signalled # es) = Some ExitMain"
| "controller_waits (_ # es) = controller_waits es"

text \<open>A process returns from \<open>main\<close> only after a signal, and then after \<open>Shutdown\<close>, if it serves.\<close>

lemma main_waits_signal:
  "main_waits msg quit es = Some ExitMain \<Longrightarrow> (quit \<or> Signalled \<in> set es) \<and> (\<exists>r. ShutdownReturned r \<in> set es)"
  by (induction msg quit es rule: main_waits.induct) (auto split: if_splits)

lemma main_waits_fatal:
  "main_waits msg quit es = Some (ExitFatal m e) \<Longrightarrow> m = msg \<and> e \<noteq> ErrServerClosed \<and> ServeReturned e \<in> set es"
  by (induction msg quit es rule: main_waits.induct) (auto split: if_splits)

lemma controller_waits_signal: "controller_waits es = Some ExitMain \<longleftrightarrow> Signalled \<in> set es"
  by (induction es rule: controller_waits.induct) auto

text \<open>With no listener error and a signal that \<open>Shutdown\<close> answers, the processes end.\<close>

lemma main_waits_ends:
  assumes "\<forall>e. ServeReturned e \<in> set es \<longrightarrow> e = ErrServerClosed"
  shows "main_waits msg quit (es @ [Signalled, ShutdownReturned r]) = Some ExitMain"
  using assms by (induction msg quit es rule: main_waits.induct) auto

subsection \<open>The tool that prints a password hash (api/cmd/genhash/main.go)\<close>

text \<open>Exit code, standard output and standard error; \<open>args\<close> is \<open>os.Args\<close>, \<open>gen\<close> is bcrypt's.\<close>

definition genhash_main :: "(string \<Rightarrow> nat \<Rightarrow> string res) \<Rightarrow> string list \<Rightarrow> nat \<times> string \<times> string" where
  "genhash_main gen args =
     (let pw = (if length args > 1 then args ! 1 else ''password'')
      in case gen pw 12 of
           Inl e \<Rightarrow> (1, '''', error_text e @ [CHR 0x0A])
         | Inr h \<Rightarrow> (0, h, ''''))"

text \<open>The hash that the tool prints, stored for a user, lets that user log in with the password.\<close>

lemma seeded_user_logs_in:
  assumes "genhash_main gen [prog, pw] = (0, h, err)" and "\<And>p c h. gen p c = Inr h \<Longrightarrow> bcrypt_ok ext h p"
    and "undisturbed w" and "lookup_row User_Email (db_users (w_db w)) email = Some u"
    and "User_PasswordHash u = h"
    and "IssueToken ext now (Api_JWTSecret cfg) (User_ID u) (User_Email u) (Api_JWTExpiry cfg) = Inr token"
  shows "fst (h_Login ext cfg now (Some \<lparr>Login_Email = email, Login_Password = pw\<rparr>) w) = (200, JWTBody token)"
proof -
  have "bcrypt_ok ext h pw" using assms(1,2) by (auto simp: genhash_main_def split: sum.splits)
  then show ?thesis
    using assms(3-6)
    by (simp add: h_Login_def astore_GetUserByEmail_def exec_nf_query_at)
qed

text \<open>A process that has started accepts work; a controller that has started passes on its key.\<close>

lemma started_agent_accepts:
  assumes "agent_main parse_level X url_ok dec net frac host env fs s = (Started pr, s')" and "host \<noteq> Inr ''''"
    and "Payload_JobID p \<noteq> uuid_Nil"
  shows "fst (handleDispatch (Some p) ctx (as_server (proc_state pr))) = 202 \<and> 0 < proc_interval pr"
proof -
  obtain cfg where cfg: "agent_Load frac host env = Inr cfg"
    using assms(1) by (auto simp: agent_main_def split: sum.splits)
  have "as_server (proc_state pr) = Server_New (Agt_Capacity cfg) \<and> 0 < proc_interval pr"
    using assms(1) cfg by (auto simp: agent_main_def agent_init_def NewTicker_ok_def split: option.splits prod.splits sum.splits if_splits)
  then show ?thesis
    using agent_wf [OF cfg assms(2)] assms(3) by (simp add: handleDispatch_def dispatch_check_def Server_New_def)
qed

lemma started_processes_share_key:
  assumes "controller_main lv P cr url_ok frac env = Started m" and "api_main lv P frac env = Started (lg, a)"
  shows "\<exists>rc. main_rec m = pg_reconciler cr (Api_EncryptionKey a) url_ok rc \<and> Rec_HeartbeatTTL rc = Api_HeartbeatTTL a"
proof -
  obtain c where c: "controller_Load frac env = Inr c"
    using assms(1) by (auto simp: controller_main_def split: sum.splits)
  have a: "api_Load frac env = Inr a"
    using assms(2) by (auto simp: api_main_def split: sum.splits option.splits)
  show ?thesis
    using assms(1) c same_key_and_ttl [OF c a]
    by (auto simp: controller_main_def reconciler_config_def split: option.splits if_splits sum.splits)
qed

text \<open>Once it has started, a controller's loops end only by cancellation.\<close>

lemma started_controller_loops:
  assumes "controller_main lv P cr url_ok frac env = Started m"
  shows "reconciler_Run (main_rec m) (main_reconcile m) es w \<noteq> Crashed w'"
    and "scheduler_Run X (main_sync m) es S w \<noteq> Crashed s"
    and "gitsync_Run G (main_workspace m) (main_sync m) es (fs, w) \<noteq> Crashed s'"
proof -
  have "NewTicker_ok (main_reconcile m)" "NewTicker_ok (main_sync m)"
    using assms by (auto simp: controller_main_def split: sum.splits option.splits if_splits)
  then show "reconciler_Run (main_rec m) (main_reconcile m) es w \<noteq> Crashed w'"
    "scheduler_Run X (main_sync m) es S w \<noteq> Crashed s"
    "gitsync_Run G (main_workspace m) (main_sync m) es (fs, w) \<noteq> Crashed s'"
    by (simp_all add: reconciler_Run_def scheduler_Run_def gitsync_Run_def ticker_loop_def for_select_rounds split_beta)
qed

end
