(* ===== verification/LogRace.thy ===== *)
theory LogRace
  imports ApiProps2 AgentRunner
begin

section \<open>Numbering the lines of a job (agent/internal/server/server.go, agent/internal/runner/runner.go)\<close>

text \<open>
  Two goroutines read the playbook's output, one per stream, and call \<open>onLog(nextSeq(), line, stream)\<close>.
  \<open>nextSeq\<close> increments an atomic counter; \<open>onLog\<close> stores the number in the variable \<open>seq\<close>, which both
  goroutines share without a lock, and reads it again to build the line for the batcher. A reader
  stands before a call (\<open>Idle\<close>), has its number (\<open>Took\<close>), or has stored it (\<open>Wrote\<close>).

  \<open>executeJob\<close> of \<open>ApiClient\<close> is the execution in which the calls do not overlap.
\<close>

datatype reader = Idle | Took int string string | Wrote string string

record log_state =
  ls_counter :: int
  ls_seq :: int
  ls_readers :: "reader list"
  ls_lines :: "JobLogLine list"

definition log_init :: "nat \<Rightarrow> log_state" where
  "log_init k = \<lparr>ls_counter = 0, ls_seq = 0, ls_readers = replicate k Idle, ls_lines = []\<rparr>"

inductive log_step :: "log_state \<Rightarrow> log_state \<Rightarrow> bool" where
  takes: "i < length (ls_readers s) \<Longrightarrow> ls_readers s ! i = Idle \<Longrightarrow>
    log_step s (s\<lparr>ls_counter := ls_counter s + 1,
      ls_readers := (ls_readers s)[i := Took (ls_counter s + 1) line stream]\<rparr>)"
| writes: "i < length (ls_readers s) \<Longrightarrow> ls_readers s ! i = Took n line stream \<Longrightarrow>
    log_step s (s\<lparr>ls_seq := n, ls_readers := (ls_readers s)[i := Wrote line stream]\<rparr>)"
| adds: "i < length (ls_readers s) \<Longrightarrow> ls_readers s ! i = Wrote line stream \<Longrightarrow>
    log_step s (s\<lparr>ls_readers := (ls_readers s)[i := Idle],
      ls_lines := ls_lines s @ [\<lparr>Log_Seq = ls_seq s, Log_Line = line, Log_Stream = stream\<rparr>]\<rparr>)"

inductive_cases log_stepE: "log_step s s'"

subsection \<open>One reader\<close>

definition one_reader_ok :: "log_state \<Rightarrow> bool" where
  "one_reader_ok s \<longleftrightarrow> (\<exists>r. ls_readers s = [r] \<and>
     (case r of
        Idle \<Rightarrow> ls_counter s = int (length (ls_lines s))
      | Took n l st \<Rightarrow> n = int (length (ls_lines s)) + 1 \<and> ls_counter s = n
      | Wrote l st \<Rightarrow> ls_seq s = int (length (ls_lines s)) + 1 \<and> ls_counter s = ls_seq s) \<and>
     map Log_Seq (ls_lines s) = map int [1..<Suc (length (ls_lines s))])"

lemma one_reader_step:
  assumes "log_step s s'" and "one_reader_ok s"
  shows "one_reader_ok s'"
proof -
  obtain r where r: "ls_readers s = [r]" using assms(2) by (auto simp: one_reader_ok_def)
  have only: "i = 0" if "i < length (ls_readers s)" for i using that r by simp
  from assms(1) show ?thesis
  proof cases
    case (takes i line stream)
    then show ?thesis using only [OF takes(2)] r assms(2) by (simp add: one_reader_ok_def del: upt_Suc)
  next
    case (writes i n line stream)
    then show ?thesis using only [OF writes(2)] r assms(2) by (simp add: one_reader_ok_def del: upt_Suc)
  next
    case (adds i line stream)
    then show ?thesis using only [OF adds(2)] r assms(2) by (simp add: one_reader_ok_def)
  qed
qed

lemma one_reader_numbers:
  assumes "log_step\<^sup>*\<^sup>* (log_init 1) s"
  shows "map Log_Seq (ls_lines s) = map int [1..<Suc (length (ls_lines s))]"
proof -
  have "one_reader_ok s"
    using assms
  proof (induction rule: rtranclp_induct)
    case base
    show ?case by (simp add: one_reader_ok_def log_init_def)
  next
    case (step y z)
    then show ?case using one_reader_step by blast
  qed
  then show ?thesis by (simp add: one_reader_ok_def del: upt_Suc) metis
qed

subsection \<open>Two readers\<close>

text \<open>
  The calls for line \<open>a\<close> and line \<open>b\<close> overlap: both lines get the number 2, and the API server, which
  ignores a line whose number is taken, keeps \<open>a\<close> only.
\<close>

definition raced :: log_state where
  "raced = \<lparr>ls_counter = 2, ls_seq = 2, ls_readers = [Idle, Idle],
     ls_lines = [\<lparr>Log_Seq = 2, Log_Line = ''a'', Log_Stream = ''stdout''\<rparr>,
                 \<lparr>Log_Seq = 2, Log_Line = ''b'', Log_Stream = ''stderr''\<rparr>]\<rparr>"

lemma raced_reachable: "log_step\<^sup>*\<^sup>* (log_init 2) raced"
proof -
  let ?s = "\<lambda>c q r l. \<lparr>ls_counter = c, ls_seq = q, ls_readers = r, ls_lines = l\<rparr>"
  let ?a = "\<lparr>Log_Seq = 2, Log_Line = ''a'', Log_Stream = ''stdout''\<rparr>"
  have "log_step (log_init 2) (?s 1 0 [Took 1 ''a'' ''stdout'', Idle] [])"
    using log_step.takes [of 0 "log_init 2" "''a''" "''stdout''"] by (simp add: log_init_def numeral_2_eq_2)
  moreover have "log_step (?s 1 0 [Took 1 ''a'' ''stdout'', Idle] []) (?s 1 1 [Wrote ''a'' ''stdout'', Idle] [])"
    using log_step.writes [of 0 "?s 1 0 [Took 1 ''a'' ''stdout'', Idle] []" 1 "''a''" "''stdout''"] by simp
  moreover have "log_step (?s 1 1 [Wrote ''a'' ''stdout'', Idle] []) (?s 2 1 [Wrote ''a'' ''stdout'', Took 2 ''b'' ''stderr''] [])"
    using log_step.takes [of 1 "?s 1 1 [Wrote ''a'' ''stdout'', Idle] []" "''b''" "''stderr''"] by simp
  moreover have "log_step (?s 2 1 [Wrote ''a'' ''stdout'', Took 2 ''b'' ''stderr''] [])
      (?s 2 2 [Wrote ''a'' ''stdout'', Wrote ''b'' ''stderr''] [])"
    using log_step.writes [of 1 "?s 2 1 [Wrote ''a'' ''stdout'', Took 2 ''b'' ''stderr''] []" 2 "''b''" "''stderr''"] by simp
  moreover have "log_step (?s 2 2 [Wrote ''a'' ''stdout'', Wrote ''b'' ''stderr''] []) (?s 2 2 [Idle, Wrote ''b'' ''stderr''] [?a])"
    using log_step.adds [of 0 "?s 2 2 [Wrote ''a'' ''stdout'', Wrote ''b'' ''stderr''] []" "''a''" "''stdout''"] by simp
  moreover have "log_step (?s 2 2 [Idle, Wrote ''b'' ''stderr''] [?a]) raced"
    using log_step.adds [of 1 "?s 2 2 [Idle, Wrote ''b'' ''stderr''] [?a]" "''b''" "''stderr''"] by (simp add: raced_def)
  ultimately show ?thesis
    by (meson converse_rtranclp_into_rtranclp rtranclp.rtrancl_refl)
qed

text \<open>
  C23: Log lines can be lost. With two readers there is an execution in which both lines that were read
  reach the batcher but have the same number, and the API server, given that batch for a job of the
  database, stores the first of them only.
\<close>

theorem concurrent_lines_lost:
  "\<exists>s. log_step\<^sup>*\<^sup>* (log_init 2) s \<and> map Log_Line (ls_lines s) = [''a'', ''b''] \<and>
     map Log_Seq (ls_lines s) = [2, 2] \<and>
     map Log_Line (job_logs (UUID ''j3'')
       (w_db (snd (astore_AppendJobLogs (UUID ''j3'') (ls_lines s) (quiet_world sent_db))))) = [''a'']"
proof (intro exI conjI)
  show "log_step\<^sup>*\<^sup>* (log_init 2) raced" by (rule raced_reachable)
  show "map Log_Line (ls_lines raced) = [''a'', ''b'']" "map Log_Seq (ls_lines raced) = [2, 2]" by (simp_all add: raced_def)
  show "map Log_Line (job_logs (UUID ''j3'')
       (w_db (snd (astore_AppendJobLogs (UUID ''j3'') (ls_lines raced) (quiet_world sent_db))))) = [''a'']"
    by code_simp
qed

end
