(* ===== verification/ApiSecrets.thy ===== *)
theory ApiSecrets
  imports Secrets ApiProps
begin

section \<open>The API server's secrets provider (api/internal/secrets/postgres.go)\<close>

text \<open>
  \<open>Provider.Resolve\<close> of the API server has no check for a missing key, reads through the API server's
  store and words one error differently from the controller's; the rest is the same.
\<close>

definition api_decrypt :: "crypto \<Rightarrow> string \<Rightarrow> string \<Rightarrow> string res" where
  "api_decrypt cr key ciphertext =
     (if \<not> aes_key_ok key then Inl aes_err
      else if length ciphertext < gcm_NonceSize then Inl (ErrMsg ''ciphertext too short'')
      else (let nonce = take gcm_NonceSize ciphertext; data = drop gcm_NonceSize ciphertext
            in case gcm_open cr key nonce data of
                 None \<Rightarrow> Inl (ErrMsg ''cipher: message authentication failed'')
               | Some pt \<Rightarrow> Inr pt))"

lemma decrypts_agree: "api_decrypt = decrypt"
  by (simp add: fun_eq_iff api_decrypt_def decrypt_def)

definition api_Resolve :: "crypto \<Rightarrow> string \<Rightarrow> uuid \<Rightarrow> (world, CredentialSecret) prog" where
  "api_Resolve cr key credentialID w =
     (let ctx = ''credential '' @ uuid_String credentialID
      in case astore_GetCredentialWithSecret credentialID w of
           (Inl e, w') \<Rightarrow> (Inl (Wrapped ctx e), w')
         | (Inr cred, w') \<Rightarrow> (decode_secret cr ''unmarshal'' key ctx cred, w'))"

definition api_Ping :: "unit res" where
  "api_Ping = Inr ()"

text \<open>With the key that both programs load, the two providers give the same secrets.\<close>

lemma decode_secret_wording: "decode_secret cr what key ctx cred = Inr s \<longleftrightarrow> decode_secret cr what' key ctx cred = Inr s"
  by (auto simp: decode_secret_def split: sum.splits option.splits)

lemma providers_agree:
  assumes "undisturbed w" and "key \<noteq> []"
  shows "fst (api_Resolve cr key i w) = Inr s \<longleftrightarrow> fst (Resolve cr key i w) = Inr s"
proof (cases "lookup_row Cred_ID (db_credentials (w_db w)) i")
  case None
  then show ?thesis
    using assms
    by (simp add: api_Resolve_def Resolve_def Let_def astore_GetCredentialWithSecret_def exec_nf_query_at
        cstore_GetCredentialWithSecret_def GetCredentialWithSecret_stmt_def exec_ctx_def exec_at split: prod.split)
next
  case (Some c)
  then show ?thesis
    using assms decode_secret_wording [of cr "''unmarshal''" key _ c s "''unmarshal fields''"]
    by (simp add: api_Resolve_def Resolve_def Let_def astore_GetCredentialWithSecret_def exec_nf_query_at
        cstore_GetCredentialWithSecret_def GetCredentialWithSecret_stmt_def exec_ctx_def exec_at)
qed

end
