(* ===== verification/RowScan.thy ===== *)
theory RowScan
  imports ControllerStore
begin

section \<open>Rows and their columns (the scan helpers of controller/internal/store/store.go)\<close>

text \<open>
  The other theories state the controller's statements over tables of Go structs. This one goes down
  to what the database holds and the driver hands over: a row of \<open>jobs\<close> as its columns, with the status
  as text and the two \<open>jsonb\<close> columns as JSON documents of any shape, and a cursor over such rows whose
  \<open>Scan\<close> may fail at any row and whose \<open>Err\<close> may report that the result set was cut short.

  \<open>row_job\<close> is the abstraction from a row to the struct that \<open>scanJobRow\<close> fills. The theorem below says
  that every statement of the store on the table of jobs commutes with it, on every table, whatever
  documents it holds: the tables of structs are a data refinement of the real ones.
\<close>

record JobRow =
  col_id :: uuid
  col_template_id :: uuid
  col_agent_id :: "uuid option"
  col_workflow_run_id :: "uuid option"
  col_status :: string
  col_extra_vars :: "json option"
  col_facts :: "json option"
  col_failure_reason :: "string option"
  col_created_at :: time
  col_updated_at :: time
  col_started_at :: "time option"
  col_ended_at :: "time option"

text \<open>The conversion of a text to \<open>types.JobStatus\<close>; the named constants are texts in Go.\<close>

definition job_status :: "string \<Rightarrow> JobStatus" where
  "job_status s =
     (if s = ''pending'' then JobStatusPending
      else if s = ''dispatched'' then JobStatusDispatched
      else if s = ''running'' then JobStatusRunning
      else if s = ''success'' then JobStatusSuccess
      else if s = ''failed'' then JobStatusFailed
      else if s = ''cancelled'' then JobStatusCancelled
      else JobStatusOther s)"

text \<open>
  \<open>json.Unmarshal\<close> into a nil \<open>map[string]any\<close>: an object fills it, \<open>null\<close> leaves it nil (which reads
  like the empty map), any other document and the empty text of a NULL column are an error.
\<close>

definition Unmarshal_map :: "json option \<Rightarrow> vars res" where
  "Unmarshal_map doc =
     (case doc of
        None \<Rightarrow> Inl (ErrMsg ''unexpected end of JSON input'')
      | Some (JObj m) \<Rightarrow> Inr m
      | Some JNull \<Rightarrow> Inr []
      | Some _ \<Rightarrow> Inl (ErrMsg ''json: cannot unmarshal into Go value of type map[string]interface {}''))"

definition map_or_empty :: "json option \<Rightarrow> vars" where
  "map_or_empty doc = (case Unmarshal_map doc of Inl _ \<Rightarrow> [] | Inr m \<Rightarrow> m)"

text \<open>\<open>scanJobRow\<close> and \<open>scanJob\<close> have the same text; the argument is what \<open>Scan\<close> yields.\<close>

definition row_job :: "JobRow \<Rightarrow> Job" where
  "row_job r = \<lparr>
     Job_ID = col_id r, Job_TemplateID = col_template_id r, Job_AgentID = col_agent_id r,
     Job_WorkflowRunID = col_workflow_run_id r, Job_Status = job_status (col_status r),
     Job_CreatedAt = col_created_at r, Job_UpdatedAt = col_updated_at r,
     Job_StartedAt = col_started_at r, Job_EndedAt = col_ended_at r,
     Job_ExtraVars = map_or_empty (col_extra_vars r), Job_Facts = map_or_empty (col_facts r),
     Job_FailureReason = col_failure_reason r\<rparr>"

definition scanJobRow :: "JobRow res \<Rightarrow> Job res" where
  "scanJobRow scanned = (case scanned of Inl e \<Rightarrow> Inl (Wrapped ''scan job'' e) | Inr r \<Rightarrow> Inr (row_job r))"

definition scanJob :: "JobRow res \<Rightarrow> Job res" where
  "scanJob scanned = (case scanned of Inl e \<Rightarrow> Inl (Wrapped ''scan job'' e) | Inr r \<Rightarrow> Inr (row_job r))"

text \<open>
  The loop over \<open>rows.Next\<close>. Go returns the slice and \<open>rows.Err()\<close> side by side, so a result set that was
  cut short comes with the rows read so far; a row that cannot be scanned discards them.
\<close>

fun scan_loop :: "('r \<Rightarrow> 'a res) \<Rightarrow> 'a list \<Rightarrow> 'r list \<Rightarrow> goerr option \<Rightarrow> 'a list \<times> goerr option" where
  "scan_loop scan xs [] rowsErr = (xs, rowsErr)"
| "scan_loop scan xs (r # rs) rowsErr =
     (case scan r of Inl e \<Rightarrow> ([], Some e) | Inr x \<Rightarrow> scan_loop scan (xs @ [x]) rs rowsErr)"

definition scanJobs :: "JobRow res list \<Rightarrow> goerr option \<Rightarrow> Job list \<times> goerr option" where
  "scanJobs rows rowsErr = scan_loop scanJobRow [] rows rowsErr"

text \<open>How the callers read the pair: the slice counts only when there is no error.\<close>

definition go_result :: "'a \<times> goerr option \<Rightarrow> 'a res" where
  "go_result p = (case snd p of None \<Rightarrow> Inr (fst p) | Some e \<Rightarrow> Inl e)"

subsection \<open>The statements on columns\<close>

definition pending_rows :: "call \<Rightarrow> JobRow list \<Rightarrow> JobRow list" where
  "pending_rows c rs = take 50 (sort_key col_created_at
     (filter (\<lambda>r. col_status r = ''pending'' \<and> \<not> call_locked c (col_id r)) rs))"

definition stuck_rows :: "string \<Rightarrow> duration \<Rightarrow> time \<Rightarrow> call \<Rightarrow> JobRow list \<Rightarrow> JobRow list" where
  "stuck_rows st timeout now c rs = filter (\<lambda>r. col_status r = st \<and>
     col_updated_at r < now - timeout \<and> \<not> call_locked c (col_id r)) rs"

definition set_columns :: "time \<Rightarrow> string \<Rightarrow> uuid option \<Rightarrow> string \<Rightarrow> JobRow \<Rightarrow> JobRow" where
  "set_columns now toStatus agentID reason r = r\<lparr>
     col_status := toStatus,
     col_agent_id := coalesce agentID (col_agent_id r),
     col_failure_reason := (if reason \<noteq> '''' then Some reason else col_failure_reason r),
     col_started_at := (if toStatus = ''running'' \<and> col_started_at r = None then Some now else col_started_at r),
     col_ended_at := (if toStatus \<in> {''success'', ''failed'', ''cancelled''} then Some now else col_ended_at r),
     col_updated_at := now\<rparr>"

definition transition_rows ::
  "uuid \<Rightarrow> string \<Rightarrow> string \<Rightarrow> uuid option \<Rightarrow> string \<Rightarrow> db \<Rightarrow> JobRow list \<Rightarrow> bool res \<times> JobRow list" where
  "transition_rows jobID fromStatus toStatus agentID reason d rs =
     (let P = (\<lambda>r. col_id r = jobID \<and> col_status r = fromStatus);
          n = rows_affected P rs
      in if n > 0 \<and> \<not> agent_exists d agentID then (Inl (PgError ForeignKeyViolation), rs)
         else (Inr (n = 1), update_rows P (set_columns (db_now d) toStatus agentID reason) rs))"

text \<open>\<open>INSERT\<close> with the marshalled variables; the column defaults are those of migration 13.\<close>

definition inserted_row :: "time \<Rightarrow> uuid \<Rightarrow> uuid \<Rightarrow> vars \<Rightarrow> JobRow" where
  "inserted_row now i templateID extraVars = \<lparr>
     col_id = i, col_template_id = templateID, col_agent_id = None, col_workflow_run_id = None,
     col_status = ''pending'', col_extra_vars = Some (JObj extraVars), col_facts = Some (JObj []),
     col_failure_reason = None, col_created_at = now, col_updated_at = now,
     col_started_at = None, col_ended_at = None\<rparr>"

definition insert_row :: "uuid \<Rightarrow> vars \<Rightarrow> call \<Rightarrow> db \<Rightarrow> JobRow list \<Rightarrow> Job res \<times> JobRow list" where
  "insert_row templateID extraVars c d rs =
     (let i = call_uuid c 0; r = inserted_row (db_now d) i templateID extraVars
      in if i \<in> col_id ` set rs then (scanJob (Inl (PgError UniqueViolation)), rs)
         else if templateID \<notin> Template_ID ` set (db_job_templates d)
           then (scanJob (Inl (PgError ForeignKeyViolation)), rs)
         else (scanJob (Inr r), rs @ [r]))"

subsection \<open>Scanning\<close>

lemma job_status_text [simp]:
  "job_status s = JobStatusPending \<longleftrightarrow> s = ''pending''"
  "job_status s = JobStatusDispatched \<longleftrightarrow> s = ''dispatched''"
  "job_status s = JobStatusRunning \<longleftrightarrow> s = ''running''"
  "job_status s = JobStatusSuccess \<longleftrightarrow> s = ''success''"
  "job_status s = JobStatusFailed \<longleftrightarrow> s = ''failed''"
  "job_status s = JobStatusCancelled \<longleftrightarrow> s = ''cancelled''"
  by (auto simp: job_status_def)

lemma status_text_job_status [simp]: "status_text (job_status s) = s"
  by (simp add: job_status_def)

lemma job_status_inj [simp]: "job_status s = job_status t \<longleftrightarrow> s = t"
  by (metis status_text_job_status)

lemma map_or_empty_simps [simp]:
  "map_or_empty (Some (JObj m)) = m" "map_or_empty None = []" "map_or_empty (Some JNull) = []"
  by (simp_all add: map_or_empty_def Unmarshal_map_def)

lemma scan_loop_ok: "(\<And>r. r \<in> set rs \<Longrightarrow> scan r = Inr (f r)) \<Longrightarrow> scan_loop scan xs rs e = (xs @ map f rs, e)"
  by (induction rs arbitrary: xs) simp_all

lemma scan_loop_bad:
  assumes "rs = pre @ r # post" and "\<And>p. p \<in> set pre \<Longrightarrow> isOk (scan p)" and "scan r = Inl err"
  shows "scan_loop scan xs rs e = ([], Some err)"
  unfolding assms(1) using assms(2)
proof (induction pre arbitrary: xs)
  case (Cons p pre)
  obtain y where "scan p = Inr y" using Cons.prems [of p] by (auto simp: isOk_def split: sum.splits)
  then show ?case using Cons by simp
qed (simp add: assms(3))

lemma row_job_sel [simp]:
  "Job_ID (row_job r) = col_id r" "Job_Status (row_job r) = job_status (col_status r)"
  "Job_CreatedAt (row_job r) = col_created_at r" "Job_UpdatedAt (row_job r) = col_updated_at r"
  by (simp_all add: row_job_def)

lemma scanJobs_rows: "scanJobs (map Inr rs) None = (map row_job rs, None)"
  unfolding scanJobs_def by (subst scan_loop_ok [where f = "row_job \<circ> projr"]) (auto simp: scanJobRow_def)

subsection \<open>Tables of columns and tables of structs\<close>

lemma insort_key_map: "insort_key k (f x) (map f xs) = map f (insort_key (\<lambda>y. k (f y)) x xs)"
  by (induction xs) auto

lemma sort_key_map: "sort_key k (map f xs) = map f (sort_key (\<lambda>y. k (f y)) xs)"
  by (induction xs) (simp_all add: insort_key_map)

lemma update_rows_map:
  assumes "\<And>r. r \<in> set rs \<Longrightarrow> Q (f r) = P r" and "\<And>r. r \<in> set rs \<Longrightarrow> h (f r) = f (g r)"
  shows "update_rows Q h (map f rs) = map f (update_rows P g rs)"
  using assms by (auto simp: update_rows_def)

lemma rows_affected_map: "rows_affected Q (map f rs) = rows_affected (\<lambda>r. Q (f r)) rs"
  by (induction rs) simp_all

definition struct_db :: "db \<Rightarrow> JobRow list \<Rightarrow> db" where
  "struct_db d rs = d\<lparr>db_jobs := map row_job rs\<rparr>"

lemma row_job_set_columns:
  "row_job (set_columns now st a reason r) = transition_row now (job_status st) a reason (row_job r)"
  by (simp add: row_job_def set_columns_def transition_row_def)

lemma row_job_inserted: "row_job (inserted_row now i t ev) = new_job now i t None ev"
  by (simp add: row_job_def inserted_row_def new_job_def job_status_def)

lemma pending_rows_structs:
  "map row_job (pending_rows c rs) = take 50 (sort_key Job_CreatedAt
     (filter (\<lambda>j. Job_Status j = JobStatusPending \<and> \<not> call_locked c (Job_ID j)) (map row_job rs)))"
  by (simp add: pending_rows_def filter_map sort_key_map take_map o_def)

lemma stuck_rows_structs:
  "map row_job (stuck_rows st timeout now c rs) = filter (\<lambda>j. Job_Status j = job_status st \<and>
     Job_UpdatedAt j < now - timeout \<and> \<not> call_locked c (Job_ID j)) (map row_job rs)"
  by (simp add: stuck_rows_def filter_map o_def)

lemma struct_db_agents [simp]: "agent_exists (struct_db d rs) a = agent_exists d a"
  by (simp add: agent_exists_def struct_db_def split: option.split)

lemma transition_rows_structs:
  assumes "transition_rows i fs ts a reason d rs = (x, rs')"
  shows "TransitionJob_stmt i (job_status fs) (job_status ts) a reason c (struct_db d rs) = (x, struct_db d rs')"
proof -
  let ?P = "\<lambda>r. col_id r = i \<and> col_status r = fs"
  let ?Q = "\<lambda>j. Job_ID j = i \<and> Job_Status j = job_status fs"
  have jobs: "db_jobs (struct_db d rs) = map row_job rs" "db_now (struct_db d rs) = db_now d"
    by (simp_all add: struct_db_def)
  have n: "rows_affected ?Q (map row_job rs) = rows_affected ?P rs"
    by (simp add: rows_affected_map)
  have u: "update_rows ?Q (transition_row now (job_status ts) a reason) (map row_job rs) =
      map row_job (update_rows ?P (set_columns now ts a reason) rs)" for now
    by (rule update_rows_map) (simp_all add: row_job_set_columns)
  have upd: "(struct_db d rs)\<lparr>db_jobs := map row_job rs'\<rparr> = struct_db d rs'" for rs'
    by (simp add: struct_db_def)
  show ?thesis
    using assms unfolding TransitionJob_stmt_def transition_rows_def Let_def jobs n u upd struct_db_agents
    by (auto split: if_splits)
qed

lemma insert_row_structs:
  assumes "insert_row t ev c d rs = (x, rs')" and "insert_job_stmt t None ev c (struct_db d rs) = (y, d')"
  shows "x = wrap_err ''scan job'' y \<and> d' = struct_db d rs'"
proof -
  have ids: "Job_ID ` set (db_jobs (struct_db d rs)) = col_id ` set rs"
    by (auto simp: struct_db_def image_image)
  show ?thesis
    using assms
    unfolding insert_row_def insert_job_stmt_def Let_def ids
    by (auto simp: struct_db_def scanJob_def wrap_err_def row_job_inserted run_exists_def split: if_splits)
qed

text \<open>
  C9: The controller's statements on the table of jobs, done on columns and scanned row by row, are the
  statements on structs that the rest of the development uses. On every table, whatever status texts and
  JSON documents it holds, the three queries followed by \<open>scanJobs\<close> return the structs that the query on
  the scanned table returns; \<open>TransitionJob\<close> answers the same and leaves a table that scans to the same
  structs; \<open>CreateJob\<close> likewise, its error wrapped by \<open>scanJob\<close>. No document makes a scan fail. A row that
  cannot be scanned fails the whole query, and so does a result set that is cut short.
\<close>

theorem job_rows_refine:
  "go_result (scanJobs (map Inr (pending_rows c rs)) None) = fst (GetPendingJobs_stmt c (struct_db d rs)) \<and>
   go_result (scanJobs (map Inr (stuck_rows ''dispatched'' timeout (db_now d) c rs)) None) =
     fst (GetStuckDispatchedJobs_stmt timeout c (struct_db d rs)) \<and>
   go_result (scanJobs (map Inr (stuck_rows ''running'' timeout (db_now d) c rs)) None) =
     fst (GetStuckRunningJobs_stmt timeout c (struct_db d rs)) \<and>
   TransitionJob_stmt i (job_status fs) (job_status ts) a reason c (struct_db d rs) =
     (fst (transition_rows i fs ts a reason d rs), struct_db d (snd (transition_rows i fs ts a reason d rs))) \<and>
   fst (insert_row t ev c d rs) = wrap_err ''scan job'' (fst (insert_job_stmt t None ev c (struct_db d rs))) \<and>
   struct_db d (snd (insert_row t ev c d rs)) = snd (insert_job_stmt t None ev c (struct_db d rs)) \<and>
   go_result (scanJobs (map Inr pre @ Inl e # post) rowsErr) = Inl (Wrapped ''scan job'' e) \<and>
   go_result (scanJobs (map Inr rs) (Some e)) = Inl e"
proof (intro conjI)
  have jobs: "db_jobs (struct_db d rs) = map row_job rs" "db_now (struct_db d rs) = db_now d"
    by (simp_all add: struct_db_def)
  note scanned = go_result_def scanJobs_rows query_def
  show "go_result (scanJobs (map Inr (pending_rows c rs)) None) = fst (GetPendingJobs_stmt c (struct_db d rs))"
    by (simp add: scanned GetPendingJobs_stmt_def pending_rows_structs jobs)
  show "go_result (scanJobs (map Inr (stuck_rows ''dispatched'' timeout (db_now d) c rs)) None) =
      fst (GetStuckDispatchedJobs_stmt timeout c (struct_db d rs))"
    by (simp add: scanned GetStuckDispatchedJobs_stmt_def stuck_jobs_def stuck_rows_structs jobs job_status_def)
  show "go_result (scanJobs (map Inr (stuck_rows ''running'' timeout (db_now d) c rs)) None) =
      fst (GetStuckRunningJobs_stmt timeout c (struct_db d rs))"
    by (simp add: scanned GetStuckRunningJobs_stmt_def stuck_jobs_def stuck_rows_structs jobs job_status_def)
  show "TransitionJob_stmt i (job_status fs) (job_status ts) a reason c (struct_db d rs) =
      (fst (transition_rows i fs ts a reason d rs), struct_db d (snd (transition_rows i fs ts a reason d rs)))"
    by (rule transition_rows_structs) simp
  show "fst (insert_row t ev c d rs) = wrap_err ''scan job'' (fst (insert_job_stmt t None ev c (struct_db d rs)))"
    "struct_db d (snd (insert_row t ev c d rs)) = snd (insert_job_stmt t None ev c (struct_db d rs))"
    using insert_row_structs [OF prod.collapse [symmetric] prod.collapse [symmetric]] by metis+
  show "go_result (scanJobs (map Inr pre @ Inl e # post) rowsErr) = Inl (Wrapped ''scan job'' e)"
    unfolding scanJobs_def
    by (subst scan_loop_bad [OF refl, where err = "Wrapped ''scan job'' e"]) (auto simp: scanJobRow_def isOk_def go_result_def)
  show "go_result (scanJobs (map Inr rs) (Some e)) = Inl e"
    unfolding scanJobs_def
    by (subst scan_loop_ok [where f = "row_job \<circ> projr"]) (auto simp: scanJobRow_def go_result_def)
qed

end
