(* ===== verification/AgentWire.thy ===== *)
theory AgentWire
  imports ReconcilerPass AgentServer GoStrings
begin

section \<open>From the controller's transport to the agent's listener\<close>

text \<open>
  The two ends of the dispatch protocol composed: the requests that \<open>RESTTransport\<close> sends
  (controller/transport/rest.go) are routed by the agent's chi router (\<open>New\<close> in
  agent/internal/server/server.go) to \<open>handleDispatch\<close> and \<open>handleCancel\<close>, and their status codes are
  what the transport turns into results. Decoding the body is a parameter (\<open>dec\<close>), as is parsing an id
  out of the path (\<open>parse\<close>).
\<close>

subsection \<open>The transport interface (pkg/transport/interfaces.go)\<close>

record 's AgentTransport =
  transport_Dispatch :: "uuid \<Rightarrow> JobPayload \<Rightarrow> ('s, unit) prog"
  transport_Cancel :: "uuid \<Rightarrow> uuid \<Rightarrow> ('s, unit) prog"

definition RESTTransport_New :: "(string \<Rightarrow> bool) \<Rightarrow> world AgentTransport" where
  "RESTTransport_New url_ok = \<lparr>transport_Dispatch = Dispatch url_ok, transport_Cancel = Cancel url_ok\<rparr>"

subsection \<open>The agent's router\<close>

definition dispatch_request :: "string \<Rightarrow> JobPayload \<Rightarrow> http_request" where
  "dispatch_request addr p = \<lparr>Req_Method = ''POST'', Req_URL = addr @ ''/dispatch'', Req_Body = PayloadBody p\<rparr>"

definition cancel_request :: "string \<Rightarrow> uuid \<Rightarrow> http_request" where
  "cancel_request addr i =
     \<lparr>Req_Method = ''POST'', Req_URL = addr @ ''/jobs/'' @ uuid_String i @ ''/cancel'', Req_Body = NoBody\<rparr>"

text \<open>One request: the status code, the new state, and the context that is cancelled, if any.\<close>

definition agent_serve ::
  "(req_body \<Rightarrow> JobPayload option) \<Rightarrow> (string \<Rightarrow> uuid option) \<Rightarrow> string \<Rightarrow> nat \<Rightarrow> http_request \<Rightarrow> Server \<Rightarrow>
   nat \<times> Server \<times> nat option" where
  "agent_serve dec parse addr ctx rq S =
     (case SplitByte (drop (length addr) (Req_URL rq)) (CHR 0x2F) of
        ['''', dispatch] \<Rightarrow>
          if dispatch \<noteq> ''dispatch'' then (404, S, None)
          else if Req_Method rq \<noteq> ''POST'' then (405, S, None)
          else (case handleDispatch (dec (Req_Body rq)) ctx S of (code, S') \<Rightarrow> (code, S', None))
      | ['''', jobs, i, cancel] \<Rightarrow>
          if jobs \<noteq> ''jobs'' \<or> cancel \<noteq> ''cancel'' then (404, S, None)
          else if Req_Method rq \<noteq> ''POST'' then (405, S, None)
          else (case handleCancel parse i S of (code, cancelled) \<Rightarrow> (code, S, cancelled))
      | _ \<Rightarrow> (404, S, None))"

text \<open>Requests served one after the other, each with a context of its own.\<close>

fun agent_serves ::
  "(req_body \<Rightarrow> JobPayload option) \<Rightarrow> (string \<Rightarrow> uuid option) \<Rightarrow> string \<Rightarrow> nat \<Rightarrow> http_request list \<Rightarrow> Server \<Rightarrow>
   nat list \<times> Server" where
  "agent_serves dec parse addr ctx [] S = ([], S)"
| "agent_serves dec parse addr ctx (rq # rqs) S =
     (case agent_serve dec parse addr ctx rq S of
        (code, S1, _) \<Rightarrow> (case agent_serves dec parse addr (Suc ctx) rqs S1 of (codes, S2) \<Rightarrow> (code # codes, S2)))"

lemma dispatch_path: "SplitByte (drop (length addr) (addr @ ''/dispatch'')) (CHR 0x2F) = ['''', ''dispatch'']"
  by simp

lemma serve_dispatch:
  "agent_serve dec parse addr ctx (dispatch_request addr p) S =
     (case handleDispatch (dec (PayloadBody p)) ctx S of (code, S') \<Rightarrow> (code, S', None))"
  by (simp add: agent_serve_def dispatch_request_def)

lemma cancel_path:
  assumes "CHR 0x2F \<notin> set i"
  shows "SplitByte (drop (length addr) (addr @ ''/jobs/'' @ i @ ''/cancel'')) (CHR 0x2F) = ['''', ''jobs'', i, ''cancel'']"
  using assms by (simp add: SplitByte_append SplitByte_plain)

lemma serve_cancel:
  assumes "CHR 0x2F \<notin> set (uuid_String i)"
  shows "agent_serve dec parse addr ctx (cancel_request addr i) S =
    (case handleCancel parse (uuid_String i) S of (code, cancelled) \<Rightarrow> (code, S, cancelled))"
  using cancel_path [OF assms, of addr] by (simp add: agent_serve_def cancel_request_def)

text \<open>
  A row of payloads sent to one agent while none of its jobs ends: as many are accepted as there is
  room, the others are answered 503.
\<close>

definition room :: "Server \<Rightarrow> nat" where
  "room S = nat (Srv_capacity S - Srv_count S)"

lemma serve_accepted:
  assumes "dec (PayloadBody p) = Some p" and "Payload_JobID p \<noteq> uuid_Nil"
  shows "agent_serve dec parse addr ctx (dispatch_request addr p) S =
    (if 0 < room S then (202, dispatch_start (dispatch_register p ctx S), None) else (503, S, None))"
  using assms by (simp add: serve_dispatch handleDispatch_def dispatch_check_def room_def)

lemma agent_serves_batch:
  assumes "\<And>p. dec (PayloadBody p) = Some p" and "\<forall>p\<in>set ps. Payload_JobID p \<noteq> uuid_Nil"
    and "agent_serves dec parse addr ctx (map (dispatch_request addr) ps) S = (codes, S')"
  shows "codes = map (\<lambda>k. if k < room S then 202 else 503) [0..<length ps] \<and>
    Srv_capacity S' = Srv_capacity S \<and> Srv_count S' = Srv_count S + int (min (room S) (length ps)) \<and>
    dom (map_of (Srv_running S')) = dom (map_of (Srv_running S)) \<union> Payload_JobID ` set (take (room S) ps)"
  using assms(2,3)
proof (induction ps arbitrary: ctx S S' codes)
  case Nil
  then show ?case by auto
next
  case (Cons p ps)
  note sv = serve_accepted [of dec p parse addr ctx S, OF assms(1)]
  have shift: "map (\<lambda>k. if k < m then 202 else 503) [0..<Suc n] =
      (if 0 < m then 202 else (503::nat)) # map (\<lambda>k. if k < m - 1 then 202 else 503) [0..<n]" for m n :: nat
    by (auto simp: upt_conv_Cons map_Suc_upt [symmetric] simp del: upt_Suc)
  show ?case
  proof (cases "0 < room S")
    case True
    let ?S1 = "dispatch_start (dispatch_register p ctx S)"
    obtain codes1 S2 where 1: "agent_serves dec parse addr (Suc ctx) (map (dispatch_request addr) ps) ?S1 = (codes1, S2)"
      by fastforce
    have r1: "room ?S1 = room S - 1" using True
      by (simp add: room_def dispatch_start_def dispatch_register_def nat_diff_distrib')
    note IH = Cons.IH [OF _ 1]
    have "codes = 202 # codes1" "S' = S2"
      using Cons.prems sv 1 True by simp_all
    then show ?thesis
      using IH Cons.prems(1) True shift [of "room S" "length ps"] r1
      by (cases "room S") (auto simp: dispatch_start_def dispatch_register_def dom_def AList.update_conv')
  next
    case False
    obtain codes1 S2 where 1: "agent_serves dec parse addr (Suc ctx) (map (dispatch_request addr) ps) S = (codes1, S2)"
      by fastforce
    note IH = Cons.IH [OF _ 1]
    have "codes = 503 # codes1" "S' = S2"
      using Cons.prems sv 1 False by simp_all
    then show ?thesis using IH Cons.prems(1) False shift [of "room S" "length ps"] by simp
  qed
qed

subsection \<open>A pass whose requests are answered\<close>

definition refusal_reason :: "nat \<Rightarrow> string" where
  "refusal_reason code = ''agent dispatch error: dispatch: agent returned '' @ fmt_d code"

text \<open>What an answer does to the row of its job: claimed, and failed again unless it is 202.\<close>

definition answered_row :: "time \<Rightarrow> uuid \<Rightarrow> nat \<Rightarrow> Job \<Rightarrow> Job" where
  "answered_row now a code j =
     (let j1 = transition_row now JobStatusDispatched (Some a) '''' j
      in if code = StatusAccepted then j1 else transition_row now JobStatusFailed None (refusal_reason code) j1)"

definition answer_jobs :: "time \<Rightarrow> uuid \<Rightarrow> uuid \<Rightarrow> nat \<Rightarrow> Job list \<Rightarrow> Job list" where
  "answer_jobs now a i code js =
     update_rows (\<lambda>j. Job_ID j = i \<and> Job_Status j = JobStatusPending) (answered_row now a code) js"

lemma answered_row_id [simp]: "Job_ID (answered_row now a code j) = Job_ID j"
  by (simp add: answered_row_def Let_def)

lemma answer_is_moves:
  assumes "lookup_row Job_ID js i = Some j" "Job_Status j = JobStatusPending" "distinct (map Job_ID js)"
  shows "answer_jobs now a i code js =
    (let cl = move_jobs {i} JobStatusPending now JobStatusDispatched (Some a) '''' js
     in if code = StatusAccepted then cl
        else move_jobs {i} JobStatusDispatched now JobStatusFailed None (refusal_reason code) cl)"
proof -
  have one: "r = j" if "r \<in> set js" "Job_ID r = i" for r
    using assms(1,3) that by (auto simp: lookup_row_eq_Some_iff distinct_map dest: inj_onD)
  show ?thesis
    using one assms(2)
    by (auto simp: answer_jobs_def move_jobs_def update_rows_def answered_row_def Let_def)
qed

lemma Dispatch_reply:
  assumes "undisturbed w" and "\<And>u. url_ok u" and "lookup_row Agent_ID (db_agents (w_db w)) a = Some r"
    and "w_http w (length (w_sent w)) = Reply code" and "Dispatch url_ok a p w = (x, w')"
  shows "x = (if code = StatusAccepted then Inr () else Inl (ErrMsg (''dispatch: agent returned '' @ fmt_d code))) \<and>
    sets_jobs w w' (db_jobs (w_db w)) \<and> w_sent w' = w_sent w @ [dispatch_request (Agent_Address r) p]"
proof -
  obtain y w1 where 1: "cstore_GetAgentAddress a w = (y, w1)" by fastforce
  have "y = Inr (Agent_Address r)" "reads w w1"
    using read_after [OF assms(1) reads_refl 1 [unfolded cstore_GetAgentAddress_def stmt_defs]] assms(3) by auto
  then show ?thesis
    using assms(2,4,5) 1 readsD [of w w1]
    by (auto simp: Dispatch_def Let_def http_Do_def sets_jobs_def dispatch_request_def)
qed

lemma dispatchOne_reply:
  assumes u: "undisturbed w" and uq: "unique_jobs (w_db w)" and url: "\<And>u. url_ok u"
    and a: "Select agents = Inr a" "lookup_row Agent_ID (db_agents (w_db w)) (Agent_ID a) = Some r"
    and p: "payload_of cr key cfg (w_db w) job = Inr p"
    and pend: "status_of (w_db w) (Job_ID job) = Some JobStatusPending"
    and rep: "w_http w (length (w_sent w)) = Reply code"
    and run: "dispatchOne (pg_reconciler cr key url_ok cfg) job agents w = (x, w')"
  shows "x = Inr () \<and> w_sent w' = w_sent w @ [dispatch_request (Agent_Address r) p] \<and>
    sets_jobs w w' (answer_jobs (db_now (w_db w)) (Agent_ID a) (Job_ID job) code (db_jobs (w_db w)))"
proof -
  obtain j where j: "job_of (w_db w) (Job_ID job) = Some j" "Job_Status j = JobStatusPending"
    using pend by (auto simp: status_of_def)
  obtain x1 w1 where 1: "buildPayload (pg_reconciler cr key url_ok cfg) job (Agent_ID a) w = (x1, w1)" by fastforce
  have x1: "x1 = Inr p" and r1: "reads w w1" using buildPayload_undisturbed [OF u 1] p by auto
  note w1 = readsD [OF r1]
  define t where "t = cstore_TransitionJob (Job_ID job) JobStatusPending JobStatusDispatched (Some (Agent_ID a)) '''' w1"
  have u1: "undisturbed w1" using u reads_undisturbed [OF r1] by simp
  have "Agent_ID a \<in> Agent_ID ` set (db_agents (w_db w1))"
    using a(2) w1 lookup_row_None_iff [of Agent_ID "db_agents (w_db w)" "Agent_ID a"] by force
  then have ex: "agent_exists (w_db w1) (Some (Agent_ID a))" by (simp add: agent_exists_def)
  let ?cl = "move_jobs {Job_ID job} JobStatusPending (db_now (w_db w)) JobStatusDispatched (Some (Agent_ID a)) '''' (db_jobs (w_db w))"
  have t: "fst t = Inr True" "sets_jobs w1 (snd t) ?cl"
    using TransitionJob_undisturbed [OF u1 _ ex] uq pend w1 by (simp_all add: t_def)
  have sent: "w_sent (snd t) = w_sent w" using w1 by (simp add: t_def cstore_TransitionJob_def)
  have 2: "undisturbed (snd t)" "lookup_row Agent_ID (db_agents (w_db (snd t))) (Agent_ID a) = Some r"
    "w_http (snd t) (length (w_sent (snd t))) = Reply code"
    using t(2) u1 a(2) w1 sent rep by (simp_all add: sets_jobs_def undisturbed_def)
  obtain x3 w3 where 3: "Dispatch url_ok (Agent_ID a) p (snd t) = (x3, w3)" by fastforce
  note D = Dispatch_reply [OF 2(1) url 2(2,3) 3]
  have s3: "sets_jobs w w3 ?cl" using D t(2) w1 by (simp add: sets_jobs_def)
  have st3: "status_of (w_db w3) (Job_ID job) = Some JobStatusDispatched"
    using s3 j lookup_row_SomeD [OF j(1)] by (simp add: sets_jobs_def status_of_def move_jobs_def lookup_update_rows)
  show ?thesis
  proof (cases "code = StatusAccepted")
    case True
    have "x = Inr () \<and> w' = w3"
      using run a(1) 1 x1 t(1) 3 D True by (auto simp: dispatchOne_def t_def split: prod.splits)
    then show ?thesis
      using True D s3 sent answer_is_moves [OF j uq [unfolded unique_jobs_def]] by simp
  next
    case False
    have u3: "undisturbed w3" "unique_jobs (w_db w3)"
      using s3 u uq by (simp_all add: sets_jobs_undisturbed [OF s3] sets_jobs_unique [OF s3])
    let ?reason = "refusal_reason code"
    let ?f = "cstore_TransitionJob (Job_ID job) JobStatusDispatched JobStatusFailed None ?reason w3"
    have f: "fst ?f = Inr True" "sets_jobs w3 (snd ?f) (move_jobs {Job_ID job} JobStatusDispatched
        (db_now (w_db w3)) JobStatusFailed None ?reason (db_jobs (w_db w3)))"
      using TransitionJob_undisturbed [OF u3, of None] st3 by (simp_all add: agent_exists_def)
    have "x = Inr () \<and> w' = snd ?f"
      using run a(1) 1 x1 t(1) 3 D False f(1)
      by (auto simp: dispatchOne_def t_def refusal_reason_def split: prod.splits sum.splits)
    moreover have "w_sent (snd ?f) = w_sent w3" by (simp add: cstore_TransitionJob_def)
    ultimately show ?thesis
      using False D s3 f(2) sent answer_is_moves [OF j uq [unfolded unique_jobs_def]]
      by (simp add: sets_jobs_def)
  qed
qed

lemma answer_lookup:
  "lookup_row Job_ID (answer_jobs now a i code js) k =
     (case lookup_row Job_ID js k of
        None \<Rightarrow> None
      | Some j \<Rightarrow> Some (if k = i \<and> Job_Status j = JobStatusPending then answered_row now a code j else j))"
  unfolding answer_jobs_def
  by (subst lookup_update_rows) (auto split: option.split dest: lookup_row_SomeD)

lemma answer_unique: "map Job_ID (answer_jobs now a i code js) = map Job_ID js"
  unfolding answer_jobs_def by (rule keys_update_rows) simp

text \<open>All answers of a pass, one per job of the batch, in order.\<close>

fun answer_batch :: "time \<Rightarrow> uuid \<Rightarrow> Job list \<Rightarrow> nat list \<Rightarrow> Job list \<Rightarrow> Job list" where
  "answer_batch now a (job # jobs) (code # codes) js =
     answer_batch now a jobs codes (answer_jobs now a (Job_ID job) code js)"
| "answer_batch now a _ _ js = js"

lemma answer_batch_others:
  "k \<notin> Job_ID ` set jobs \<Longrightarrow> lookup_row Job_ID (answer_batch now a jobs codes js) k = lookup_row Job_ID js k"
  by (induction now a jobs codes js rule: answer_batch.induct) (auto simp: answer_lookup split: option.split)

lemma answer_batch_lookup:
  assumes "distinct (map Job_ID jobs)" and "length codes = length jobs" and "n < length jobs"
    and "lookup_row Job_ID js (Job_ID (jobs ! n)) = Some j" and "Job_Status j = JobStatusPending"
  shows "lookup_row Job_ID (answer_batch now a jobs codes js) (Job_ID (jobs ! n)) =
    Some (answered_row now a (codes ! n) j)"
  using assms
proof (induction now a jobs codes js arbitrary: n rule: answer_batch.induct)
  case (1 now a job jobs code codes js)
  show ?case
  proof (cases n)
    case 0
    then show ?thesis
      using 1 answer_batch_others [of "Job_ID job" jobs] by (auto simp: answer_lookup)
  next
    case (Suc m)
    then have "jobs ! m \<in> set jobs" using 1(4) by simp
    then have "Job_ID (jobs ! m) \<noteq> Job_ID job" using 1(2) by (auto simp: image_iff)
    then show ?thesis using 1(1) [of m] 1(2-6) Suc by (simp add: answer_lookup)
  qed
qed auto

lemma dispatch_jobs_replies:
  assumes "undisturbed w" and "unique_jobs (w_db w)" and "\<And>u. url_ok u"
    and "Select agents = Inr a" and "lookup_row Agent_ID (db_agents (w_db w)) (Agent_ID a) = Some r"
    and "\<forall>j\<in>set jobs. payload_of cr key cfg (w_db w) j = Inr (pay j)"
    and "\<forall>j\<in>set jobs. status_of (w_db w) (Job_ID j) = Some JobStatusPending"
    and "distinct (map Job_ID jobs)" and "length codes = length jobs"
    and "\<forall>k<length jobs. w_http w (length (w_sent w) + k) = Reply (codes ! k)"
  shows "w_sent (dispatch_jobs (pg_reconciler cr key url_ok cfg) agents jobs w) =
      w_sent w @ map (dispatch_request (Agent_Address r) \<circ> pay) jobs \<and>
    sets_jobs w (dispatch_jobs (pg_reconciler cr key url_ok cfg) agents jobs w)
      (answer_batch (db_now (w_db w)) (Agent_ID a) jobs codes (db_jobs (w_db w)))"
  using assms
proof (induction jobs arbitrary: w codes)
  case Nil
  then show ?case by (simp add: sets_jobs_refl)
next
  case (Cons job jobs)
  obtain code codes1 where codes: "codes = code # codes1" using Cons.prems(9) by (cases codes) auto
  obtain x w1 where 1: "dispatchOne (pg_reconciler cr key url_ok cfg) job agents w = (x, w1)" by fastforce
  have "w_http w (length (w_sent w)) = Reply code"
    using Cons.prems(10) codes by (metis add_0_right length_greater_0_conv list.distinct(1) nth_Cons_0)
  then have one: "x = Inr ()" "w_sent w1 = w_sent w @ [dispatch_request (Agent_Address r) (pay job)]"
    "sets_jobs w w1 (answer_jobs (db_now (w_db w)) (Agent_ID a) (Job_ID job) code (db_jobs (w_db w)))"
    using dispatchOne_reply [OF Cons.prems(1-5) _ _ _ 1] Cons.prems(6,7) by simp_all
  have w1: "w_db w1 = (w_db w)\<lparr>db_jobs := answer_jobs (db_now (w_db w)) (Agent_ID a) (Job_ID job) code (db_jobs (w_db w))\<rparr>"
    using one(3) by (simp add: sets_jobs_def)
  have pend: "status_of (w_db w1) (Job_ID j) = Some JobStatusPending" if "j \<in> set jobs" for j
  proof -
    have "Job_ID j \<noteq> Job_ID job" using that Cons.prems(8) by (auto simp: image_iff)
    then show ?thesis using that Cons.prems(7) by (auto simp: w1 status_of_def answer_lookup split: option.splits)
  qed
  have rep: "\<forall>k<length jobs. w_http w1 (length (w_sent w1) + k) = Reply (codes1 ! k)"
  proof (intro allI impI)
    fix k assume "k < length jobs"
    then show "w_http w1 (length (w_sent w1) + k) = Reply (codes1 ! k)"
      using Cons.prems(10) [THEN spec, of "Suc k"] one(2,3) codes by (simp add: sets_jobs_def)
  qed
  have "w_sent (dispatch_jobs (pg_reconciler cr key url_ok cfg) agents jobs w1) =
      w_sent w1 @ map (dispatch_request (Agent_Address r) \<circ> pay) jobs \<and>
    sets_jobs w1 (dispatch_jobs (pg_reconciler cr key url_ok cfg) agents jobs w1)
      (answer_batch (db_now (w_db w1)) (Agent_ID a) jobs codes1 (db_jobs (w_db w1)))"
    using Cons.prems sets_jobs_undisturbed [OF one(3)] codes pend rep
    by (intro Cons.IH) (simp_all add: w1 unique_jobs_def answer_unique)
  then show ?case
    using 1 one codes sets_jobs_trans [OF one(3)] by (simp add: w1)
qed

end
