(* ===== verification/WireProps.thy ===== *)
theory WireProps
  imports AgentWire ReconcilerProps
begin

section \<open>Controller and agent: properties of the protocol\<close>

text \<open>
  What a pass of the controller and the agent's listener do together, when the answers that the
  transport sees are the ones that the listener gives.
\<close>

lemma payload_of_JobID: "payload_of cr key cfg d j = Inr p \<Longrightarrow> Payload_JobID p = Job_ID j"
  by (auto simp: payload_of_def Let_def split: option.splits sum.splits)

text \<open>
  C8: What becomes of a batch that one agent cannot hold. With no interference, a pass sends every
  pending job it fetched to the agent that the selector picked at its start, whatever that agent's
  capacity. If the answers are those of the agent's listener and none of its jobs ends meanwhile, the
  agent takes exactly as many jobs as it has room for, in the order of the batch: these are dispatched in
  the database, assigned to the agent, and registered with it. All the others are answered 503 and fail
  for good, even if other agents are idle. So afterwards a job of the batch is dispatched in the database
  exactly if the agent holds it.
\<close>

theorem overload_fails_jobs:
  assumes "undisturbed w" and "unique_jobs (w_db w)" and "\<forall>u. url_ok u"
    and "Select (available_agents (Rec_HeartbeatTTL cfg) (w_db w)) = Inr a"
    and "lookup_row Agent_ID (db_agents (w_db w)) (Agent_ID a) = Some r"
    and "batch = pending_batch (w_db w)"
    and "\<forall>j\<in>set batch. payload_of cr key cfg (w_db w) j = Inr (pay j) \<and> Job_ID j \<noteq> uuid_Nil"
    and "\<forall>p. dec (PayloadBody p) = Some p"
    and "agent_serves dec parse (Agent_Address r) ctx (map (dispatch_request (Agent_Address r) \<circ> pay) batch) S = (codes, S')"
    and "\<forall>k<length batch. w_http w (length (w_sent w) + k) = Reply (codes ! k)"
    and "w' = dispatchPending (pg_reconciler cr key url_ok cfg) w"
  shows "w_sent w' = w_sent w @ map (dispatch_request (Agent_Address r) \<circ> pay) batch \<and>
    (\<forall>k<length batch. \<exists>j'. job_of (w_db w') (Job_ID (batch ! k)) = Some j' \<and> Job_AgentID j' = Some (Agent_ID a) \<and>
       (if k < room S then Job_Status j' = JobStatusDispatched
        else Job_Status j' = JobStatusFailed \<and> Job_FailureReason j' = Some (refusal_reason 503))) \<and>
    Srv_count S' = Srv_count S + int (min (room S) (length batch)) \<and>
    dom (map_of (Srv_running S')) = dom (map_of (Srv_running S)) \<union> Job_ID ` set (take (room S) batch)"
proof -
  have ids: "\<forall>j\<in>set batch. Payload_JobID (pay j) = Job_ID j" using assms(7) payload_of_JobID by blast
  have A: "codes = map (\<lambda>k. if k < room S then 202 else 503) [0..<length batch]"
    "Srv_count S' = Srv_count S + int (min (room S) (length batch))"
    "dom (map_of (Srv_running S')) = dom (map_of (Srv_running S)) \<union> Payload_JobID ` set (take (room S) (map pay batch))"
    using agent_serves_batch [of dec "map pay batch" parse "Agent_Address r" ctx S codes S'] assms(7-9) ids
    by (simp_all add: map_map)
  have reg: "Payload_JobID ` set (take (room S) (map pay batch)) = Job_ID ` set (take (room S) batch)"
    using ids by (force simp: take_map dest: in_set_takeD)
  obtain w1 where 1: "reads w w1" "w' = dispatch_jobs (pg_reconciler cr key url_ok cfg)
      (available_agents (Rec_HeartbeatTTL cfg) (w_db w)) batch w1"
    using dispatchPending_undisturbed [OF assms(1)] assms(6,11) by metis
  note r1 = readsD [OF 1(1)]
  note facts = pending_batch_facts [OF assms(2), folded assms(6)]
  have D: "w_sent w' = w_sent w1 @ map (dispatch_request (Agent_Address r) \<circ> pay) batch"
    "sets_jobs w1 w' (answer_batch (db_now (w_db w1)) (Agent_ID a) batch codes (db_jobs (w_db w1)))"
    using dispatch_jobs_replies [of w1 url_ok _ a r batch cr key cfg pay codes] assms(1-5,7,10) r1 facts
      reads_undisturbed [OF 1(1)] A(1) 1(2) by simp_all
  have "\<exists>j'. job_of (w_db w') (Job_ID (batch ! k)) = Some j' \<and> Job_AgentID j' = Some (Agent_ID a) \<and>
      (if k < room S then Job_Status j' = JobStatusDispatched
       else Job_Status j' = JobStatusFailed \<and> Job_FailureReason j' = Some (refusal_reason 503))"
    if k: "k < length batch" for k
  proof -
    obtain j where j: "job_of (w_db w) (Job_ID (batch ! k)) = Some j" "Job_Status j = JobStatusPending"
      using facts(2) [of "batch ! k"] k by (auto simp: status_of_def)
    have "job_of (w_db w') (Job_ID (batch ! k)) = Some (answered_row (db_now (w_db w)) (Agent_ID a) (codes ! k) j)"
      using answer_batch_lookup [OF facts(1) _ k j] D(2) A(1) r1 by (simp add: sets_jobs_def)
    then show ?thesis
      using k by (simp add: A(1) answered_row_def StatusAccepted_def coalesce_def refusal_reason_def Let_def
          transition_row_def)
  qed
  then show ?thesis using D(1) A(2,3) reg r1 by simp
qed

text \<open>An agent with room for one job, and three that are pending.\<close>

definition crowd_db :: db where
  "crowd_db = demo_db\<lparr>db_agents := [demo_agent ''a1'' 1 90],
     db_jobs := [demo_job ''j1'' 50, demo_job ''j2'' 40, demo_job ''j3'' 60]\<rparr>"

definition crowd_world :: world where
  "crowd_world = (quiet_world crowd_db)\<lparr>w_http := (\<lambda>n. Reply (if n = 0 then 202 else 503))\<rparr>"

definition demo_body :: "req_body \<Rightarrow> JobPayload option" where
  "demo_body b = (case b of NoBody \<Rightarrow> None | PayloadBody p \<Rightarrow> Some p)"

definition crowd_pay :: "Job \<Rightarrow> JobPayload" where
  "crowd_pay j = projr (payload_of tag_crypto demo_key demo_cfg crowd_db j)"

theorem overload_fails_jobs_witness:
  "map Agent_Capacity (db_agents crowd_db) = [1] \<and>
   (\<exists>j. job_of (w_db (dispatchPending demo_rec crowd_world)) (UUID ''j2'') = Some j \<and> Job_Status j = JobStatusDispatched) \<and>
   (\<exists>j. job_of (w_db (dispatchPending demo_rec crowd_world)) (UUID ''j1'') = Some j \<and> Job_Status j = JobStatusFailed) \<and>
   (\<exists>j. job_of (w_db (dispatchPending demo_rec crowd_world)) (UUID ''j3'') = Some j \<and> Job_Status j = JobStatusFailed)"
proof -
  let ?a = "scan_agent crowd_db (demo_agent ''a1'' 1 90)" and ?r = "demo_agent ''a1'' 1 90"
  let ?S = "Server_New 1" and ?b = "pending_batch crowd_db"
  obtain codes S' where served: "agent_serves demo_body (\<lambda>_. None) (Agent_Address ?r) 0
      (map (dispatch_request (Agent_Address ?r) \<circ> crowd_pay) ?b) ?S = (codes, S')" by fastforce
  have 1: "Select (available_agents (Rec_HeartbeatTTL demo_cfg) crowd_db) = Inr ?a"
    by (simp add: crowd_db_def demo_db_def demo_agent_def available_agents_def heartbeat_within_def
        demo_cfg_def running_jobs_def demo_job_def new_job_def Select_def)
  have 2: "map Job_ID ?b = [UUID ''j2'', UUID ''j1'', UUID ''j3'']"
    and 3: "list_all (\<lambda>j. isOk (payload_of tag_crypto demo_key demo_cfg crowd_db j) \<and> Job_ID j \<noteq> uuid_Nil) ?b"
    by code_simp+
  have len: "length ?b = 3" using arg_cong [OF 2, of length] by simp
  have nths: "Job_ID (?b ! 0) = UUID ''j2''" "Job_ID (?b ! 1) = UUID ''j1''" "Job_ID (?b ! 2) = UUID ''j3''"
    using arg_cong [OF 2, of "\<lambda>xs. xs ! 0"] arg_cong [OF 2, of "\<lambda>xs. xs ! 1"] arg_cong [OF 2, of "\<lambda>xs. xs ! 2"] len
    by simp_all
  have pays: "\<forall>j\<in>set ?b. payload_of tag_crypto demo_key demo_cfg crowd_db j = Inr (crowd_pay j) \<and> Job_ID j \<noteq> uuid_Nil"
    using 3 by (force simp: list_all_iff crowd_pay_def elim!: isOkE)
  have room: "room ?S = 1" by (simp add: room_def Server_New_def)
  have "\<forall>j\<in>set ?b. Payload_JobID (crowd_pay j) \<noteq> uuid_Nil" using pays payload_of_JobID by metis
  then have codes: "codes = [202, 503, 503]"
    using agent_serves_batch [of demo_body "map crowd_pay ?b" "\<lambda>_. None" "Agent_Address ?r" 0 ?S codes S'] served len room
    by (auto simp: demo_body_def upt_rec map_map)
  have db: "w_db crowd_world = crowd_db" "w_sent crowd_world = []" "undisturbed crowd_world"
    using undisturbed_quiet_world [of crowd_db] by (simp_all add: crowd_world_def quiet_world_def undisturbed_def)
  have replies: "\<forall>k<length ?b. w_http crowd_world (length (w_sent crowd_world) + k) = Reply (codes ! k)"
    by (simp add: codes len crowd_world_def quiet_world_def nth_Cons split: nat.split)
  have uniq: "unique_jobs crowd_db" by (simp add: crowd_db_def unique_jobs_def demo_job_def new_job_def)
  have row: "lookup_row Agent_ID (db_agents crowd_db) (Agent_ID ?a) = Some ?r"
    by (simp add: crowd_db_def scan_agent_def)
  note R = overload_fails_jobs [of crowd_world "\<lambda>_. True" demo_cfg ?a ?r ?b tag_crypto demo_key crowd_pay demo_body
      "\<lambda>_. None" 0 ?S codes S' "dispatchPending demo_rec crowd_world", unfolded db(1), OF db(3) uniq _ 1 row refl pays _ served replies]
  have "\<forall>k<length ?b. \<exists>j'. job_of (w_db (dispatchPending demo_rec crowd_world)) (Job_ID (?b ! k)) = Some j' \<and>
      Job_AgentID j' = Some (Agent_ID ?a) \<and> (if k < room ?S then Job_Status j' = JobStatusDispatched
        else Job_Status j' = JobStatusFailed \<and> Job_FailureReason j' = Some (refusal_reason 503))"
    using R by (simp add: demo_rec_def demo_body_def)
  from this [rule_format, of 0] this [rule_format, of 1] this [rule_format, of 2] show ?thesis
    unfolding nths len room by (auto simp: crowd_db_def demo_agent_def)
qed

end
