(* ===== verification/Shutdown.thy ===== *)
theory Shutdown
  imports AgentProps ReconcilerProps
begin

section \<open>How an agent stops (agent/cmd/agent/main.go, Shutdown of agent/internal/server/server.go)\<close>

text \<open>
  On SIGINT or SIGTERM \<open>main\<close> calls \<open>Shutdown\<close> and returns when that returns. \<open>http.Server.Shutdown\<close> closes the
  listener and waits for the handlers that are at work, at most 30 seconds; if these pass, the error is
  only logged. The process ends with \<open>main\<close>, and with it every goroutine: nothing waits for
  \<open>executeJob\<close>. The relation \<open>proc_step\<close> adds these phases to the steps of the listener.
\<close>

datatype agent_phase = Serving | Draining | Halted

inductive proc_step :: "agent_phase \<times> agent_state \<Rightarrow> agent_phase \<times> agent_state \<Rightarrow> bool" where
  serves: "agent_step s s' \<Longrightarrow> proc_step (Serving, s) (Serving, s')"
| signalled: "proc_step (Serving, s) (Draining, s)"
| drains: "agent_step s s' \<Longrightarrow> as_accepted s' = as_accepted s \<Longrightarrow> proc_step (Draining, s) (Draining, s')"
| drained: "handlers s = 0 \<Longrightarrow> proc_step (Draining, s) (Halted, s)"
| expired: "0 < handlers s \<Longrightarrow> proc_step (Draining, s) (Halted, s)"

inductive_cases HaltedE [elim!]: "proc_step (Halted, s) x"
inductive_cases DrainingE: "proc_step (Draining, s) (ph, s')"












end
