(* ===== verification/Integrity.thy ===== *)
theory Integrity
  imports System ApiProps
begin

section \<open>The constraints of the database\<close>

text \<open>
  What \<open>migrations/\<close> declare: primary keys, unique columns, and references from table to table. The
  statements of the model check them on insertion, and delete with the cascades and restrictions
  declared there; here it is shown that this is enough: whatever the processes of the platform do
  and however they interleave, no key is doubled and no reference dangles. The second part is what the
  platform does \<^emph>\<open>not\<close> do: a workflow run is never advanced.
\<close>

subsection \<open>Keys\<close>



subsection \<open>References\<close>

text \<open>
  A column \<open>fk\<close> of the rows \<open>rs\<close> that references the column \<open>key\<close> of the rows \<open>ts\<close>, and one that may
  also be \<open>NULL\<close>.
\<close>

definition refers :: "('r \<Rightarrow> 'k) \<Rightarrow> 'r list \<Rightarrow> ('t \<Rightarrow> 'k) \<Rightarrow> 't list \<Rightarrow> bool" where
  "refers fk rs key ts \<longleftrightarrow> fk ` set rs \<subseteq> key ` set ts"

definition may_refer :: "('r \<Rightarrow> 'k option) \<Rightarrow> 'r list \<Rightarrow> ('t \<Rightarrow> 'k) \<Rightarrow> 't list \<Rightarrow> bool" where
  "may_refer fk rs key ts \<longleftrightarrow> (\<forall>r\<in>set rs. set_option (fk r) \<subseteq> key ` set ts)"



text \<open>What an insertion, an update and a deletion do to a reference, on either side.\<close>

lemma image_update_rows:
  "(\<And>r. key (f r) = key r) \<Longrightarrow> key ` set (update_rows P f rs) = key ` set rs"
  using keys_update_rows [of key f P rs] by (metis image_set)

named_theorems refs_rules

lemma refers_insert [refs_rules]:
  "refers fk (rs @ [r]) key ts \<longleftrightarrow> refers fk rs key ts \<and> fk r \<in> key ` set ts"
  "refers fk rs key ts \<Longrightarrow> refers fk rs key (ts @ [t])"
  "may_refer fo (rs @ [r]) key ts \<longleftrightarrow> may_refer fo rs key ts \<and> set_option (fo r) \<subseteq> key ` set ts"
  "may_refer fo rs key ts \<Longrightarrow> may_refer fo rs key (ts @ [t])"
  by (auto simp: refers_def may_refer_def)

lemma refers_update [refs_rules]:
  "(\<And>r. fk (f r) = fk r) \<Longrightarrow> refers fk (update_rows P f rs) key ts \<longleftrightarrow> refers fk rs key ts"
  "(\<And>t. key (g t) = key t) \<Longrightarrow> refers fk rs key (update_rows Q g ts) \<longleftrightarrow> refers fk rs key ts"
  "(\<And>t. key (g t) = key t) \<Longrightarrow> may_refer fo rs key (update_rows Q g ts) \<longleftrightarrow> may_refer fo rs key ts"
  by (simp_all add: refers_def may_refer_def image_update_rows)

lemma may_refer_update [refs_rules]:
  "may_refer fo rs key ts \<Longrightarrow> (\<And>r. set_option (fo (f r)) \<subseteq> set_option (fo r) \<union> key ` set ts) \<Longrightarrow>
   may_refer fo (update_rows P f rs) key ts"
  by (fastforce simp: may_refer_def set_update_rows)


lemma refers_filter [refs_rules]:
  "refers fk rs key ts \<Longrightarrow> refers fk (filter P rs) key ts"
  "may_refer fo rs key ts \<Longrightarrow> may_refer fo (filter P rs) key ts"
  by (auto simp: refers_def may_refer_def)

lemma keys_delete: "key ` set (filter (\<lambda>t. key t \<noteq> i) ts) = key ` set ts - {i}"
  by auto

lemma refers_delete [refs_rules]:
  "refers fk rs key ts \<Longrightarrow> i \<notin> fk ` set rs \<Longrightarrow> refers fk rs key (filter (\<lambda>t. key t \<noteq> i) ts)"
  "refers fk rs key ts \<Longrightarrow> refers fk (filter (\<lambda>r. fk r \<noteq> i) rs) key (filter (\<lambda>t. key t \<noteq> i) ts)"
  unfolding refers_def keys_delete by blast+

lemma may_refer_delete [refs_rules]:
  assumes "may_refer fo rs key ts" and "\<And>r. fo (f r) = None"
  shows "may_refer fo (update_rows (\<lambda>r. fo r = Some i) f rs) key (filter (\<lambda>t. key t \<noteq> i) ts)"
  unfolding may_refer_def keys_delete using assms
  by (auto simp: may_refer_def set_update_rows)

lemma delete_nothing [refs_rules]: "i \<notin> key ` set ts \<Longrightarrow> filter (\<lambda>t. key t \<noteq> i) ts = ts"
  by (auto intro: filter_True)

lemma exists_iff [refs_rules]:
  "credential_exists d x \<longleftrightarrow> set_option x \<subseteq> Cred_ID ` set (db_credentials d)"
  "agent_exists d x \<longleftrightarrow> set_option x \<subseteq> Agent_ID ` set (db_agents d)"
  "run_exists d x \<longleftrightarrow> set_option x \<subseteq> Run_ID ` set (db_workflow_runs d)"
  by (cases x; simp add: credential_exists_def agent_exists_def run_exists_def)+

subsection \<open>Each statement keeps them\<close>















subsection \<open>Every process keeps them\<close>







subsection \<open>Workflow runs are never advanced\<close>

text \<open>
  A run that was not there before is pending; no run changes or is removed, no node run and no approval
  request is created.
\<close>

definition stalled :: "db \<Rightarrow> db \<Rightarrow> bool" where
  "stalled d d' \<longleftrightarrow>
     (\<exists>rs. db_workflow_runs d' = db_workflow_runs d @ rs \<and> (\<forall>r\<in>set rs. Run_Status r = WorkflowRunStatusPending)) \<and>
     db_workflow_node_runs d' = db_workflow_node_runs d \<and>
     map Approval_ID (db_approval_requests d') = map Approval_ID (db_approval_requests d)"

lemma stalled_trans: "stalled a b \<Longrightarrow> stalled b c \<Longrightarrow> stalled a c"
  unfolding stalled_def by (metis (no_types, lifting) append_assoc Un_iff set_append)

lemma stalled_same:
  "db_workflow_runs d' = db_workflow_runs d \<Longrightarrow> db_workflow_node_runs d' = db_workflow_node_runs d \<Longrightarrow>
   db_approval_requests d' = db_approval_requests d \<Longrightarrow> stalled d d'"
  by (simp add: stalled_def)

lemma insert_nodes_stalled: "insert_nodes wid ns d = Inr d' \<Longrightarrow> stalled d d'"
proof (induction wid ns d rule: insert_nodes.induct)
  case (2 wid n ns d)
  then show ?case by (auto simp: stalled_def split: if_splits)
qed (simp add: stalled_same)

lemma insert_edges_stalled: "insert_edges wid es d = Inr d' \<Longrightarrow> stalled d d'"
proof (induction wid es d rule: insert_edges.induct)
  case (2 wid e es d)
  then show ?case by (auto simp: stalled_def split: if_splits)
qed (simp add: stalled_same)

lemma insert_hosts_stalled: "insert_hosts c n i hs d = Inr d' \<Longrightarrow> stalled d d'"
proof (induction hs arbitrary: n d)
  case (Cons h hs)
  then show ?case by (fastforce simp: stalled_def Let_def split: if_splits)
qed (simp add: stalled_same)

lemma stalled_effects: "f \<in> api_effects \<Longrightarrow> stalled d (f c d)"
proof (induction rule: api_effects.induct)
  case (eff_ResolveApproval i st k nt)
  then show ?case by (auto simp: effect_def stmt_defs Let_def stalled_def row_simps)
next
  case (eff_UpsertWorkflowNodes i ns)
  then show ?case using insert_nodes_stalled [of i ns "delete_nodes i d"]
    by (auto simp: effect_def stmt_defs stalled_def delete_nodes_def split: sum.split)
next
  case (eff_UpsertWorkflowEdges i es)
  then show ?case using insert_edges_stalled [of i es]
    by (fastforce simp: effect_def stmt_defs stalled_def split: sum.split)
next
  case (eff_CreateWorkflowRun i)
  then show ?case by (auto simp: effect_def stmt_defs Let_def stalled_def)
qed (auto simp: effect_def stmt_defs Let_def delete_nodes_def intro!: stalled_same)

interpretation stall: platform_rely stalled
proof unfold_locales
  show "stmt_respects stalled (UpsertInventoryHosts_stmt i hs)" for i hs
    using insert_hosts_stalled
    by (fastforce simp: stmt_respects_def stmt_defs Let_def stalled_def split: sum.split)
qed (auto simp: stmt_respects_def stmt_defs Let_def stalled_effects intro: stalled_same elim: stalled_trans)

text \<open>
  C21: Workflow runs are never executed. Asking for a run answers 201 with a pending run, but no process
  of the platform, in any interleaving with processes of which the same holds, ever changes the status of
  a run, starts a node of it or asks for an approval: runs are only added, with status pending, the table of
  node runs stays as it is and no approval request is created.
\<close>

theorem workflow_runs_stall:
  assumes "env_respects stalled w"
  shows "stalled (w_db w) (w_db (loop_state (reconciler_Run (pg_reconciler cr key url_ok cfg) interval es w))) \<and>
    stalled (w_db w) (w_db (snd (loop_state (scheduler_Run X interval es S w)))) \<and>
    stalled (w_db w) (w_db (snd (loop_state (gitsync_Run G ws interval es (fs, w))))) \<and>
    stalled (w_db w) (w_db (snd (fire X S f w))) \<and>
    stalled (w_db w) (w_db (snd (serve chi ext acfg now rq w)))"
  by (intro conjI stall.processes_rely assms)

definition flow_db :: db where
  "flow_db = demo_db\<lparr>db_workflows := [\<lparr>Workflow_ID = UUID ''w1'', Workflow_Name = ''nightly'', Workflow_Description = '''',
     Workflow_CreatedAt = 1, Workflow_UpdatedAt = 1\<rparr>]\<rparr>"

definition run_workflow_req :: request where
  "run_workflow_req = cancel_req\<lparr>Req_Path := [''workflows'', ''w1'', ''run'']\<rparr>"

theorem workflow_runs_stall_witness:
  "map Run_Status (db_workflow_runs (w_db (snd (serve first_match demo_ext demo_api_cfg 0 run_workflow_req
     (quiet_world flow_db))))) = [WorkflowRunStatusPending] \<and>
   stalled flow_db (w_db (snd (serve first_match demo_ext demo_api_cfg 0 run_workflow_req (quiet_world flow_db))))"
proof
  show "map Run_Status (db_workflow_runs (w_db (snd (serve first_match demo_ext demo_api_cfg 0 run_workflow_req
     (quiet_world flow_db))))) = [WorkflowRunStatusPending]" by code_simp
  have "env_respects stalled (quiet_world flow_db)" by (rule quiet_env) (simp add: stalled_same)
  then show "stalled flow_db (w_db (snd (serve first_match demo_ext demo_api_cfg 0 run_workflow_req (quiet_world flow_db))))"
    using workflow_runs_stall [of "quiet_world flow_db", where chi = first_match and ext = demo_ext
        and acfg = demo_api_cfg and now = 0 and rq = run_workflow_req, THEN conjunct2, THEN conjunct2, THEN conjunct2, THEN conjunct2] by simp
qed

end
