(* ===== verification/ControllerStop.thy ===== *)
theory ControllerStop
  imports ReconcilerProps Loops
begin

section \<open>How a controller stops (controller/cmd/controller/main.go)\<close>

text \<open>
  On a signal \<open>main\<close> cancels the context of its loops and returns. Every statement of the loops runs
  under that context: once it is cancelled the driver refuses them all (\<open>cancelled\<close>), and the same can
  be said of a process that has ended. From that moment a loop changes nothing any more, wherever it
  stands: what becomes of the database is up to the others. That also holds for the statement that
  should take back a claim.
\<close>

definition cancelled :: "world \<Rightarrow> bool" where
  "cancelled w \<longleftrightarrow> (\<forall>n\<ge>w_pos w. call_outcome (w_env w n) = Lost)"

text \<open>
  \<open>idles w w'\<close>: from \<open>w\<close> on the process does nothing. \<open>R\<close> is any preorder that the environment respects, so
  the database moves by the environment alone.
\<close>

context db_rely
begin

definition still :: "world \<Rightarrow> bool" where
  "still w \<longleftrightarrow> cancelled w \<and> env_respects R w"

definition idles :: "world \<Rightarrow> world \<Rightarrow> bool" where
  "idles w w' \<longleftrightarrow> still w' \<and> w_sent w' = w_sent w \<and> R (w_db w) (w_db w')"

definition refused :: "(world \<Rightarrow> 'a res \<times> world) \<Rightarrow> bool" where
  "refused p \<longleftrightarrow> (\<forall>w. still w \<longrightarrow> (\<exists>e w'. p w = (Inl e, w') \<and> idles w w'))"

lemma idles_refl: "still w \<Longrightarrow> idles w w"
  by (simp add: idles_def rely_refl)

lemma idles_trans: "idles a b \<Longrightarrow> idles b c \<Longrightarrow> idles a c"
  by (auto simp: idles_def intro: rely_trans)

lemma idles_still: "idles w w' \<Longrightarrow> still w'"
  by (simp add: idles_def)

lemma refused_exec: "refused (exec q)"
  unfolding refused_def
proof (intro allI impI)
  fix w
  assume w: "still w"
  let ?w' = "w\<lparr>w_pos := Suc (w_pos w), w_db := call_env (w_env w (w_pos w)) (w_db w)\<rparr>"
  have "exec q w = (Inl ErrConn, ?w')"
    using w by (simp add: exec_def Let_def still_def cancelled_def)
  moreover have "idles w ?w'"
    using w by (simp add: idles_def still_def cancelled_def env_respects_def)
  ultimately show "\<exists>e w'. exec q w = (Inl e, w') \<and> idles w w'" by blast
qed

lemma refused_exec_ctx: "refused (exec_ctx s q)"
  using refused_exec [of q] by (fastforce simp: refused_def exec_ctx_def)

lemma refused_store:
  "refused cstore_GetPendingJobs" "refused (cstore_GetStuckDispatchedJobs t)"
  "refused (cstore_GetStuckRunningJobs t)" "refused (cstore_TransitionJob i fs ts a rs)"
  "refused (cstore_GetAvailableAgents t)" "refused (cstore_GetJobTemplate i)"
  "refused (cstore_GetAgentAddress i)" "refused cstore_GetActiveSchedules" "refused cstore_GetAllProjects"
  by (simp_all add: cstore_GetPendingJobs_def cstore_GetStuckDispatchedJobs_def
      cstore_GetStuckRunningJobs_def cstore_TransitionJob_def [abs_def] cstore_GetAvailableAgents_def
      cstore_GetJobTemplate_def cstore_GetAgentAddress_def cstore_GetActiveSchedules_def
      cstore_GetAllProjects_def refused_exec_ctx)

lemma refusedD: "refused p \<Longrightarrow> still w \<Longrightarrow> \<exists>e w'. p w = (Inl e, w') \<and> idles w w'"
  by (simp add: refused_def)

lemma refused_idles: "refused p \<Longrightarrow> still w \<Longrightarrow> idles w (snd (p w))"
  using refusedD by fastforce

lemma refused_Dispatch: "refused (Dispatch url_ok a p)"
  using refused_store(7) [of a] by (fastforce simp: refused_def Dispatch_def)

lemma refused_dispatchOne: "refused (dispatchOne (pg_reconciler cr key url_ok cfg) job agents)"
  unfolding refused_def
proof (intro allI impI)
  fix w
  assume w: "still w"
  obtain e w' where "cstore_GetJobTemplate (Job_TemplateID job) w = (Inl e, w')" "idles w w'"
    using refusedD [OF refused_store(6) w] by blast
  then show "\<exists>e w'. dispatchOne (pg_reconciler cr key url_ok cfg) job agents w = (Inl e, w') \<and> idles w w'"
    using idles_refl [OF w]
    by (auto simp: dispatchOne_def buildPayload_def pg_reconciler_def pg_store_def split: sum.split)
qed

lemma idles_dispatch_jobs: "still w \<Longrightarrow> idles w (dispatch_jobs (pg_reconciler cr key url_ok cfg) agents jobs w)"
proof (induction jobs arbitrary: w)
  case Nil
  then show ?case by (simp add: idles_refl)
next
  case (Cons job jobs)
  let ?r = "pg_reconciler cr key url_ok cfg"
  obtain e w1 where 1: "dispatchOne ?r job agents w = (Inl e, w1)" "idles w w1"
    using refusedD [OF refused_dispatchOne Cons.prems] by blast
  let ?w2 = "snd (cstore_TransitionJob (Job_ID job) JobStatusPending JobStatusFailed None (''dispatch error: '' @ error_text e) w1)"
  have 2: "idles w ?w2"
    using 1(2) refused_idles [OF refused_store(4) idles_still [OF 1(2)]] by (rule idles_trans)
  show ?case
    using 1(1) idles_trans [OF 2 Cons.IH [OF idles_still [OF 2]]] by (simp add: pg_reconciler_def pg_store_def)
qed

lemma idles_dispatchPending: "still w \<Longrightarrow> idles w (dispatchPending (pg_reconciler cr key url_ok cfg) w)"
  using refusedD [OF refused_store(1)] by (fastforce simp: dispatchPending_def pg_reconciler_def pg_store_def)

lemma idles_failStuck: "still w \<Longrightarrow> idles w (failStuck (pg_reconciler cr key url_ok cfg) w)"
proof -
  have "idles w (failStuckJobs (pg_reconciler cr key url_ok cfg) st t rs w)"
    if "st \<in> {JobStatusDispatched, JobStatusRunning}" "still w" for st t rs w
    using that refusedD [OF refused_store(2), of w t] refusedD [OF refused_store(3), of w t]
    by (fastforce simp: failStuckJobs_def pg_reconciler_def pg_store_def)
  note * = this
  assume "still w"
  then show ?thesis unfolding failStuck_def by (blast intro: * idles_trans idles_still)
qed

lemma idles_funpow: "(\<And>w. still w \<Longrightarrow> idles w (f w)) \<Longrightarrow> still w \<Longrightarrow> idles w ((f ^^ n) w)"
proof (induction n)
  case (Suc n)
  then show ?case using idles_trans idles_still by (metis funpow.simps(2) comp_apply)
qed (simp add: idles_refl)

lemma idles_for_select:
  "(\<And>w. still w \<Longrightarrow> idles w (f w)) \<Longrightarrow> still w \<Longrightarrow> idles w (loop_state (for_select f es w))"
  by (simp add: for_select_rounds idles_funpow)

lemma idles_tick: "still w \<Longrightarrow> idles w (tick (pg_reconciler cr key url_ok cfg) w)"
  unfolding tick_def by (blast intro: idles_dispatchPending idles_failStuck idles_trans idles_still)

lemma idles_sync: "still w \<Longrightarrow> fst (sync X S w) = S \<and> idles w (snd (sync X S w))"
  using refusedD [OF refused_store(8)] by (fastforce simp: sync_def)

lemma idles_syncAll: "still w \<Longrightarrow> fst (syncAll G ws (fs, w)) = fs \<and> idles w (snd (syncAll G ws (fs, w)))"
  using refusedD [OF refused_store(9)] by (fastforce simp: syncAll_def)

text \<open>A loop whose round keeps the rest of its state and idles on the world does so for ever.\<close>

lemma idles_pair_loop:
  assumes "\<And>x w. still w \<Longrightarrow> fst (f (x, w)) = x \<and> idles w (snd (f (x, w)))" and "still w"
  shows "fst (loop_state (for_select f es (x, w))) = x \<and> idles w (snd (loop_state (for_select f es (x, w))))"
proof -
  have "fst ((f ^^ n) (x, w)) = x \<and> idles w (snd ((f ^^ n) (x, w)))" for n
  proof (induction n)
    case (Suc n)
    then show ?case
      using assms(1) [of "snd ((f ^^ n) (x, w))" x] idles_still idles_trans by (metis comp_apply funpow.simps(2) prod.collapse)
  qed (simp add: idles_refl assms(2))
  then show ?thesis by (simp add: for_select_rounds)
qed

lemma idles_rest_of_run:
  assumes "still w"
  shows "idles w (loop_state (for_select (tick (pg_reconciler cr key url_ok cfg)) es
      (failStuck (pg_reconciler cr key url_ok cfg) (dispatch_jobs (pg_reconciler cr key url_ok cfg) agents jobs w))))"
    and "fst (loop_state (for_select (\<lambda>(S, w). sync X S w) es (S, w))) = S"
    and "idles w (snd (loop_state (for_select (\<lambda>(S, w). sync X S w) es (S, w))))"
    and "fst (loop_state (for_select (syncAll G ws) es (fs, w))) = fs"
    and "idles w (snd (loop_state (for_select (syncAll G ws) es (fs, w))))"
proof -
  let ?r = "pg_reconciler cr key url_ok cfg"
  have "idles w (failStuck ?r (dispatch_jobs ?r agents jobs w))"
    using idles_dispatch_jobs [OF assms] idles_failStuck by (blast intro: idles_trans idles_still)
  then show "idles w (loop_state (for_select (tick ?r) es (failStuck ?r (dispatch_jobs ?r agents jobs w))))"
    using idles_for_select [of "tick ?r", OF idles_tick] by (blast intro: idles_trans idles_still)
  have "still w \<Longrightarrow> fst ((\<lambda>(S, w). sync X S w) (S, w)) = S \<and> idles w (snd ((\<lambda>(S, w). sync X S w) (S, w)))" for S w
    using idles_sync by simp
  note sched = idles_pair_loop [OF this assms] and gits = idles_pair_loop [OF idles_syncAll assms]
  show "fst (loop_state (for_select (\<lambda>(S, w). sync X S w) es (S, w))) = S" by (rule conjunct1 [OF sched])
  show "idles w (snd (loop_state (for_select (\<lambda>(S, w). sync X S w) es (S, w))))" by (rule conjunct2 [OF sched])
  show "fst (loop_state (for_select (syncAll G ws) es (fs, w))) = fs" by (rule conjunct1 [OF gits])
  show "idles w (snd (loop_state (for_select (syncAll G ws) es (fs, w))))" by (rule conjunct2 [OF gits])
qed

end

subsection \<open>A claim without a payload\<close>

text \<open>An environment that leaves one job alone.\<close>

definition keeps_row :: "uuid \<Rightarrow> db \<Rightarrow> db \<Rightarrow> bool" where
  "keeps_row i d d' \<longleftrightarrow> (unique_jobs d \<longrightarrow> unique_jobs d') \<and> job_of d' i = job_of d i"

interpretation kr: db_rely "keeps_row i" for i
  by unfold_locales (auto simp: keeps_row_def)

lemma frame_reads:
  "cstore_GetJobTemplate i w = (x1, w') \<Longrightarrow> net_frame w w'"
  "cstore_GetProject i w = (x2, w') \<Longrightarrow> net_frame w w'"
  "cstore_GetInventoryHosts i w = (x3, w') \<Longrightarrow> net_frame w w'"
  "cstore_TransitionJob i fs ts a rs w = (x4, w') \<Longrightarrow> net_frame w w'"
  by (auto simp: cstore_GetJobTemplate_def cstore_GetProject_def cstore_GetInventoryHosts_def
      cstore_TransitionJob_def exec_ctx_def split_beta net_frame_def)

lemma frame_creds: "resolve_creds (pg_reconciler cr key url_ok cfg) c w = (x, w') \<Longrightarrow> net_frame w w'"
  using Resolve_frame [of w cr key "the c"]
  by (auto simp: resolve_creds_def pg_reconciler_def split: option.splits prod.splits sum.splits)

lemma frame_buildPayload: "buildPayload (pg_reconciler cr key url_ok cfg) job ag w = (x, w') \<Longrightarrow> net_frame w w'"
proof -
  have st: "rec_store (pg_reconciler cr key url_ok cfg) = pg_store" by (simp add: pg_reconciler_def)
  assume "buildPayload (pg_reconciler cr key url_ok cfg) job ag w = (x, w')"
  then show ?thesis
    by (auto simp: buildPayload_def st pg_store_def Let_def split: prod.splits sum.splits
        dest!: frame_reads frame_creds intro: net_frame_trans)
qed

lemma claim_row:
  assumes "unique_jobs (w_db w)" and "env_respects (keeps_row i) w"
    and "cstore_TransitionJob i fs ts a rs w = (Inr True, w')"
  shows "\<exists>j. job_of (w_db w') i = Some j \<and> Job_Status j = ts"
proof -
  let ?c = "w_env w (w_pos w)" and ?d = "call_env (w_env w (w_pos w)) (w_db w)"
  let ?q = "TransitionJob_stmt i fs ts a rs"
  have "fst (exec ?q w) = Inr True" and w': "w' = snd (exec ?q w)"
    using assms(3) by (simp_all add: cstore_TransitionJob_def exec_ctx_def split_beta)
  note q = exec_okD [OF this(1)]
  have u: "unique_jobs ?d" using assms(1,2) env_respectsD [OF assms(2)] by (simp add: keeps_row_def)
  have "status_of ?d i = Some fs" "agent_exists ?d a"
    using q(1) by (auto simp: TransitionJob_result [OF u] split: if_splits)
  then have "status_of (w_db w') i = Some ts" by (simp add: w' q(2) TransitionJob_status [OF u])
  then show ?thesis by (auto simp: status_of_def)
qed

text \<open>
  C32: A controller that is stopped strands a job. If the context is cancelled when a job has just been
  claimed, then, whatever the rest of the pass, of the tick and of the loop does, the payload is
  not sent to anybody, and the claim is not taken back either, because the statement that should do it runs
  under the same context: the job stays dispatched on an agent that does not know it. Nothing
  sends it again. A controller that finds it after the dispatch timeout fails it, with the reason that the
  agent never reported.
\<close>

theorem stopped_controller_strands_job:
  assumes "Select agents = Inr a" and pay: "buildPayload (pg_reconciler cr key url_ok cfg) job (Agent_ID a) w = (Inr p, w1)"
    and claim: "cstore_TransitionJob (Job_ID job) JobStatusPending JobStatusDispatched (Some (Agent_ID a)) '''' w1 = (Inr True, w2)"
    and "cancelled w2" and uq: "unique_jobs (w_db w)" and env: "env_respects (keeps_row (Job_ID job)) w"
    and w': "w' = loop_state (for_select (tick (pg_reconciler cr key url_ok cfg)) es
      (failStuck (pg_reconciler cr key url_ok cfg) (dispatch_jobs (pg_reconciler cr key url_ok cfg) agents (job # jobs) w)))"
  shows "w_sent w' = w_sent w \<and>
    (\<exists>j. job_of (w_db w') (Job_ID job) = Some j \<and> Job_Status j = JobStatusDispatched \<and>
      (\<forall>v. undisturbed v \<and> unique_jobs (w_db v) \<and> job_of (w_db v) (Job_ID job) = Some j \<and>
          Job_UpdatedAt j < db_now (w_db v) - Rec_DispatchTimeout cfg \<longrightarrow>
        job_of (w_db (failStuck (pg_reconciler cr key url_ok cfg) v)) (Job_ID job) =
          Some (transition_row (db_now (w_db v)) JobStatusFailed None dispatch_timeout_reason j)))"
proof -
  let ?r = "pg_reconciler cr key url_ok cfg"
  note f = net_frame_trans [OF frame_buildPayload [OF pay] frame_reads(4) [OF claim]]
  have "world_rel (keeps_row (Job_ID job)) w w1" by (rule kr.wrel_buildPayload [OF pay])
  then have 1: "unique_jobs (w_db w1)" "env_respects (keeps_row (Job_ID job)) w1"
    using env uq env_respects_cong [OF net_frameD(1) [OF frame_buildPayload [OF pay]]]
    by (simp_all add: world_rel_def keeps_row_def)
  obtain j where j: "job_of (w_db w2) (Job_ID job) = Some j" "Job_Status j = JobStatusDispatched"
    using claim_row [OF 1 claim] by blast
  have still: "kr.still (Job_ID job) w2"
    using assms(4) env env_respects_cong [OF net_frameD(1) [OF f]] by (simp add: kr.still_def)
  obtain e w3 where 3: "Dispatch url_ok (Agent_ID a) p w2 = (Inl e, w3)" "kr.idles (Job_ID job) w2 w3"
    using kr.refusedD [OF kr.refused_Dispatch still] by blast
  obtain e4 w4 where 4: "cstore_TransitionJob (Job_ID job) JobStatusDispatched JobStatusFailed None
      (''agent dispatch error: '' @ error_text e) w3 = (Inl e4, w4)" "kr.idles (Job_ID job) w3 w4"
    using kr.refusedD [OF kr.refused_store(4) kr.idles_still [OF 3(2)]] by blast
  let ?w5 = "snd (cstore_TransitionJob (Job_ID job) JobStatusPending JobStatusFailed None (''dispatch error: '' @ error_text e4) w4)"
  have 5: "kr.idles (Job_ID job) w2 ?w5"
    using 3(2) 4(2) kr.refused_idles [OF kr.refused_store(4) kr.idles_still [OF 4(2)]] kr.idles_trans by blast
  have "dispatchOne ?r job agents w = (Inl e4, w4)"
    using assms(1) pay claim 3(1) 4(1) by (simp add: dispatchOne_def pg_reconciler_def pg_store_def)
  then have rest: "dispatch_jobs ?r agents (job # jobs) w = dispatch_jobs ?r agents jobs ?w5"
    by (simp add: pg_reconciler_def pg_store_def)
  have "kr.idles (Job_ID job) w2 w'"
    unfolding w' rest by (rule kr.idles_trans [OF 5 kr.idles_rest_of_run(1) [OF kr.idles_still [OF 5]]])
  then have "w_sent w' = w_sent w \<and> job_of (w_db w') (Job_ID job) = Some j"
    using j(1) net_frameD(3) [OF f] by (simp add: kr.idles_def keeps_row_def)
  moreover have "job_of (w_db (failStuck ?r v)) (Job_ID job) =
      Some (transition_row (db_now (w_db v)) JobStatusFailed None dispatch_timeout_reason j)"
    if "undisturbed v" "unique_jobs (w_db v)" "job_of (w_db v) (Job_ID job) = Some j"
      "Job_UpdatedAt j < db_now (w_db v) - Rec_DispatchTimeout cfg" for v
    using failStuck_row [OF that(1,2)] that(3,4) j(2) by (simp add: timed_out_def)
  ultimately show ?thesis using j(2) by blast
qed

text \<open>The demonstration job has four statements before its claim; the signal comes after it.\<close>

definition stopped_world :: world where
  "stopped_world = (quiet_world demo_db)\<lparr>w_env := (\<lambda>n. if n < 5 then quiet n else (quiet n)\<lparr>call_outcome := Lost\<rparr>)\<rparr>"

lemma stopped_facts:
  "Select (map (scan_agent demo_db) (db_agents demo_db)) = Inr (scan_agent demo_db (demo_agent ''a2'' 4 95))"
  "isOk (fst (buildPayload demo_rec (demo_job ''j1'' 50) (UUID ''a2'') stopped_world))"
  "fst (cstore_TransitionJob (UUID ''j1'') JobStatusPending JobStatusDispatched (Some (UUID ''a2'')) ''''
     (snd (buildPayload demo_rec (demo_job ''j1'' 50) (UUID ''a2'') stopped_world))) = Inr True"
  "w_pos (snd (cstore_TransitionJob (UUID ''j1'') JobStatusPending JobStatusDispatched (Some (UUID ''a2'')) ''''
     (snd (buildPayload demo_rec (demo_job ''j1'' 50) (UUID ''a2'') stopped_world)))) = 5"
  subgoal by code_simp
  subgoal by code_simp
  subgoal by code_simp
  subgoal by code_simp
  done

theorem stopped_controller_strands_job_witness:
  "\<exists>w' j. w' = loop_state (for_select (tick demo_rec) [Ticked, Cancelled]
      (failStuck demo_rec (dispatch_jobs demo_rec (map (scan_agent demo_db) (db_agents demo_db)) [demo_job ''j1'' 50] stopped_world))) \<and>
    w_sent w' = [] \<and> job_of (w_db w') (UUID ''j1'') = Some j \<and> Job_Status j = JobStatusDispatched"
proof -
  let ?t = "cstore_TransitionJob (UUID ''j1'') JobStatusPending JobStatusDispatched (Some (UUID ''a2'')) ''''"
  obtain p w1 where 1: "buildPayload demo_rec (demo_job ''j1'' 50) (UUID ''a2'') stopped_world = (Inr p, w1)"
    using stopped_facts(2) by (metis isOkE prod.collapse)
  obtain w2 where 2: "?t w1 = (Inr True, w2)" using stopped_facts(3) 1 by (metis prod.collapse snd_conv)
  have "w_env w2 = w_env stopped_world"
    using net_frameD(1) [OF net_frame_trans [OF frame_buildPayload [OF 1 [unfolded demo_rec_def]] frame_reads(4) [OF 2]]] .
  then have c: "cancelled w2" using stopped_facts(4) 1 2 by (simp add: cancelled_def stopped_world_def)
  have j: "Job_ID (demo_job ''j1'' 50) = UUID ''j1''" "Agent_ID (scan_agent demo_db (demo_agent ''a2'' 4 95)) = UUID ''a2''"
    by (simp_all add: demo_job_def new_job_def scan_agent_def demo_agent_def)
  have e: "env_respects (keeps_row (UUID ''j1'')) stopped_world" "unique_jobs (w_db stopped_world)" "w_sent stopped_world = []"
    by (simp_all add: env_respects_def stopped_world_def quiet_def keeps_row_def demo_unique quiet_world_def)
  show ?thesis
    using stopped_controller_strands_job [where cr = tag_crypto and key = demo_key and url_ok = "\<lambda>_. True" and cfg = demo_cfg
        and job = "demo_job ''j1'' 50" and w = stopped_world and jobs = "[]" and es = "[Ticked, Cancelled]",
        folded demo_rec_def, OF stopped_facts(1), unfolded j, OF 1 2 c e(2,1) refl] e(3) by metis
qed

end
