(* ===== verification/JobQuery.thy ===== *)
theory JobQuery
  imports ApiStore Config
begin

section \<open>The query that ListJobs puts together (api/internal/store/jobs.go)\<close>

text \<open>
  \<open>ListJobs\<close> is the one method that builds its SQL text: a condition is appended for every filter that is
  set, with the number of the next argument as its placeholder. \<open>astore_ListJobs\<close> states what the query
  means; here the text and the arguments are built as the code does, and read by a small interpreter of
  this fragment of SQL (\<open>sql_parse\<close>, \<open>sql_run\<close>), which refuses a placeholder without an argument, an
  argument without a placeholder, an unknown column and an argument of the wrong type.
\<close>

subsection \<open>Building the query\<close>

datatype sql_arg = StatusArg JobStatus | UUIDArg uuid

definition itoa :: "nat \<Rightarrow> string" where
  "itoa n = fmt_d n"

text \<open>One of the three \<open>if\<close> statements.\<close>

definition sql_and :: "string \<Rightarrow> sql_arg option \<Rightarrow> string \<times> sql_arg list \<times> nat \<Rightarrow> string \<times> sql_arg list \<times> nat" where
  "sql_and cond x q =
     (case (x, q) of
        (None, _) \<Rightarrow> q
      | (Some v, text, args, n) \<Rightarrow> (text @ cond @ itoa n, args @ [v], n + 1))"

definition list_jobs_query :: "ListJobsFilter \<Rightarrow> string \<times> sql_arg list" where
  "list_jobs_query f =
     (let query = ''SELECT id, template_id, agent_id, workflow_run_id, status, extra_vars, facts, failure_reason, created_at, updated_at, started_at, ended_at''
            @ [CHR 0x0A, CHR 0x09] @ ''          FROM jobs WHERE 1=1'';
          (text, args, n) =
            sql_and '' AND agent_id = $'' (map_option UUIDArg (Filter_AgentID f))
              (sql_and '' AND template_id = $'' (map_option UUIDArg (Filter_TemplateID f))
                (sql_and '' AND status = $'' (map_option StatusArg (Filter_Status f)) (query, [], 1)))
      in (text @ '' ORDER BY created_at DESC LIMIT 200'', args))"

subsection \<open>Reading it\<close>

definition placeholder :: "string \<Rightarrow> nat option" where
  "placeholder t = (case t of CHR ''$'' # ds \<Rightarrow>
     (case Atoi ds of Inr k \<Rightarrow> if 0 < k then Some (nat k) else None | Inl _ \<Rightarrow> None) | _ \<Rightarrow> None)"

fun sql_conds :: "string list \<Rightarrow> ((string \<times> nat) list \<times> string list) option" where
  "sql_conds (a # col # eq # p # rest) =
     (if a \<noteq> ''AND'' then Some ([], a # col # eq # p # rest)
      else if eq \<noteq> ''='' then None
      else (case placeholder p of
              None \<Rightarrow> None
            | Some k \<Rightarrow> map_option (\<lambda>(cs, r). ((col, k) # cs, r)) (sql_conds rest)))"
| "sql_conds ts = Some ([], ts)"

definition sql_limit :: "string list \<Rightarrow> nat option" where
  "sql_limit ts =
     (case ts of [o', b, c, dsc, l, n] \<Rightarrow>
        if [o', b, c, dsc, l] = [''ORDER'', ''BY'', ''created_at'', ''DESC'', ''LIMIT'']
        then (case Atoi n of Inr k \<Rightarrow> if 0 \<le> k then Some (nat k) else None | Inl _ \<Rightarrow> None) else None
      | _ \<Rightarrow> None)"

definition sql_parse :: "string \<Rightarrow> ((string \<times> nat) list \<times> nat) option" where
  "sql_parse text =
     (case dropWhile (\<lambda>t. t \<noteq> ''WHERE'') (Fields text) of
        w # t # ts \<Rightarrow>
          if t \<noteq> ''1=1'' then None
          else (case sql_conds ts of
                  None \<Rightarrow> None
                | Some (cs, rest) \<Rightarrow> map_option (\<lambda>l. (cs, l)) (sql_limit rest))
      | _ \<Rightarrow> None)"

definition column_is :: "string \<Rightarrow> sql_arg \<Rightarrow> (Job \<Rightarrow> bool) option" where
  "column_is col v =
     (case v of
        StatusArg s \<Rightarrow> if col = ''status'' then Some (\<lambda>j. Job_Status j = s) else None
      | UUIDArg i \<Rightarrow>
          if col = ''template_id'' then Some (\<lambda>j. Job_TemplateID j = i)
          else if col = ''agent_id'' then Some (\<lambda>j. Job_AgentID j = Some i) else None)"

fun where_fun :: "(string \<times> nat) list \<Rightarrow> sql_arg list \<Rightarrow> (Job \<Rightarrow> bool) option" where
  "where_fun [] args = Some (\<lambda>_. True)"
| "where_fun ((col, k) # cs) args =
     (if length args < k \<or> k = 0 then None
      else case (column_is col (args ! (k - 1)), where_fun cs args) of
             (Some P, Some Q) \<Rightarrow> Some (\<lambda>j. P j \<and> Q j)
           | _ \<Rightarrow> None)"

definition sql_run :: "string \<times> sql_arg list \<Rightarrow> db \<Rightarrow> Job list res" where
  "sql_run q d =
     (case sql_parse (fst q) of
        None \<Rightarrow> Inl (ErrMsg ''syntax error'')
      | Some (cs, limit) \<Rightarrow>
          if foldr max (map snd cs) 0 \<noteq> length (snd q) then Inl (ErrMsg ''wrong number of arguments'')
          else (case where_fun cs (snd q) of
                  None \<Rightarrow> Inl (ErrMsg ''wrong type of argument'')
                | Some P \<Rightarrow> Inr (take limit (sort_key (\<lambda>j. - Job_CreatedAt j) (filter P (db_jobs d))))))"

subsection \<open>The text means what the store says\<close>

text \<open>The columns of the filters that are set, in the order of the code.\<close>

definition filter_columns :: "ListJobsFilter \<Rightarrow> string list" where
  "filter_columns f =
     (if Filter_Status f = None then [] else [''status'']) @
     (if Filter_TemplateID f = None then [] else [''template_id'']) @
     (if Filter_AgentID f = None then [] else [''agent_id''])"

definition numbered :: "string list \<Rightarrow> (string \<times> nat) list" where
  "numbered cs = zip cs [1..<length cs + 1]"

lemma list_jobs_parse: "sql_parse (fst (list_jobs_query f)) = Some (numbered (filter_columns f), 200)"
proof (cases f)
  case (fields x y z)
  show ?thesis
    unfolding fields by (cases x; cases y; cases z; hypsubst_thin; code_simp)
qed

lemma list_jobs_args:
  "snd (list_jobs_query f) = map StatusArg (case Filter_Status f of None \<Rightarrow> [] | Some s \<Rightarrow> [s]) @
     map UUIDArg ((case Filter_TemplateID f of None \<Rightarrow> [] | Some t \<Rightarrow> [t]) @
       (case Filter_AgentID f of None \<Rightarrow> [] | Some a \<Rightarrow> [a]))"
  by (simp add: list_jobs_query_def sql_and_def Let_def split: option.split prod.split)

lemma list_jobs_where: "where_fun (numbered (filter_columns f)) (snd (list_jobs_query f)) = Some (job_matches f)"
  by (cases "Filter_Status f"; cases "Filter_TemplateID f"; cases "Filter_AgentID f")
     (simp_all add: list_jobs_args filter_columns_def numbered_def column_is_def job_matches_def fun_eq_iff upt_rec)

lemma list_jobs_count: "foldr max (map snd (numbered (filter_columns f))) 0 = length (snd (list_jobs_query f))"
  by (cases "Filter_Status f"; cases "Filter_TemplateID f"; cases "Filter_AgentID f")
     (simp_all add: list_jobs_args filter_columns_def numbered_def upt_rec)

text \<open>
  C33: The query that is built is the query that is meant. For every combination of filters the text that
  \<open>ListJobs\<close> puts together parses, its placeholders are \<open>$1\<close> to the number of arguments, each stands
  in the condition on the column whose value is at that place, and executing it gives exactly what
  \<open>astore_ListJobs\<close> specifies: the newest 200 jobs that match all filters that are set.
\<close>

theorem ListJobs_query: "astore_ListJobs f = exec (query (\<lambda>c. sql_run (list_jobs_query f)))"
proof -
  have "sql_run (list_jobs_query f) =
      (\<lambda>d. Inr (take 200 (sort_key (\<lambda>j. - Job_CreatedAt j) (filter (job_matches f) (db_jobs d)))))"
    by (simp add: fun_eq_iff sql_run_def list_jobs_parse list_jobs_count list_jobs_where)
  then show ?thesis by (simp add: astore_ListJobs_def)
qed

end
