(* ===== verification/Spec2Isabelle.thy ===== *)
theory Spec2Isabelle
  imports ReconcilerProps ControllerProps ApiProps2 SchedulerProps InventoryProps System InventoryRoundTrip
    Deployment Startup LogRace ApiSecrets RowScan WireProps Shutdown Integrity
    ControllerStop JobQuery
begin

text \<open>
  AOP, an orchestration platform for Ansible. Three programs share the work:

  \<^item> the API server (\<open>api/\<close>): users, catalogue, jobs, approvals; agents register with it and report to it;
  \<^item> the controller (\<open>controller/\<close>): a reconciler that dispatches pending jobs to agents and fails stuck
    ones, a scheduler that creates jobs from cron expressions, a synchroniser of inventories in git;
  \<^item> the agent (\<open>agent/\<close>): accepts payloads, runs \<open>ansible-playbook\<close>, posts logs and results.

  The first two share one PostgreSQL database; a controller talks to agents, and agents to the API
  server, over HTTP. Any number of controllers and agents may run.

  \<^bold>\<open>State, statements and interference.\<close> \<open>Types\<close> has the structs and enumerations of \<open>pkg/types\<close>.
  \<open>Database\<close> has the tables (the record \<open>db\<close>, after \<open>migrations/\<close>) and the \<open>world\<close> of a process. A SQL
  statement is a function on \<open>db\<close>; \<open>exec\<close> runs the next one atomically, after whatever the other
  processes did to the database since the last one, and it may be lost or executed without an
  acknowledgement. A theorem that quantifies over the world thus speaks about every interleaving and every
  pattern of failures; its hypothesis \<open>env_respects R\<close> says what the others are relied on for.
  \<open>undisturbed\<close> is the world in which nothing fails and nobody interferes; functional descriptions of an
  operation are stated there.

  \<^bold>\<open>Theories and sources.\<close> A definition keeps the name of the function it models, with a prefix where
  two programs have the same one (\<open>cstore_\<close> and \<open>astore_\<close> for the methods of the two stores, \<open>h_\<close> for
  handlers); \<open><name>_stmt\<close> is the statement that a method executes.

  \<^item> \<open>Prelude\<close>, \<open>GoStrings\<close>: errors, tables as lists of rows, \<open>strings\<close> and \<open>path/filepath\<close> of Go.
  \<^item> \<open>ControllerStore\<close>: \<open>controller/internal/store\<close>, over tables of structs; \<open>RowScan\<close>: its scan helpers and
    its statements on the columns of \<open>jobs\<close>. \<open>Secrets\<close>, \<open>ApiSecrets\<close>: the two \<open>internal/secrets\<close>.
    \<open>Selector\<close>: \<open>controller/selector\<close>. \<open>Transport\<close>: \<open>controller/transport\<close>.
  \<^item> \<open>Reconciler\<close>: \<open>controller/internal/reconciler\<close>, over an abstract store (the interface \<open>jobStore\<close> of
    the source is a record) and on the concrete one (\<open>pg_reconciler\<close>). \<open>Lifecycle\<close> and \<open>ReconcilerPass\<close>
    have what ticks do to jobs with and without interference; \<open>ReconcilerProps\<close> and \<open>ControllerProps\<close> the
    properties.
  \<^item> \<open>Scheduler\<close>, \<open>SchedulerProps\<close>: \<open>controller/internal/scheduler\<close>. \<open>Inventory\<close>, \<open>InventoryProps\<close>:
    \<open>controller/inventory\<close>. \<open>Loops\<close>: the \<open>Run\<close> methods of reconciler, scheduler and synchroniser.
    \<open>ControllerStop\<close>: how the controller process stops.
  \<^item> \<open>ApiStore\<close>, \<open>ApiCatalog\<close>: \<open>api/internal/store\<close>; \<open>JobQuery\<close>: the SQL text that \<open>ListJobs\<close> puts
    together, with an interpreter for it. \<open>ApiHandlers\<close>, \<open>CatalogHandlers\<close>:
    \<open>api/internal/handler\<close>. \<open>ApiServer\<close>: middleware, routes and the whole server (\<open>serve\<close>). \<open>ApiSafety\<close>
    shows that every request keeps a relation on databases that the statements keep; \<open>ApiProps\<close> and
    \<open>ApiProps2\<close> have the properties.
  \<^item> \<open>AgentServer\<close>: \<open>agent/internal/server\<close>, its handlers whole and as interleaved pieces (\<open>agent_step\<close>).
    \<open>LogBatcher\<close>, \<open>AgentRunner\<close>: \<open>agent/internal/runner\<close>. \<open>LogRace\<close>: the numbering of log lines by two
    goroutines. \<open>AgentProps\<close>: properties. \<open>InventoryRoundTrip\<close>: the file the agent writes, read by the
    controller's parser. \<open>Shutdown\<close>: how the agent process stops.
  \<^item> \<open>AgentWire\<close>, \<open>WireProps\<close>: the controller's transport (\<open>pkg/transport\<close>) with the agent's router and
    handlers behind it.
  \<^item> \<open>ApiClient\<close>: \<open>agent/internal/apiclient\<close> and \<open>executeJob\<close>, on an arbitrary network and on one with
    \<open>serve\<close> behind it. \<open>Deployment\<close>: registration, pass, execution and report in sequence.
  \<^item> \<open>Config\<close>, \<open>ConfigProps\<close>: the three \<open>internal/config\<close>. \<open>Startup\<close>: \<open>main\<close> of the three programs,
    with logging, the database pool and what ends them, and of \<open>genhash\<close>.
  \<^item> \<open>System\<close>: the processes of the platform together, and the abstract machine of jobs (\<open>job_step\<close>) that
    all of them refine. \<open>Integrity\<close>: keys, references and workflow runs (\<open>migrations/\<close>).
    \<open>Scenario\<close>: concrete data for the witnesses.

  \<^bold>\<open>What is shown.\<close>

  \<^item> The table of jobs: every process is a sequence of \<open>job_step\<close>s (a refinement), so each job is claimed
    at most once by any number of controllers; a controller sends a payload at most once, moves jobs only
    along valid transitions and leaves finished jobs alone.
  \<^item> The other tables: no process, whatever the interleaving, doubles a key or leaves a dangling reference,
    and none ever advances a workflow run.
  \<^item> Tables of structs and tables of columns: the controller's statements on the one are those on the
    other, for any documents in the JSON columns.
  \<^item> Passes of the reconciler, the selector, payloads, timeouts, scheduler and synchroniser: their effect
    on the database on every branch; the INI parser against a specification without a map of hosts; the
    query of \<open>ListJobs\<close> against the filter that it is to be.
  \<^item> The API server: who may change what, results, cancellation, logs, approvals, tokens, workflows.
  \<^item> The agent: load against capacity, cancellation, complete and ordered logs with a batcher that stops,
    terminal results and no file left behind.
  \<^item> Controller and agent together: which jobs of a batch the agent takes, and that database and agent
    agree on them; what becomes of the jobs of an agent that is stopped,
    and of a job that a stopped controller had claimed.
  \<^item> Across programs: credentials and inventories survive the round trip from one to the other, loaded
    configurations agree, and a new deployment brings a job from pending to the result of its execution.

  \<^bold>\<open>Interfaces as locales.\<close> \<open>db_rely\<close>: a relation on databases that the environment keeps.
  \<open>lifecycle_rely\<close> extends it by the statements of the reconciler, \<open>api_stmts\<close> by those of the API server,
  and \<open>platform_rely\<close> is both, with those of the scheduler and the synchroniser: a relation that the
  statements respect is respected by whole processes. Relations that only look at jobs are special cases
  (\<open>api_rely\<close>, \<open>jobs_platform\<close>, sublocales). The contracts of selector and reconciler are locales too. Each
  is interpreted on the definitions above; the properties are facts of these interpretations or rest on them.

  \<^bold>\<open>Parameters.\<close> Code outside the repository is an argument, with what is relied on as a hypothesis: chi's
  router (\<open>router_ok\<close>, \<open>router_complete\<close>), AES-GCM and JSON (\<open>crypto_laws\<close>), JWT, bcrypt, SHA-256 and UUID
  parsing (\<open>api_ext\<close>), the cron package (\<open>cron_laws\<close>, \<open>cron_syntax\<close>), \<open>git\<close>, \<open>ansible-playbook\<close>, the file
  system and the order in which maps are walked (\<open>git_ext\<close>, \<open>run_ext\<close>, \<open>orders_ok\<close>), the network, one
  floating-point expression of \<open>time.ParseDuration\<close>. Each hypothesis is satisfied by a concrete function in a
  witness.

  \<^bold>\<open>Numbers.\<close> Times and durations are nanoseconds as integers, parsed durations and \<open>Atoi\<close> with the 64-bit
  checks of the source; values sent to \<open>integer\<close> columns are checked against 32 bits (\<open>int4_ok\<close>); scanners
  stop at lines of 65536 bytes. No definition needs fuel: loops over data are structural, the two others
  (\<open>Fields\<close>, the loop of \<open>ParseDuration\<close>) have termination proofs, and loops that run forever (tickers,
  goroutines) are iterations or step relations.

  \<^bold>\<open>Not modelled.\<close> What is written to the log; the delivery of signals, and the drain of a listener,
  which is net/http's (\<open>main_waits\<close> takes both as events); the web interface (\<open>ui/\<close>); workflow execution, of which the repository has
  the data model and the interface \<open>NodeExecutor\<close> but no code; the interface \<open>InventorySource\<close>, which nothing
  implements. A statement is atomic, and a transaction is one statement. Outside \<open>RowScan\<close> a table is a list
  of structs, and the scan of a row into a struct is the identity.
\<close>

section \<open>Properties of the whole platform\<close>

subsection \<open>Every process is a sequence of steps of the job machine\<close>

text \<open>
  C5: Refinement to the job machine. Each process of the platform (the controller's reconciler,
  scheduler and inventory synchroniser, each running its loop for any number of rounds until it is
  cancelled, the function of a cron entry, a request served by the API server) changes the table of jobs
  only by steps of \<open>job_step\<close>, in every environment that does so too and for every pattern of lost or
  unacknowledged statements. So
  every interleaving of the platform's processes is a run of that machine.
\<close>

theorem processes_refine_job_machine:
  assumes "env_respects job_step\<^sup>*\<^sup>* w"
  shows "job_step\<^sup>*\<^sup>* (w_db w) (w_db (loop_state (reconciler_Run (pg_reconciler cr key url_ok cfg) interval es w))) \<and>
    job_step\<^sup>*\<^sup>* (w_db w) (w_db (snd (loop_state (scheduler_Run X interval es S w)))) \<and>
    job_step\<^sup>*\<^sup>* (w_db w) (w_db (snd (loop_state (gitsync_Run G ws interval es (fs, w))))) \<and>
    job_step\<^sup>*\<^sup>* (w_db w) (w_db (snd (fire X S f w))) \<and>
    job_step\<^sup>*\<^sup>* (w_db w) (w_db (snd (serve chi ext acfg now rq w)))"
  by (intro conjI sys.processes_rely assms)

theorem processes_refine_job_machine_witness:
  "job_step\<^sup>*\<^sup>* sent_db (w_db (snd (serve first_match demo_ext demo_api_cfg 0 cancel_req (quiet_world sent_db)))) \<and>
   map Job_Status (db_jobs (w_db (snd (serve first_match demo_ext demo_api_cfg 0 cancel_req (quiet_world sent_db)))))
     \<noteq> map Job_Status (db_jobs sent_db)"
proof
  have e: "env_respects job_step\<^sup>*\<^sup>* (quiet_world sent_db)" by (rule quiet_env) simp
  show "job_step\<^sup>*\<^sup>* sent_db (w_db (snd (serve first_match demo_ext demo_api_cfg 0 cancel_req (quiet_world sent_db))))"
    using processes_refine_job_machine [OF e, where chi = first_match and ext = demo_ext and acfg = demo_api_cfg
        and now = 0 and rq = cancel_req, THEN conjunct2, THEN conjunct2, THEN conjunct2, THEN conjunct2] by simp
  show "map Job_Status (db_jobs (w_db (snd (serve first_match demo_ext demo_api_cfg 0 cancel_req (quiet_world sent_db)))))
     \<noteq> map Job_Status (db_jobs sent_db)"
    by code_simp
qed

text \<open>
  C6: A job is claimed once. Along every run of the job machine, with any number of controllers, the
  jobs whose claim succeeded (a compare-and-set of the status from pending) are pairwise different,
  were not claimed before the run and are claimed at its end.
\<close>

theorem job_claimed_once:
  assumes "job_trace d js d'" and "unique_jobs d"
  shows "distinct js \<and> (\<forall>i\<in>set js. \<not> db_claimed d i \<and> db_claimed d' i)"
  using job_trace_claims [OF assms] .

theorem job_claimed_once_witness:
  "job_trace demo_db [UUID ''j1''] (snd (TransitionJob_stmt (UUID ''j1'') JobStatusPending JobStatusDispatched
     (Some (UUID ''a1'')) '''' (quiet 0) demo_db)) \<and> distinct [UUID ''j1''] \<and>
   \<not> db_claimed demo_db (UUID ''j1'')"
proof -
  let ?s = "TransitionJob_stmt (UUID ''j1'') JobStatusPending JobStatusDispatched (Some (UUID ''a1'')) '''' (quiet 0) demo_db"
  have "fst ?s = Inr True" by code_simp
  then have "?s = (Inr True, snd ?s)" by (metis prod.collapse)
  then have t: "job_trace demo_db ([] @ [UUID ''j1'']) (snd ?s)"
    by (intro trace_claim [OF trace_refl]) auto
  then show ?thesis using job_claimed_once [OF t demo_unique] by simp
qed

text \<open>
  C20: No job is ever running, and rows stay well-formed. Along every run of the job machine no job
  becomes \<open>running\<close> that was not, since no statement of any process writes that status; and the row
  invariant (end time exactly for terminal jobs, no agent and no start time while pending, an agent
  while dispatched or running) is kept. Moreover the machine keeps what at-most-once dispatch assumes of a
  controller's environment: no job is removed or duplicated and none goes back to pending.
\<close>

theorem jobs_never_running:
  assumes "job_step\<^sup>*\<^sup>* d d'" and "jobs_wf d"
  shows "jobs_wf d' \<and> (status_of d' i = Some JobStatusRunning \<longrightarrow> status_of d i = Some JobStatusRunning) \<and>
    jobs_rely d d'"
  using job_steps_keeps_wf [OF assms(1)] job_steps_no_running [OF assms(1)] job_steps_jobs_rely [OF assms(1)] assms(2)
  by (simp add: keeps_jobs_wf_def no_new_running_def)

theorem jobs_never_running_witness:
  "jobs_wf (snd (insert_job_stmt (UUID ''t1'') None [] (quiet 0) demo_db)) \<and>
   status_of (snd (insert_job_stmt (UUID ''t1'') None [] (quiet 0) demo_db)) (UUID ''j1'') \<noteq> Some JobStatusRunning \<and>
   jobs_rely demo_db (snd (insert_job_stmt (UUID ''t1'') None [] (quiet 0) demo_db))"
proof -
  have "job_step\<^sup>*\<^sup>* demo_db (snd (insert_job_stmt (UUID ''t1'') None [] (quiet 0) demo_db))"
    by (rule r_into_rtranclp) (rule step_insert)
  moreover have "jobs_wf demo_db" by (simp add: jobs_wf_def demo_db_def demo_job_def job_wf_new_job)
  moreover have "status_of demo_db (UUID ''j1'') = Some JobStatusPending" by code_simp
  ultimately show ?thesis
    using jobs_never_running [of demo_db "snd (insert_job_stmt (UUID ''t1'') None [] (quiet 0) demo_db)" "UUID ''j1''"]
    by simp
qed

subsection \<open>Reporting progress does not keep a job alive\<close>

lemma AppendJobLogs_keeps:
  "undisturbed w \<Longrightarrow> undisturbed (snd (astore_AppendJobLogs i ls w)) \<and>
   db_jobs (w_db (snd (astore_AppendJobLogs i ls w))) = db_jobs (w_db w) \<and>
   db_now (w_db (snd (astore_AppendJobLogs i ls w))) = db_now (w_db w)"
proof (induction ls arbitrary: w)
  case (Cons l ls)
  obtain x d where q: "insert_log_stmt i l (w_env w (w_pos w)) (w_db w) = (x, d)" by fastforce
  have d: "db_jobs d = db_jobs (w_db w)" "db_now d = db_now (w_db w)"
    using q by (auto simp: insert_log_stmt_def Let_def split: if_splits)
  have "exec (insert_log_stmt i l) w = (x, at_pos w d)" using Cons.prems q by (simp add: exec_at)
  then show ?case using Cons.IH [of "at_pos w d"] Cons.prems d by (cases x) simp_all
qed simp

text \<open>
  C22: Reporting progress does not keep a dispatched job alive. An agent that has just posted log lines
  of a job, successfully, still loses it: if the job was handed out longer ago than the dispatch
  timeout, the next \<open>failStuck\<close> marks it failed. With the fact that no job becomes running, every job
  that takes longer than the dispatch timeout is failed while it is being executed.
\<close>

theorem logs_do_not_keep_alive:
  assumes "undisturbed w" and "unique_jobs (w_db w)" and "uuid_Parse ext s = Some i"
    and post: "h_AgentPostLogs ext (Some a) s (Some ls) w = ((204, b), w1)"
    and "job_of (w_db w) i = Some j" and "Job_Status j = JobStatusDispatched"
    and "Job_UpdatedAt j < db_now (w_db w) - Rec_DispatchTimeout cfg"
  shows "status_of (w_db (failStuck (pg_reconciler cr key url_ok cfg) w1)) i = Some JobStatusFailed"
proof -
  have "w1 = snd (astore_AppendJobLogs i ls (at_pos w (w_db w)))"
    using post assms(1,3,5)
    by (auto simp: h_AgentPostLogs_def with_id_def astore_GetJob_def exec_nf_query_at respondError_def
        on_store_def internal_def split: if_splits sum.splits prod.splits)
  then have w1: "undisturbed w1" "db_jobs (w_db w1) = db_jobs (w_db w)" "db_now (w_db w1) = db_now (w_db w)"
    using AppendJobLogs_keeps [of "at_pos w (w_db w)" i ls] assms(1) by simp_all
  then have "unique_jobs (w_db w1)" using assms(2) by (simp add: unique_jobs_def)
  then have "db_jobs (w_db (failStuck (pg_reconciler cr key url_ok cfg) w1)) =
      update_rows (\<lambda>_. True) (timed_out cfg (db_now (w_db w))) (db_jobs (w_db w))"
    using failStuck_undisturbed [OF w1(1)] w1 by (simp add: sets_jobs_def update_rows_def)
  moreover have "Job_ID (timed_out cfg t r) = Job_ID r" for t r by (simp add: timed_out_def)
  ultimately show ?thesis
    using assms(5-7) by (simp add: status_of_def lookup_update_rows timed_out_def)
qed

theorem logs_do_not_keep_alive_witness:
  "status_of (w_db (failStuck (pg_reconciler tag_crypto demo_key (\<lambda>_. True) (demo_cfg\<lparr>Rec_DispatchTimeout := 5\<rparr>))
     (snd (h_AgentPostLogs demo_ext (Some demo_a1) ''j3'' (Some [\<lparr>Log_Seq = 1, Log_Line = ''ok'', Log_Stream = ''stdout''\<rparr>])
       (quiet_world sent_db))))) (UUID ''j3'') = Some JobStatusFailed"
proof -
  let ?ls = "[\<lparr>Log_Seq = 1, Log_Line = ''ok'', Log_Stream = ''stdout''\<rparr>]"
  have "fst (h_AgentPostLogs demo_ext (Some demo_a1) ''j3'' (Some ?ls) (quiet_world sent_db)) = (204, NoContent)"
    by code_simp
  then have p: "h_AgentPostLogs demo_ext (Some demo_a1) ''j3'' (Some ?ls) (quiet_world sent_db) =
      ((204, NoContent), snd (h_AgentPostLogs demo_ext (Some demo_a1) ''j3'' (Some ?ls) (quiet_world sent_db)))"
    by (metis prod.collapse)
  have u: "unique_jobs (w_db (quiet_world sent_db))" by (simp add: unique_jobs_def) code_simp
  have i: "uuid_Parse demo_ext ''j3'' = Some (UUID ''j3'')" by (simp add: demo_ext_def)
  have j: "job_of (w_db (quiet_world sent_db)) (UUID ''j3'') = Some sent_job" by simp code_simp
  show ?thesis
    by (rule logs_do_not_keep_alive [OF undisturbed_quiet_world u i p j])
       (simp_all add: sent_job_def sent_db_def demo_db_def demo_cfg_def)
qed

subsection \<open>From registration to result\<close>



end
